(* ===== verification/Prelude.thy ===== *)
theory Prelude
  imports Main
begin

text \<open>
  Shared vocabulary of the development: Go's byte strings, its \<open>(value, error)\<close> results as
  sums, 64-bit signed arithmetic with the wrap-around written out, the parts of
  \<^verbatim>\<open>strconv\<close> and \<^verbatim>\<open>strings\<close> the program calls, and generic lemmas on lists and sums that
  the component theories share.
\<close>

section \<open>Types and collections\<close>

text \<open>
  A Go string and a Go byte slice are both sequences of bytes; a \<open>char\<close> of HOL is one byte.
  A slice that the program distinguishes from \<^verbatim>\<open>nil\<close> is a \<open>bytes option\<close>.
\<close>

type_synonym bytes = "char list"
type_synonym 'a result = "string + 'a"

named_theorems go_defs \<open>definitions of the standard-library helpers\<close>
named_theorems int64_simps \<open>facts on 64-bit wrap-around\<close>

abbreviation Err :: "'e \<Rightarrow> 'e + 'a" where
  "Err \<equiv> Inl"

abbreviation Ok :: "'a \<Rightarrow> 'e + 'a" where
  "Ok \<equiv> Inr"

section \<open>64-bit signed integers\<close>

text \<open>Go's \<^verbatim>\<open>int64\<close> addition and subtraction wrap around modulo \<open>2 ^ 64\<close>.\<close>

definition max_int64 :: int where
  "max_int64 = 9223372036854775807"

definition in_int64 :: "int \<Rightarrow> bool" where
  "in_int64 x \<longleftrightarrow> - max_int64 - 1 \<le> x \<and> x \<le> max_int64"

definition wrap64 :: "int \<Rightarrow> int" where
  "wrap64 x = (x + 9223372036854775808) mod 18446744073709551616 - 9223372036854775808"

definition wrap32 :: "int \<Rightarrow> int" where
  "wrap32 x = (x + 2147483648) mod 4294967296 - 2147483648"

lemma wrap64_id [int64_simps]: "in_int64 x \<Longrightarrow> wrap64 x = x"
  by (simp add: in_int64_def max_int64_def wrap64_def)

lemma wrap64_in_int64 [simp, int64_simps]: "in_int64 (wrap64 x)"
  using pos_mod_bound [of "18446744073709551616" "x + 9223372036854775808"]
    pos_mod_sign [of "18446744073709551616" "x + 9223372036854775808"]
  by (simp add: in_int64_def max_int64_def wrap64_def)

lemma wrap64_nonneg: "0 \<le> x \<Longrightarrow> x \<le> max_int64 \<Longrightarrow> wrap64 x = x"
  by (simp add: wrap64_id in_int64_def max_int64_def)

lemma in_int64_nonneg: "0 \<le> x \<Longrightarrow> x \<le> max_int64 \<Longrightarrow> in_int64 x"
  by (simp add: in_int64_def max_int64_def)

lemma wrap64_mod: "wrap64 x = wrap64 y \<longleftrightarrow> x mod 18446744073709551616 = y mod 18446744073709551616"
proof -
  have "wrap64 x = wrap64 y \<longleftrightarrow> (x + 9223372036854775808) mod 18446744073709551616 = (y + 9223372036854775808) mod 18446744073709551616"
    by (simp add: wrap64_def)
  also have "\<dots> \<longleftrightarrow> x mod 18446744073709551616 = y mod 18446744073709551616"
    by (simp add: mod_eq_dvd_iff)
  finally show ?thesis .
qed

lemma wrap64_mod_self: "wrap64 x mod 18446744073709551616 = x mod 18446744073709551616"
  unfolding wrap64_def by (simp add: mod_diff_left_eq)

lemma wrap64_add_wrap: "wrap64 (wrap64 x + y) = wrap64 (x + y)" "wrap64 (x + wrap64 y) = wrap64 (x + y)"
  unfolding wrap64_mod by (metis mod_add_left_eq wrap64_mod_self) (metis mod_add_right_eq wrap64_mod_self)

lemma wrap32_id: "-2147483648 \<le> x \<Longrightarrow> x < 2147483648 \<Longrightarrow> wrap32 x = x"
  by (simp add: wrap32_def)

section \<open>Lists\<close>

lemma sum_list_update_eq:
  fixes f :: "'a \<Rightarrow> int"
  assumes "i < length xs"
  shows "(\<Sum>x\<leftarrow>xs[i := y]. f x) = (\<Sum>x\<leftarrow>xs. f x) - f (xs ! i) + f y"
  using assms
proof (induction xs arbitrary: i)
  case Nil
  then show ?case by simp
next
  case (Cons x xs)
  then show ?case by (cases i) auto
qed

lemma sum_list_nonneg_map:
  fixes f :: "'a \<Rightarrow> int"
  shows "(\<And>x. x \<in> set xs \<Longrightarrow> 0 \<le> f x) \<Longrightarrow> 0 \<le> (\<Sum>x\<leftarrow>xs. f x)"
  by (induction xs) (auto simp: add_nonneg_nonneg)

lemma sum_list_zero_map:
  fixes f :: "'a \<Rightarrow> int"
  shows "(\<And>x. x \<in> set xs \<Longrightarrow> f x = 0) \<Longrightarrow> (\<Sum>x\<leftarrow>xs. f x) = 0"
  by (induction xs) auto

lemma sum_list_member_le:
  fixes f :: "'a \<Rightarrow> int"
  assumes "x \<in> set xs" and "\<And>y. y \<in> set xs \<Longrightarrow> 0 \<le> f y"
  shows "f x \<le> (\<Sum>y\<leftarrow>xs. f y)"
  using assms
proof (induction xs)
  case Nil
  then show ?case by simp
next
  case (Cons a xs)
  have "0 \<le> (\<Sum>y\<leftarrow>xs. f y)" using Cons.prems(2) by (intro sum_list_nonneg_map) auto
  moreover have "0 \<le> f a" using Cons.prems(2) by simp
  ultimately show ?case using Cons by (auto intro: add_increasing)
qed

text \<open>The first failing element of a loop that maps a fallible step over a list.\<close>

fun traverse :: "('a \<Rightarrow> 'e + 'b) \<Rightarrow> 'a list \<Rightarrow> 'e + 'b list" where
  "traverse f [] = Ok []"
| "traverse f (x # xs) =
     (case f x of Err e \<Rightarrow> Err e
      | Ok y \<Rightarrow> (case traverse f xs of Err e \<Rightarrow> Err e | Ok ys \<Rightarrow> Ok (y # ys)))"

lemma traverse_Ok_list_all2:
  "traverse f xs = Ok ys \<longleftrightarrow> list_all2 (\<lambda>x y. f x = Ok y) xs ys"
proof (induction xs arbitrary: ys)
  case Nil
  then show ?case by (auto split: sum.splits)
next
  case (Cons x xs)
  show ?case
    by (cases ys; cases "f x"; cases "traverse f xs") (auto simp: Cons.IH [symmetric])
qed

lemma traverse_Ok_length: "traverse f xs = Ok ys \<Longrightarrow> length ys = length xs"
  by (auto simp: traverse_Ok_list_all2 list_all2_lengthD)

section \<open>Prefixes, suffixes and separators\<close>

text \<open>\<^verbatim>\<open>strings.HasPrefix\<close>, \<^verbatim>\<open>TrimPrefix\<close>, \<^verbatim>\<open>HasSuffix\<close>, \<^verbatim>\<open>TrimSuffix\<close>, \<^verbatim>\<open>Contains\<close>.\<close>

fun hasPrefix :: "string \<Rightarrow> string \<Rightarrow> bool" where
  "hasPrefix s [] = True"
| "hasPrefix [] (p # ps) = False"
| "hasPrefix (c # s) (p # ps) = (c = p \<and> hasPrefix s ps)"

definition trimPrefix :: "string \<Rightarrow> string \<Rightarrow> string" where
  "trimPrefix s p = (if hasPrefix s p then drop (length p) s else s)"

definition hasSuffix :: "string \<Rightarrow> string \<Rightarrow> bool" where
  "hasSuffix s p = hasPrefix (rev s) (rev p)"

definition trimSuffix :: "string \<Rightarrow> string \<Rightarrow> string" where
  "trimSuffix s p = (if hasSuffix s p then take (length s - length p) s else s)"

fun contains :: "string \<Rightarrow> string \<Rightarrow> bool" where
  "contains [] p = hasPrefix [] p"
| "contains (c # s) p = (hasPrefix (c # s) p \<or> contains s p)"

lemma hasPrefix_iff: "hasPrefix s p \<longleftrightarrow> (\<exists>t. s = p @ t)"
  by (induction s p rule: hasPrefix.induct) auto

lemma hasPrefix_append [simp]: "hasPrefix (p @ t) p"
  by (auto simp: hasPrefix_iff)

lemma trimPrefix_append [simp]: "trimPrefix (p @ t) p = t"
  by (simp add: trimPrefix_def)

lemma hasSuffix_append [simp]: "hasSuffix (t @ p) p"
  by (simp add: hasSuffix_def)

lemma trimSuffix_append [simp]: "trimSuffix (t @ p) p = t"
  by (simp add: trimSuffix_def)

text \<open>\<^verbatim>\<open>strings.Split\<close> on a one-byte separator: never empty, no part holds the separator.\<close>

fun go_split :: "char \<Rightarrow> string \<Rightarrow> string list" where
  "go_split sep [] = [[]]"
| "go_split sep (c # s) =
     (if c = sep then [] # go_split sep s
      else (case go_split sep s of [] \<Rightarrow> [[c]] | p # ps \<Rightarrow> (c # p) # ps))"

fun go_join :: "string \<Rightarrow> string list \<Rightarrow> string" where
  "go_join sep [] = []"
| "go_join sep [p] = p"
| "go_join sep (p # q # ps) = p @ sep @ go_join sep (q # ps)"

lemma go_split_nonempty [simp]: "go_split sep s \<noteq> []"
  by (cases s) (auto split: list.splits)

lemma go_split_no_sep [simp]: "sep \<notin> set s \<Longrightarrow> go_split sep s = [s]"
  by (induction s) auto

lemma go_split_append [simp]:
  "sep \<notin> set a \<Longrightarrow> go_split sep (a @ sep # b) = a # go_split sep b"
  by (induction a) auto

lemma go_split_parts_no_sep: "p \<in> set (go_split sep s) \<Longrightarrow> sep \<notin> set p"
  by (induction s arbitrary: p) (auto split: if_splits list.splits)

lemma go_join_Cons: "ps \<noteq> [] \<Longrightarrow> go_join sep (p # ps) = p @ sep @ go_join sep ps"
  by (cases ps) auto

lemma go_join_head: "go_join sep ((c # p) # ps) = c # go_join sep (p # ps)"
  by (cases ps) auto

lemma go_join_split: "go_join [sep] (go_split sep s) = s"
proof (induction s)
  case Nil
  then show ?case by simp
next
  case (Cons c s)
  then show ?case
    by (auto simp: go_join_Cons go_join_head split: list.splits)
qed

end
