(* ===== verification/Admission.thy ===== *)
theory Admission
  imports Prelude
begin

text \<open>
  The admission controller of \<^verbatim>\<open>internal/limits/admission.go\<close>: a mutex-protected count of
  admitted records and bytes. Every method locks the mutex for its whole body, so each is one
  atomic state change; a \<^verbatim>\<open>nil\<close> receiver is \<open>None\<close>. Additions and subtractions are
  64-bit. The locale \<open>admission_control\<close> is the contract the Kafka producer relies on.
\<close>

section \<open>The controller\<close>

record Admission =
  adm_maxRecords :: int
  adm_maxBytes :: int
  adm_usedRecords :: int
  adm_usedBytes :: int

definition NewAdmission :: "int \<Rightarrow> int \<Rightarrow> Admission option" where
  "NewAdmission maxRecords maxBytes =
     Some \<lparr>adm_maxRecords = maxRecords, adm_maxBytes = maxBytes,
           adm_usedRecords = 0, adm_usedBytes = 0\<rparr>"

fun TryAcquire :: "Admission option \<Rightarrow> int \<Rightarrow> int \<Rightarrow> bool \<times> Admission option" where
  "TryAcquire None records bytes = (True, None)"
| "TryAcquire (Some a) records bytes =
     (if records < 0 \<or> bytes < 0 then (False, Some a)
      else if adm_maxRecords a > 0 \<and> wrap64 (adm_usedRecords a + records) > adm_maxRecords a
      then (False, Some a)
      else if adm_maxBytes a > 0 \<and> wrap64 (adm_usedBytes a + bytes) > adm_maxBytes a
      then (False, Some a)
      else (True, Some (a\<lparr>adm_usedRecords := wrap64 (adm_usedRecords a + records),
                          adm_usedBytes := wrap64 (adm_usedBytes a + bytes)\<rparr>)))"

fun Release :: "Admission option \<Rightarrow> int \<Rightarrow> int \<Rightarrow> Admission option" where
  "Release None records bytes = None"
| "Release (Some a) records bytes =
     (let r = wrap64 (adm_usedRecords a - records);
          b = wrap64 (adm_usedBytes a - bytes)
      in Some (a\<lparr>adm_usedRecords := (if r < 0 then 0 else r),
                 adm_usedBytes := (if b < 0 then 0 else b)\<rparr>))"

fun Snapshot :: "Admission option \<Rightarrow> int \<times> int \<times> int \<times> int" where
  "Snapshot None = (0, 0, 0, 0)"
| "Snapshot (Some a) =
     (adm_usedRecords a, adm_maxRecords a, adm_usedBytes a, adm_maxBytes a)"

section \<open>Invariant and contract\<close>

text \<open>
  Both limits are set and the counters are within them; \<^verbatim>\<open>LoadFromEnv\<close> refuses a configuration
  whose limits are not positive, so this is the state of the running producer's controller.
\<close>

fun admission_ok :: "Admission option \<Rightarrow> bool" where
  "admission_ok None = False"
| "admission_ok (Some a) =
     (0 < adm_maxRecords a \<and> adm_maxRecords a \<le> max_int64 \<and>
      0 < adm_maxBytes a \<and> adm_maxBytes a \<le> max_int64 \<and>
      0 \<le> adm_usedRecords a \<and> adm_usedRecords a \<le> adm_maxRecords a \<and>
      0 \<le> adm_usedBytes a \<and> adm_usedBytes a \<le> adm_maxBytes a)"

definition admission_owed :: "Admission option \<Rightarrow> int \<times> int" where
  "admission_owed a = (case Snapshot a of (ur, mr, ub, mb) \<Rightarrow> (ur, ub))"

definition admission_cap :: "Admission option \<Rightarrow> int \<times> int" where
  "admission_cap a = (case Snapshot a of (ur, mr, ub, mb) \<Rightarrow> (mr, mb))"

text \<open>A request small enough for the 64-bit sums not to wrap around.\<close>

definition fits_int64 :: "int \<times> int \<Rightarrow> int \<Rightarrow> int \<Rightarrow> bool" where
  "fits_int64 cap r b \<longleftrightarrow> r \<le> max_int64 - fst cap \<and> b \<le> max_int64 - snd cap"

lemmas admission_simps = admission_owed_def admission_cap_def fits_int64_def Let_def

lemma NewAdmission_ok:
  "0 < mr \<Longrightarrow> mr \<le> max_int64 \<Longrightarrow> 0 < mb \<Longrightarrow> mb \<le> max_int64 \<Longrightarrow>
     admission_ok (NewAdmission mr mb)"
  by (simp add: NewAdmission_def)

text \<open>
  The contract: what is owed after a grant and after a release. A client that keeps a list of
  its outstanding grants can prove that the controller's counters are that list's totals.
\<close>

locale admission_control =
  fixes acquire :: "'a \<Rightarrow> int \<Rightarrow> int \<Rightarrow> bool \<times> 'a"
    and release :: "'a \<Rightarrow> int \<Rightarrow> int \<Rightarrow> 'a"
    and owed :: "'a \<Rightarrow> int \<times> int"
    and cap :: "'a \<Rightarrow> int \<times> int"
    and invar :: "'a \<Rightarrow> bool"
  assumes acquire_granted:
      "invar a \<Longrightarrow> fits_int64 (cap a) r b \<Longrightarrow> acquire a r b = (True, a') \<Longrightarrow>
         invar a' \<and> cap a' = cap a \<and> owed a' = (fst (owed a) + r, snd (owed a) + b) \<and> 0 \<le> r \<and> 0 \<le> b"
    and acquire_refused: "acquire a r b = (False, a') \<Longrightarrow> a' = a"
    and release_law:
      "invar a \<Longrightarrow> 0 \<le> r \<Longrightarrow> r \<le> fst (owed a) \<Longrightarrow> 0 \<le> b \<Longrightarrow> b \<le> snd (owed a) \<Longrightarrow>
         invar (release a r b) \<and> cap (release a r b) = cap a \<and>
         owed (release a r b) = (fst (owed a) - r, snd (owed a) - b)"
    and invar_within_cap:
      "invar a \<Longrightarrow> 0 \<le> fst (owed a) \<and> fst (owed a) \<le> fst (cap a) \<and>
                 0 \<le> snd (owed a) \<and> snd (owed a) \<le> snd (cap a)"
begin

text \<open>The counters are the totals of the outstanding grants \<open>gs\<close>.\<close>

definition ledger :: "'a \<Rightarrow> (int \<times> int) list \<Rightarrow> bool" where
  "ledger a gs \<longleftrightarrow>
     invar a \<and> owed a = ((\<Sum>g\<leftarrow>gs. fst g), (\<Sum>g\<leftarrow>gs. snd g)) \<and>
     (\<forall>g\<in>set gs. 0 \<le> fst g \<and> 0 \<le> snd g)"

lemma ledger_acquire:
  assumes "ledger a gs" "fits_int64 (cap a) r b" "acquire a r b = (True, a')"
  shows "ledger a' (gs @ [(r, b)]) \<and> cap a' = cap a"
  using acquire_granted [OF _ assms(2,3)] assms(1) by (auto simp: ledger_def)

lemma ledger_release:
  assumes led: "ledger a gs" and i: "i < length gs"
  shows "ledger (release a (fst (gs ! i)) (snd (gs ! i))) (gs[i := (0, 0)]) \<and>
         cap (release a (fst (gs ! i)) (snd (gs ! i))) = cap a"
proof -
  let ?g = "gs ! i"
  have mem: "?g \<in> set gs" using i by simp
  have nn: "0 \<le> fst ?g" "0 \<le> snd ?g" using led mem by (auto simp: ledger_def)
  have le: "fst ?g \<le> (\<Sum>g\<leftarrow>gs. fst g)" "snd ?g \<le> (\<Sum>g\<leftarrow>gs. snd g)"
    using led mem by (auto simp: ledger_def intro!: sum_list_member_le)
  have rel: "invar (release a (fst ?g) (snd ?g)) \<and> cap (release a (fst ?g) (snd ?g)) = cap a \<and>
      owed (release a (fst ?g) (snd ?g)) = (fst (owed a) - fst ?g, snd (owed a) - snd ?g)"
    using led nn le by (intro release_law) (auto simp: ledger_def)
  moreover have "\<forall>g\<in>set (gs[i := (0, 0)]). 0 \<le> fst g \<and> 0 \<le> snd g"
    using led set_update_subset_insert [of gs i "(0, 0)"] by (auto simp: ledger_def)
  ultimately show ?thesis
    using led i by (simp add: ledger_def sum_list_update_eq)
qed

lemma ledger_within_cap:
  assumes "ledger a gs"
  shows "(\<Sum>g\<leftarrow>gs. fst g) \<le> fst (cap a)" "(\<Sum>g\<leftarrow>gs. snd g) \<le> snd (cap a)"
  using invar_within_cap [of a] assms by (auto simp: ledger_def)

lemma ledger_settled: "ledger a gs \<Longrightarrow> \<forall>g\<in>set gs. g = (0, 0) \<Longrightarrow> owed a = (0, 0)"
  by (auto simp: ledger_def intro!: sum_list_zero_map)

end

lemma TryAcquire_granted:
  assumes "admission_ok a" "fits_int64 (admission_cap a) r b" "TryAcquire a r b = (True, a')"
  shows "admission_ok a' \<and> admission_cap a' = admission_cap a \<and>
     admission_owed a' = (fst (admission_owed a) + r, snd (admission_owed a) + b) \<and> 0 \<le> r \<and> 0 \<le> b"
proof -
  obtain s where s: "a = Some s" using assms(1) by (cases a) auto
  have rb: "0 \<le> r" "0 \<le> b" using assms(3) by (auto simp: s split: if_splits)
  have w: "wrap64 (adm_usedRecords s + r) = adm_usedRecords s + r"
    "wrap64 (adm_usedBytes s + b) = adm_usedBytes s + b"
    using assms(1,2) rb by (auto intro!: wrap64_nonneg simp: s admission_simps)
  show ?thesis
    using assms rb by (auto simp: s admission_simps w split: if_splits)
qed

lemma Release_law:
  assumes "admission_ok a" "0 \<le> r" "r \<le> fst (admission_owed a)" "0 \<le> b" "b \<le> snd (admission_owed a)"
  shows "admission_ok (Release a r b) \<and> admission_cap (Release a r b) = admission_cap a \<and>
     admission_owed (Release a r b) = (fst (admission_owed a) - r, snd (admission_owed a) - b)"
proof -
  obtain s where s: "a = Some s" using assms(1) by (cases a) auto
  have w: "wrap64 (adm_usedRecords s - r) = adm_usedRecords s - r"
    "wrap64 (adm_usedBytes s - b) = adm_usedBytes s - b"
    using assms by (auto intro!: wrap64_nonneg simp: s admission_simps)
  show ?thesis using assms by (auto simp: s admission_simps w)
qed

lemma TryAcquire_refused: "TryAcquire a r b = (False, a') \<Longrightarrow> a' = a"
  by (cases a) (auto split: if_splits)

lemma admission_within_cap:
  "admission_ok a \<Longrightarrow>
     0 \<le> fst (admission_owed a) \<and> fst (admission_owed a) \<le> fst (admission_cap a) \<and>
     0 \<le> snd (admission_owed a) \<and> snd (admission_owed a) \<le> snd (admission_cap a)"
  by (cases a) (auto simp: admission_simps)

lemma Release_after_grant:
  assumes "admission_ok a" and "fits_int64 (admission_cap a) r b"
    and "TryAcquire a r b = (True, a')"
  shows "Release a' r b = a"
proof -
  obtain s where s: "a = Some s" using assms(1) by (cases a) auto
  have ok: "admission_ok (Some s)" and fits: "fits_int64 (admission_cap (Some s)) r b"
    using assms by (simp_all add: s)
  have rb: "0 \<le> r" "0 \<le> b" using assms(3) by (auto simp: s split: if_splits)
  have w: "wrap64 (adm_usedRecords s + r) = adm_usedRecords s + r"
    "wrap64 (adm_usedBytes s + b) = adm_usedBytes s + b"
    "wrap64 (adm_usedRecords s) = adm_usedRecords s" "wrap64 (adm_usedBytes s) = adm_usedBytes s"
    using ok fits rb by (auto intro!: wrap64_nonneg simp: admission_simps)
  show ?thesis using assms(3) ok by (auto simp: s w Let_def split: if_splits)
qed

interpretation adm: admission_control TryAcquire Release admission_owed admission_cap admission_ok
  by unfold_locales
    (use TryAcquire_granted TryAcquire_refused Release_law admission_within_cap in blast)+

section \<open>Properties\<close>

text \<open>
  C12: within the invariant, and for requests whose sums do not overflow, \<open>TryAcquire\<close> is
  exact: it grants precisely the non-negative requests that fit both limits, adds them to the
  counters, and leaves the state alone otherwise.
\<close>

theorem TryAcquire_exact:
  assumes "admission_ok (Some a)" and "fits_int64 (admission_cap (Some a)) r b"
  shows "TryAcquire (Some a) r b =
    (if 0 \<le> r \<and> 0 \<le> b \<and> adm_usedRecords a + r \<le> adm_maxRecords a \<and>
        adm_usedBytes a + b \<le> adm_maxBytes a
     then (True, Some (a\<lparr>adm_usedRecords := adm_usedRecords a + r,
                         adm_usedBytes := adm_usedBytes a + b\<rparr>))
     else (False, Some a))"
proof (cases "0 \<le> r \<and> 0 \<le> b")
  case True
  have "wrap64 (adm_usedRecords a + r) = adm_usedRecords a + r"
    "wrap64 (adm_usedBytes a + b) = adm_usedBytes a + b"
    using assms True by (auto intro!: wrap64_nonneg simp: admission_simps)
  with assms(1) True show ?thesis by auto
next
  case False
  then show ?thesis by auto
qed

theorem TryAcquire_exact_witness:
  "TryAcquire (Some \<lparr>adm_maxRecords = 2, adm_maxBytes = 10, adm_usedRecords = 1, adm_usedBytes = 4\<rparr>) 1 6
     = (True, Some \<lparr>adm_maxRecords = 2, adm_maxBytes = 10, adm_usedRecords = 2, adm_usedBytes = 10\<rparr>)"
  by (subst TryAcquire_exact) (simp_all add: admission_simps max_int64_def)

text \<open>
  Releasing a grant of the same size gives back exactly the state before the grant: no
  capacity is leaked and none is invented.
\<close>

theorem Release_undoes_TryAcquire:
  assumes "admission_ok a" and "fits_int64 (admission_cap a) r b"
    and "TryAcquire a r b = (True, a')"
  shows "Release a' r b = a"
  using assms by (rule Release_after_grant)

theorem Release_undoes_TryAcquire_witness:
  "Release (Some \<lparr>adm_maxRecords = 2, adm_maxBytes = 10, adm_usedRecords = 2, adm_usedBytes = 10\<rparr>) 1 6
     = Some \<lparr>adm_maxRecords = 2, adm_maxBytes = 10, adm_usedRecords = 1, adm_usedBytes = 4\<rparr>"
  by (rule Release_undoes_TryAcquire) (simp_all add: admission_simps max_int64_def wrap64_def)

end
