(* ===== verification/GoLib.thy ===== *)
theory GoLib
  imports Prelude
begin

text \<open>
  The parts of Go's \<^verbatim>\<open>strings\<close>, \<^verbatim>\<open>bytes\<close> and \<^verbatim>\<open>strconv\<close> packages the program uses:
  white-space trimming, ASCII case mapping with the four non-ASCII letters whose case mapping
  is ASCII, decimal printing (\<^verbatim>\<open>Itoa\<close>, \<^verbatim>\<open>AppendInt\<close>) and parsing (\<^verbatim>\<open>ParseInt\<close>,
  \<^verbatim>\<open>Atoi\<close>). Strings are bytes; other non-ASCII letters are left alone by the case
  mappings, which the program only compares with ASCII literals.
\<close>

section \<open>White space\<close>

text \<open>Unicode white space in UTF-8: the ASCII ones, U+0085, U+00A0 and those of three bytes.\<close>

definition ascii_space :: "char \<Rightarrow> bool" where
  "ascii_space c \<longleftrightarrow> c \<in> {CHR 0x09, CHR 0x0A, CHR 0x0B, CHR 0x0C, CHR 0x0D, CHR 0x20}"

definition space2 :: "char \<Rightarrow> char \<Rightarrow> bool" where
  "space2 a b \<longleftrightarrow> a = CHR 0xC2 \<and> (b = CHR 0x85 \<or> b = CHR 0xA0)"

definition space3 :: "char \<Rightarrow> char \<Rightarrow> char \<Rightarrow> bool" where
  "space3 a b c \<longleftrightarrow>
     (a, b, c) = (CHR 0xE1, CHR 0x9A, CHR 0x80) \<or>
     (a, b) = (CHR 0xE2, CHR 0x80) \<and>
       c \<in> {CHR 0x80, CHR 0x81, CHR 0x82, CHR 0x83, CHR 0x84, CHR 0x85, CHR 0x86, CHR 0x87,
            CHR 0x88, CHR 0x89, CHR 0x8A, CHR 0xA8, CHR 0xA9, CHR 0xAF} \<or>
     (a, b, c) = (CHR 0xE2, CHR 0x81, CHR 0x9F) \<or>
     (a, b, c) = (CHR 0xE3, CHR 0x80, CHR 0x80)"

text \<open>The bytes of the white-space character at the front (0: there is none).\<close>

definition space_len :: "bytes \<Rightarrow> nat" where
  "space_len s =
     (case s of [] \<Rightarrow> 0
      | a # t \<Rightarrow> if ascii_space a then 1 else
        (case t of [] \<Rightarrow> 0
         | b # u \<Rightarrow> if space2 a b then 2 else
           (case u of [] \<Rightarrow> 0 | c # v \<Rightarrow> if space3 a b c then 3 else 0)))"

text \<open>The same at the end of a string, given the string reversed.\<close>

definition space_len_end :: "bytes \<Rightarrow> nat" where
  "space_len_end s =
     (case s of [] \<Rightarrow> 0
      | c # t \<Rightarrow> if ascii_space c then 1 else
        (case t of [] \<Rightarrow> 0
         | b # u \<Rightarrow> if space2 b c then 2 else
           (case u of [] \<Rightarrow> 0 | a # v \<Rightarrow> if space3 a b c then 3 else 0)))"

lemma space_len_pos: "0 < space_len s \<Longrightarrow> 0 < length s"
  by (auto simp: space_len_def)

lemma space_len_end_pos: "0 < space_len_end s \<Longrightarrow> 0 < length s"
  by (auto simp: space_len_end_def)

function trimLeft :: "bytes \<Rightarrow> bytes" where
  "trimLeft s = (if space_len s = 0 then s else trimLeft (drop (space_len s) s))"
  by pat_completeness auto
termination
  by (relation "measure length") (auto intro: diff_less dest: space_len_pos simp del: length_greater_0_conv)

function trimRightRev :: "bytes \<Rightarrow> bytes" where
  "trimRightRev s = (if space_len_end s = 0 then s else trimRightRev (drop (space_len_end s) s))"
  by pat_completeness auto
termination
  by (relation "measure length") (auto intro: diff_less dest: space_len_end_pos simp del: length_greater_0_conv)

declare trimLeft.simps [simp del] trimRightRev.simps [simp del]

definition trimSpace :: "bytes \<Rightarrow> bytes" where
  "trimSpace s = rev (trimRightRev (rev (trimLeft s)))"

lemma trimLeft_id: "space_len s = 0 \<Longrightarrow> trimLeft s = s"
  by (simp add: trimLeft.simps [of s])

lemma trimRightRev_id: "space_len_end s = 0 \<Longrightarrow> trimRightRev s = s"
  by (simp add: trimRightRev.simps [of s])

lemma trimSpace_id:
  "space_len s = 0 \<Longrightarrow> space_len_end (rev s) = 0 \<Longrightarrow> trimSpace s = s"
  by (simp add: trimSpace_def trimLeft_id trimRightRev_id)

lemma trimSpace_Nil [simp]: "trimSpace [] = []"
  by (rule trimSpace_id) (simp_all add: space_len_def space_len_end_def)

lemma space_len_trimLeft: "space_len (trimLeft s) = 0"
proof (induction s rule: trimLeft.induct)
  case (1 s)
  then show ?case by (cases "space_len s = 0") (simp_all add: trimLeft.simps [of s])
qed

lemma space_len_end_trimRightRev: "space_len_end (trimRightRev s) = 0"
proof (induction s rule: trimRightRev.induct)
  case (1 s)
  then show ?case by (cases "space_len_end s = 0") (simp_all add: trimRightRev.simps [of s])
qed

text \<open>Trimming removes bytes from both ends only.\<close>

lemma trimLeft_suffix: "\<exists>p. s = p @ trimLeft s"
proof (induction s rule: trimLeft.induct)
  case (1 s)
  show ?case
  proof (cases "space_len s = 0")
    case True
    then show ?thesis by (simp add: trimLeft_id)
  next
    case False
    with 1 obtain p where "drop (space_len s) s = p @ trimLeft s"
      by (auto simp: trimLeft.simps [of s])
    then have "s = (take (space_len s) s @ p) @ trimLeft s"
      by (metis append_assoc append_take_drop_id)
    then show ?thesis by blast
  qed
qed

lemma trimRightRev_suffix: "\<exists>p. s = p @ trimRightRev s"
proof (induction s rule: trimRightRev.induct)
  case (1 s)
  show ?case
  proof (cases "space_len_end s = 0")
    case True
    then show ?thesis by (simp add: trimRightRev_id)
  next
    case False
    with 1 obtain p where "drop (space_len_end s) s = p @ trimRightRev s"
      by (auto simp: trimRightRev.simps [of s])
    then have "s = (take (space_len_end s) s @ p) @ trimRightRev s"
      by (metis append_assoc append_take_drop_id)
    then show ?thesis by blast
  qed
qed

lemma trimSpace_infix: "\<exists>p q. s = p @ trimSpace s @ q"
proof -
  obtain p where p: "s = p @ trimLeft s" using trimLeft_suffix by blast
  obtain q where q: "rev (trimLeft s) = q @ trimRightRev (rev (trimLeft s))"
    using trimRightRev_suffix by blast
  then have "trimLeft s = trimSpace s @ rev q"
    by (metis rev_append rev_rev_ident trimSpace_def)
  with p show ?thesis by metis
qed

lemma trimSpace_length_le: "length (trimSpace s) \<le> length s"
  using trimSpace_infix [of s] by (metis add_leE le_add2 length_append)

lemma space_len_end_trimSpace [simp]: "space_len_end (rev (trimSpace s)) = 0"
  by (simp add: trimSpace_def space_len_end_trimRightRev)

section \<open>Case mapping\<close>

definition lower_char :: "char \<Rightarrow> char" where
  "lower_char c = (if 65 \<le> (of_char c :: nat) \<and> (of_char c :: nat) \<le> 90
     then char_of ((of_char c :: nat) + 32) else c)"

definition upper_char :: "char \<Rightarrow> char" where
  "upper_char c = (if 97 \<le> (of_char c :: nat) \<and> (of_char c :: nat) \<le> 122
     then char_of ((of_char c :: nat) - 32) else c)"

text \<open>
  Lower-case mapping: U+0130 maps to the ASCII letter i and U+212A to k.
  Upper-case mapping: U+0131 maps to I and U+017F to S.
\<close>

function toLower :: "string \<Rightarrow> string" where
  "toLower s =
     (if s = [] then []
      else if hasPrefix s [CHR 0xC4, CHR 0xB0] then CHR ''i'' # toLower (drop 2 s)
      else if hasPrefix s [CHR 0xE2, CHR 0x84, CHR 0xAA] then CHR ''k'' # toLower (drop 3 s)
      else lower_char (hd s) # toLower (tl s))"
  by pat_completeness auto
termination
  by (relation "measure length") auto

function toUpper :: "string \<Rightarrow> string" where
  "toUpper s =
     (if s = [] then []
      else if hasPrefix s [CHR 0xC4, CHR 0xB1] then CHR ''I'' # toUpper (drop 2 s)
      else if hasPrefix s [CHR 0xC5, CHR 0xBF] then CHR ''S'' # toUpper (drop 2 s)
      else upper_char (hd s) # toUpper (tl s))"
  by pat_completeness auto
termination
  by (relation "measure length") auto

declare toLower.simps [simp del] toUpper.simps [simp del]

lemma toLower_Nil [simp]: "toLower [] = []"
  by (simp add: toLower.simps)

lemma toUpper_Nil [simp]: "toUpper [] = []"
  by (simp add: toUpper.simps)

section \<open>Decimal numbers\<close>

definition digit_char :: "nat \<Rightarrow> char" where
  "digit_char d = char_of (48 + d)"

fun nat_digits :: "nat \<Rightarrow> string" where
  "nat_digits n = (if n < 10 then [digit_char n] else nat_digits (n div 10) @ [digit_char (n mod 10)])"

declare nat_digits.simps [simp del]

text \<open>\<^verbatim>\<open>strconv.Itoa\<close>, \<^verbatim>\<open>strconv.AppendInt(dst, v, 10)\<close> and the \<^verbatim>\<open>%d\<close> verb.\<close>

definition itoa :: "int \<Rightarrow> string" where
  "itoa i = (if i < 0 then CHR ''-'' # nat_digits (nat (- i)) else nat_digits (nat i))"

definition digit_val :: "char \<Rightarrow> nat option" where
  "digit_val c = (if 48 \<le> (of_char c :: nat) \<and> (of_char c :: nat) \<le> 57
     then Some (of_char c - 48) else None)"

fun parse_digits :: "nat \<Rightarrow> string \<Rightarrow> nat option" where
  "parse_digits acc [] = Some acc"
| "parse_digits acc (c # s) =
     (case digit_val c of None \<Rightarrow> None | Some d \<Rightarrow> parse_digits (10 * acc + d) s)"

text \<open>
  \<^verbatim>\<open>strconv.ParseInt(s, 10, bits)\<close>; \<open>None\<close> is any error (syntax or range), which is all the
  program asks of it. \<^verbatim>\<open>strconv.Atoi\<close> is \<open>bits = 64\<close>.
\<close>

definition parseInt :: "nat \<Rightarrow> string \<Rightarrow> int option" where
  "parseInt bits s =
     (case s of [] \<Rightarrow> None
      | c # cs \<Rightarrow>
        let neg = (c = CHR ''-'');
            ds = (if c = CHR ''-'' \<or> c = CHR ''+'' then cs else s)
        in if ds = [] then None
           else (case parse_digits 0 ds of None \<Rightarrow> None
                 | Some n \<Rightarrow>
                   if neg then (if 2 ^ (bits - 1) < n then None else Some (- int n))
                   else (if 2 ^ (bits - 1) \<le> n then None else Some (int n))))"

definition atoi :: "string \<Rightarrow> int option" where
  "atoi s = parseInt 64 s"

lemma digit_val_digit_char [simp]: "d < 10 \<Longrightarrow> digit_val (digit_char d) = Some d"
  by (simp add: digit_val_def digit_char_def)

lemma parse_digits_append:
  "parse_digits acc (s @ t) =
     (case parse_digits acc s of None \<Rightarrow> None | Some n \<Rightarrow> parse_digits n t)"
  by (induction s arbitrary: acc) (auto split: option.splits)

lemma nat_digits_nonempty [simp]: "nat_digits n \<noteq> []"
  by (subst nat_digits.simps) simp

lemma parse_nat_digits: "parse_digits 0 (nat_digits n) = Some n"
proof (induction n rule: nat_digits.induct)
  case (1 n)
  show ?case
  proof (cases "n < 10")
    case True
    then show ?thesis by (simp add: nat_digits.simps [of n])
  next
    case False
    with 1 have "parse_digits 0 (nat_digits (n div 10)) = Some (n div 10)" by simp
    with False show ?thesis
      by (simp add: nat_digits.simps [of n] parse_digits_append)
  qed
qed

lemma digit_char_not_sign: "d < 10 \<Longrightarrow> digit_char d \<noteq> CHR ''-'' \<and> digit_char d \<noteq> CHR ''+''"
proof -
  assume "d < 10"
  then have "digit_val (digit_char d) \<noteq> None" by simp
  moreover have "digit_val CHR ''-'' = None" "digit_val CHR ''+'' = None"
    by (simp_all add: digit_val_def)
  ultimately show ?thesis by metis
qed

lemma nat_digits_chars: "c \<in> set (nat_digits n) \<Longrightarrow> \<exists>d<10. c = digit_char d"
proof (induction n rule: nat_digits.induct)
  case (1 n)
  then show ?case
    by (cases "n < 10") (auto simp: nat_digits.simps [of n] intro: exI [of _ "n mod 10"])
qed

lemma hd_nat_digits: "hd (nat_digits n) \<noteq> CHR ''-'' \<and> hd (nat_digits n) \<noteq> CHR ''+''"
  using nat_digits_chars [OF hd_in_set [OF nat_digits_nonempty]] digit_char_not_sign by metis

lemma parseInt_itoa:
  assumes "- (2 ^ (bits - 1)) \<le> i" and "i < 2 ^ (bits - 1)"
  shows "parseInt bits (itoa i) = Some i"
proof (cases "i < 0")
  case True
  have "nat (- i) \<le> 2 ^ (bits - 1)" using assms(1) True by (simp add: nat_le_iff)
  with True show ?thesis
    by (simp add: itoa_def parseInt_def parse_nat_digits Let_def)
next
  case False
  have "nat i < 2 ^ (bits - 1)" using assms(2) False by (simp add: nat_less_iff)
  moreover obtain c cs where "nat_digits (nat i) = c # cs"
    by (meson list.exhaust nat_digits_nonempty)
  moreover from this have "c \<noteq> CHR ''-''" "c \<noteq> CHR ''+''"
    using hd_nat_digits [of "nat i"] by auto
  moreover have "parse_digits 0 (nat_digits (nat i)) = Some (nat i)"
    by (rule parse_nat_digits)
  ultimately show ?thesis using False
    by (simp add: itoa_def parseInt_def Let_def)
qed

lemma parseInt_bounds:
  "parseInt bits s = Some i \<Longrightarrow> - (2 ^ (bits - 1)) \<le> i \<and> i < 2 ^ (bits - 1)"
proof -
  have pos: "- (2 ^ k) \<le> int n \<and> int n < 2 ^ k" if "\<not> 2 ^ k \<le> n" for n k :: nat
    using that by (simp add: order_trans [of _ 0])
  have neg: "- (2 ^ k) \<le> - int n \<and> - int n < 2 ^ k" if "\<not> 2 ^ k < n" for n k :: nat
    using that by (simp add: order_le_less_trans [of _ 0])
  show "parseInt bits s = Some i \<Longrightarrow> ?thesis"
    by (auto simp: parseInt_def Let_def dest!: pos neg split: list.splits if_splits option.splits)
qed

lemma hd_itoa: "hd (itoa x) = CHR ''-'' \<longleftrightarrow> x < 0"
  using hd_nat_digits [of "nat x"] by (simp add: itoa_def)

lemma itoa_inj: "itoa i = itoa j \<Longrightarrow> i = j"
proof -
  assume eq: "itoa i = itoa j"
  then have sgn: "i < 0 \<longleftrightarrow> j < 0" by (metis hd_itoa)
  have "nat_digits (nat \<bar>i\<bar>) = nat_digits (nat \<bar>j\<bar>)"
    using eq sgn by (cases "i < 0") (simp_all add: itoa_def)
  then have "nat \<bar>i\<bar> = nat \<bar>j\<bar>" by (metis parse_nat_digits option.inject)
  with sgn show "i = j" by (cases "i < 0") simp_all
qed

end
