(* ===== verification/Records.thy ===== *)
theory Records
  imports GoLib
begin

text \<open>
  The service-internal records of \<^verbatim>\<open>internal/producer/producer.go\<close>: headers, records, their
  payload size, per-record results and the errors a \<^verbatim>\<open>Produce\<close> call can return. Byte slices
  that may be \<^verbatim>\<open>nil\<close> (Kafka's null key or value) are options.
\<close>

text \<open>
  Errors at the producer boundary. \<open>KafkaErr\<close> stands for every error of the Kafka client
  library, with its text.
\<close>

datatype err =
    ErrOverloaded
  | ContextCanceled
  | DeadlineExceeded
  | KafkaErr string

fun err_Error :: "err \<Rightarrow> string" where
  "err_Error ErrOverloaded = ''producer admission capacity exhausted''"
| "err_Error ContextCanceled = ''context canceled''"
| "err_Error DeadlineExceeded = ''context deadline exceeded''"
| "err_Error (KafkaErr s) = s"

record Header =
  hdr_Key :: string
  hdr_Value :: "bytes option"

record Record =
  rec_Topic :: string
  rec_Key :: "bytes option"
  rec_Value :: "bytes option"
  rec_Headers :: "Header list"
  rec_Partition :: "int option"

definition len_nil :: "bytes option \<Rightarrow> nat" where
  "len_nil v = (case v of None \<Rightarrow> 0 | Some b \<Rightarrow> length b)"

definition SizeBytes :: "Record \<Rightarrow> int" where
  "SizeBytes r = int (len_nil (rec_Key r) + len_nil (rec_Value r) +
     (\<Sum>h\<leftarrow>rec_Headers r. length (hdr_Key h) + len_nil (hdr_Value h)))"

record Result =
  res_Partition :: int
  res_Offset :: int
  res_ErrorCode :: "int option"
  res_Err :: "err option"

lemma SizeBytes_nonneg [simp]: "0 \<le> SizeBytes r"
  by (simp add: SizeBytes_def)

section \<open>The contract of a producer\<close>

text \<open>
  What the HTTP layer relies on (the comment of the \<^verbatim>\<open>Producer\<close> interface): a successful
  \<^verbatim>\<open>Produce\<close> returns one \<^verbatim>\<open>Result\<close> per input record, in input order. \<open>outcome i\<close>
  is what happened to the record at position \<open>i\<close>.
\<close>

locale producer_contract =
  fixes produce :: "Record list \<Rightarrow> err + Result list"
    and outcome :: "nat \<Rightarrow> Result"
  assumes one_result_per_record:
    "produce rs = Ok results \<Longrightarrow> results = map outcome [0..<length rs]"
begin

lemma results_length: "produce rs = Ok results \<Longrightarrow> length results = length rs"
  by (auto dest: one_result_per_record)

lemma results_nth: "produce rs = Ok results \<Longrightarrow> i < length rs \<Longrightarrow> results ! i = outcome i"
  by (auto dest: one_result_per_record)

end

end
