(* ===== verification/Partitioner.thy ===== *)
theory Partitioner
  imports Records
begin

text \<open>
  The partitioner of \<^verbatim>\<open>internal/producer/franz/partitioner.go\<close> and the conversion of a
  service record into the Kafka client's record (\<^verbatim>\<open>acquireRecord\<close>, \<^verbatim>\<open>releaseRecord\<close>
  and \<^verbatim>\<open>toKgoHeaders\<close> of \<^verbatim>\<open>producer.go\<close>). The client library's own partitioner, the
  fallback, is a parameter: a record of its functions.
\<close>

record kgo_Record =
  kgo_Topic :: string
  kgo_Key :: "bytes option"
  kgo_Value :: "bytes option"
  kgo_Headers :: "(string \<times> bytes option) list"
  kgo_Partition :: int
  kgo_Offset :: int

text \<open>Go's zero value of the client's record.\<close>

definition kgo_zero :: kgo_Record where
  "kgo_zero = \<lparr>kgo_Topic = [], kgo_Key = None, kgo_Value = None, kgo_Headers = [],
               kgo_Partition = 0, kgo_Offset = 0\<rparr>"

definition unspecifiedPartition :: int where
  "unspecifiedPartition = -1"

definition toKgoHeaders :: "Header list \<Rightarrow> (string \<times> bytes option) list" where
  "toKgoHeaders headers =
     (if headers = [] then [] else map (\<lambda>h. (hdr_Key h, hdr_Value h)) headers)"

text \<open>\<open>pooled\<close> is what the record pool returned (\<open>None\<close>: nothing); every field is overwritten.\<close>

definition acquireRecord :: "kgo_Record option \<Rightarrow> Record \<Rightarrow> kgo_Record" where
  "acquireRecord pooled r =
     (let record0 = (case pooled of None \<Rightarrow> kgo_zero | Some x \<Rightarrow> x);
          record1 = record0\<lparr>kgo_Topic := rec_Topic r, kgo_Key := rec_Key r, kgo_Value := rec_Value r,
            kgo_Headers := toKgoHeaders (rec_Headers r), kgo_Partition := unspecifiedPartition,
            kgo_Offset := 0\<rparr>
      in (case rec_Partition r of None \<Rightarrow> record1 | Some p \<Rightarrow> record1\<lparr>kgo_Partition := p\<rparr>))"

definition releaseRecord :: "kgo_Record option \<Rightarrow> kgo_Record list \<Rightarrow> kgo_Record list" where
  "releaseRecord record pool = (case record of None \<Rightarrow> pool | Some _ \<Rightarrow> kgo_zero # pool)"

text \<open>
  A topic partitioner of the client library, with its state \<open>'p\<close>: the optional interfaces
  (\<^verbatim>\<open>TopicBackupPartitioner\<close>, \<^verbatim>\<open>TopicPartitionerOnNewBatch\<close>) are options.
\<close>

record 'p TopicPartitioner =
  tp_RequiresConsistency :: "kgo_Record \<Rightarrow> bool"
  tp_Partition :: "'p \<Rightarrow> kgo_Record \<Rightarrow> int \<Rightarrow> int \<times> 'p"
  tp_PartitionByBackup :: "('p \<Rightarrow> kgo_Record \<Rightarrow> int \<Rightarrow> (int \<times> int) list \<Rightarrow> int \<times> 'p) option"
  tp_OnNewBatch :: "('p \<Rightarrow> 'p) option"

definition RequiresConsistency :: "'p TopicPartitioner \<Rightarrow> kgo_Record \<Rightarrow> bool" where
  "RequiresConsistency fallback r =
     (if kgo_Partition r \<ge> 0 then True else tp_RequiresConsistency fallback r)"

definition Partition :: "'p TopicPartitioner \<Rightarrow> 'p \<Rightarrow> kgo_Record \<Rightarrow> int \<Rightarrow> int \<times> 'p" where
  "Partition fallback p r n =
     (if kgo_Partition r \<ge> 0 then (kgo_Partition r, p) else tp_Partition fallback p r n)"

definition PartitionByBackup ::
  "'p TopicPartitioner \<Rightarrow> 'p \<Rightarrow> kgo_Record \<Rightarrow> int \<Rightarrow> (int \<times> int) list \<Rightarrow> int \<times> 'p" where
  "PartitionByBackup fallback p r n backupIter =
     (if kgo_Partition r \<ge> 0 then (kgo_Partition r, p)
      else (case tp_PartitionByBackup fallback of
              Some f \<Rightarrow> f p r n backupIter
            | None \<Rightarrow> tp_Partition fallback p r n))"

definition OnNewBatch :: "'p TopicPartitioner \<Rightarrow> 'p \<Rightarrow> 'p" where
  "OnNewBatch fallback p = (case tp_OnNewBatch fallback of None \<Rightarrow> p | Some f \<Rightarrow> f p)"

text \<open>
  C18: a record taken from the pool carries nothing of the record that used it before, and the
  partitioner sends it to the partition the request named, whatever the fallback would choose;
  a record without one is left to the fallback, which sees the unspecified partition -1.
\<close>

theorem acquired_record_partitioning:
  "acquireRecord (Some stale) r = acquireRecord None r \<and>
   (case rec_Partition r of
      Some part \<Rightarrow>
        if 0 \<le> part
        then Partition fallback p (acquireRecord pooled r) n = (part, p) \<and>
             PartitionByBackup fallback p (acquireRecord pooled r) n it = (part, p) \<and>
             RequiresConsistency fallback (acquireRecord pooled r)
        else Partition fallback p (acquireRecord pooled r) n =
             tp_Partition fallback p (acquireRecord pooled r) n
    | None \<Rightarrow>
        kgo_Partition (acquireRecord pooled r) = -1 \<and>
        Partition fallback p (acquireRecord pooled r) n =
          tp_Partition fallback p (acquireRecord pooled r) n \<and>
        RequiresConsistency fallback (acquireRecord pooled r) =
          tp_RequiresConsistency fallback (acquireRecord pooled r))"
  by (cases "rec_Partition r"; cases pooled)
    (auto simp: acquireRecord_def Partition_def PartitionByBackup_def RequiresConsistency_def
      unspecifiedPartition_def kgo_zero_def Let_def)

end
