(* ===== verification/Franz.thy ===== *)
theory Franz
  imports Admission Partitioner
begin

text \<open>
  The asynchronous producer of \<^verbatim>\<open>internal/producer/franz/producer.go\<close>. A \<^verbatim>\<open>Produce\<close> call
  admits its records, hands each to the Kafka client and waits; the client's callbacks run on
  other goroutines. The first part has the request state and the bodies of \<^verbatim>\<open>complete\<close> and
  \<^verbatim>\<open>release\<close> as sequences of their atomic actions (a slice write, an atomic decrement, a
  compare-and-swap, a locked \<^verbatim>\<open>Release\<close>, a channel close). The second part is the step
  relation in which the atomic actions of every callback and of every waiting call interleave
  freely, with the invariants that hold in every reachable state.

  The Kafka client is a parameter: \<open>kafka q i\<close> is what it passes to the callback of record
  \<open>i\<close> of request \<open>q\<close>. It calls each callback exactly once, as its documentation says:
  the program counter of a callback has one transition out of \<open>InFlight\<close>.
\<close>

section \<open>Request state\<close>

type_synonym callback = "kgo_Record option \<times> err option"

record requestState =
  rs_remaining :: int
  rs_results :: "Result list"
  rs_done :: bool \<comment> \<open>the channel is closed\<close>
  rs_records :: int
  rs_bytes :: int
  rs_released :: bool

definition zero_Result :: Result where
  "zero_Result = \<lparr>res_Partition = 0, res_Offset = 0, res_ErrorCode = None, res_Err = None\<rparr>"

definition newRequestState :: "nat \<Rightarrow> int \<Rightarrow> int \<Rightarrow> requestState" where
  "newRequestState n records bytes =
     \<lparr>rs_remaining = int n, rs_results = replicate n zero_Result, rs_done = False,
      rs_records = records, rs_bytes = bytes, rs_released = False\<rparr>"

definition kafkaErrorCode :: "err option \<Rightarrow> int \<times> bool" where
  "kafkaErrorCode e = (case e of None \<Rightarrow> (0, False) | Some _ \<Rightarrow> (50002, True))"

text \<open>The result \<^verbatim>\<open>complete\<close> builds from the callback's arguments.\<close>

definition callback_result :: "callback \<Rightarrow> Result" where
  "callback_result c =
     (let r = fst c; e = snd c;
          result0 = zero_Result\<lparr>res_Err := e\<rparr>;
          result1 = (case r of None \<Rightarrow> result0
                     | Some k \<Rightarrow> result0\<lparr>res_Partition := kgo_Partition k, res_Offset := kgo_Offset k\<rparr>)
      in if e \<noteq> None \<and> snd (kafkaErrorCode e)
         then result1\<lparr>res_ErrorCode := Some (fst (kafkaErrorCode e))\<rparr> else result1)"

definition store_result :: "nat \<Rightarrow> callback \<Rightarrow> requestState \<Rightarrow> requestState" where
  "store_result index c s = s\<lparr>rs_results := (rs_results s)[index := callback_result c]\<rparr>"

definition count_down :: "requestState \<Rightarrow> requestState" where
  "count_down s = s\<lparr>rs_remaining := rs_remaining s - 1\<rparr>"

text \<open>\<^verbatim>\<open>release\<close>: the winner of the compare-and-swap gives the admission back.\<close>

definition release :: "requestState \<Rightarrow> Admission option \<Rightarrow> requestState \<times> Admission option" where
  "release s admit =
     (if rs_released s then (s, admit)
      else (s\<lparr>rs_released := True\<rparr>, Release admit (rs_records s) (rs_bytes s)))"

text \<open>\<^verbatim>\<open>complete\<close> run by one goroutine; \<open>None\<close> is the panic of closing a closed channel.\<close>

definition complete ::
  "nat \<Rightarrow> callback \<Rightarrow> requestState \<Rightarrow> Admission option \<Rightarrow> (requestState \<times> Admission option) option" where
  "complete index c s admit =
     (let s1 = count_down (store_result index c s)
      in if rs_remaining s1 = 0
         then (case release s1 admit of (s2, admit2) \<Rightarrow>
                 if rs_done s2 then None else Some (s2\<lparr>rs_done := True\<rparr>, admit2))
         else Some (s1, admit))"

section \<open>Produce, run to its end by one schedule\<close>

text \<open>
  \<open>total_bytes\<close> is the loop that adds up \<^verbatim>\<open>SizeBytes\<close> in 64 bits; \<open>Produce_begin\<close> is the call
  up to the creation of the request state: an early return (\<open>Inl\<close>) or the state (\<open>Inr\<close>).
  \<open>clientClosed\<close> is the client library's error for a closed client.
\<close>

fun total_bytes :: "int \<Rightarrow> Record list \<Rightarrow> int" where
  "total_bytes acc [] = acc"
| "total_bytes acc (r # rs) = total_bytes (wrap64 (acc + SizeBytes r)) rs"

definition Produce_begin ::
  "err \<Rightarrow> bool \<Rightarrow> Admission option \<Rightarrow> Record list \<Rightarrow>
     (err + Result list) + requestState \<times> Admission option" where
  "Produce_begin clientClosed closeFlag admit records =
     (if closeFlag then Inl (Err clientClosed)
      else if records = [] then Inl (Ok [])
      else let bytes = total_bytes 0 records; n = length records
           in (case TryAcquire admit (int n) bytes of
                 (False, _) \<Rightarrow> Inl (Err ErrOverloaded)
               | (True, admit') \<Rightarrow> Inr (newRequestState n (int n) bytes, admit')))"

text \<open>
  The callbacks of the positions in \<open>order\<close> run one after the other. \<open>deliver\<close> stops with
  \<open>None\<close> at a panic.
\<close>

fun deliver ::
  "(nat \<Rightarrow> callback) \<Rightarrow> nat list \<Rightarrow> requestState \<Rightarrow> Admission option \<Rightarrow>
     (requestState \<times> Admission option) option" where
  "deliver kafka [] s admit = Some (s, admit)"
| "deliver kafka (i # order) s admit =
     (case complete i (kafka i) s admit of None \<Rightarrow> None
      | Some (s', admit') \<Rightarrow> deliver kafka order s' admit')"

text \<open>
  A whole \<^verbatim>\<open>Produce\<close> call under the schedule that delivers the callbacks in \<open>order\<close> and
  then lets the waiting goroutine run: it returns the results if the channel is closed and
  releases and returns \<open>ctxErr\<close> otherwise (the context ended before the last callback).
  \<open>None\<close> is a panic.
\<close>

definition Produce ::
  "err \<Rightarrow> (nat \<Rightarrow> callback) \<Rightarrow> nat list \<Rightarrow> err \<Rightarrow> bool \<Rightarrow> Admission option \<Rightarrow> Record list \<Rightarrow>
     ((err + Result list) \<times> Admission option) option" where
  "Produce clientClosed kafka order ctxErr closeFlag admit records =
     (case Produce_begin clientClosed closeFlag admit records of
        Inl early \<Rightarrow> Some (early, admit)
      | Inr (s, admit1) \<Rightarrow>
        (case deliver kafka order s admit1 of None \<Rightarrow> None
         | Some (s2, admit2) \<Rightarrow>
           if rs_done s2 then Some (Ok (rs_results s2), admit2)
           else Some (Err ctxErr, snd (release s2 admit2))))"

definition Ping :: "err \<Rightarrow> bool \<Rightarrow> err option \<Rightarrow> err option" where
  "Ping clientClosed closeFlag clientPing = (if closeFlag then Some clientClosed else clientPing)"

text \<open>\<^verbatim>\<open>Close\<close>: the new flag, and whether the client is closed by this call.\<close>

definition Close :: "bool \<Rightarrow> bool \<times> bool" where
  "Close closeFlag = (if closeFlag then (True, False) else (True, True))"

definition AdmissionSnapshot :: "Admission option \<Rightarrow> int \<times> int \<times> int \<times> int" where
  "AdmissionSnapshot admit = Snapshot admit"

definition BufferedSnapshot :: "int \<Rightarrow> int \<Rightarrow> int \<times> int" where
  "BufferedSnapshot bufferedRecords bufferedBytes = (bufferedRecords, bufferedBytes)"

section \<open>Interleaved execution\<close>

text \<open>Where the goroutine of one callback stands.\<close>

datatype cb_pc =
    NotSubmitted \<comment> \<open>\<^verbatim>\<open>TryProduce\<close> not called yet\<close>
  | InFlight \<comment> \<open>with the Kafka client\<close>
  | Stored \<comment> \<open>result written, counter not yet decremented\<close>
  | Last \<comment> \<open>saw the counter reach zero; compare-and-swap next\<close>
  | CbReleasing \<comment> \<open>won the compare-and-swap; \<^verbatim>\<open>admit.Release\<close> next\<close>
  | Closing \<comment> \<open>\<^verbatim>\<open>close(done)\<close> next\<close>
  | CbDone

text \<open>Where the goroutine that called \<^verbatim>\<open>Produce\<close> stands.\<close>

datatype waiter_pc =
    Submitting nat
  | Waiting
  | Cancelled err
  | WtReleasing err
  | Returned "err + Result list"

record request =
  rq_size :: nat
  rq_state :: requestState
  rq_cbs :: "cb_pc list"
  rq_waiter :: waiter_pc

definition new_request :: "nat \<Rightarrow> requestState \<Rightarrow> request" where
  "new_request n s =
     \<lparr>rq_size = n, rq_state = s, rq_cbs = replicate n NotSubmitted, rq_waiter = Submitting 0\<rparr>"

text \<open>
  One atomic action on behalf of one request. The last argument says whether the action is a
  panic (closing a closed channel).
\<close>

inductive req_step ::
  "(nat \<Rightarrow> callback) \<Rightarrow> request \<Rightarrow> Admission option \<Rightarrow> request \<Rightarrow> Admission option \<Rightarrow> bool \<Rightarrow> bool"
  for kafka where
  submit: "rq_waiter r = Submitting k \<Longrightarrow>
     req_step kafka r a
       (r\<lparr>rq_cbs := (rq_cbs r)[k := InFlight],
          rq_waiter := (if Suc k < rq_size r then Submitting (Suc k) else Waiting)\<rparr>) a False"
| store: "i < length (rq_cbs r) \<Longrightarrow> rq_cbs r ! i = InFlight \<Longrightarrow>
     req_step kafka r a
       (r\<lparr>rq_state := store_result i (kafka i) (rq_state r), rq_cbs := (rq_cbs r)[i := Stored]\<rparr>) a False"
| count: "i < length (rq_cbs r) \<Longrightarrow> rq_cbs r ! i = Stored \<Longrightarrow>
     req_step kafka r a
       (r\<lparr>rq_state := count_down (rq_state r),
          rq_cbs := (rq_cbs r)[i := (if rs_remaining (count_down (rq_state r)) = 0 then Last else CbDone)]\<rparr>)
       a False"
| cas_won: "i < length (rq_cbs r) \<Longrightarrow> rq_cbs r ! i = Last \<Longrightarrow> \<not> rs_released (rq_state r) \<Longrightarrow>
     req_step kafka r a
       (r\<lparr>rq_state := (rq_state r)\<lparr>rs_released := True\<rparr>, rq_cbs := (rq_cbs r)[i := CbReleasing]\<rparr>) a False"
| cas_lost: "i < length (rq_cbs r) \<Longrightarrow> rq_cbs r ! i = Last \<Longrightarrow> rs_released (rq_state r) \<Longrightarrow>
     req_step kafka r a (r\<lparr>rq_cbs := (rq_cbs r)[i := Closing]\<rparr>) a False"
| cb_release: "i < length (rq_cbs r) \<Longrightarrow> rq_cbs r ! i = CbReleasing \<Longrightarrow>
     req_step kafka r a (r\<lparr>rq_cbs := (rq_cbs r)[i := Closing]\<rparr>)
       (Release a (rs_records (rq_state r)) (rs_bytes (rq_state r))) False"
| close_done: "i < length (rq_cbs r) \<Longrightarrow> rq_cbs r ! i = Closing \<Longrightarrow>
     req_step kafka r a
       (r\<lparr>rq_state := (rq_state r)\<lparr>rs_done := True\<rparr>, rq_cbs := (rq_cbs r)[i := CbDone]\<rparr>) a
       (rs_done (rq_state r))"
| wait_done: "rq_waiter r = Waiting \<Longrightarrow> rs_done (rq_state r) \<Longrightarrow>
     req_step kafka r a (r\<lparr>rq_waiter := Returned (Ok (rs_results (rq_state r)))\<rparr>) a False"
| wait_ctx: "rq_waiter r = Waiting \<Longrightarrow> e = ContextCanceled \<or> e = DeadlineExceeded \<Longrightarrow>
     req_step kafka r a (r\<lparr>rq_waiter := Cancelled e\<rparr>) a False"
| ctx_cas_won: "rq_waiter r = Cancelled e \<Longrightarrow> \<not> rs_released (rq_state r) \<Longrightarrow>
     req_step kafka r a
       (r\<lparr>rq_state := (rq_state r)\<lparr>rs_released := True\<rparr>, rq_waiter := WtReleasing e\<rparr>) a False"
| ctx_cas_lost: "rq_waiter r = Cancelled e \<Longrightarrow> rs_released (rq_state r) \<Longrightarrow>
     req_step kafka r a (r\<lparr>rq_waiter := Returned (Err e)\<rparr>) a False"
| ctx_release: "rq_waiter r = WtReleasing e \<Longrightarrow>
     req_step kafka r a (r\<lparr>rq_waiter := Returned (Err e)\<rparr>)
       (Release a (rs_records (rq_state r)) (rs_bytes (rq_state r))) False"

record producer_sys =
  ps_admit :: "Admission option"
  ps_closed :: bool
  ps_reqs :: "request list"
  ps_panic :: bool

text \<open>
  A step of the whole producer: a new call that gets past its early returns, \<^verbatim>\<open>Close\<close>, or an
  atomic action of one request. Calls that return early change nothing.
\<close>

inductive franz_step :: "err \<Rightarrow> (nat \<Rightarrow> nat \<Rightarrow> callback) \<Rightarrow> producer_sys \<Rightarrow> producer_sys \<Rightarrow> bool"
  for clientClosed kafka where
  begin_call:
    "Produce_begin clientClosed (ps_closed s) (ps_admit s) records = Inr (st, admit') \<Longrightarrow>
     fits_int64 (admission_cap (ps_admit s)) (int (length records)) (total_bytes 0 records) \<Longrightarrow>
     franz_step clientClosed kafka s
       (s\<lparr>ps_admit := admit', ps_reqs := ps_reqs s @ [new_request (length records) st]\<rparr>)"
| close_client: "franz_step clientClosed kafka s (s\<lparr>ps_closed := fst (Close (ps_closed s))\<rparr>)"
| act:
    "q < length (ps_reqs s) \<Longrightarrow>
     req_step (kafka q) (ps_reqs s ! q) (ps_admit s) r' a' p \<Longrightarrow>
     franz_step clientClosed kafka s
       (s\<lparr>ps_admit := a', ps_reqs := (ps_reqs s)[q := r'], ps_panic := (ps_panic s \<or> p)\<rparr>)"

definition franz_init :: "int \<Rightarrow> int \<Rightarrow> producer_sys" where
  "franz_init maxRecords maxBytes =
     \<lparr>ps_admit = NewAdmission maxRecords maxBytes, ps_closed = False, ps_reqs = [], ps_panic = False\<rparr>"

inductive franz_reachable ::
  "err \<Rightarrow> (nat \<Rightarrow> nat \<Rightarrow> callback) \<Rightarrow> int \<Rightarrow> int \<Rightarrow> producer_sys \<Rightarrow> bool"
  for clientClosed kafka mr mb where
  start: "franz_reachable clientClosed kafka mr mb (franz_init mr mb)"
| step: "franz_reachable clientClosed kafka mr mb s \<Longrightarrow> franz_step clientClosed kafka s t \<Longrightarrow>
     franz_reachable clientClosed kafka mr mb t"

end
