(* ===== verification/Franz_Inv.thy ===== *)
theory Franz_Inv
  imports Franz
begin

text \<open>
  Invariants of the interleaved producer of theory \<open>Franz\<close>: every atomic action keeps the
  bookkeeping of its request (\<open>req_inv\<close>), and the admission counters are at every moment the
  totals of the requests that still hold their grant (through the ledger of the
  \<open>admission_control\<close> contract).
\<close>

section \<open>Counting callbacks\<close>

definition tally :: "('a \<Rightarrow> bool) \<Rightarrow> 'a list \<Rightarrow> int" where
  "tally P xs = (\<Sum>x\<leftarrow>xs. if P x then 1 else 0)"

lemma tally_update:
  "i < length xs \<Longrightarrow>
     tally P (xs[i := y]) = tally P xs - (if P (xs ! i) then 1 else 0) + (if P y then 1 else 0)"
  unfolding tally_def by (rule sum_list_update_eq)

lemma tally_nonneg [simp]: "0 \<le> tally P xs"
  unfolding tally_def by (rule sum_list_nonneg_map) auto

lemma tally_member: "i < length xs \<Longrightarrow> P (xs ! i) \<Longrightarrow> 1 \<le> tally P xs"
  using sum_list_member_le [of "xs ! i" xs "\<lambda>x. if P x then 1 else 0"]
  by (simp add: tally_def split: if_splits)

lemma tally_zero: "tally P xs = 0 \<longleftrightarrow> (\<forall>i<length xs. \<not> P (xs ! i))"
proof
  assume "tally P xs = 0"
  then show "\<forall>i<length xs. \<not> P (xs ! i)" using tally_member [of _ xs P] by force
next
  assume "\<forall>i<length xs. \<not> P (xs ! i)"
  then show "tally P xs = 0"
    unfolding tally_def by (intro sum_list_zero_map) (auto simp: in_set_conv_nth)
qed

lemma tally_replicate: "tally P (replicate n x) = (if P x then int n else 0)"
  by (simp add: tally_def sum_list_replicate)

definition open_cb :: "cb_pc \<Rightarrow> bool" where
  "open_cb c \<longleftrightarrow> c = NotSubmitted \<or> c = InFlight \<or> c = Stored"

definition closer :: "cb_pc \<Rightarrow> bool" where
  "closer c \<longleftrightarrow> c = Last \<or> c = CbReleasing \<or> c = Closing"

definition releasing_cb :: "cb_pc \<Rightarrow> bool" where
  "releasing_cb c \<longleftrightarrow> c = CbReleasing"

definition past_release :: "cb_pc \<Rightarrow> bool" where
  "past_release c \<longleftrightarrow> c = CbReleasing \<or> c = Closing"

definition waiter_releasing :: "waiter_pc \<Rightarrow> int" where
  "waiter_releasing w = (case w of WtReleasing e \<Rightarrow> 1 | _ \<Rightarrow> 0)"

lemmas cb_defs = open_cb_def closer_def releasing_cb_def past_release_def waiter_releasing_def

section \<open>The invariant of one request\<close>

definition submitted_ok :: "waiter_pc \<Rightarrow> cb_pc list \<Rightarrow> bool" where
  "submitted_ok w cbs \<longleftrightarrow>
     (case w of
        Submitting k \<Rightarrow> k < length cbs \<and> (\<forall>i<length cbs. cbs ! i = NotSubmitted \<longleftrightarrow> k \<le> i)
      | _ \<Rightarrow> (\<forall>i<length cbs. cbs ! i \<noteq> NotSubmitted))"

definition req_inv :: "(nat \<Rightarrow> callback) \<Rightarrow> request \<Rightarrow> bool" where
  "req_inv kafka r \<longleftrightarrow>
     (let s = rq_state r; cbs = rq_cbs r; n = rq_size r
      in 0 < n \<and> length cbs = n \<and> length (rs_results s) = n \<and>
         rs_remaining s = tally open_cb cbs \<and>
         tally closer cbs = (if rs_remaining s = 0 \<and> \<not> rs_done s then 1 else 0) \<and>
         (rs_done s \<longrightarrow> rs_remaining s = 0) \<and>
         (rs_done s \<longrightarrow> rs_released s) \<and>
         (\<not> rs_released s \<longrightarrow> tally past_release cbs = 0 \<and> waiter_releasing (rq_waiter r) = 0) \<and>
         tally releasing_cb cbs + waiter_releasing (rq_waiter r) \<le> 1 \<and>
         (\<forall>i<n. cbs ! i \<noteq> NotSubmitted \<longrightarrow> cbs ! i \<noteq> InFlight \<longrightarrow>
            rs_results s ! i = callback_result (kafka i)) \<and>
         submitted_ok (rq_waiter r) cbs \<and>
         (\<forall>rs. rq_waiter r = Returned (Ok rs) \<longrightarrow> rs_done s \<and> rs = rs_results s))"

text \<open>Whether a request's grant still counts in the admission controller.\<close>

definition holding :: "request \<Rightarrow> bool" where
  "holding r \<longleftrightarrow> \<not> rs_released (rq_state r) \<or>
     0 < tally releasing_cb (rq_cbs r) + waiter_releasing (rq_waiter r)"

definition held :: "request \<Rightarrow> int \<times> int" where
  "held r = (if holding r then (rs_records (rq_state r), rs_bytes (rq_state r)) else (0, 0))"

lemmas req_inv_defs = req_inv_def Let_def store_result_def count_down_def

lemma new_request_inv: "0 < n \<Longrightarrow> req_inv kafka (new_request n (newRequestState n r b))"
  by (auto simp: req_inv_def Let_def new_request_def newRequestState_def tally_replicate cb_defs
      submitted_ok_def)

lemma new_request_held: "held (new_request n (newRequestState n r b)) = (r, b)"
  by (simp add: held_def holding_def new_request_def newRequestState_def)

section \<open>Every action keeps it\<close>

lemma submitted_ok_update:
  "submitted_ok w cbs \<Longrightarrow> i < length cbs \<Longrightarrow> cbs ! i \<noteq> NotSubmitted \<Longrightarrow> c \<noteq> NotSubmitted \<Longrightarrow>
     submitted_ok w (cbs[i := c])"
  by (auto simp: submitted_ok_def nth_list_update split: waiter_pc.splits)

lemma submitted_ok_submit:
  "submitted_ok (Submitting k) cbs \<Longrightarrow>
     submitted_ok (if Suc k < length cbs then Submitting (Suc k) else Waiting) (cbs[k := InFlight])"
  by (auto simp: submitted_ok_def nth_list_update Suc_le_eq le_less split: if_splits)

lemma submitted_ok_waiter:
  "submitted_ok w cbs \<Longrightarrow> \<forall>k. w \<noteq> Submitting k \<Longrightarrow> \<forall>k. w' \<noteq> Submitting k \<Longrightarrow> submitted_ok w' cbs"
  by (auto simp: submitted_ok_def split: waiter_pc.splits)

text \<open>What the invariant says when a given callback is at a given point.\<close>

lemma req_inv_open:
  assumes "req_inv kafka r" "i < length (rq_cbs r)" "open_cb (rq_cbs r ! i)"
  shows "1 \<le> rs_remaining (rq_state r) \<and> \<not> rs_done (rq_state r) \<and> tally closer (rq_cbs r) = 0"
  using assms tally_member [of i "rq_cbs r" open_cb] by (auto simp: req_inv_def Let_def)

lemma req_inv_closer:
  assumes "req_inv kafka r" "i < length (rq_cbs r)" "closer (rq_cbs r ! i)"
  shows "rs_remaining (rq_state r) = 0 \<and> \<not> rs_done (rq_state r) \<and> tally closer (rq_cbs r) = 1"
  using assms tally_member [of i "rq_cbs r" closer]
  by (auto simp: req_inv_def Let_def split: if_splits)

lemma req_inv_past_release:
  assumes "req_inv kafka r" "i < length (rq_cbs r)" "past_release (rq_cbs r ! i)"
  shows "rs_released (rq_state r)"
  using assms tally_member [of i "rq_cbs r" past_release] by (auto simp: req_inv_def Let_def)

lemma req_inv_unreleased:
  assumes "req_inv kafka r" "\<not> rs_released (rq_state r)"
  shows "tally releasing_cb (rq_cbs r) = 0 \<and> waiter_releasing (rq_waiter r) = 0"
  using assms by (auto simp: req_inv_def Let_def tally_zero releasing_cb_def past_release_def)

lemmas req_inv_intro_simps = req_inv_def Let_def tally_update cb_defs nth_list_update

lemma step_submit:
  assumes "req_inv kafka r" "rq_waiter r = Submitting k"
  shows "req_inv kafka (r\<lparr>rq_cbs := (rq_cbs r)[k := InFlight],
          rq_waiter := (if Suc k < rq_size r then Submitting (Suc k) else Waiting)\<rparr>)"
proof -
  have k: "k < length (rq_cbs r)" "rq_cbs r ! k = NotSubmitted"
    using assms by (auto simp: req_inv_def Let_def submitted_ok_def)
  then show ?thesis
    using assms submitted_ok_submit [of k "rq_cbs r"]
    by (auto simp: req_inv_intro_simps split: if_splits)
qed

lemma step_store:
  assumes "req_inv kafka r" "i < length (rq_cbs r)" "rq_cbs r ! i = InFlight"
  shows "req_inv kafka
    (r\<lparr>rq_state := store_result i (kafka i) (rq_state r), rq_cbs := (rq_cbs r)[i := Stored]\<rparr>)"
  using assms req_inv_open [OF assms(1,2)] submitted_ok_update [of "rq_waiter r" "rq_cbs r" i Stored]
  by (auto simp: req_inv_intro_simps store_result_def)

lemma step_count:
  assumes "req_inv kafka r" "i < length (rq_cbs r)" "rq_cbs r ! i = Stored"
  shows "req_inv kafka
    (r\<lparr>rq_state := count_down (rq_state r),
       rq_cbs := (rq_cbs r)[i := (if rs_remaining (count_down (rq_state r)) = 0 then Last else CbDone)]\<rparr>)"
  using assms req_inv_open [OF assms(1,2)]
    submitted_ok_update [of "rq_waiter r" "rq_cbs r" i Last]
    submitted_ok_update [of "rq_waiter r" "rq_cbs r" i CbDone]
  by (auto simp: req_inv_intro_simps count_down_def)

lemma step_cas_won:
  assumes "req_inv kafka r" "i < length (rq_cbs r)" "rq_cbs r ! i = Last" "\<not> rs_released (rq_state r)"
  shows "req_inv kafka
    (r\<lparr>rq_state := (rq_state r)\<lparr>rs_released := True\<rparr>, rq_cbs := (rq_cbs r)[i := CbReleasing]\<rparr>)"
  using assms req_inv_closer [OF assms(1,2)] req_inv_unreleased [OF assms(1,4)]
    submitted_ok_update [of "rq_waiter r" "rq_cbs r" i CbReleasing]
  by (auto simp: req_inv_intro_simps)

lemma step_to_Closing:
  assumes "req_inv kafka r" "i < length (rq_cbs r)" "rq_cbs r ! i = Last \<or> rq_cbs r ! i = CbReleasing"
    "rs_released (rq_state r)"
  shows "req_inv kafka (r\<lparr>rq_cbs := (rq_cbs r)[i := Closing]\<rparr>)"
  using assms req_inv_closer [OF assms(1,2)]
    submitted_ok_update [of "rq_waiter r" "rq_cbs r" i Closing]
  by (auto simp: req_inv_intro_simps)

lemma step_close:
  assumes "req_inv kafka r" "i < length (rq_cbs r)" "rq_cbs r ! i = Closing"
  shows "req_inv kafka
    (r\<lparr>rq_state := (rq_state r)\<lparr>rs_done := True\<rparr>, rq_cbs := (rq_cbs r)[i := CbDone]\<rparr>)"
  using assms req_inv_closer [OF assms(1,2)] req_inv_past_release [OF assms(1,2)]
    submitted_ok_update [of "rq_waiter r" "rq_cbs r" i CbDone]
  by (auto simp: req_inv_intro_simps)

lemma step_waiter:
  assumes "req_inv kafka r" "\<forall>k. rq_waiter r \<noteq> Submitting k" "\<forall>k. w \<noteq> Submitting k"
    "waiter_releasing w \<le> waiter_releasing (rq_waiter r)"
    "\<And>rs. w = Returned (Ok rs) \<Longrightarrow> rs_done (rq_state r) \<and> rs = rs_results (rq_state r)"
  shows "req_inv kafka (r\<lparr>rq_waiter := w\<rparr>)"
  using assms submitted_ok_waiter [of "rq_waiter r" "rq_cbs r" w]
  by (auto simp: req_inv_def Let_def waiter_releasing_def split: waiter_pc.splits)

lemma step_ctx_cas_won:
  assumes "req_inv kafka r" "rq_waiter r = Cancelled e" "\<not> rs_released (rq_state r)"
  shows "req_inv kafka
    (r\<lparr>rq_state := (rq_state r)\<lparr>rs_released := True\<rparr>, rq_waiter := WtReleasing e\<rparr>)"
  using assms req_inv_unreleased [OF assms(1,3)]
    submitted_ok_waiter [of "rq_waiter r" "rq_cbs r" "WtReleasing e"]
  by (auto simp: req_inv_def Let_def waiter_releasing_def)

lemma req_step_inv:
  assumes "req_step kafka r a r' a' p" and "req_inv kafka r"
  shows "req_inv kafka r' \<and> \<not> p"
  using assms
proof (induction rule: req_step.induct)
  case (close_done i r a)
  then show ?case using req_inv_closer [of kafka r i] by (simp add: step_close closer_def)
next
  case (cb_release i r a)
  then show ?case using req_inv_past_release [of kafka r i]
    by (simp add: step_to_Closing past_release_def)
qed (simp_all add: step_submit step_store step_count step_cas_won step_to_Closing step_ctx_cas_won,
     auto intro!: step_waiter simp: waiter_releasing_def)

section \<open>What an action does to the grant\<close>

text \<open>
  An action either leaves the controller and the request's holding alone, or it is the one
  \<^verbatim>\<open>Release\<close> of the request's grant.
\<close>

lemma req_step_frame:
  "req_step kafka r a r' a' p \<Longrightarrow>
     rs_records (rq_state r') = rs_records (rq_state r) \<and>
     rs_bytes (rq_state r') = rs_bytes (rq_state r) \<and> rq_size r' = rq_size r"
  by (induction rule: req_step.induct) (auto simp: store_result_def count_down_def)

lemma holding_simps:
  assumes "req_inv kafka r" "i < length (rq_cbs r)"
  shows "rq_cbs r ! i \<noteq> CbReleasing \<Longrightarrow> c \<noteq> CbReleasing \<Longrightarrow>
      tally releasing_cb ((rq_cbs r)[i := c]) = tally releasing_cb (rq_cbs r)"
    and "rq_cbs r ! i = CbReleasing \<Longrightarrow> tally releasing_cb (rq_cbs r) = 1 \<and>
      waiter_releasing (rq_waiter r) = 0"
proof -
  show "rq_cbs r ! i \<noteq> CbReleasing \<Longrightarrow> c \<noteq> CbReleasing \<Longrightarrow>
      tally releasing_cb ((rq_cbs r)[i := c]) = tally releasing_cb (rq_cbs r)"
    using assms by (simp add: tally_update releasing_cb_def)
  assume c: "rq_cbs r ! i = CbReleasing"
  have "1 \<le> tally releasing_cb (rq_cbs r)"
    using assms(2) c by (intro tally_member) (auto simp: releasing_cb_def)
  moreover have "tally releasing_cb (rq_cbs r) + waiter_releasing (rq_waiter r) \<le> 1"
    using assms(1) by (simp add: req_inv_def Let_def)
  moreover have "0 \<le> waiter_releasing (rq_waiter r)"
    by (simp add: waiter_releasing_def split: waiter_pc.splits)
  ultimately show "tally releasing_cb (rq_cbs r) = 1 \<and> waiter_releasing (rq_waiter r) = 0"
    by linarith
qed

lemma req_step_grant:
  assumes "req_step kafka r a r' a' p" and "req_inv kafka r"
  shows "a' = a \<and> held r' = held r \<or>
         a' = Release a (fst (held r)) (snd (held r)) \<and> held r' = (0, 0)"
  using assms
proof (induction rule: req_step.induct)
  case (submit r k a)
  then have "k < length (rq_cbs r)" "rq_cbs r ! k = NotSubmitted"
    by (auto simp: req_inv_def Let_def submitted_ok_def)
  with submit show ?case
    by (simp add: held_def holding_def waiter_releasing_def holding_simps(1))
next
  case (cas_won i r a)
  then show ?case
    using req_inv_unreleased [of kafka r]
    by (simp add: held_def holding_def tally_update releasing_cb_def)
next
  case (cb_release i r a)
  then show ?case
    using holding_simps(2) [of kafka r i] req_inv_past_release [of kafka r i]
    by (simp add: held_def holding_def tally_update releasing_cb_def past_release_def)
next
  case (ctx_release r e a)
  have "0 \<le> tally releasing_cb (rq_cbs r)" by simp
  with ctx_release show ?case
    by (auto simp: held_def holding_def waiter_releasing_def req_inv_def Let_def)
qed (auto simp: held_def holding_def holding_simps(1) waiter_releasing_def store_result_def count_down_def)

section \<open>The invariant of the producer\<close>

definition franz_inv :: "(nat \<Rightarrow> nat \<Rightarrow> callback) \<Rightarrow> int \<Rightarrow> int \<Rightarrow> producer_sys \<Rightarrow> bool" where
  "franz_inv kafka mr mb s \<longleftrightarrow>
     (\<forall>q<length (ps_reqs s). req_inv (kafka q) (ps_reqs s ! q)) \<and> \<not> ps_panic s \<and>
     adm.ledger (ps_admit s) (map held (ps_reqs s)) \<and> admission_cap (ps_admit s) = (mr, mb)"

lemma franz_inv_init:
  assumes "0 < mr" "mr \<le> max_int64" "0 < mb" "mb \<le> max_int64"
  shows "franz_inv kafka mr mb (franz_init mr mb)"
proof -
  have "admission_ok (ps_admit (franz_init mr mb))"
    using assms NewAdmission_ok by (simp add: franz_init_def)
  then show ?thesis
    by (simp add: franz_inv_def adm.ledger_def franz_init_def NewAdmission_def admission_simps)
qed

lemma Produce_begin_Inr:
  assumes "Produce_begin cc closed admit records = Inr (st, admit')"
  shows "records \<noteq> [] \<and> \<not> closed \<and>
    TryAcquire admit (int (length records)) (total_bytes 0 records) = (True, admit') \<and>
    st = newRequestState (length records) (int (length records)) (total_bytes 0 records)"
  using assms by (auto simp: Produce_begin_def Let_def split: if_splits prod.splits bool.splits)

lemma franz_step_inv:
  assumes "franz_step cc kafka s t" and inv: "franz_inv kafka mr mb s"
  shows "franz_inv kafka mr mb t"
  using assms(1)
proof cases
  case (begin_call records st admit')
  let ?n = "length records" and ?b = "total_bytes 0 records"
  note pb = Produce_begin_Inr [OF begin_call(2)]
  have led: "adm.ledger (ps_admit s) (map held (ps_reqs s))" using inv by (simp add: franz_inv_def)
  have "adm.ledger admit' (map held (ps_reqs s) @ [(int ?n, ?b)]) \<and>
      admission_cap admit' = admission_cap (ps_admit s)"
    using adm.ledger_acquire [OF led begin_call(3)] pb by blast
  then show ?thesis
    using inv pb new_request_inv [of ?n] new_request_held
    by (auto simp: franz_inv_def begin_call(1) nth_append less_Suc_eq)
next
  case close_client
  then show ?thesis using inv by (simp add: franz_inv_def)
next
  case (act q r' a' p)
  let ?r = "ps_reqs s ! q"
  have ri: "req_inv (kafka q) ?r" and led: "adm.ledger (ps_admit s) (map held (ps_reqs s))"
    using inv act(2) by (simp_all add: franz_inv_def)
  have r': "req_inv (kafka q) r'" "\<not> p" using req_step_inv [OF act(3) ri] by simp_all
  have "adm.ledger a' ((map held (ps_reqs s))[q := held r']) \<and>
      admission_cap a' = admission_cap (ps_admit s)"
    using req_step_grant [OF act(3) ri]
  proof
    assume "a' = ps_admit s \<and> held r' = held ?r"
    then show ?thesis using led act(2) by (simp add: list_update_id flip: map_update)
  next
    assume g: "a' = Release (ps_admit s) (fst (held ?r)) (snd (held ?r)) \<and> held r' = (0, 0)"
    then show ?thesis using adm.ledger_release [OF led, of q] act(2) by simp
  qed
  then show ?thesis
    using inv r' act(2) by (simp add: franz_inv_def act(1) map_update nth_list_update)
qed

lemma franz_reachable_inv:
  assumes "franz_reachable cc kafka mr mb s"
    and "0 < mr" "mr \<le> max_int64" "0 < mb" "mb \<le> max_int64"
  shows "franz_inv kafka mr mb s"
  using assms by (induction rule: franz_reachable.induct) (auto intro: franz_inv_init franz_step_inv)

section \<open>Progress\<close>

fun cb_work :: "cb_pc \<Rightarrow> int" where
  "cb_work NotSubmitted = 6"
| "cb_work InFlight = 5"
| "cb_work Stored = 4"
| "cb_work Last = 3"
| "cb_work CbReleasing = 2"
| "cb_work Closing = 1"
| "cb_work CbDone = 0"

fun waiter_work :: "waiter_pc \<Rightarrow> int" where
  "waiter_work (Submitting k) = 4"
| "waiter_work Waiting = 3"
| "waiter_work (Cancelled e) = 2"
| "waiter_work (WtReleasing e) = 1"
| "waiter_work (Returned x) = 0"

text \<open>The atomic actions a request can still take, at most.\<close>

definition req_work :: "request \<Rightarrow> int" where
  "req_work r = (\<Sum>c\<leftarrow>rq_cbs r. cb_work c) + waiter_work (rq_waiter r)"

definition franz_work :: "producer_sys \<Rightarrow> int" where
  "franz_work s = (\<Sum>r\<leftarrow>ps_reqs s. req_work r)"

definition finished :: "request \<Rightarrow> bool" where
  "finished r \<longleftrightarrow> (\<forall>c\<in>set (rq_cbs r). c = CbDone) \<and> (\<exists>x. rq_waiter r = Returned x)"

lemma cb_work_nonneg [simp]: "0 \<le> cb_work c"
  by (cases c) auto

lemma waiter_work_nonneg [simp]: "0 \<le> waiter_work w"
  by (cases w) auto

lemma req_work_nonneg [simp]: "0 \<le> req_work r"
  unfolding req_work_def by (intro add_nonneg_nonneg sum_list_nonneg_map) auto

lemma franz_work_nonneg [simp]: "0 \<le> franz_work s"
  unfolding franz_work_def by (intro sum_list_nonneg_map) auto

lemma req_step_work:
  assumes "req_step kafka r a r' a' p" and "req_inv kafka r"
  shows "req_work r' < req_work r"
  using assms
proof (induction rule: req_step.induct)
  case (submit r k a)
  then have "k < length (rq_cbs r)" "rq_cbs r ! k = NotSubmitted"
    by (auto simp: req_inv_def Let_def submitted_ok_def)
  with submit show ?case by (simp add: req_work_def sum_list_update_eq)
qed (auto simp: req_work_def sum_list_update_eq)

lemma req_progress:
  assumes inv: "req_inv kafka r" and nf: "\<not> finished r"
  shows "\<exists>r' a' p. req_step kafka r a r' a' p"
proof (cases "\<forall>i<length (rq_cbs r). rq_cbs r ! i = CbDone")
  case False
  then obtain i where i: "i < length (rq_cbs r)" "rq_cbs r ! i \<noteq> CbDone" by blast
  show ?thesis
  proof (cases "rq_cbs r ! i = NotSubmitted")
    case True
    with inv i obtain k where "rq_waiter r = Submitting k"
      by (auto simp: req_inv_def Let_def submitted_ok_def split: waiter_pc.splits)
    then show ?thesis by (blast intro: req_step.submit)
  next
    case False
    with i show ?thesis
      by (cases "rq_cbs r ! i"; cases "rs_released (rq_state r)") (blast intro: req_step.intros)+
  qed
next
  case True
  have "tally open_cb (rq_cbs r) = 0" "tally closer (rq_cbs r) = 0"
    using True by (auto simp: tally_zero open_cb_def closer_def)
  then have cl: "rs_done (rq_state r)" using inv by (auto simp: req_inv_def Let_def split: if_splits)
  have "\<forall>c\<in>set (rq_cbs r). c = CbDone" using True by (auto simp: in_set_conv_nth)
  then have "\<forall>x. rq_waiter r \<noteq> Returned x" using nf by (auto simp: finished_def)
  moreover have "\<forall>k. rq_waiter r \<noteq> Submitting k"
    using inv True by (auto simp: req_inv_def Let_def submitted_ok_def)
  ultimately show ?thesis
    using cl by (cases "rq_waiter r"; cases "rs_released (rq_state r)") (blast intro: req_step.intros)+
qed

lemma finished_held: "req_inv kafka r \<Longrightarrow> finished r \<Longrightarrow> held r = (0, 0)"
proof -
  assume inv: "req_inv kafka r" and fin: "finished r"
  have z: "tally open_cb (rq_cbs r) = 0" "tally closer (rq_cbs r) = 0"
    "tally releasing_cb (rq_cbs r) = 0" "waiter_releasing (rq_waiter r) = 0"
    using fin by (auto simp: tally_zero cb_defs finished_def all_set_conv_all_nth)
  then have "rs_released (rq_state r)" using inv by (auto simp: req_inv_def Let_def split: if_splits)
  with z show "held r = (0, 0)" by (simp add: held_def holding_def)
qed

section \<open>An executable scheduler\<close>

text \<open>
  A concrete schedule: which goroutine takes the next atomic action. Every schedule that
  \<open>run_schedule\<close> accepts is a run of the step relation.
\<close>

datatype action =
    BeginCall "Record list"
  | Submit nat
  | Callback nat nat
  | WaitDone nat
  | WaitCtx nat err
  | WaiterNext nat

fun callback_action ::
  "(nat \<Rightarrow> callback) \<Rightarrow> nat \<Rightarrow> request \<Rightarrow> Admission option \<Rightarrow> (request \<times> Admission option \<times> bool) option" where
  "callback_action kafka i r a =
     (if length (rq_cbs r) \<le> i then None
      else (case rq_cbs r ! i of
        InFlight \<Rightarrow>
          Some (r\<lparr>rq_state := store_result i (kafka i) (rq_state r), rq_cbs := (rq_cbs r)[i := Stored]\<rparr>, a, False)
      | Stored \<Rightarrow>
          Some (r\<lparr>rq_state := count_down (rq_state r),
            rq_cbs := (rq_cbs r)[i := (if rs_remaining (count_down (rq_state r)) = 0 then Last else CbDone)]\<rparr>,
            a, False)
      | Last \<Rightarrow>
          if rs_released (rq_state r) then Some (r\<lparr>rq_cbs := (rq_cbs r)[i := Closing]\<rparr>, a, False)
          else Some (r\<lparr>rq_state := (rq_state r)\<lparr>rs_released := True\<rparr>,
                       rq_cbs := (rq_cbs r)[i := CbReleasing]\<rparr>, a, False)
      | CbReleasing \<Rightarrow>
          Some (r\<lparr>rq_cbs := (rq_cbs r)[i := Closing]\<rparr>,
                Release a (rs_records (rq_state r)) (rs_bytes (rq_state r)), False)
      | Closing \<Rightarrow>
          Some (r\<lparr>rq_state := (rq_state r)\<lparr>rs_done := True\<rparr>, rq_cbs := (rq_cbs r)[i := CbDone]\<rparr>, a,
                rs_done (rq_state r))
      | _ \<Rightarrow> None))"

fun request_action ::
  "(nat \<Rightarrow> callback) \<Rightarrow> action \<Rightarrow> request \<Rightarrow> Admission option \<Rightarrow> (request \<times> Admission option \<times> bool) option" where
  "request_action kafka (Submit q) r a =
     (case rq_waiter r of
        Submitting k \<Rightarrow>
          Some (r\<lparr>rq_cbs := (rq_cbs r)[k := InFlight],
                  rq_waiter := (if Suc k < rq_size r then Submitting (Suc k) else Waiting)\<rparr>, a, False)
      | _ \<Rightarrow> None)"
| "request_action kafka (Callback q i) r a = callback_action kafka i r a"
| "request_action kafka (WaitDone q) r a =
     (if rq_waiter r = Waiting \<and> rs_done (rq_state r)
      then Some (r\<lparr>rq_waiter := Returned (Ok (rs_results (rq_state r)))\<rparr>, a, False) else None)"
| "request_action kafka (WaitCtx q e) r a =
     (if rq_waiter r = Waiting \<and> (e = ContextCanceled \<or> e = DeadlineExceeded)
      then Some (r\<lparr>rq_waiter := Cancelled e\<rparr>, a, False) else None)"
| "request_action kafka (WaiterNext q) r a =
     (case rq_waiter r of
        Cancelled e \<Rightarrow>
          if rs_released (rq_state r) then Some (r\<lparr>rq_waiter := Returned (Err e)\<rparr>, a, False)
          else Some (r\<lparr>rq_state := (rq_state r)\<lparr>rs_released := True\<rparr>, rq_waiter := WtReleasing e\<rparr>, a, False)
      | WtReleasing e \<Rightarrow>
          Some (r\<lparr>rq_waiter := Returned (Err e)\<rparr>,
                Release a (rs_records (rq_state r)) (rs_bytes (rq_state r)), False)
      | _ \<Rightarrow> None)"
| "request_action kafka (BeginCall rs) r a = None"

fun action_request :: "action \<Rightarrow> nat" where
  "action_request (BeginCall rs) = 0"
| "action_request (Submit q) = q"
| "action_request (Callback q i) = q"
| "action_request (WaitDone q) = q"
| "action_request (WaitCtx q e) = q"
| "action_request (WaiterNext q) = q"

definition exec_action :: "err \<Rightarrow> (nat \<Rightarrow> nat \<Rightarrow> callback) \<Rightarrow> action \<Rightarrow> producer_sys \<Rightarrow> producer_sys option" where
  "exec_action cc kafka act s =
     (case act of
        BeginCall records \<Rightarrow>
          (case Produce_begin cc (ps_closed s) (ps_admit s) records of
             Inr (st, admit') \<Rightarrow>
               if fits_int64 (admission_cap (ps_admit s)) (int (length records)) (total_bytes 0 records)
               then Some (s\<lparr>ps_admit := admit', ps_reqs := ps_reqs s @ [new_request (length records) st]\<rparr>)
               else None
           | Inl _ \<Rightarrow> None)
      | _ \<Rightarrow>
          let q = action_request act
          in if q < length (ps_reqs s)
             then (case request_action (kafka q) act (ps_reqs s ! q) (ps_admit s) of
                     Some (r', a', p) \<Rightarrow>
                       Some (s\<lparr>ps_admit := a', ps_reqs := (ps_reqs s)[q := r'], ps_panic := (ps_panic s \<or> p)\<rparr>)
                   | None \<Rightarrow> None)
             else None)"

fun run_schedule :: "err \<Rightarrow> (nat \<Rightarrow> nat \<Rightarrow> callback) \<Rightarrow> action list \<Rightarrow> producer_sys \<Rightarrow> producer_sys option" where
  "run_schedule cc kafka [] s = Some s"
| "run_schedule cc kafka (x # xs) s =
     (case exec_action cc kafka x s of None \<Rightarrow> None | Some t \<Rightarrow> run_schedule cc kafka xs t)"

lemma req_submit:
  "rq_waiter r = Submitting k \<Longrightarrow> w = (if Suc k < rq_size r then Submitting (Suc k) else Waiting) \<Longrightarrow>
     req_step kafka r a (r\<lparr>rq_cbs := (rq_cbs r)[k := InFlight], rq_waiter := w\<rparr>) a False"
  using req_step.submit by simp

lemma req_count:
  "i < length (rq_cbs r) \<Longrightarrow> rq_cbs r ! i = Stored \<Longrightarrow>
     c = (if rs_remaining (count_down (rq_state r)) = 0 then Last else CbDone) \<Longrightarrow>
     req_step kafka r a (r\<lparr>rq_state := count_down (rq_state r), rq_cbs := (rq_cbs r)[i := c]\<rparr>) a False"
  using req_step.count by simp

lemmas req_step_intros = req_submit req_count req_step.store req_step.cas_won req_step.cas_lost
  req_step.cb_release req_step.close_done req_step.wait_done req_step.wait_ctx req_step.ctx_cas_won
  req_step.ctx_cas_lost req_step.ctx_release

lemma callback_action_step:
  "callback_action kafka i r a = Some (r', a', p) \<Longrightarrow> req_step kafka r a r' a' p"
  by (auto split: if_splits cb_pc.splits intro: req_step_intros)

lemma request_action_step:
  "request_action kafka act r a = Some (r', a', p) \<Longrightarrow> req_step kafka r a r' a' p"
  by (cases act)
    (auto split: if_splits waiter_pc.splits intro: req_step_intros callback_action_step
      simp del: callback_action.simps)

lemma exec_action_step:
  assumes "exec_action cc kafka act s = Some t"
  shows "franz_step cc kafka s t"
  using assms
  by (cases act)
    (auto simp: exec_action_def Let_def split: sum.splits prod.splits option.splits if_splits
      intro!: franz_step.begin_call franz_step.act dest!: request_action_step
      simp del: request_action.simps)

lemma run_schedule_reachable:
  "run_schedule cc kafka xs s = Some t \<Longrightarrow> franz_reachable cc kafka mr mb s \<Longrightarrow>
     franz_reachable cc kafka mr mb t"
  by (induction xs arbitrary: s)
    (auto split: option.splits intro: franz_reachable.step dest: exec_action_step)

end
