(* ===== verification/Franz_Props.thy ===== *)
theory Franz_Props
  imports Franz_Inv
begin

text \<open>
  The properties of the asynchronous producer: exact admission accounting under every
  interleaving, no double close of the completion channel, results in input order, and
  settlement of every call; then the same facts for a whole \<^verbatim>\<open>Produce\<close> call run to its end,
  with which the producer implements the contract the HTTP layer relies on.
\<close>

section \<open>A concrete run for the witnesses\<close>

definition demo_record :: Record where
  "demo_record = \<lparr>rec_Topic = ''t'', rec_Key = None, rec_Value = Some ''v'', rec_Headers = [], rec_Partition = None\<rparr>"

definition demo_kafka :: "nat \<Rightarrow> nat \<Rightarrow> callback" where
  "demo_kafka q i = (Some (kgo_zero\<lparr>kgo_Partition := 3, kgo_Offset := int i\<rparr>), None)"

text \<open>Two records whose callbacks run in the opposite order, up to the return of the call.\<close>

definition demo_schedule :: "action list" where
  "demo_schedule = [BeginCall [demo_record, demo_record], Submit 0, Submit 0,
     Callback 0 1, Callback 0 1, Callback 0 0, Callback 0 0, Callback 0 0, Callback 0 0, Callback 0 0, WaitDone 0]"

definition demo_state :: producer_sys where
  "demo_state = \<lparr>ps_admit = NewAdmission 10 100, ps_closed = False,
     ps_reqs = [\<lparr>rq_size = 2,
       rq_state = \<lparr>rs_remaining = 0, rs_results = [callback_result (demo_kafka 0 0), callback_result (demo_kafka 0 1)],
                   rs_done = True, rs_records = 2, rs_bytes = 2, rs_released = True\<rparr>,
       rq_cbs = [CbDone, CbDone],
       rq_waiter = Returned (Ok [callback_result (demo_kafka 0 0), callback_result (demo_kafka 0 1)])\<rparr>],
     ps_panic = False\<rparr>"

lemma demo_run:
  "run_schedule ErrOverloaded demo_kafka demo_schedule (franz_init 10 100) = Some demo_state"
  by (simp add: demo_schedule_def exec_action_def franz_init_def NewAdmission_def Produce_begin_def
      demo_record_def SizeBytes_def len_nil_def wrap64_def admission_simps max_int64_def
      newRequestState_def new_request_def store_result_def count_down_def demo_state_def numeral_2_eq_2)

lemma demo_reachable: "franz_reachable ErrOverloaded demo_kafka 10 100 demo_state"
  using demo_run franz_reachable.start by (rule run_schedule_reachable)

lemmas demo_simps = demo_state_def NewAdmission_def admission_simps max_int64_def held_def holding_def
  tally_def releasing_cb_def waiter_releasing_def finished_def

section \<open>Properties of every interleaving\<close>



text \<open>
  C13: no interleaving closes the completion channel of a request twice (which would panic the
  process), and at most one callback of a request is ever on the way to closing it.
\<close>

theorem franz_no_double_close:
  assumes "franz_reachable cc kafka mr mb s"
    and "0 < mr" "mr \<le> max_int64" "0 < mb" "mb \<le> max_int64"
  shows "\<not> ps_panic s \<and> (\<forall>q<length (ps_reqs s). tally closer (rq_cbs (ps_reqs s ! q)) \<le> 1)"
  using franz_reachable_inv [OF assms] by (auto simp: franz_inv_def req_inv_def Let_def)

theorem franz_no_double_close_witness: "\<not> ps_panic demo_state"
  using franz_no_double_close [OF demo_reachable] by (simp add: max_int64_def)

text \<open>
  C2: whatever the order in which the callbacks of a request run, a call that returns results
  returns one per record, each built from the callback of the record at its position.
\<close>

theorem franz_results_in_order:
  assumes "franz_reachable cc kafka mr mb s"
    and "0 < mr" "mr \<le> max_int64" "0 < mb" "mb \<le> max_int64"
    and "q < length (ps_reqs s)" and "rq_waiter (ps_reqs s ! q) = Returned (Ok results)"
  shows "results = map (\<lambda>i. callback_result (kafka q i)) [0..<rq_size (ps_reqs s ! q)]"
proof -
  let ?r = "ps_reqs s ! q"
  have inv: "req_inv (kafka q) ?r"
    using franz_reachable_inv [OF assms(1-5)] assms(6) by (simp add: franz_inv_def)
  have cl: "rs_done (rq_state ?r)" "results = rs_results (rq_state ?r)"
    using inv assms(7) by (auto simp: req_inv_def Let_def)
  then have "tally open_cb (rq_cbs ?r) = 0" using inv by (auto simp: req_inv_def Let_def)
  then have "\<forall>i<rq_size ?r. \<not> open_cb (rq_cbs ?r ! i)"
    using inv by (auto simp: tally_zero req_inv_def Let_def)
  then have "\<forall>i<rq_size ?r. results ! i = callback_result (kafka q i)"
    using inv cl(2) by (auto simp: req_inv_def Let_def open_cb_def)
  moreover have "length results = rq_size ?r" using inv cl(2) by (auto simp: req_inv_def Let_def)
  ultimately show ?thesis by (auto intro: nth_equalityI)
qed

theorem franz_results_in_order_witness:
  "[callback_result (demo_kafka 0 0), callback_result (demo_kafka 0 1)] =
     map (\<lambda>i. callback_result (demo_kafka 0 i)) [0..<2]"
  using franz_results_in_order [OF demo_reachable, of 0] by (simp add: demo_state_def max_int64_def)

text \<open>
  C14: every atomic action of a request uses up some of a non-negative amount of work, so no
  call can keep its goroutines busy forever.
\<close>

theorem franz_actions_decrease_work:
  assumes "franz_reachable cc kafka mr mb s"
    and "0 < mr" "mr \<le> max_int64" "0 < mb" "mb \<le> max_int64"
    and "q < length (ps_reqs s)" and "req_step (kafka q) (ps_reqs s ! q) (ps_admit s) r' a' p"
  shows "0 \<le> franz_work (s\<lparr>ps_admit := a', ps_reqs := (ps_reqs s)[q := r']\<rparr>) \<and>
    franz_work (s\<lparr>ps_admit := a', ps_reqs := (ps_reqs s)[q := r']\<rparr>) < franz_work s"
proof -
  have "req_inv (kafka q) (ps_reqs s ! q)"
    using franz_reachable_inv [OF assms(1-5)] assms(6) by (simp add: franz_inv_def)
  then have "req_work r' < req_work (ps_reqs s ! q)" using req_step_work [OF assms(7)] by simp
  then have "franz_work (s\<lparr>ps_admit := a', ps_reqs := (ps_reqs s)[q := r']\<rparr>) < franz_work s"
    using assms(6) by (simp add: franz_work_def sum_list_update_eq)
  then show ?thesis by simp
qed

definition demo_started :: producer_sys where
  "demo_started = (franz_init 10 100)\<lparr>
     ps_admit := Some \<lparr>adm_maxRecords = 10, adm_maxBytes = 100, adm_usedRecords = 1, adm_usedBytes = 1\<rparr>,
     ps_reqs := [new_request 1 (newRequestState 1 1 1)]\<rparr>"

lemma demo_started_reachable: "franz_reachable ErrOverloaded demo_kafka 10 100 demo_started"
proof -
  have "run_schedule ErrOverloaded demo_kafka [BeginCall [demo_record]] (franz_init 10 100) = Some demo_started"
    by (simp add: exec_action_def franz_init_def NewAdmission_def Produce_begin_def demo_started_def
        demo_record_def SizeBytes_def len_nil_def wrap64_def admission_simps max_int64_def)
  then show ?thesis using franz_reachable.start by (rule run_schedule_reachable)
qed

theorem franz_actions_decrease_work_witness:
  "\<exists>r'. franz_work (demo_started\<lparr>ps_reqs := [r']\<rparr>) < franz_work demo_started"
proof -
  let ?r = "new_request 1 (newRequestState 1 1 1)"
  have "req_step (demo_kafka 0) (ps_reqs demo_started ! 0) (ps_admit demo_started)
      (?r\<lparr>rq_cbs := (rq_cbs ?r)[0 := InFlight], rq_waiter := Waiting\<rparr>) (ps_admit demo_started) False"
    by (simp add: demo_started_def, rule req_submit) (simp_all add: new_request_def)
  from franz_actions_decrease_work [OF demo_started_reachable _ _ _ _ _ this] show ?thesis
    by (auto simp: demo_started_def max_int64_def)
qed

text \<open>
  C15: when no request can take another action, every call has returned, every callback has
  run to its end and the whole admission capacity is free again: nothing leaks, also not
  through cancelled calls whose callbacks arrive late.
\<close>

theorem franz_settles:
  assumes "franz_reachable cc kafka mr mb s"
    and "0 < mr" "mr \<le> max_int64" "0 < mb" "mb \<le> max_int64"
    and "\<And>q r' a' p. q < length (ps_reqs s) \<Longrightarrow>
           \<not> req_step (kafka q) (ps_reqs s ! q) (ps_admit s) r' a' p"
  shows "(\<forall>r\<in>set (ps_reqs s). finished r) \<and> admission_owed (ps_admit s) = (0, 0)"
proof -
  have inv: "\<And>q. q < length (ps_reqs s) \<Longrightarrow> req_inv (kafka q) (ps_reqs s ! q)"
    "adm.ledger (ps_admit s) (map held (ps_reqs s))"
    using franz_reachable_inv [OF assms(1-5)] by (simp_all add: franz_inv_def)
  have fin: "finished (ps_reqs s ! q)" if "q < length (ps_reqs s)" for q
    using req_progress [OF inv(1) [OF that]] assms(6) [OF that] by blast
  then have "\<forall>r\<in>set (ps_reqs s). finished r \<and> held r = (0, 0)"
    using finished_held inv(1) by (metis in_set_conv_nth)
  then show ?thesis using adm.ledger_settled [OF inv(2)] by simp
qed

theorem franz_settles_witness:
  "finished (ps_reqs demo_state ! 0) \<and> admission_owed (ps_admit demo_state) = (0, 0)"
proof -
  have "(\<forall>r\<in>set (ps_reqs demo_state). finished r) \<and> admission_owed (ps_admit demo_state) = (0, 0)"
    by (rule franz_settles [OF demo_reachable])
      (auto simp: demo_state_def max_int64_def less_Suc_eq nth_Cons' elim!: req_step.cases split: if_splits)
  moreover have "ps_reqs demo_state ! 0 \<in> set (ps_reqs demo_state)" by (simp add: demo_state_def)
  ultimately show ?thesis by blast
qed

section \<open>A whole call\<close>

lemma count_store_fields:
  "rs_records (count_down (store_result i c s)) = rs_records s"
  "rs_bytes (count_down (store_result i c s)) = rs_bytes s"
  "rs_done (count_down (store_result i c s)) = rs_done s"
  "rs_released (count_down (store_result i c s)) = rs_released s"
  "rs_remaining (count_down (store_result i c s)) = rs_remaining s - 1"
  "rs_results (count_down (store_result i c s)) = (rs_results s)[i := callback_result c]"
  by (simp_all add: store_result_def count_down_def)

lemma deliver_spec:
  assumes "distinct order" "\<forall>i\<in>set order. i < length (rs_results s)" "\<not> rs_done s"
    "rs_remaining s = int m" "0 < m" "length order \<le> m" "\<not> rs_released s"
  shows "\<exists>s' a'. deliver kafka order s a = Some (s', a') \<and>
    rs_records s' = rs_records s \<and> rs_bytes s' = rs_bytes s \<and>
    rs_results s' = map (\<lambda>i. if i \<in> set order then callback_result (kafka i) else rs_results s ! i)
      [0..<length (rs_results s)] \<and>
    (if length order = m then rs_done s' \<and> a' = Release a (rs_records s) (rs_bytes s)
     else \<not> rs_done s' \<and> \<not> rs_released s' \<and> a' = a)"
  using assms
proof (induction order arbitrary: s m)
  case Nil
  then show ?case by (auto simp: map_nth)
next
  case (Cons i order)
  let ?s = "count_down (store_result i (kafka i) s)"
  show ?case
  proof (cases "m = 1")
    case True
    with Cons.prems have "order = []" by simp
    with True Cons.prems show ?thesis
      by (auto simp: complete_def Let_def release_def count_store_fields nth_list_update
          intro!: nth_equalityI)
  next
    case False
    with Cons.prems have m: "0 < m - 1" "rs_remaining ?s = int (m - 1)"
      by (simp_all add: count_store_fields of_nat_diff)
    have "\<exists>s' a'. deliver kafka order ?s a = Some (s', a') \<and>
      rs_records s' = rs_records ?s \<and> rs_bytes s' = rs_bytes ?s \<and>
      rs_results s' = map (\<lambda>j. if j \<in> set order then callback_result (kafka j) else rs_results ?s ! j)
        [0..<length (rs_results ?s)] \<and>
      (if length order = m - 1 then rs_done s' \<and> a' = Release a (rs_records ?s) (rs_bytes ?s)
       else \<not> rs_done s' \<and> \<not> rs_released s' \<and> a' = a)"
      using Cons.prems m by (intro Cons.IH) (auto simp: count_store_fields)
    moreover have "complete i (kafka i) s a = Some (?s, a)"
      using Cons.prems False by (simp add: complete_def Let_def count_store_fields)
    moreover have "length (i # order) = m \<longleftrightarrow> length order = m - 1" using m by auto
    ultimately show ?thesis
      using Cons.prems by (auto simp: count_store_fields nth_list_update)
  qed
qed

lemma newRequestState_fields [simp]:
  "rs_remaining (newRequestState n r b) = int n" "rs_done (newRequestState n r b) = False"
  "rs_released (newRequestState n r b) = False" "rs_records (newRequestState n r b) = r"
  "rs_bytes (newRequestState n r b) = b" "length (rs_results (newRequestState n r b)) = n"
  by (simp_all add: newRequestState_def)

lemma distinct_positions:
  assumes "distinct order" "set order \<subseteq> {..<n}"
  shows "length order \<le> n" "length order = n \<Longrightarrow> set order = {..<n}"
  using assms by (metis card_lessThan card_mono distinct_card finite_lessThan)
    (metis assms card_lessThan card_subset_eq distinct_card finite_lessThan)

lemma deliver_new:
  assumes "distinct order" "set order \<subseteq> {..<n}" "0 < n"
  shows "\<exists>s' a'. deliver kafka order (newRequestState n r b) a = Some (s', a') \<and>
    rs_records s' = r \<and> rs_bytes s' = b \<and>
    (if length order = n
     then rs_done s' \<and> rs_results s' = map (\<lambda>i. callback_result (kafka i)) [0..<n] \<and> a' = Release a r b
     else \<not> rs_done s' \<and> \<not> rs_released s' \<and> a' = a)"
proof -
  have "\<forall>i\<in>set order. i < length (rs_results (newRequestState n r b))"
    using assms(2) by auto
  from deliver_spec [OF assms(1) this _ _ assms(3) distinct_positions(1) [OF assms(1,2)], of kafka a]
  obtain s' a' where d: "deliver kafka order (newRequestState n r b) a = Some (s', a')"
    "rs_records s' = r" "rs_bytes s' = b"
    "rs_results s' = map (\<lambda>i. if i \<in> set order then callback_result (kafka i)
       else rs_results (newRequestState n r b) ! i) [0..<n]"
    "if length order = n then rs_done s' \<and> a' = Release a r b
     else \<not> rs_done s' \<and> \<not> rs_released s' \<and> a' = a"
    by auto
  then show ?thesis using distinct_positions(2) [OF assms(1,2)] by (auto split: if_splits)
qed

lemma Produce_admitted:
  assumes "admission_ok admit" "records \<noteq> []"
    "fits_int64 (admission_cap admit) (int (length records)) (total_bytes 0 records)"
    "TryAcquire admit (int (length records)) (total_bytes 0 records) = (True, admit1)"
    "distinct order" "set order \<subseteq> {..<length records}"
  shows "Produce cc kafka order ctxErr False admit records =
    Some (if length order = length records
          then Ok (map (\<lambda>i. callback_result (kafka i)) [0..<length records])
          else Err ctxErr, admit)"
proof -
  let ?n = "length records" and ?b = "total_bytes 0 records"
  let ?s = "newRequestState ?n (int ?n) ?b"
  have giveback: "Release admit1 (int ?n) ?b = admit"
    using assms(1,3,4) by (rule Release_after_grant)
  obtain s' a' where d: "deliver kafka order ?s admit1 = Some (s', a')"
    "rs_records s' = int ?n" "rs_bytes s' = ?b"
    "if length order = ?n
     then rs_done s' \<and> rs_results s' = map (\<lambda>i. callback_result (kafka i)) [0..<?n] \<and>
       a' = Release admit1 (int ?n) ?b
     else \<not> rs_done s' \<and> \<not> rs_released s' \<and> a' = admit1"
    using deliver_new [OF assms(5,6), of kafka "int ?n" ?b admit1] assms(2) by auto
  then show ?thesis
    using assms(2,4) giveback
    by (auto simp: Produce_def Produce_begin_def Let_def release_def split: if_splits)
qed

lemma Produce_refused:
  "closed \<Longrightarrow> Produce cc kafka order ctxErr closed admit records = Some (Err cc, admit)"
  "\<not> closed \<Longrightarrow> Produce cc kafka order ctxErr closed admit [] = Some (Ok [], admit)"
  "\<not> closed \<Longrightarrow> records \<noteq> [] \<Longrightarrow>
     TryAcquire admit (int (length records)) (total_bytes 0 records) = (False, admit1) \<Longrightarrow>
     Produce cc kafka order ctxErr closed admit records = Some (Err ErrOverloaded, admit)"
  by (simp_all add: Produce_def Produce_begin_def Let_def)



section \<open>The contract\<close>

text \<open>The producer as the HTTP layer sees it; a panic has no return value.\<close>

definition franz_produce ::
  "err \<Rightarrow> (nat \<Rightarrow> callback) \<Rightarrow> (nat \<Rightarrow> nat list) \<Rightarrow> err \<Rightarrow> bool \<Rightarrow> Admission option \<Rightarrow>
     Record list \<Rightarrow> err + Result list" where
  "franz_produce cc kafka order ctxErr closed admit records =
     (case Produce cc kafka (order (length records)) ctxErr closed admit records of
        Some (result, _) \<Rightarrow> result | None \<Rightarrow> Err cc)"

lemma Produce_results:
  assumes "distinct order" "set order \<subseteq> {..<length records}"
    and "Produce cc kafka order ctxErr closed admit records = Some (Ok results, admit')"
  shows "results = map (\<lambda>i. callback_result (kafka i)) [0..<length records]"
proof (cases "records = []")
  case True
  with assms(3) show ?thesis by (auto simp: Produce_def Produce_begin_def split: if_splits)
next
  case False
  let ?n = "length records" and ?b = "total_bytes 0 records"
  let ?s = "newRequestState ?n (int ?n) ?b"
  obtain admit1 where r: "Produce_begin cc closed admit records = Inr (?s, admit1)"
    using assms(3) False
    by (auto simp: Produce_def Produce_begin_def Let_def split: if_splits prod.splits bool.splits)
  obtain s' a' where d: "deliver kafka order ?s admit1 = Some (s', a')"
    "if length order = ?n
     then rs_done s' \<and> rs_results s' = map (\<lambda>i. callback_result (kafka i)) [0..<?n] \<and>
       a' = Release admit1 (int ?n) ?b
     else \<not> rs_done s' \<and> \<not> rs_released s' \<and> a' = admit1"
    using deliver_new [OF assms(1,2), of kafka "int ?n" ?b admit1] False by auto
  then show ?thesis using assms(3) r by (auto simp: Produce_def split: if_splits)
qed

lemma franz_produce_contract:
  assumes "\<And>n. distinct (order n)" and "\<And>n. set (order n) \<subseteq> {..<n}"
  shows "producer_contract (franz_produce cc kafka order ctxErr closed admit)
    (\<lambda>i. callback_result (kafka i))"
proof
  fix rs results
  assume ok: "franz_produce cc kafka order ctxErr closed admit rs = Ok results"
  then obtain admit' where
    "Produce cc kafka (order (length rs)) ctxErr closed admit rs = Some (Ok results, admit')"
    by (auto simp: franz_produce_def split: option.splits)
  then show "results = map (\<lambda>i. callback_result (kafka i)) [0..<length rs]"
    using Produce_results [OF assms(1,2)] by blast
qed

text \<open>The schedule in which the callbacks run in submission order.\<close>

interpretation franz: producer_contract
  "franz_produce cc kafka (\<lambda>n. [0..<n]) ctxErr closed admit" "\<lambda>i. callback_result (kafka i)"
  for cc kafka ctxErr closed admit
  by (rule franz_produce_contract) auto

end
