(* ===== verification/Media.thy ===== *)
theory Media
  imports GoLib
begin

text \<open>
  Content negotiation: \<^verbatim>\<open>internal/api/media.go\<close> and the two looser checks the v3 endpoints
  use (\<^verbatim>\<open>internal/api/v3.go\<close>), over a model of \<^verbatim>\<open>mime.ParseMediaType\<close>.
\<close>

section \<open>mime.ParseMediaType\<close>

definition tspecial :: "char \<Rightarrow> bool" where
  "tspecial c \<longleftrightarrow> c \<in> set ''()<>@,;:/[]?='' \<or> c = CHR 0x5C \<or> c = CHR 0x22"

definition token_char :: "char \<Rightarrow> bool" where
  "token_char c \<longleftrightarrow> 32 < (of_char c :: nat) \<and> (of_char c :: nat) < 127 \<and> \<not> tspecial c"

definition consumeToken :: "string \<Rightarrow> string \<times> string" where
  "consumeToken v = (takeWhile token_char v, dropWhile token_char v)"

definition checkMediaTypeDisposition :: "string \<Rightarrow> bool" where
  "checkMediaTypeDisposition s =
     (let (typ, rest) = consumeToken s in
      if typ = [] then False
      else if rest = [] then True
      else if \<not> hasPrefix rest ''/'' then False
      else let (subtype, rest2) = consumeToken (tl rest) in subtype \<noteq> [] \<and> rest2 = [])"

text \<open>The contents of a quoted parameter value after its opening quote; \<open>None\<close>: it is not closed.\<close>

fun quoted_value :: "string \<Rightarrow> (string \<times> string) option" where
  "quoted_value [] = None"
| "quoted_value (r # v) =
     (if r = CHR 0x22 then Some ([], v)
      else if r = CHR 0x5C \<and> v \<noteq> [] \<and> tspecial (hd v)
      then map_option (\<lambda>(b, s). (hd v # b, s)) (quoted_value (tl v))
      else if r = CHR 0x0D \<or> r = CHR 0x0A then None
      else map_option (\<lambda>(b, s). (r # b, s)) (quoted_value v))"

definition consumeValue :: "string \<Rightarrow> string \<times> string" where
  "consumeValue v =
     (if v = [] then ([], [])
      else if hd v \<noteq> CHR 0x22 then consumeToken v
      else (case quoted_value (tl v) of None \<Rightarrow> ([], v) | Some br \<Rightarrow> br))"

definition consumeMediaParam :: "string \<Rightarrow> string \<times> string \<times> string" where
  "consumeMediaParam v =
     (let rest = trimLeft v in
      if \<not> hasPrefix rest '';'' then ([], [], v)
      else let (param, rest1) = consumeToken (trimLeft (tl rest)) in
        if param = [] then ([], [], v)
        else let rest2 = trimLeft rest1 in
          if \<not> hasPrefix rest2 ''='' then ([], [], v)
          else let rest3 = trimLeft (tl rest2); (value, rest4) = consumeValue rest3 in
            if value = [] \<and> rest4 = rest3 then ([], [], v)
            else (toLower param, value, rest4))"

text \<open>
  The loop over the parameters; \<open>seen\<close> are those met so far. A repeated name with another
  value is an error. (Names with a star are kept in maps of their own; the full name is the key
  there too, so one list serves.) The guard on the length only makes the recursion evidently
  terminate: a parameter always consumes its semicolon.
\<close>

function media_params :: "(string \<times> string) list \<Rightarrow> string \<Rightarrow> bool" where
  "media_params seen v =
     (let v1 = trimLeft v in
      if v1 = [] then True
      else let (key, value, rest) = consumeMediaParam v1 in
        if key = [] then trimSpace rest = '';''
        else if (case map_of seen key of Some old \<Rightarrow> old \<noteq> value | None \<Rightarrow> False) then False
        else if length v \<le> length rest then False
        else media_params ((key, value) # seen) rest)"
  by pat_completeness auto
termination
  by (relation "measure (\<lambda>(seen, v). length v)") auto

declare media_params.simps [simp del]

text \<open>The media type, lower case, or \<open>None\<close> for an error.\<close>

definition parseMediaType :: "string \<Rightarrow> string option" where
  "parseMediaType v =
     (let base = takeWhile (\<lambda>c. c \<noteq> CHR '';'') v; mt = trimSpace (toLower base) in
      if checkMediaTypeDisposition mt \<and> media_params [] (drop (length base) v) then Some mt else None)"

section \<open>Formats\<close>

definition mediaKafkaV2 :: string where "mediaKafkaV2 = ''application/vnd.kafka.v2+json''"
definition mediaKafkaJSONV2 :: string where "mediaKafkaJSONV2 = ''application/vnd.kafka.json.v2+json''"
definition mediaKafkaBinaryV2 :: string where "mediaKafkaBinaryV2 = ''application/vnd.kafka.binary.v2+json''"
definition mediaKafkaAvroV2 :: string where "mediaKafkaAvroV2 = ''application/vnd.kafka.avro.v2+json''"
definition mediaKafkaProtobufV2 :: string where "mediaKafkaProtobufV2 = ''application/vnd.kafka.protobuf.v2+json''"
definition mediaKafkaJSONSchV2 :: string where "mediaKafkaJSONSchV2 = ''application/vnd.kafka.jsonschema.v2+json''"
definition mediaJSON :: string where "mediaJSON = ''application/json''"

lemmas media_defs = mediaKafkaV2_def mediaKafkaJSONV2_def mediaKafkaBinaryV2_def mediaKafkaAvroV2_def
  mediaKafkaProtobufV2_def mediaKafkaJSONSchV2_def mediaJSON_def

datatype payloadFormat = formatJSON | formatBinary | formatAvro | formatProtobuf | formatJSONSchema

fun format_String :: "payloadFormat \<Rightarrow> string" where
  "format_String formatBinary = ''binary''"
| "format_String formatAvro = ''avro''"
| "format_String formatProtobuf = ''protobuf''"
| "format_String formatJSONSchema = ''jsonschema''"
| "format_String formatJSON = ''json''"

fun schemaType :: "payloadFormat \<Rightarrow> string" where
  "schemaType formatAvro = ''AVRO''"
| "schemaType formatProtobuf = ''PROTOBUF''"
| "schemaType formatJSONSchema = ''JSONSCHEMA''"
| "schemaType formatBinary = []"
| "schemaType formatJSON = []"

definition parseContentType :: "string \<Rightarrow> payloadFormat \<times> bool" where
  "parseContentType header =
     (if trimSpace header = [] then (formatJSON, True)
      else (case parseMediaType header of None \<Rightarrow> (formatJSON, False)
        | Some mt0 \<Rightarrow>
          let mt = toLower mt0 in
          if mt = mediaKafkaJSONV2 \<or> mt = mediaKafkaV2 \<or> mt = mediaJSON then (formatJSON, True)
          else if mt = mediaKafkaBinaryV2 then (formatBinary, True)
          else if mt = mediaKafkaAvroV2 then (formatAvro, True)
          else if mt = mediaKafkaProtobufV2 then (formatProtobuf, True)
          else if mt = mediaKafkaJSONSchV2 then (formatJSONSchema, True)
          else (formatJSON, False)))"

definition accept_part :: "string \<Rightarrow> bool" where
  "accept_part part =
     (case parseMediaType (trimSpace part) of None \<Rightarrow> False
      | Some mt0 \<Rightarrow>
        toLower mt0 \<in> {''*/*'', ''application/*'', mediaKafkaV2, mediaKafkaJSONV2, mediaKafkaBinaryV2,
          mediaKafkaAvroV2, mediaKafkaProtobufV2, mediaKafkaJSONSchV2, mediaJSON})"

text \<open>The argument is the first \<^verbatim>\<open>Accept\<close> header, empty when there is none.\<close>

definition acceptsResponse :: "string \<Rightarrow> bool" where
  "acceptsResponse hdr =
     (let accept = trimSpace hdr in accept = [] \<or> list_ex accept_part (go_split (CHR '','') accept))"

definition isJSONContentType :: "string \<Rightarrow> bool" where
  "isJSONContentType header = (trimSpace header = [] \<or> contains (toLower header) ''application/json'')"

definition acceptsV3Response :: "string \<Rightarrow> bool" where
  "acceptsV3Response hdr =
     (let accept = trimSpace hdr in
      accept = [] \<or> contains accept ''*/*'' \<or> contains (toLower accept) ''application/json'')"

section \<open>The media types the command-line tools send\<close>

lemma kafka_v2_accepted: "acceptsResponse ''application/vnd.kafka.v2+json''"
  by code_simp

lemma kafka_content_types:
  "parseContentType ''application/vnd.kafka.json.v2+json'' = (formatJSON, True)"
  "parseContentType ''application/vnd.kafka.binary.v2+json'' = (formatBinary, True)"
  by code_simp+

end
