(* ===== verification/Json.thy ===== *)
theory Json
  imports GoLib
begin

text \<open>
  The model of Go's \<^verbatim>\<open>encoding/json\<close> the API and the schema encoder rest on: the grammar
  that \<^verbatim>\<open>json.Unmarshal\<close>, \<^verbatim>\<open>json.Valid\<close> and \<^verbatim>\<open>json.Compact\<close> check, as a parser into a
  syntax tree that keeps the source text of every value (what a \<^verbatim>\<open>json.RawMessage\<close> holds),
  and \<^verbatim>\<open>json.Compact\<close> as parsing followed by printing without white space.
\<close>

section \<open>Syntax trees\<close>

text \<open>
  Numbers, strings (with their quotes) and containers carry their source text; the keys of an
  object are kept as they were written, quotes included.
\<close>

datatype json =
    JNull
  | JBool bool
  | JNum bytes
  | JStr bytes
  | JArr bytes "json list"
  | JObj bytes "(bytes \<times> json) list"

fun raw :: "json \<Rightarrow> bytes" where
  "raw JNull = ''null''"
| "raw (JBool b) = (if b then ''true'' else ''false'')"
| "raw (JNum r) = r"
| "raw (JStr r) = r"
| "raw (JArr r vs) = r"
| "raw (JObj r ms) = r"

primrec render :: "json \<Rightarrow> bytes" where
  "render JNull = ''null''"
| "render (JBool b) = (if b then ''true'' else ''false'')"
| "render (JNum r) = r"
| "render (JStr r) = r"
| "render (JArr r vs) = ''['' @ go_join '','' (map render vs) @ '']''"
| "render (JObj r ms) =
     ''{'' @ go_join '','' (map (\<lambda>m. fst m @ '':'' @ snd m) (map (map_prod id render) ms)) @ ''}''"

section \<open>Tokens\<close>

definition json_space :: "char \<Rightarrow> bool" where
  "json_space c \<longleftrightarrow> c = CHR '' '' \<or> c = CHR 0x09 \<or> c = CHR 0x0D \<or> c = CHR 0x0A"

definition skip_ws :: "bytes \<Rightarrow> bytes" where
  "skip_ws s = dropWhile json_space s"

definition hex_val :: "char \<Rightarrow> nat option" where
  "hex_val c = (let n = (of_char c :: nat) in
     if 48 \<le> n \<and> n \<le> 57 then Some (n - 48)
     else if 97 \<le> n \<and> n \<le> 102 then Some (n - 87)
     else if 65 \<le> n \<and> n \<le> 70 then Some (n - 55)
     else None)"

definition is_hex :: "char \<Rightarrow> bool" where
  "is_hex c \<longleftrightarrow> hex_val c \<noteq> None"

fun hex4 :: "bytes \<Rightarrow> bool" where
  "hex4 (a # b # c # d # s) = (is_hex a \<and> is_hex b \<and> is_hex c \<and> is_hex d)"
| "hex4 s = False"

definition simple_escape :: "char \<Rightarrow> bool" where
  "simple_escape c \<longleftrightarrow> c \<in> {CHR ''b'', CHR ''f'', CHR ''n'', CHR ''r'', CHR ''t'', CHR 0x5C, CHR ''/'', CHR 0x22}"

text \<open>
  The part of a string after its opening quote: the source text up to and with the closing
  quote, and the rest of the input.
\<close>

fun str_body :: "bytes \<Rightarrow> (bytes \<times> bytes) option" where
  "str_body [] = None"
| "str_body (c # s) =
     (if c = CHR 0x22 then Some ([c], s)
      else if c = CHR 0x5C then
        (case s of [] \<Rightarrow> None
         | e # t \<Rightarrow>
           if simple_escape e \<or> e = CHR ''u'' \<and> hex4 t
           then map_option (\<lambda>(b, r). (c # e # b, r)) (str_body t) else None)
      else if (of_char c :: nat) < 32 then None
      else map_option (\<lambda>(b, r). (c # b, r)) (str_body s))"

definition is_digit :: "char \<Rightarrow> bool" where
  "is_digit c \<longleftrightarrow> digit_val c \<noteq> None"

text \<open>The optional fraction and exponent of a number: \<open>None\<close> is a malformed one.\<close>

definition num_frac :: "bytes \<Rightarrow> (bytes \<times> bytes) option" where
  "num_frac s =
     (case s of c # t \<Rightarrow>
        if c = CHR ''.'' then
          (let ds = takeWhile is_digit t
           in if ds = [] then None else Some (c # ds, dropWhile is_digit t))
        else Some ([], s)
      | [] \<Rightarrow> Some ([], s))"

definition num_exp :: "bytes \<Rightarrow> (bytes \<times> bytes) option" where
  "num_exp s =
     (case s of c # t \<Rightarrow>
        if c = CHR ''e'' \<or> c = CHR ''E'' then
          (let sg = (case t of x # _ \<Rightarrow> if x = CHR ''+'' \<or> x = CHR ''-'' then [x] else [] | [] \<Rightarrow> []);
               u = drop (length sg) t; ds = takeWhile is_digit u
           in if ds = [] then None else Some (c # sg @ ds, dropWhile is_digit u))
        else Some ([], s)
      | [] \<Rightarrow> Some ([], s))"

definition num_int :: "bytes \<Rightarrow> (bytes \<times> bytes) option" where
  "num_int s =
     (case s of c # t \<Rightarrow>
        if c = CHR ''0'' then Some ([c], t)
        else if is_digit c then Some (c # takeWhile is_digit t, dropWhile is_digit t)
        else None
      | [] \<Rightarrow> None)"

definition num_tok :: "bytes \<Rightarrow> (bytes \<times> bytes) option" where
  "num_tok s =
     (let sg = (case s of x # _ \<Rightarrow> if x = CHR ''-'' then [x] else [] | [] \<Rightarrow> [])
      in (case num_int (drop (length sg) s) of None \<Rightarrow> None
          | Some (a, r1) \<Rightarrow> (case num_frac r1 of None \<Rightarrow> None
            | Some (b, r2) \<Rightarrow> (case num_exp r2 of None \<Rightarrow> None
              | Some (c, r3) \<Rightarrow> Some (sg @ a @ b @ c, r3)))))"

section \<open>The parser\<close>

text \<open>
  The scanner refuses a nesting deeper than 10000. The first argument is fuel; the input's
  length bounds what is needed (lemma \<open>parse_fuel\<close> below).
\<close>

definition maxNestingDepth :: nat where
  "maxNestingDepth = 10000"

definition taken :: "bytes \<Rightarrow> bytes \<Rightarrow> bytes" where
  "taken s r = take (length s - length r) s"

fun parse_value :: "nat \<Rightarrow> nat \<Rightarrow> bytes \<Rightarrow> (json \<times> bytes) option"
  and parse_elems :: "nat \<Rightarrow> nat \<Rightarrow> bytes \<Rightarrow> (json list \<times> bytes) option"
  and parse_members :: "nat \<Rightarrow> nat \<Rightarrow> bytes \<Rightarrow> ((bytes \<times> json) list \<times> bytes) option" where
  "parse_value 0 d s = None"
| "parse_value (Suc f) d s =
     (case s of [] \<Rightarrow> None
      | c # t \<Rightarrow>
        if c = CHR ''{'' then
          (if maxNestingDepth \<le> d then None
           else (case skip_ws t of [] \<Rightarrow> None
                 | c1 # t1 \<Rightarrow>
                   if c1 = CHR ''}'' then Some (JObj (taken s t1) [], t1)
                   else map_option (\<lambda>(ms, r). (JObj (taken s r) ms, r)) (parse_members f (Suc d) (c1 # t1))))
        else if c = CHR ''['' then
          (if maxNestingDepth \<le> d then None
           else (case skip_ws t of [] \<Rightarrow> None
                 | c1 # t1 \<Rightarrow>
                   if c1 = CHR '']'' then Some (JArr (taken s t1) [], t1)
                   else map_option (\<lambda>(vs, r). (JArr (taken s r) vs, r)) (parse_elems f (Suc d) (c1 # t1))))
        else if c = CHR 0x22 then map_option (\<lambda>(b, r). (JStr (c # b), r)) (str_body t)
        else if hasPrefix s ''true'' then Some (JBool True, drop 4 s)
        else if hasPrefix s ''false'' then Some (JBool False, drop 5 s)
        else if hasPrefix s ''null'' then Some (JNull, drop 4 s)
        else map_option (\<lambda>(b, r). (JNum b, r)) (num_tok s))"
| "parse_elems 0 d s = None"
| "parse_elems (Suc f) d s =
     (case parse_value f d s of None \<Rightarrow> None
      | Some (v, r) \<Rightarrow>
        (case skip_ws r of [] \<Rightarrow> None
         | c # t \<Rightarrow>
           if c = CHR '']'' then Some ([v], t)
           else if c = CHR '','' then map_option (\<lambda>(vs, u). (v # vs, u)) (parse_elems f d (skip_ws t))
           else None))"
| "parse_members 0 d s = None"
| "parse_members (Suc f) d s =
     (case s of [] \<Rightarrow> None
      | q # s1 \<Rightarrow>
        if q \<noteq> CHR 0x22 then None else
        (case str_body s1 of None \<Rightarrow> None
         | Some (k, s2) \<Rightarrow>
           (case skip_ws s2 of [] \<Rightarrow> None
            | c # s3 \<Rightarrow>
              if c \<noteq> CHR '':'' then None else
              (case parse_value f d (skip_ws s3) of None \<Rightarrow> None
               | Some (v, r) \<Rightarrow>
                 (case skip_ws r of [] \<Rightarrow> None
                  | c2 # t \<Rightarrow>
                    if c2 = CHR ''}'' then Some ([(q # k, v)], t)
                    else if c2 = CHR '','' then
                      map_option (\<lambda>(ms, u). ((q # k, v) # ms, u)) (parse_members f d (skip_ws t))
                    else None)))))"

definition json_fuel :: "bytes \<Rightarrow> nat" where
  "json_fuel s = 2 * length s + 1"

text \<open>A whole document: white space, one value, white space.\<close>

definition json_parse :: "bytes \<Rightarrow> json option" where
  "json_parse s =
     (let t = skip_ws s in
      case parse_value (json_fuel t) 0 t of None \<Rightarrow> None
      | Some (v, r) \<Rightarrow> if skip_ws r = [] then Some v else None)"

text \<open>\<^verbatim>\<open>json.Compact\<close>: \<open>None\<close> is its syntax error.\<close>

definition json_Compact :: "bytes \<Rightarrow> bytes option" where
  "json_Compact s = map_option render (json_parse s)"


section \<open>Tokens and what follows them\<close>

lemma taken_append [simp]: "taken (t @ r) r = t"
  by (simp add: taken_def)

definition ws :: "bytes \<Rightarrow> bool" where
  "ws w = list_all json_space w"

lemma ws_Nil [simp]: "ws []"
  by (simp add: ws_def)

lemma skip_ws_split: "\<exists>w. s = w @ skip_ws s \<and> ws w"
  by (rule exI [of _ "takeWhile json_space s"])
    (auto simp: skip_ws_def ws_def list_all_iff dest: set_takeWhileD)

lemma skip_ws_Cons: "skip_ws s = c # t \<Longrightarrow> \<exists>w. s = w @ c # t \<and> ws w"
  using skip_ws_split [of s] by auto

lemma skip_ws_id [simp]: "\<not> json_space c \<Longrightarrow> skip_ws (c # s) = c # s"
  by (simp add: skip_ws_def)

lemma skip_ws_Nil [simp]: "skip_ws [] = []"
  by (simp add: skip_ws_def)

lemma skip_ws_ws [simp]: "ws w \<Longrightarrow> skip_ws (w @ s) = skip_ws s"
  by (induction w) (auto simp: skip_ws_def ws_def)

lemma skip_ws_all [simp]: "ws w \<Longrightarrow> skip_ws w = []"
  using skip_ws_ws [of w "[]"] by simp

lemma skip_ws_eq_Nil: "skip_ws s = [] \<Longrightarrow> ws s"
  by (auto simp: skip_ws_def ws_def list_all_iff dropWhile_eq_Nil_conv)

lemma is_hex_plain: "is_hex c \<Longrightarrow> c \<noteq> CHR 0x22 \<and> c \<noteq> CHR 0x5C \<and> \<not> (of_char c :: nat) < 32"
  by (auto simp: is_hex_def hex_val_def Let_def split: if_splits)

lemma str_body_plain:
  "c \<noteq> CHR 0x22 \<Longrightarrow> c \<noteq> CHR 0x5C \<Longrightarrow> \<not> (of_char c :: nat) < 32 \<Longrightarrow>
   str_body (c # s) = map_option (\<lambda>(b, r). (c # b, r)) (str_body s)"
  by simp

declare str_body.simps(2) [simp del]

lemma hex4_shape: "hex4 t \<Longrightarrow> \<exists>a b c d s. t = a # b # c # d # s \<and> is_hex a \<and> is_hex b \<and> is_hex c \<and> is_hex d"
  by (cases t rule: hex4.cases) auto

lemma hex4_str_body: "hex4 t \<Longrightarrow> str_body t = Some (b, r) \<Longrightarrow> hex4 (b @ r')"
  by (auto dest!: hex4_shape simp: is_hex_plain str_body_plain)

lemma str_body_again:
  "str_body s = Some (b, r) \<Longrightarrow> s = b @ r \<and> b \<noteq> [] \<and> str_body (b @ r') = Some (b, r')"
proof (induction s arbitrary: b r rule: str_body.induct)
  case 1
  then show ?case by simp
next
  case (2 c s)
  consider "c = CHR 0x22" | e t b0 where "c = CHR 0x5C" "s = e # t" "simple_escape e \<or> e = CHR ''u'' \<and> hex4 t"
      "str_body t = Some (b0, r)" "b = c # e # b0"
    | b0 where "c \<noteq> CHR 0x22" "c \<noteq> CHR 0x5C" "\<not> (of_char c :: nat) < 32" "str_body s = Some (b0, r)" "b = c # b0"
    using "2.prems" by (auto simp: str_body.simps(2) [of c] split: if_splits list.splits)
  then show ?case
  proof cases
    case 1
    with "2.prems" show ?thesis by (auto simp: str_body.simps(2))
  next
    case 2
    then show ?thesis using "2.IH"(1) [of e t b0 r] hex4_str_body [of t b0 r r']
      by (auto simp: str_body.simps(2) [of "CHR 0x5C"])
  next
    case 3
    then show ?thesis using "2.IH"(2) [of b0 r] by (auto simp: str_body_plain)
  qed
qed

text \<open>What may follow a number.\<close>

definition num_stop :: "bytes \<Rightarrow> bool" where
  "num_stop r = (case r of [] \<Rightarrow> True | c # _ \<Rightarrow> \<not> is_digit c \<and> c \<noteq> CHR ''.'' \<and> c \<noteq> CHR ''e'' \<and> c \<noteq> CHR ''E'')"

abbreviation no_digit :: "bytes \<Rightarrow> bool" where
  "no_digit r \<equiv> takeWhile is_digit r = []"

lemma no_digit_dropWhile: "no_digit r \<Longrightarrow> dropWhile is_digit r = r"
  by (cases r) (auto split: if_splits)

lemma takeWhile_digits: "no_digit r \<Longrightarrow> takeWhile is_digit (takeWhile is_digit t @ r) = takeWhile is_digit t"
  by (induction t) auto

lemma dropWhile_digits: "no_digit r \<Longrightarrow> dropWhile is_digit (takeWhile is_digit t @ r) = r"
  by (induction t) (auto simp: no_digit_dropWhile)

lemmas digits_again = takeWhile_digits dropWhile_digits

lemma num_int_again:
  "num_int s = Some (a, r) \<Longrightarrow> no_digit r' \<Longrightarrow>
   s = a @ r \<and> a \<noteq> [] \<and> num_int (a @ r') = Some (a, r') \<and> is_digit (hd a)"
  by (auto simp: num_int_def digits_again is_digit_def digit_val_def split: list.splits if_splits)

lemma num_frac_again:
  "num_frac s = Some (b, r) \<Longrightarrow> no_digit r' \<Longrightarrow> (r' = [] \<or> hd r' \<noteq> CHR ''.'') \<Longrightarrow>
   s = b @ r \<and> num_frac (b @ r') = Some (b, r') \<and> (b = [] \<or> hd b = CHR ''.'')"
  by (auto simp: num_frac_def Let_def digits_again dest: set_takeWhileD split: list.splits if_splits)

lemma num_exp_again:
  assumes "num_exp s = Some (c, r)" and "num_stop r'"
  shows "s = c @ r \<and> num_exp (c @ r') = Some (c, r') \<and> (c = [] \<or> hd c = CHR ''e'' \<or> hd c = CHR ''E'')"
proof -
  have nd: "no_digit r'" using assms(2) by (auto simp: num_stop_def split: list.splits)
  show ?thesis
  proof (cases "\<exists>x t. s = x # t \<and> (x = CHR ''e'' \<or> x = CHR ''E'')")
    case False
    then have "c = []" "s = r" using assms(1) by (auto simp: num_exp_def split: list.splits if_splits)
    then show ?thesis using assms(2) by (auto simp: num_exp_def num_stop_def split: list.splits)
  next
    case True
    then obtain x t where s: "s = x # t" "x = CHR ''e'' \<or> x = CHR ''E''" by blast
    define sg where "sg = (case t of y # _ \<Rightarrow> if y = CHR ''+'' \<or> y = CHR ''-'' then [y] else [] | [] \<Rightarrow> [])"
    define ds where "ds = takeWhile is_digit (drop (length sg) t)"
    have t: "t = sg @ drop (length sg) t" by (auto simp: sg_def split: list.splits)
    have c: "ds \<noteq> []" "c = x # sg @ ds" "r = dropWhile is_digit (drop (length sg) t)"
      using assms(1) s unfolding num_exp_def
      by (auto simp: Let_def sg_def [symmetric] ds_def [symmetric] split: if_splits)
    have "hd ds \<in> set ds" using c(1) by simp
    then have "is_digit (hd ds)" unfolding ds_def by (rule set_takeWhileD [THEN conjunct2])
    then have sg': "(case sg @ ds @ r' of y # _ \<Rightarrow> if y = CHR ''+'' \<or> y = CHR ''-'' then [y] else [] | [] \<Rightarrow> []) = sg"
      using c(1) by (cases ds) (auto simp: sg_def is_digit_def digit_val_def split: list.splits)
    have dsr: "takeWhile is_digit (ds @ r') = ds" "dropWhile is_digit (ds @ r') = r'"
      unfolding ds_def using nd by (rule digits_again)+
    have "num_exp (x # (sg @ ds @ r')) = Some (x # sg @ ds, r')"
      unfolding num_exp_def list.case sg' Let_def using s(2) c(1) by (auto simp: dsr)
    then show ?thesis using s c t unfolding ds_def by (auto simp: takeWhile_dropWhile_id)
  qed
qed

lemma num_tok_again:
  assumes "num_tok s = Some (b, r)" and "num_stop r'"
  shows "s = b @ r \<and> b \<noteq> [] \<and> num_tok (b @ r') = Some (b, r') \<and> (is_digit (hd b) \<or> hd b = CHR ''-'')"
proof -
  define sg where "sg = (case s of x # _ \<Rightarrow> if x = CHR ''-'' then [x] else [] | [] \<Rightarrow> [])"
  obtain a r1 f r2 e where
    1: "num_int (drop (length sg) s) = Some (a, r1)" and 2: "num_frac r1 = Some (f, r2)"
    and 3: "num_exp r2 = Some (e, r)" and b: "b = sg @ a @ f @ e"
    using assms(1) by (auto simp: num_tok_def Let_def sg_def [symmetric] split: option.splits)
  have e: "r2 = e @ r" "num_exp (e @ r') = Some (e, r')" "e = [] \<or> hd e = CHR ''e'' \<or> hd e = CHR ''E''"
    using num_exp_again [OF 3 assms(2)] by auto
  have "num_stop r' \<Longrightarrow> no_digit r' \<and> (r' = [] \<or> hd r' \<noteq> CHR ''.'')"
    by (cases r') (simp_all add: num_stop_def)
  moreover have "\<not> is_digit CHR ''e''" "\<not> is_digit CHR ''E''" by (simp_all add: is_digit_def digit_val_def)
  ultimately have nd: "no_digit (e @ r')" "e @ r' = [] \<or> hd (e @ r') \<noteq> CHR ''.''"
    using e(3) assms(2) by (cases e; auto)+
  have f: "r1 = f @ r2" "num_frac (f @ e @ r') = Some (f, e @ r')" "f = [] \<or> hd f = CHR ''.''"
    using num_frac_again [OF 2 nd] by auto
  have nd2: "no_digit (f @ e @ r')"
    using f(3) nd by (cases f) (auto simp: is_digit_def digit_val_def)
  have a: "drop (length sg) s = a @ r1" "a \<noteq> []" "num_int (a @ f @ e @ r') = Some (a, f @ e @ r')"
    "is_digit (hd a)"
    using num_int_again [OF 1 nd2] by simp_all
  have sg: "s = sg @ drop (length sg) s" by (auto simp: sg_def split: list.splits)
  have sg': "(case b @ r' of x # _ \<Rightarrow> if x = CHR ''-'' then [x] else [] | [] \<Rightarrow> []) = sg"
    using a by (cases a) (auto simp: b sg_def is_digit_def digit_val_def split: list.splits)
  have "num_tok (b @ r') = Some (b, r')"
    unfolding num_tok_def Let_def sg' by (simp add: b a(3) f(2) e(2))
  moreover have "is_digit (hd b) \<or> hd b = CHR ''-''"
    using a by (cases a) (auto simp: b sg_def split: list.splits)
  ultimately show ?thesis using sg a b f(1) e(1) by auto
qed

section \<open>The grammar\<close>

text \<open>
  \<open>spells v\<close>: the source text the tree carries is a spelling of it, by the JSON grammar;
  \<open>elems_text\<close> and \<open>members_text\<close> give the text between the brackets of a
  container that is not empty.
\<close>

inductive spells :: "json \<Rightarrow> bool"
  and elems_text :: "json list \<Rightarrow> bytes \<Rightarrow> bool"
  and members_text :: "(bytes \<times> json) list \<Rightarrow> bytes \<Rightarrow> bool" where
  sp_null: "spells JNull"
| sp_bool: "spells (JBool b)"
| sp_num: "num_tok r = Some (r, []) \<Longrightarrow> spells (JNum r)"
| sp_str: "str_body b = Some (b, []) \<Longrightarrow> spells (JStr (CHR 0x22 # b))"
| sp_arr0: "ws w \<Longrightarrow> spells (JArr (CHR ''['' # w @ '']'') [])"
| sp_arr: "ws w \<Longrightarrow> elems_text vs t \<Longrightarrow> spells (JArr (CHR ''['' # w @ t @ '']'') vs)"
| sp_obj0: "ws w \<Longrightarrow> spells (JObj (CHR ''{'' # w @ ''}'') [])"
| sp_obj: "ws w \<Longrightarrow> members_text ms t \<Longrightarrow> spells (JObj (CHR ''{'' # w @ t @ ''}'') ms)"
| el_one: "spells v \<Longrightarrow> ws w \<Longrightarrow> elems_text [v] (raw v @ w)"
| el_more: "spells v \<Longrightarrow> ws w \<Longrightarrow> ws w' \<Longrightarrow> elems_text vs t \<Longrightarrow>
    elems_text (v # vs) (raw v @ w @ '','' @ w' @ t)"
| me_one: "str_body k = Some (k, []) \<Longrightarrow> ws w1 \<Longrightarrow> ws w2 \<Longrightarrow> spells v \<Longrightarrow> ws w3 \<Longrightarrow>
    members_text [(CHR 0x22 # k, v)] (CHR 0x22 # k @ w1 @ '':'' @ w2 @ raw v @ w3)"
| me_more: "str_body k = Some (k, []) \<Longrightarrow> ws w1 \<Longrightarrow> ws w2 \<Longrightarrow> spells v \<Longrightarrow> ws w3 \<Longrightarrow> ws w4 \<Longrightarrow>
    members_text ms t \<Longrightarrow>
    members_text ((CHR 0x22 # k, v) # ms) (CHR 0x22 # k @ w1 @ '':'' @ w2 @ raw v @ w3 @ '','' @ w4 @ t)"

lemma hasPrefix_drop: "hasPrefix s p \<Longrightarrow> p @ drop (length p) s = s"
  by (auto simp: hasPrefix_iff)

lemma num_stop_Nil [simp]: "num_stop []"
  by (simp add: num_stop_def)

lemma str_body_spelled: "str_body s = Some (b, r) \<Longrightarrow> s = b @ r \<and> str_body b = Some (b, [])"
  using str_body_again [of s b r "[]"] by simp

lemma num_tok_spelled: "num_tok s = Some (b, r) \<Longrightarrow> s = b @ r \<and> num_tok b = Some (b, [])"
  using num_tok_again [of s b r "[]"] by simp

text \<open>The literals and the number branch of \<open>parse_value\<close>.\<close>

lemma parse_scalar_sound:
  assumes "c \<noteq> CHR ''{''" "c \<noteq> CHR ''[''" "parse_value (Suc f) d (c # t) = Some (v, r)"
  shows "spells v \<and> c # t = raw v @ r"
proof (cases "c = CHR 0x22")
  case True
  then obtain b where "str_body t = Some (b, r)" "v = JStr (c # b)" using assms by auto
  then show ?thesis using str_body_spelled [of t b r] sp_str [of b] True by simp
next
  case False
  consider "hasPrefix (c # t) ''true''" | "hasPrefix (c # t) ''false''" | "hasPrefix (c # t) ''null''"
    | "\<not> hasPrefix (c # t) ''true''" "\<not> hasPrefix (c # t) ''false''" "\<not> hasPrefix (c # t) ''null''" by blast
  then show ?thesis
  proof cases
    case 4
    with assms False obtain b where "num_tok (c # t) = Some (b, r)" "v = JNum b"
      by (auto simp del: hasPrefix.simps)
    then show ?thesis using num_tok_spelled sp_num by auto
  qed (use assms False in \<open>auto simp: hasPrefix_iff intro: spells_elems_text_members_text.intros\<close>)
qed

lemma parse_sound:
  "parse_value f d s = Some (v, r) \<Longrightarrow> spells v \<and> s = raw v @ r"
  "parse_elems f d s = Some (vs, r) \<Longrightarrow> \<exists>t. elems_text vs t \<and> s = t @ '']'' @ r"
  "parse_members f d s = Some (ms, r) \<Longrightarrow> \<exists>t. members_text ms t \<and> s = t @ ''}'' @ r"
proof (induction f d s and f d s and f d s arbitrary: v r and vs r and ms r
    rule: parse_value_parse_elems_parse_members.induct)
  case (2 f d s)
  obtain c t where s: "s = c # t" using "2.prems" by (cases s) auto
  show ?case
  proof (cases "c = CHR ''{'' \<or> c = CHR ''[''")
    case True
    then have "skip_ws t \<noteq> [] \<and> \<not> maxNestingDepth \<le> d" using "2.prems" s by (auto split: if_splits)
    then obtain c1 t1 where w0: "skip_ws t = c1 # t1" "\<not> maxNestingDepth \<le> d" by (auto simp: neq_Nil_conv)
    obtain w where w: "skip_ws t = c1 # t1" "t = w @ c1 # t1" "ws w" "\<not> maxNestingDepth \<le> d"
      using skip_ws_Cons [OF w0(1)] w0 by blast
    from True show ?thesis
    proof
      assume c: "c = CHR ''{''"
      show ?thesis
      proof (cases "c1 = CHR ''}''")
        case True
        then have "v = JObj (taken s t1) []" "r = t1" using "2.prems" s w c by auto
        then show ?thesis using sp_obj0 [OF w(3)] s w(2) c True
            taken_append [of "CHR ''{'' # w @ ''}''" t1] by simp
      next
        case False
        then obtain ms where ms: "parse_members f (Suc d) (c1 # t1) = Some (ms, r)" "v = JObj (taken s r) ms"
          using "2.prems" s w c by auto
        with "2.IH"(1) [OF s c w(4,1) False ms(1)] obtain tx where
          "members_text ms tx" "c1 # t1 = tx @ ''}'' @ r" by blast
        then show ?thesis using sp_obj [OF w(3), of ms tx] s w(2) c ms(2)
            taken_append [of "CHR ''{'' # w @ tx @ ''}''" r] by simp
      qed
    next
      assume c: "c = CHR ''[''"
      show ?thesis
      proof (cases "c1 = CHR '']''")
        case True
        then have "v = JArr (taken s t1) []" "r = t1" using "2.prems" s w c by auto
        then show ?thesis using sp_arr0 [OF w(3)] s w(2) c True
            taken_append [of "CHR ''['' # w @ '']''" t1] by simp
      next
        case False
        then obtain vs where vs: "parse_elems f (Suc d) (c1 # t1) = Some (vs, r)" "v = JArr (taken s r) vs"
          using "2.prems" s w c by auto
        have "c \<noteq> CHR ''{''" using c by simp
        with "2.IH"(2) [OF s _ c w(4,1) False vs(1)] obtain tx where
          "elems_text vs tx" "c1 # t1 = tx @ '']'' @ r" by blast
        then show ?thesis using sp_arr [OF w(3), of vs tx] s w(2) c vs(2)
            taken_append [of "CHR ''['' # w @ tx @ '']''" r] by simp
      qed
    qed
  next
    case False
    then show ?thesis using parse_scalar_sound "2.prems" s by blast
  qed
next
  case (4 f d s)
  obtain v r1 c t where 1: "parse_value f d s = Some (v, r1)" "skip_ws r1 = c # t"
    "c = CHR '']'' \<and> vs = [v] \<and> r = t \<or>
     c = CHR '','' \<and> (\<exists>vs'. parse_elems f d (skip_ws t) = Some (vs', r) \<and> vs = v # vs')"
    using "4.prems" by (auto split: option.splits list.splits if_splits)
  obtain w where w: "r1 = w @ c # t" "ws w" using skip_ws_Cons [OF 1(2)] by blast
  have v: "spells v" "s = raw v @ r1" using "4.IH"(1) [OF 1(1)] by simp_all
  from 1(3) show ?case
  proof (elim disjE conjE exE)
    assume "c = CHR '']''" "vs = [v]" "r = t"
    then show ?thesis using el_one [OF v(1) w(2)] v(2) w(1) by (intro exI [of _ "raw v @ w"]) simp
  next
    fix vs' assume c: "c = CHR '',''" and p: "parse_elems f d (skip_ws t) = Some (vs', r)" "vs = v # vs'"
    obtain tx where tx: "elems_text vs' tx" "skip_ws t = tx @ '']'' @ r"
      using "4.IH"(2) [OF 1(1) refl 1(2) _ c p(1)] c by auto
    obtain w' where "t = w' @ skip_ws t" "ws w'" using skip_ws_split by blast
    then show ?thesis using el_more [OF v(1) w(2) _ tx(1), of w'] v(2) w(1) tx(2) c p(2)
      by (intro exI [of _ "raw v @ w @ '','' @ w' @ tx"]) simp
  qed
next
  case (6 f d s)
  obtain s1 k s2 s3 v r1 c t where 1: "s = CHR 0x22 # s1" "str_body s1 = Some (k, s2)" "skip_ws s2 = CHR '':'' # s3"
    "parse_value f d (skip_ws s3) = Some (v, r1)" "skip_ws r1 = c # t"
    "c = CHR ''}'' \<and> ms = [(CHR 0x22 # k, v)] \<and> r = t \<or>
     c = CHR '','' \<and> (\<exists>ms'. parse_members f d (skip_ws t) = Some (ms', r) \<and> ms = (CHR 0x22 # k, v) # ms')"
    using "6.prems" by (auto split: option.splits list.splits if_splits)
  obtain w1 where w1: "s2 = w1 @ CHR '':'' # s3" "ws w1" using skip_ws_Cons [OF 1(3)] by blast
  obtain w2 where w2: "s3 = w2 @ skip_ws s3" "ws w2" using skip_ws_split by blast
  obtain w where w: "r1 = w @ c # t" "ws w" using skip_ws_Cons [OF 1(5)] by blast
  have k: "s1 = k @ s2" "str_body k = Some (k, [])" using str_body_spelled [OF 1(2)] by simp_all
  have v: "spells v" "skip_ws s3 = raw v @ r1"
    using "6.IH"(1) [OF 1(1) _ 1(2) refl 1(3) _ 1(4)] by simp_all
  from 1(6) show ?case
  proof (elim disjE conjE exE)
    assume "c = CHR ''}''" "ms = [(CHR 0x22 # k, v)]" "r = t"
    then show ?thesis using me_one [OF k(2) w1(2) w2(2) v(1) w(2)] k(1) v(2) w(1) w1(1) w2(1) 1(1)
      by (intro exI [of _ "CHR 0x22 # k @ w1 @ '':'' @ w2 @ raw v @ w"]) simp
  next
    fix ms' assume c: "c = CHR '',''" and p: "parse_members f d (skip_ws t) = Some (ms', r)" "ms = (CHR 0x22 # k, v) # ms'"
    obtain tx where tx: "members_text ms' tx" "skip_ws t = tx @ ''}'' @ r"
      using "6.IH"(2) [OF 1(1) _ 1(2) refl 1(3) _ 1(4) refl 1(5) _ c p(1)] c by auto
    obtain w' where "t = w' @ skip_ws t" "ws w'" using skip_ws_split by blast
    then show ?thesis using me_more [OF k(2) w1(2) w2(2) v(1) w(2) _ tx(1), of w'] k(1) v(2) w(1) w1(1) w2(1) tx(2) c p(2) 1(1)
      by (intro exI [of _ "CHR 0x22 # k @ w1 @ '':'' @ w2 @ raw v @ w @ '','' @ w' @ tx"]) simp
  qed
qed simp_all

section \<open>Completeness\<close>

primrec jdepth :: "json \<Rightarrow> nat" where
  "jdepth JNull = 0"
| "jdepth (JBool b) = 0"
| "jdepth (JNum r) = 0"
| "jdepth (JStr r) = 0"
| "jdepth (JArr r vs) = Suc (foldr max (map jdepth vs) 0)"
| "jdepth (JObj r ms) = Suc (foldr max (map snd (map (map_prod id jdepth) ms)) 0)"

lemma num_first: "num_tok r = Some (r, []) \<Longrightarrow> \<exists>c u. r = c # u \<and> (is_digit c \<or> c = CHR ''-'')"
  using num_tok_again [of r r "[]" "[]"] by (cases r) auto

lemma digit_first:
  "is_digit c \<or> c = CHR ''-'' \<Longrightarrow> \<not> json_space c \<and> c \<noteq> CHR ''{'' \<and> c \<noteq> CHR ''['' \<and> c \<noteq> CHR 0x22 \<and>
     c \<noteq> CHR ''t'' \<and> c \<noteq> CHR ''f'' \<and> c \<noteq> CHR ''n'' \<and> c \<noteq> CHR '']'' \<and> c \<noteq> CHR ''}''"
  by (auto simp: is_digit_def digit_val_def json_space_def)

lemma spells_first: "spells v \<Longrightarrow> \<exists>c u. raw v = c # u \<and> \<not> json_space c \<and> c \<noteq> CHR '']'' \<and> c \<noteq> CHR ''}''"
  by (cases rule: spells.cases) (auto simp: json_space_def dest!: num_first digit_first)

lemma elems_first: "elems_text vs t \<Longrightarrow> \<exists>c u. t = c # u \<and> \<not> json_space c \<and> c \<noteq> CHR '']''"
  by (cases rule: elems_text.cases) (auto dest!: spells_first)

lemma members_first: "members_text ms t \<Longrightarrow> \<exists>u. t = CHR 0x22 # u"
  by (cases rule: members_text.cases) auto

lemma num_stop_ws: "ws w \<Longrightarrow> num_stop r \<Longrightarrow> num_stop (w @ r)"
  by (cases w) (auto simp: num_stop_def ws_def json_space_def is_digit_def digit_val_def)

lemma num_stop_punct [simp]:
  "num_stop (CHR '','' # r)" "num_stop (CHR '']'' # r)" "num_stop (CHR ''}'' # r)" "num_stop (CHR '':'' # r)"
  by (simp_all add: num_stop_def is_digit_def digit_val_def)

lemma json_space_punct [simp]:
  "\<not> json_space CHR '',''" "\<not> json_space CHR '']''" "\<not> json_space CHR ''}''" "\<not> json_space CHR '':''"
  "\<not> json_space CHR 0x22"
  by (simp_all add: json_space_def)

lemma parse_num:
  assumes "num_tok x = Some (x, [])" "num_stop r" "0 < f"
  shows "parse_value f d (x @ r) = Some (JNum x, r)"
proof -
  obtain c u where x: "x = c # u" "is_digit c \<or> c = CHR ''-''" using num_first [OF assms(1)] by blast
  have "num_tok (c # u @ r) = Some (x, r)" using num_tok_again [OF assms(1,2)] x by simp
  then show ?thesis using digit_first [OF x(2)] assms(3) x(1) by (cases f) simp_all
qed

lemma parse_str:
  assumes "str_body b = Some (b, [])" "0 < f"
  shows "parse_value f d (CHR 0x22 # b @ r) = Some (JStr (CHR 0x22 # b), r)"
  using str_body_again [OF assms(1)] assms(2) by (cases f) simp_all

lemma parse_complete:
  "spells v \<Longrightarrow> (\<And>f d r. 2 * length (raw v) \<le> f \<Longrightarrow> d + jdepth v \<le> maxNestingDepth \<Longrightarrow> num_stop r \<Longrightarrow>
     parse_value f d (raw v @ r) = Some (v, r))"
  "elems_text vs t \<Longrightarrow> (\<And>f d r. 2 * length t + 1 \<le> f \<Longrightarrow> d + foldr max (map jdepth vs) 0 \<le> maxNestingDepth \<Longrightarrow>
     parse_elems f d (t @ CHR '']'' # r) = Some (vs, r))"
  "members_text ms t \<Longrightarrow> (\<And>f d r. 2 * length t + 1 \<le> f \<Longrightarrow>
     d + foldr max (map (\<lambda>m. jdepth (snd m)) ms) 0 \<le> maxNestingDepth \<Longrightarrow>
     parse_members f d (t @ CHR ''}'' # r) = Some (ms, r))"
proof (induction rule: spells_elems_text_members_text.inducts)
  case sp_null
  then show ?case by (cases f) simp_all
next
  case (sp_bool b)
  then show ?case by (cases f; cases b) simp_all
next
  case (sp_num x)
  then show ?case using num_first [of x] by (auto intro!: parse_num)
next
  case (sp_str b)
  then show ?case by (auto intro!: parse_str)
next
  case (sp_arr0 w)
  then show ?case using taken_append [of "CHR ''['' # w @ '']''" r] by (cases f) simp_all
next
  case (sp_obj0 w)
  then show ?case using taken_append [of "CHR ''{'' # w @ ''}''" r] by (cases f) simp_all
next
  case (sp_arr w vs t)
  obtain f' where f: "f = Suc f'" using sp_arr.prems by (cases f) auto
  obtain c u where t: "t = c # u" "\<not> json_space c" "c \<noteq> CHR '']''" using elems_first [OF sp_arr.hyps(2)] by blast
  have "parse_elems f' (Suc d) (t @ CHR '']'' # r) = Some (vs, r)"
    using sp_arr.prems f by (intro sp_arr.IH) auto
  then show ?case using sp_arr.hyps(1) sp_arr.prems t taken_append [of "CHR ''['' # w @ t @ '']''" r]
    by (simp add: f)
next
  case (sp_obj w ms t)
  obtain f' where f: "f = Suc f'" using sp_obj.prems by (cases f) auto
  obtain u where t: "t = CHR 0x22 # u" using members_first [OF sp_obj.hyps(2)] by blast
  have "parse_members f' (Suc d) (t @ CHR ''}'' # r) = Some (ms, r)"
    using sp_obj.prems f by (intro sp_obj.IH) (auto simp: comp_def)
  then show ?case using sp_obj.hyps(1) sp_obj.prems t taken_append [of "CHR ''{'' # w @ t @ ''}''" r]
    by (simp add: f)
next
  case (el_one v w)
  obtain f' where f: "f = Suc f'" using el_one.prems by (cases f) auto
  have "parse_value f' d (raw v @ w @ CHR '']'' # r) = Some (v, w @ CHR '']'' # r)"
    using el_one by (intro el_one.IH num_stop_ws) (auto simp: f)
  then show ?case using el_one by (simp add: f)
next
  case (el_more v w w' vs t)
  obtain f' where f: "f = Suc f'" using el_more.prems by (cases f) auto
  obtain c u where t: "t = c # u" "\<not> json_space c" using elems_first [OF el_more.hyps(4)] by blast
  have "parse_value f' d (raw v @ w @ CHR '','' # w' @ t @ CHR '']'' # r) = Some (v, w @ CHR '','' # w' @ t @ CHR '']'' # r)"
    using el_more by (intro el_more.IH(1) num_stop_ws) (auto simp: f)
  moreover have "parse_elems f' d (t @ CHR '']'' # r) = Some (vs, r)"
    using el_more by (intro el_more.IH(2)) (auto simp: f)
  ultimately show ?case using el_more t by (simp add: f)
next
  case (me_one k w1 w2 v w3)
  obtain f' where f: "f = Suc f'" using me_one.prems by (cases f) auto
  obtain c u where v: "raw v = c # u" "\<not> json_space c" using spells_first [OF me_one.hyps(4)] by blast
  have "parse_value f' d (raw v @ w3 @ CHR ''}'' # r) = Some (v, w3 @ CHR ''}'' # r)"
    using me_one by (intro me_one.IH num_stop_ws) (auto simp: f)
  then show ?case using me_one v str_body_again [OF me_one.hyps(1)] by (simp add: f)
next
  case (me_more k w1 w2 v w3 w4 ms t)
  obtain f' where f: "f = Suc f'" using me_more.prems by (cases f) auto
  obtain c u where v: "raw v = c # u" "\<not> json_space c" using spells_first [OF me_more.hyps(4)] by blast
  obtain u' where t: "t = CHR 0x22 # u'" using members_first [OF me_more.hyps(7)] by blast
  have "parse_value f' d (raw v @ w3 @ CHR '','' # w4 @ t @ CHR ''}'' # r) = Some (v, w3 @ CHR '','' # w4 @ t @ CHR ''}'' # r)"
    using me_more by (intro me_more.IH(1) num_stop_ws) (auto simp: f)
  moreover have "parse_members f' d (t @ CHR ''}'' # r) = Some (ms, r)"
    using me_more by (intro me_more.IH(2)) (auto simp: f)
  ultimately show ?case using me_more v t str_body_again [OF me_more.hyps(1)] by (simp add: f)
qed

lemma parse_depth:
  "d \<le> maxNestingDepth \<Longrightarrow> parse_value f d s = Some (v, r) \<Longrightarrow> d + jdepth v \<le> maxNestingDepth"
  "d \<le> maxNestingDepth \<Longrightarrow> parse_elems f d s = Some (vs, r) \<Longrightarrow> d + foldr max (map jdepth vs) 0 \<le> maxNestingDepth"
  "d \<le> maxNestingDepth \<Longrightarrow> parse_members f d s = Some (ms, r) \<Longrightarrow>
     d + foldr max (map (\<lambda>m. jdepth (snd m)) ms) 0 \<le> maxNestingDepth"
proof (induction f d s and f d s and f d s arbitrary: v r and vs r and ms r
    rule: parse_value_parse_elems_parse_members.induct)
  case (2 f d s)
  obtain c t where s: "s = c # t" using "2.prems" by (cases s) auto
  consider "c = CHR ''{''" | "c = CHR ''[''" | "c \<noteq> CHR ''{''" "c \<noteq> CHR ''[''" by blast
  then show ?case
  proof cases
    case 1
    then show ?thesis using "2.prems" "2.IH"(1) [OF s] s
      by (auto simp: comp_def split: if_splits list.splits)
  next
    case 2
    then show ?thesis using "2.prems" "2.IH"(2) [OF s] s
      by (auto split: if_splits list.splits)
  next
    case 3
    then have "jdepth v = 0" using "2.prems" s by (auto simp del: hasPrefix.simps split: if_splits)
    then show ?thesis using "2.prems" by simp
  qed
next
  case (4 f d s)
  then show ?case by (auto simp: max_def split: option.splits list.splits if_splits)
next
  case (6 f d s)
  then show ?case by (auto simp: max_def split: option.splits list.splits if_splits)
qed auto

text \<open>
  The parser decides the grammar: a document is accepted exactly when it is a spelling of some
  value within the nesting limit, surrounded by white space. In particular the fuel never
  runs out on an input of the grammar.
\<close>

theorem json_parse_iff:
  "json_parse s = Some v \<longleftrightarrow>
     spells v \<and> jdepth v \<le> maxNestingDepth \<and> (\<exists>w w'. ws w \<and> ws w' \<and> s = w @ raw v @ w')"
proof
  assume "json_parse s = Some v"
  then obtain r where p: "parse_value (json_fuel (skip_ws s)) 0 (skip_ws s) = Some (v, r)" "skip_ws r = []"
    by (auto simp: json_parse_def Let_def split: option.splits if_splits)
  obtain w where "s = w @ skip_ws s" "ws w" using skip_ws_split by blast
  moreover have "spells v" "skip_ws s = raw v @ r" using parse_sound(1) [OF p(1)] by simp_all
  moreover have "jdepth v \<le> maxNestingDepth" using parse_depth(1) [OF _ p(1)] by simp
  ultimately show "spells v \<and> jdepth v \<le> maxNestingDepth \<and> (\<exists>w w'. ws w \<and> ws w' \<and> s = w @ raw v @ w')"
    using skip_ws_eq_Nil [OF p(2)] by metis
next
  assume "spells v \<and> jdepth v \<le> maxNestingDepth \<and> (\<exists>w w'. ws w \<and> ws w' \<and> s = w @ raw v @ w')"
  then obtain w w' where v: "spells v" "jdepth v \<le> maxNestingDepth" "ws w" "ws w'" "s = w @ raw v @ w'" by blast
  obtain c u where c: "raw v = c # u" "\<not> json_space c" using spells_first [OF v(1)] by blast
  have sk: "skip_ws s = raw v @ w'" using v(3,5) c by simp
  have "num_stop w'" using num_stop_ws [OF v(4), of "[]"] by simp
  then have "parse_value (json_fuel (skip_ws s)) 0 (skip_ws s) = Some (v, w')"
    unfolding sk using v(1,2) by (intro parse_complete(1)) (auto simp: json_fuel_def)
  then show "json_parse s = Some v" using v(4) by (simp add: json_parse_def Let_def)
qed

text \<open>The fuel of \<open>json_parse\<close> is enough: more never changes the answer.\<close>

lemma parse_fuel:
  assumes "parse_value f 0 s = Some (v, r)" "num_stop r"
  shows "parse_value (json_fuel s) 0 s = Some (v, r)"
proof -
  have "spells v" "s = raw v @ r" using parse_sound(1) [OF assms(1)] by simp_all
  moreover have "jdepth v \<le> maxNestingDepth" using parse_depth(1) [OF _ assms(1)] by simp
  ultimately show ?thesis using parse_complete(1) [of v "json_fuel s" 0 r] assms(2) by (auto simp: json_fuel_def)
qed

lemma json_parse_raw: "json_parse s = Some v \<Longrightarrow> json_parse (raw v) = Some v"
  unfolding json_parse_iff by (auto intro!: exI [of _ "[]"])

lemma elems_spell:
  "elems_text vs t \<Longrightarrow> \<forall>v\<in>set vs. spells v"
  by (induction vs t rule: spells_elems_text_members_text.inducts(2) [of _ _ "\<lambda>_. True" _ "\<lambda>_ _. True"]) auto

lemma members_spell:
  "members_text ms t \<Longrightarrow> \<forall>m\<in>set ms. spells (snd m) \<and> (\<exists>k. fst m = CHR 0x22 # k \<and> str_body k = Some (k, []))"
  by (induction ms t rule: spells_elems_text_members_text.inducts(3) [of _ _ "\<lambda>_. True" "\<lambda>_ _. True"]) auto

lemma foldr_max_le: "(n :: nat) \<in> set ns \<Longrightarrow> n \<le> foldr max ns 0"
  by (induction ns) auto

lemma json_parse_elem:
  assumes "spells (JArr t vs)" "jdepth (JArr t vs) \<le> maxNestingDepth" "v \<in> set vs"
  shows "spells v \<and> jdepth v \<le> maxNestingDepth"
proof -
  have "spells v" using assms(1,3) by (cases rule: spells.cases) (auto dest: elems_spell)
  moreover have "jdepth v \<le> foldr max (map jdepth vs) 0" using assms(3) by (intro foldr_max_le) auto
  ultimately show ?thesis using assms(2) by simp
qed

lemma json_parse_member:
  assumes "spells (JObj t ms)" "jdepth (JObj t ms) \<le> maxNestingDepth" "(k, v) \<in> set ms"
  shows "spells v \<and> jdepth v \<le> maxNestingDepth"
proof -
  have "spells v" using assms(1,3) by (cases rule: spells.cases) (auto dest!: members_spell)
  moreover have "jdepth v \<le> foldr max (map (\<lambda>m. jdepth (snd m)) ms) 0"
    using assms(3) by (intro foldr_max_le) force
  ultimately show ?thesis using assms(2) by (simp add: comp_def)
qed

lemma json_parse_spells: "spells v \<Longrightarrow> jdepth v \<le> maxNestingDepth \<Longrightarrow> json_parse (raw v) = Some v"
  unfolding json_parse_iff by (auto intro!: exI [of _ "[]"])

section \<open>Printed documents\<close>

text \<open>A tree whose tokens are well formed, and the same tree with the printed text as its source.\<close>

primrec tokens_ok :: "json \<Rightarrow> bool" where
  "tokens_ok JNull = True"
| "tokens_ok (JBool b) = True"
| "tokens_ok (JNum r) = (num_tok r = Some (r, []))"
| "tokens_ok (JStr r) = (\<exists>b. r = CHR 0x22 # b \<and> str_body b = Some (b, []))"
| "tokens_ok (JArr r vs) = list_all id (map tokens_ok vs)"
| "tokens_ok (JObj r ms) =
     (list_all snd (map (map_prod id tokens_ok) ms) \<and>
      list_all (\<lambda>m. \<exists>b. fst m = CHR 0x22 # b \<and> str_body b = Some (b, [])) ms)"

primrec canon :: "json \<Rightarrow> json" where
  "canon JNull = JNull"
| "canon (JBool b) = JBool b"
| "canon (JNum r) = JNum r"
| "canon (JStr r) = JStr r"
| "canon (JArr r vs) = JArr (render (JArr r vs)) (map canon vs)"
| "canon (JObj r ms) = JObj (render (JObj r ms)) (map (map_prod id canon) ms)"

lemma raw_canon: "raw (canon v) = render v"
  by (cases v) auto

lemma elems_text_canon:
  "\<forall>v\<in>set vs. spells (canon v) \<Longrightarrow> vs \<noteq> [] \<Longrightarrow> elems_text (map canon vs) (go_join '','' (map render vs))"
proof (induction vs rule: induct_list012)
  case (2 v)
  then show ?case using el_one [of "canon v" "[]"] by (simp add: raw_canon)
next
  case (3 v v' vs)
  then show ?case using el_more [of "canon v" "[]" "[]" "map canon (v' # vs)"] by (simp add: raw_canon)
qed simp

lemma members_text_canon:
  "\<forall>m\<in>set ms. spells (canon (snd m)) \<and> (\<exists>b. fst m = CHR 0x22 # b \<and> str_body b = Some (b, [])) \<Longrightarrow> ms \<noteq> [] \<Longrightarrow>
   members_text (map (map_prod id canon) ms) (go_join '','' (map (\<lambda>m. fst m @ '':'' @ render (snd m)) ms))"
proof (induction ms rule: induct_list012)
  case (2 m)
  then show ?case using me_one [of _ "[]" "[]" "canon (snd m)" "[]"] by (cases m) (auto simp: raw_canon)
next
  case (3 m m' ms)
  then obtain k where k: "fst m = CHR 0x22 # k" "str_body k = Some (k, [])" and v: "spells (canon (snd m))" by auto
  have "members_text (map (map_prod id canon) (m' # ms))
      (go_join '','' (map (\<lambda>m. fst m @ '':'' @ render (snd m)) (m' # ms)))"
    using "3.prems" by (intro "3.IH"(2)) auto
  from me_more [OF k(2) ws_Nil ws_Nil v ws_Nil ws_Nil this] show ?case
    using k(1) by (cases m) (simp add: raw_canon id_def)
qed simp

lemma spells_canon: "tokens_ok v \<Longrightarrow> spells (canon v)"
proof (induction v)
  case (JArr r vs)
  then have "\<forall>v\<in>set vs. spells (canon v)" by (auto simp: list_all_iff)
  then show ?case using elems_text_canon [of vs] sp_arr0 [of "[]"] sp_arr [of "[]" "map canon vs"]
    by (cases "vs = []") simp_all
next
  case (JObj r ms)
  then have "\<forall>m\<in>set ms. spells (canon (snd m)) \<and> (\<exists>b. fst m = CHR 0x22 # b \<and> str_body b = Some (b, []))"
    by (auto simp: list_all_iff)
  then show ?case using members_text_canon [of ms] sp_obj0 [of "[]"] sp_obj [of "[]" "map (map_prod id canon) ms"]
    by (cases "ms = []") (simp_all add: comp_def)
qed (auto intro: spells_elems_text_members_text.intros)

lemma jdepth_canon [simp]: "jdepth (canon v) = jdepth v"
  by (induction v) (auto simp: comp_def cong: map_cong intro!: arg_cong [where f = "\<lambda>x. foldr max x 0"])

text \<open>What is printed from well-formed tokens parses back to the same tree.\<close>

lemma json_parse_render:
  "tokens_ok v \<Longrightarrow> jdepth v \<le> maxNestingDepth \<Longrightarrow> ws w \<Longrightarrow> json_parse (render v @ w) = Some (canon v)"
  unfolding json_parse_iff
  by (intro conjI exI [of _ "[]"] exI [of _ w]) (simp_all add: raw_canon spells_canon)

lemma render_canon [simp]: "render (canon v) = render v"
  by (induction v) (auto simp: comp_def cong: map_cong intro!: arg_cong [where f = "go_join '',''"])

end
