(* ===== verification/Encoding.thy ===== *)
theory Encoding
  imports Json
begin

text \<open>
  Text encodings of the standard library: UTF-8, the contents of JSON strings
  (\<^verbatim>\<open>encoding/json\<close> reading and writing them), \<^verbatim>\<open>strconv.AppendQuote\<close> and
  \<^verbatim>\<open>base64.StdEncoding\<close>, with the round trips the API relies on.
\<close>

section \<open>UTF-8\<close>

abbreviation code :: "char \<Rightarrow> nat" where
  "code c \<equiv> of_char c"

definition cont :: "char \<Rightarrow> bool" where
  "cont c \<longleftrightarrow> 128 \<le> code c \<and> code c \<le> 191"

definition utf8_2 :: "char \<Rightarrow> char \<Rightarrow> bool" where
  "utf8_2 a b \<longleftrightarrow> 194 \<le> code a \<and> code a \<le> 223 \<and> cont b"

definition utf8_3 :: "char \<Rightarrow> char \<Rightarrow> char \<Rightarrow> bool" where
  "utf8_3 a b c \<longleftrightarrow> 224 \<le> code a \<and> code a \<le> 239 \<and> cont b \<and> cont c \<and>
     (code a = 224 \<longrightarrow> 160 \<le> code b) \<and> (code a = 237 \<longrightarrow> code b \<le> 159)"

definition utf8_4 :: "char \<Rightarrow> char \<Rightarrow> char \<Rightarrow> char \<Rightarrow> bool" where
  "utf8_4 a b c d \<longleftrightarrow> 240 \<le> code a \<and> code a \<le> 244 \<and> cont b \<and> cont c \<and> cont d \<and>
     (code a = 240 \<longrightarrow> 144 \<le> code b) \<and> (code a = 244 \<longrightarrow> code b \<le> 143)"

text \<open>The number of bytes of the well-formed character at the front; 0 when there is none.\<close>

definition utf8_len :: "bytes \<Rightarrow> nat" where
  "utf8_len s =
     (case s of [] \<Rightarrow> 0
      | a # s1 \<Rightarrow> if code a < 128 then 1 else
        (case s1 of [] \<Rightarrow> 0
         | b # s2 \<Rightarrow> if utf8_2 a b then 2 else
           (case s2 of [] \<Rightarrow> 0
            | c # s3 \<Rightarrow> if utf8_3 a b c then 3 else
              (case s3 of [] \<Rightarrow> 0 | d # s4 \<Rightarrow> if utf8_4 a b c d then 4 else 0))))"

text \<open>The code point of a well-formed character.\<close>

definition rune_of :: "bytes \<Rightarrow> nat" where
  "rune_of s =
     (case s of [a] \<Rightarrow> code a
      | [a, b] \<Rightarrow> (code a - 192) * 64 + (code b - 128)
      | [a, b, c] \<Rightarrow> (code a - 224) * 4096 + (code b - 128) * 64 + (code c - 128)
      | [a, b, c, d] \<Rightarrow> (code a - 240) * 262144 + (code b - 128) * 4096 + (code c - 128) * 64 + (code d - 128)
      | _ \<Rightarrow> 0)"

definition replacement :: bytes where
  "replacement = [CHR 0xEF, CHR 0xBF, CHR 0xBD]"

text \<open>\<^verbatim>\<open>utf8.EncodeRune\<close>: surrogates and values out of range become U+FFFD.\<close>

definition encodeRune :: "nat \<Rightarrow> bytes" where
  "encodeRune r =
     (if r < 128 then [char_of r]
      else if r < 2048 then [char_of (192 + r div 64), char_of (128 + r mod 64)]
      else if 1114111 < r \<or> 55296 \<le> r \<and> r \<le> 57343 then replacement
      else if r < 65536 then
        [char_of (224 + r div 4096), char_of (128 + r div 64 mod 64), char_of (128 + r mod 64)]
      else [char_of (240 + r div 262144), char_of (128 + r div 4096 mod 64),
            char_of (128 + r div 64 mod 64), char_of (128 + r mod 64)])"

function valid_utf8 :: "bytes \<Rightarrow> bool" where
  "valid_utf8 s =
     (if s = [] then True else if utf8_len s = 0 then False else valid_utf8 (drop (utf8_len s) s))"
  by pat_completeness auto
termination
  by (relation "measure length") auto

declare valid_utf8.simps [simp del]

section \<open>Reading the contents of a JSON string\<close>

fun getu4 :: "bytes \<Rightarrow> nat option" where
  "getu4 (a # b # c # d # s) =
     (case (hex_val a, hex_val b, hex_val c, hex_val d) of
        (Some w, Some x, Some y, Some z) \<Rightarrow> Some (w * 4096 + x * 256 + y * 16 + z)
      | _ \<Rightarrow> None)"
| "getu4 s = None"

text \<open>\<^verbatim>\<open>utf16.DecodeRune\<close> on a first unit and the escape that follows it, when it is one.\<close>

definition low_surrogate :: "nat \<Rightarrow> bytes \<Rightarrow> nat option" where
  "low_surrogate hi s =
     (case s of p # q # t \<Rightarrow>
        if p = CHR 0x5C \<and> q = CHR ''u'' then
          (case getu4 t of None \<Rightarrow> None
           | Some lo \<Rightarrow> if 55296 \<le> hi \<and> hi < 56320 \<and> 56320 \<le> lo \<and> lo < 57344
                        then Some ((hi - 55296) * 1024 + (lo - 56320) + 65536) else None)
        else None
      | _ \<Rightarrow> None)"

text \<open>The character of a unicode escape, given the input after its letter, and what is left.\<close>

definition u_escape :: "bytes \<Rightarrow> (bytes \<times> bytes) option" where
  "u_escape u =
     (case getu4 u of None \<Rightarrow> None
      | Some r \<Rightarrow>
        if 55296 \<le> r \<and> r < 57344 then
          (case low_surrogate r (drop 4 u) of
             Some x \<Rightarrow> Some (encodeRune x, drop 10 u)
           | None \<Rightarrow> Some (replacement, drop 4 u))
        else Some (encodeRune r, drop 4 u))"

definition esc_char :: "char \<Rightarrow> char" where
  "esc_char e =
     (if e = CHR ''b'' then CHR 0x08 else if e = CHR ''f'' then CHR 0x0C else if e = CHR ''n'' then CHR 0x0A
      else if e = CHR ''r'' then CHR 0x0D else if e = CHR ''t'' then CHR 0x09 else e)"

text \<open>
  \<^verbatim>\<open>unquoteBytes\<close> on the text between the quotes. The scanner has refused malformed
  escapes before, so the empty result for them is never used.
\<close>

function unquote :: "bytes \<Rightarrow> bytes" where
  "unquote s =
     (case s of [] \<Rightarrow> []
      | c # t \<Rightarrow>
        if c = CHR 0x5C then
          (case t of [] \<Rightarrow> []
           | e # u \<Rightarrow>
             if e = CHR ''u'' then (case u_escape u of None \<Rightarrow> [] | Some (b, r) \<Rightarrow> b @ unquote r)
             else esc_char e # unquote u)
        else if code c < 128 then c # unquote t
        else if utf8_len s = 0 then replacement @ unquote t
        else take (utf8_len s) s @ unquote (drop (utf8_len s) s))"
  by pat_completeness auto
termination
  by (relation "measure length")
    (auto simp: u_escape_def split: option.splits if_splits)

declare unquote.simps [simp del]

text \<open>The contents of a string token.\<close>

definition str_val :: "bytes \<Rightarrow> bytes" where
  "str_val r = unquote (butlast (tl r))"

section \<open>Writing JSON strings\<close>

definition hex_digit :: "nat \<Rightarrow> char" where
  "hex_digit n = (if n < 10 then char_of (48 + n) else char_of (87 + n))"

text \<open>One ASCII character as \<^verbatim>\<open>encoding/json\<close> writes it, with its HTML escaping.\<close>

definition json_ascii :: "char \<Rightarrow> bytes" where
  "json_ascii c =
     (if c = CHR 0x5C \<or> c = CHR 0x22 then [CHR 0x5C, c]
      else if c = CHR 0x08 then [CHR 0x5C, CHR ''b'']
      else if c = CHR 0x0C then [CHR 0x5C, CHR ''f'']
      else if c = CHR 0x0A then [CHR 0x5C, CHR ''n'']
      else if c = CHR 0x0D then [CHR 0x5C, CHR ''r'']
      else if c = CHR 0x09 then [CHR 0x5C, CHR ''t'']
      else if code c < 32 \<or> c = CHR ''<'' \<or> c = CHR ''>'' \<or> c = CHR ''&''
      then [CHR 0x5C, CHR ''u'', CHR ''0'', CHR ''0'', hex_digit (code c div 16), hex_digit (code c mod 16)]
      else [c])"

definition json_rune :: "bytes \<Rightarrow> bytes" where
  "json_rune b =
     (if b = [CHR 0xE2, CHR 0x80, CHR 0xA8] then CHR 0x5C # ''u2028''
      else if b = [CHR 0xE2, CHR 0x80, CHR 0xA9] then CHR 0x5C # ''u2029'' else b)"

function json_chars :: "bytes \<Rightarrow> bytes" where
  "json_chars s =
     (case s of [] \<Rightarrow> []
      | c # t \<Rightarrow>
        if code c < 128 then json_ascii c @ json_chars t
        else if utf8_len s = 0 then (CHR 0x5C # ''ufffd'') @ json_chars t
        else json_rune (take (utf8_len s) s) @ json_chars (drop (utf8_len s) s))"
  by pat_completeness auto
termination
  by (relation "measure length") auto

declare json_chars.simps [simp del]

definition json_string :: "bytes \<Rightarrow> bytes" where
  "json_string s = CHR 0x22 # json_chars s @ [CHR 0x22]"

section \<open>Go's quoted strings\<close>

text \<open>
  \<^verbatim>\<open>strconv.AppendQuote\<close> and the \<^verbatim>\<open>%q\<close> verb. \<open>isPrint\<close> is the Unicode table of
  printable characters beyond ASCII.
\<close>

definition quote_ascii :: "char \<Rightarrow> bytes" where
  "quote_ascii c =
     (if c = CHR 0x22 \<or> c = CHR 0x5C then [CHR 0x5C, c]
      else if 32 \<le> code c \<and> code c < 127 then [c]
      else if c = CHR 0x07 then [CHR 0x5C, CHR ''a'']
      else if c = CHR 0x08 then [CHR 0x5C, CHR ''b'']
      else if c = CHR 0x0C then [CHR 0x5C, CHR ''f'']
      else if c = CHR 0x0A then [CHR 0x5C, CHR ''n'']
      else if c = CHR 0x0D then [CHR 0x5C, CHR ''r'']
      else if c = CHR 0x09 then [CHR 0x5C, CHR ''t'']
      else if c = CHR 0x0B then [CHR 0x5C, CHR ''v'']
      else [CHR 0x5C, CHR ''x'', hex_digit (code c div 16), hex_digit (code c mod 16)])"

definition hex_word :: "nat \<Rightarrow> nat \<Rightarrow> bytes" where
  "hex_word k n = map (\<lambda>i. hex_digit (n div 16 ^ i mod 16)) (rev [0..<k])"

definition quote_rune :: "(nat \<Rightarrow> bool) \<Rightarrow> bytes \<Rightarrow> bytes" where
  "quote_rune isPrint b =
     (let r = rune_of b in
      if isPrint r then b
      else if r < 65536 then CHR 0x5C # CHR ''u'' # hex_word 4 r
      else CHR 0x5C # CHR ''U'' # hex_word 8 r)"

function quote_chars :: "(nat \<Rightarrow> bool) \<Rightarrow> bytes \<Rightarrow> bytes" where
  "quote_chars isPrint s =
     (case s of [] \<Rightarrow> []
      | c # t \<Rightarrow>
        if code c < 128 then quote_ascii c @ quote_chars isPrint t
        else if utf8_len s = 0 then
          [CHR 0x5C, CHR ''x'', hex_digit (code c div 16), hex_digit (code c mod 16)] @ quote_chars isPrint t
        else quote_rune isPrint (take (utf8_len s) s) @ quote_chars isPrint (drop (utf8_len s) s))"
  by pat_completeness auto
termination
  by (relation "measure (\<lambda>(p, s). length s)") auto

declare quote_chars.simps [simp del]

definition quote :: "(nat \<Rightarrow> bool) \<Rightarrow> bytes \<Rightarrow> bytes" where
  "quote isPrint s = CHR 0x22 # quote_chars isPrint s @ [CHR 0x22]"

section \<open>Base 64\<close>

definition b64_val :: "char \<Rightarrow> nat option" where
  "b64_val c = (let n = code c in
     if 65 \<le> n \<and> n \<le> 90 then Some (n - 65)
     else if 97 \<le> n \<and> n \<le> 122 then Some (n - 71)
     else if 48 \<le> n \<and> n \<le> 57 then Some (n + 4)
     else if n = 43 then Some 62 else if n = 47 then Some 63 else None)"

fun b64_quads :: "bytes \<Rightarrow> bytes option" where
  "b64_quads [] = Some []"
| "b64_quads (a # b # c # d # s) =
     (case (b64_val a, b64_val b) of
        (Some w, Some x) \<Rightarrow>
          if c = CHR ''='' then
            (if d = CHR ''='' \<and> s = [] then Some [char_of (w * 4 + x div 16)] else None)
          else (case b64_val c of None \<Rightarrow> None
                | Some y \<Rightarrow>
                  if d = CHR ''='' then
                    (if s = [] then Some [char_of (w * 4 + x div 16), char_of (x mod 16 * 16 + y div 4)] else None)
                  else (case b64_val d of None \<Rightarrow> None
                        | Some z \<Rightarrow>
                          map_option ((@) [char_of (w * 4 + x div 16), char_of (x mod 16 * 16 + y div 4),
                                           char_of (y mod 4 * 64 + z)]) (b64_quads s)))
      | _ \<Rightarrow> None)"
| "b64_quads s = None"

text \<open>\<^verbatim>\<open>StdEncoding.DecodeString\<close> skips line ends wherever they stand.\<close>

definition b64_decode :: "bytes \<Rightarrow> bytes option" where
  "b64_decode s = b64_quads (filter (\<lambda>c. c \<noteq> CHR 0x0D \<and> c \<noteq> CHR 0x0A) s)"

definition b64_char :: "nat \<Rightarrow> char" where
  "b64_char n = (if n < 26 then char_of (65 + n) else if n < 52 then char_of (71 + n)
     else if n < 62 then char_of (n - 4) else if n = 62 then CHR ''+'' else CHR ''/'')"

fun b64_encode :: "bytes \<Rightarrow> bytes" where
  "b64_encode [] = []"
| "b64_encode [a] = [b64_char (code a div 4), b64_char (code a mod 4 * 16), CHR ''='', CHR ''='']"
| "b64_encode [a, b] =
     [b64_char (code a div 4), b64_char (code a mod 4 * 16 + code b div 16), b64_char (code b mod 16 * 4), CHR ''='']"
| "b64_encode (a # b # c # s) =
     [b64_char (code a div 4), b64_char (code a mod 4 * 16 + code b div 16),
      b64_char (code b mod 16 * 4 + code c div 64), b64_char (code c mod 64)] @ b64_encode s"

section \<open>Round trips\<close>

lemma code_less [simp]: "code c < 256"
  using nat_of_char_less_256 [of c] by simp

lemma code_inject: "code c = code d \<longleftrightarrow> c = d"
  by (metis char_of_char)

lemma code_char_of: "n < 256 \<Longrightarrow> code (char_of n) = n"
  by simp

lemma b64_val_char: "n < 64 \<Longrightarrow> b64_val (b64_char n) = Some n"
  by (auto simp: b64_val_def b64_char_def Let_def)

lemma b64_char_plain:
  "n < 64 \<Longrightarrow> b64_char n \<noteq> CHR ''='' \<and> b64_char n \<noteq> CHR 0x0D \<and> b64_char n \<noteq> CHR 0x0A"
proof -
  assume "n < 64"
  then have "b64_val (b64_char n) \<noteq> None" by (simp add: b64_val_char)
  moreover have "b64_val CHR ''='' = None" "b64_val CHR 0x0D = None" "b64_val CHR 0x0A = None"
    by (simp_all add: b64_val_def)
  ultimately show ?thesis by metis
qed

lemma code_div: "code c div 4 < 64" "code c div 16 < 16" "code c div 64 < 4"
  using code_less [of c] by (simp_all add: div_less_iff_less_mult del: code_less)

lemma b64_bits:
  "code a div 4 < 64" "code a mod 4 * 16 + code b div 16 < 64" "code b mod 16 * 4 + code c div 64 < 64" "code c mod 64 < 64"
  "code a mod 4 * 16 < 64" "code b mod 16 * 4 < 64"
proof -
  have "code a mod 4 < 4" "code b mod 16 < 16" by simp_all
  moreover note code_div
  ultimately show "code a mod 4 * 16 + code b div 16 < 64" "code b mod 16 * 4 + code c div 64 < 64"
    "code a mod 4 * 16 < 64" "code b mod 16 * 4 < 64"
    using code_div(2) [of b] code_div(3) [of c] by linarith+
qed (simp_all add: code_div)

lemma code_bits [simp]:
  "code b div 16 div 16 = 0" "code b div 16 mod 16 = code b div 16" "code c div 64 div 4 = 0"
  "code c div 64 mod 4 = code c div 64"
  using code_div [of b] code_div [of c] by simp_all

lemma b64_encode_plain: "c \<in> set (b64_encode s) \<Longrightarrow> c \<noteq> CHR 0x0D \<and> c \<noteq> CHR 0x0A"
proof (induction s rule: b64_encode.induct)
  case (2 a)
  then show ?case using b64_bits b64_char_plain by auto
next
  case (3 a b)
  then show ?case using b64_bits b64_char_plain by auto
next
  case (4 a b c s)
  then show ?case using b64_bits b64_char_plain by auto
qed simp

lemma b64_quads_encode: "b64_quads (b64_encode s) = Some s"
proof (induction s rule: b64_encode.induct)
  case (2 a)
  show ?case by (simp add: b64_val_char b64_bits)
next
  case (3 a b)
  show ?case by (simp add: b64_val_char b64_bits b64_char_plain)
next
  case (4 a b c s)
  then show ?case by (simp add: b64_val_char b64_bits b64_char_plain)
qed simp

lemma b64_decode_encode: "b64_decode (b64_encode s) = Some s"
proof -
  have "filter (\<lambda>c. c \<noteq> CHR 0x0D \<and> c \<noteq> CHR 0x0A) (b64_encode s) = b64_encode s"
    by (rule filter_True) (auto dest: b64_encode_plain)
  then show ?thesis by (simp add: b64_decode_def b64_quads_encode)
qed

text \<open>Prepending consumed text to the result of \<open>str_body\<close>.\<close>

definition pre :: "bytes \<Rightarrow> (bytes \<times> bytes) option \<Rightarrow> (bytes \<times> bytes) option" where
  "pre p x = (case x of None \<Rightarrow> None | Some (b, r) \<Rightarrow> Some (p @ b, r))"

lemma pre_pre [simp]: "pre p (pre q x) = pre (p @ q) x"
  by (cases x) (auto simp: pre_def)

lemma pre_Nil [simp]: "pre [] x = x"
  by (cases x) (auto simp: pre_def)

lemma pre_Some [simp]: "pre p (Some (b, r)) = Some (p @ b, r)"
  by (simp add: pre_def)

lemma str_body_char:
  "c \<noteq> CHR 0x22 \<and> c \<noteq> CHR 0x5C \<and> \<not> code c < 32 \<Longrightarrow> str_body (c # s) = pre [c] (str_body s)"
  by (auto simp: str_body_plain pre_def split: option.splits)

lemma str_body_prefix:
  "\<forall>c\<in>set p. c \<noteq> CHR 0x22 \<and> c \<noteq> CHR 0x5C \<and> \<not> code c < 32 \<Longrightarrow> str_body (p @ x) = pre p (str_body x)"
  by (induction p) (simp_all add: str_body_char)

lemma str_body_escape:
  "simple_escape e \<or> e = CHR ''u'' \<and> hex4 t \<Longrightarrow> str_body (CHR 0x5C # e # t) = pre [CHR 0x5C, e] (str_body t)"
  by (auto simp: str_body.simps(2) pre_def split: option.splits)

lemma str_body_u:
  assumes "hex4 h" "\<forall>y\<in>set h. is_hex y"
  shows "str_body (CHR 0x5C # CHR ''u'' # h @ x) = pre (CHR 0x5C # CHR ''u'' # h) (str_body x)"
proof -
  have "hex4 (h @ x)" using assms(1) by (cases h rule: hex4.cases) auto
  moreover have "str_body (h @ x) = pre h (str_body x)"
    using assms(2) is_hex_plain by (intro str_body_prefix) blast
  ultimately show ?thesis by (simp add: str_body_escape)
qed

lemma hex_val_digit: "n < 16 \<Longrightarrow> hex_val (hex_digit n) = Some n"
  by (auto simp: hex_val_def hex_digit_def Let_def)

lemma is_hex_digit: "n < 16 \<Longrightarrow> is_hex (hex_digit n)"
  by (simp add: is_hex_def hex_val_digit)

lemma json_ascii_escapes:
  "json_ascii CHR 0x5C = [CHR 0x5C, CHR 0x5C]" "json_ascii CHR 0x22 = [CHR 0x5C, CHR 0x22]"
  "json_ascii CHR 0x08 = [CHR 0x5C, CHR ''b'']" "json_ascii CHR 0x0C = [CHR 0x5C, CHR ''f'']"
  "json_ascii CHR 0x0A = [CHR 0x5C, CHR ''n'']" "json_ascii CHR 0x0D = [CHR 0x5C, CHR ''r'']"
  "json_ascii CHR 0x09 = [CHR 0x5C, CHR ''t'']"
  by (simp_all add: json_ascii_def)

lemma simple_escapes:
  "simple_escape CHR 0x5C" "simple_escape CHR 0x22" "simple_escape CHR ''b''" "simple_escape CHR ''f''"
  "simple_escape CHR ''n''" "simple_escape CHR ''r''" "simple_escape CHR ''t''"
  "esc_char CHR 0x5C = CHR 0x5C" "esc_char CHR 0x22 = CHR 0x22" "esc_char CHR ''b'' = CHR 0x08"
  "esc_char CHR ''f'' = CHR 0x0C" "esc_char CHR ''n'' = CHR 0x0A" "esc_char CHR ''r'' = CHR 0x0D"
  "esc_char CHR ''t'' = CHR 0x09"
  by (simp_all add: simple_escape_def esc_char_def)

text \<open>The three ways an ASCII character is written.\<close>

lemma json_ascii_cases:
  obtains (plain) "json_ascii c = [c]" "c \<noteq> CHR 0x22" "c \<noteq> CHR 0x5C" "\<not> code c < 32"
  | (escape) e where "json_ascii c = [CHR 0x5C, e]" "simple_escape e" "e \<noteq> CHR ''u''" "esc_char e = c"
  | (unicode) "json_ascii c =
      CHR 0x5C # CHR ''u'' # [CHR ''0'', CHR ''0'', hex_digit (code c div 16), hex_digit (code c mod 16)]"
proof -
  define E where "E = (c \<in> {CHR 0x5C, CHR 0x22, CHR 0x08, CHR 0x0C, CHR 0x0A, CHR 0x0D, CHR 0x09})"
  define P where "P = (code c < 32 \<or> c = CHR ''<'' \<or> c = CHR ''>'' \<or> c = CHR ''&'')"
  consider E | "\<not> E" P | "\<not> E" "\<not> P" by blast
  then show thesis
  proof cases
    case 1
    then have "\<exists>e. json_ascii c = [CHR 0x5C, e] \<and> simple_escape e \<and> e \<noteq> CHR ''u'' \<and> esc_char e = c"
      unfolding E_def insert_iff empty_iff
      by (elim disjE) (simp_all only: json_ascii_escapes simple_escapes list.inject char.inject, simp_all add: simple_escapes)
    then show thesis using escape by blast
  next
    case 2
    then show thesis unfolding E_def P_def by (intro unicode) (simp add: json_ascii_def)
  next
    case 3
    then show thesis unfolding E_def P_def by (intro plain) (simp_all add: json_ascii_def)
  qed
qed

lemma str_body_json_ascii: "str_body (json_ascii c @ x) = pre (json_ascii c) (str_body x)"
proof (cases c rule: json_ascii_cases)
  case plain
  then show ?thesis by (simp add: str_body_char)
next
  case (escape e)
  then show ?thesis by (simp add: str_body_escape)
next
  case unicode
  have "is_hex CHR ''0''" by (simp add: is_hex_def hex_val_def)
  then show ?thesis
    using str_body_u [of "[CHR ''0'', CHR ''0'', hex_digit (code c div 16), hex_digit (code c mod 16)]" x]
    by (simp add: unicode is_hex_digit code_div)
qed

lemma utf8_take:
  assumes "utf8_len s = n" "0 < n"
  shows "utf8_len (take n s @ r) = n \<and> n \<le> length s \<and> (128 \<le> code (hd s) \<longrightarrow> (\<forall>c\<in>set (take n s). 128 \<le> code c))"
proof -
  consider a t where "s = a # t" "code a < 128" "n = 1"
    | a b t where "s = a # b # t" "n = 2" "\<not> code a < 128" "utf8_2 a b"
    | a b c t where "s = a # b # c # t" "n = 3" "\<not> code a < 128" "\<not> utf8_2 a b" "utf8_3 a b c"
    | a b c d t where "s = a # b # c # d # t" "n = 4" "\<not> code a < 128" "\<not> utf8_2 a b" "\<not> utf8_3 a b c" "utf8_4 a b c d"
    using assms by (auto simp: utf8_len_def split: list.splits if_splits)
  then show ?thesis
    by cases (auto simp: utf8_len_def utf8_2_def utf8_3_def utf8_4_def cont_def)
qed

lemma str_body_json_rune:
  assumes "128 \<le> code (hd s)" "utf8_len s \<noteq> 0"
  shows "str_body (json_rune (take (utf8_len s) s) @ x) = pre (json_rune (take (utf8_len s) s)) (str_body x)"
proof -
  have "\<forall>c\<in>set (take (utf8_len s) s). c \<noteq> CHR 0x22 \<and> c \<noteq> CHR 0x5C \<and> \<not> code c < 32"
    using utf8_take [OF refl, of s] assms by fastforce
  then show ?thesis
    using str_body_prefix str_body_u [of "''2028''"] str_body_u [of "''2029''"]
    by (simp add: json_rune_def is_hex_def hex_val_def)
qed

lemma json_chars_Nil [simp]: "json_chars [] = []"
  by (simp add: json_chars.simps)

lemma str_body_json_chars: "str_body (json_chars s @ CHR 0x22 # r) = Some (json_chars s @ [CHR 0x22], r)"
proof (induction s rule: json_chars.induct)
  case (1 s)
  show ?case
  proof (cases s)
    case Nil
    then show ?thesis by (simp add: str_body.simps(2))
  next
    case (Cons c t)
    consider "code c < 128" | "\<not> code c < 128" "utf8_len s = 0" | "\<not> code c < 128" "utf8_len s \<noteq> 0" by blast
    then show ?thesis
    proof cases
      case 1
      then show ?thesis using "1.IH"(1) [OF Cons] Cons
        by (simp add: json_chars.simps [of "c # t"] str_body_json_ascii)
    next
      case 2
      then show ?thesis using "1.IH"(2) [OF Cons] Cons str_body_u [of "''fffd''"]
        by (simp add: json_chars.simps [of "c # t"] is_hex_def hex_val_def)
    next
      case 3
      then show ?thesis using "1.IH"(3) [OF Cons] Cons str_body_json_rune [of s]
        by (simp add: json_chars.simps [of "c # t"])
    qed
  qed
qed

lemma unquote_Nil [simp]: "unquote [] = []"
  by (simp add: unquote.simps)

lemma unquote_json_ascii: "code c < 128 \<Longrightarrow> unquote (json_ascii c @ x) = c # unquote x"
proof (cases c rule: json_ascii_cases)
  case plain
  assume "code c < 128"
  then show ?thesis using plain by (simp add: unquote.simps [of "c # x"])
next
  case (escape e)
  then show ?thesis by (simp add: unquote.simps [of "CHR 0x5C # e # x"])
next
  case unicode
  assume c: "code c < 128"
  have "getu4 (CHR ''0'' # CHR ''0'' # hex_digit (code c div 16) # hex_digit (code c mod 16) # x) = Some (code c)"
    by (simp add: hex_val_digit code_div hex_val_def [of "CHR ''0''"])
  then have "u_escape (CHR ''0'' # CHR ''0'' # hex_digit (code c div 16) # hex_digit (code c mod 16) # x) = Some ([c], x)"
    using c by (simp add: u_escape_def encodeRune_def del: getu4.simps)
  then show ?thesis using unicode by (simp add: unquote.simps [of "CHR 0x5C # z" for z])
qed

lemma char_of_code_eq: "n = code c \<Longrightarrow> char_of n = c"
  by simp

lemma unquote_json_rune:
  assumes "128 \<le> code (hd s)" "utf8_len s \<noteq> 0"
  shows "unquote (json_rune (take (utf8_len s) s) @ x) = take (utf8_len s) s @ unquote x"
proof -
  have l: "utf8_len (take (utf8_len s) s @ x) = utf8_len s" "utf8_len s \<le> length s"
    using utf8_take [OF refl, of s] assms by auto
  then have len: "length (take (utf8_len s) s) = utf8_len s" by simp
  obtain c t where t: "take (utf8_len s) s = c # t" "128 \<le> code c"
    using assms by (cases s; cases "utf8_len s") (auto simp: utf8_len_def [of "[]"])
  moreover have "c \<noteq> CHR 0x5C" using t(2) by auto
  moreover have "utf8_len (c # t @ x) = length (c # t)" using l(1) len t(1) by simp
  ultimately have "unquote (take (utf8_len s) s @ x) = take (utf8_len s) s @ unquote x"
    by (simp add: unquote.simps [of "c # t @ x"])
  moreover have "char_of (226 :: nat) = CHR 0xE2" "char_of (128 :: nat) = CHR 0x80" "char_of (168 :: nat) = CHR 0xA8"
    "char_of (169 :: nat) = CHR 0xA9" by (rule char_of_code_eq, simp)+
  then have "unquote (CHR 0x5C # ''u2028'' @ x) = [CHR 0xE2, CHR 0x80, CHR 0xA8] @ unquote x"
    "unquote (CHR 0x5C # ''u2029'' @ x) = [CHR 0xE2, CHR 0x80, CHR 0xA9] @ unquote x"
    by (simp_all add: unquote.simps [of "CHR 0x5C # z" for z] u_escape_def hex_val_def encodeRune_def)
  ultimately show ?thesis by (simp add: json_rune_def)
qed

lemma unquote_json_chars: "valid_utf8 s \<Longrightarrow> unquote (json_chars s) = s"
proof (induction s rule: json_chars.induct)
  case (1 s)
  show ?case
  proof (cases s)
    case Nil
    then show ?thesis by (simp add: json_chars.simps [of "c # t"] unquote.simps)
  next
    case (Cons c t)
    have v: "utf8_len s \<noteq> 0" "valid_utf8 (drop (utf8_len s) s)"
      using "1.prems" Cons by (simp_all add: valid_utf8.simps [of "c # t"] split: if_splits)
    show ?thesis
    proof (cases "code c < 128")
      case True
      then have "utf8_len s = 1" by (simp add: utf8_len_def Cons)
      then show ?thesis using "1.IH"(1) [OF Cons True] v True Cons
        by (simp add: json_chars.simps [of "c # t"] unquote_json_ascii)
    next
      case False
      then show ?thesis using "1.IH"(3) [OF Cons False v] v Cons
        by (simp add: json_chars.simps [of "c # t"] unquote_json_rune)
    qed
  qed
qed

lemma json_string_token: "\<exists>b. json_string s = CHR 0x22 # b \<and> str_body b = Some (b, [])"
  using str_body_json_chars [of s "[]"] by (simp add: json_string_def)

lemma str_val_json_string: "valid_utf8 s \<Longrightarrow> str_val (json_string s) = s"
  by (simp add: str_val_def json_string_def unquote_json_chars)

text \<open>
  A Go-quoted string is a JSON string with the same contents as long as only printable ASCII
  is quoted.
\<close>

definition printable :: "bytes \<Rightarrow> bool" where
  "printable s = list_all (\<lambda>c. 32 \<le> code c \<and> code c < 127) s"

lemma quote_chars_Nil [simp]: "quote_chars p [] = []"
  by (simp add: quote_chars.simps)

lemma quote_printable_char:
  "32 \<le> code c \<Longrightarrow> code c < 127 \<Longrightarrow>
   str_body (quote_ascii c @ x) = pre (quote_ascii c) (str_body x) \<and> unquote (quote_ascii c @ x) = c # unquote x"
  by (auto simp: quote_ascii_def str_body_char str_body_escape simple_escapes unquote.simps [of "z # y" for z y])

lemma quote_printable:
  "printable s \<Longrightarrow> str_body (quote_chars p s @ CHR 0x22 # r) = Some (quote_chars p s @ [CHR 0x22], r) \<and>
     unquote (quote_chars p s) = s"
proof (induction s)
  case Nil
  then show ?case by (simp add: str_body.simps(2))
next
  case (Cons c s)
  then have c: "32 \<le> code c" "code c < 127" by (simp_all add: printable_def)
  have "quote_chars p (c # s) = quote_ascii c @ quote_chars p s"
    using c by (simp add: quote_chars.simps [of p "c # s"])
  then show ?case using Cons quote_printable_char [OF c] by (simp add: printable_def)
qed

lemma quote_printable_token:
  "printable s \<Longrightarrow> (\<exists>b. quote p s = CHR 0x22 # b \<and> str_body b = Some (b, [])) \<and> str_val (quote p s) = s"
  using quote_printable [of s p "[]"] by (simp add: quote_def str_val_def)


lemma b64_encode_ascii: "list_all (\<lambda>c. code c < 128) (b64_encode s)"
proof -
  have c: "code (b64_char n) < 128" if "n < 64" for n using that by (auto simp: b64_char_def)
  show ?thesis
    by (induction s rule: b64_encode.induct) (simp_all add: c b64_bits)
qed

lemma ascii_valid_utf8: "list_all (\<lambda>c. code c < 128) s \<Longrightarrow> valid_utf8 s"
  by (induction s) (auto simp: valid_utf8.simps [of "c # s" for c s] valid_utf8.simps [of "[]"] utf8_len_def)

end
