(* ===== verification/Unmarshal.thy ===== *)
theory Unmarshal
  imports Encoding
begin

text \<open>
  \<^verbatim>\<open>json.Unmarshal\<close> into Go structs. A decoder takes a syntax tree and the value the
  target holds so far, and gives the new value with a status: a value of the wrong kind leaves
  the target as it is, is remembered as an error and decoding goes on; an error of a custom
  \<^verbatim>\<open>UnmarshalJSON\<close> aborts. Struct fields are found by their exact name first and then
  without regard to case; a repeated field decodes again into what is there.
\<close>

section \<open>Error messages\<close>

text \<open>
  The message of an error, as the program puts it together: literal text, a string the
  \<^verbatim>\<open>%q\<close> verb quotes, or the message \<^verbatim>\<open>encoding/json\<close> has for an input it refuses (given
  with the operation that refused it). Only the last depends on wording inside the library, so
  \<open>message_text\<close> takes it, and the table of printable characters, as arguments.
\<close>

datatype frag = Lit string | Quoted string | JSONError string bytes

type_synonym message = "frag list"

fun frag_text :: "(nat \<Rightarrow> bool) \<Rightarrow> (string \<Rightarrow> bytes \<Rightarrow> string) \<Rightarrow> frag \<Rightarrow> string" where
  "frag_text isPrint wording (Lit s) = s"
| "frag_text isPrint wording (Quoted s) = quote isPrint s"
| "frag_text isPrint wording (JSONError op s) = wording op s"

definition message_text :: "(nat \<Rightarrow> bool) \<Rightarrow> (string \<Rightarrow> bytes \<Rightarrow> string) \<Rightarrow> message \<Rightarrow> string" where
  "message_text isPrint wording m = concat (map (frag_text isPrint wording) m)"

section \<open>Statuses\<close>

datatype status = DecOk | DecSaved | DecAbort

definition seq_status :: "status \<Rightarrow> status \<Rightarrow> status" where
  "seq_status st st' = (if st = DecOk then st' else if st' = DecAbort then DecAbort else st)"

type_synonym 'a decoder = "json \<Rightarrow> 'a \<Rightarrow> 'a \<times> status"

section \<open>Field names\<close>

text \<open>
  \<^verbatim>\<open>foldName\<close>: ASCII letters to upper case, U+212A to K and U+017F to S. Other characters fold
  to characters beyond ASCII, which no field name of the program holds.
\<close>

function foldName :: "string \<Rightarrow> string" where
  "foldName s =
     (if s = [] then []
      else if hasPrefix s [CHR 0xE2, CHR 0x84, CHR 0xAA] then CHR ''K'' # foldName (drop 3 s)
      else if hasPrefix s [CHR 0xC5, CHR 0xBF] then CHR ''S'' # foldName (drop 2 s)
      else upper_char (hd s) # foldName (tl s))"
  by pat_completeness auto
termination
  by (relation "measure length") auto

declare foldName.simps [simp del]

definition find_field :: "(string \<times> 'f) list \<Rightarrow> string \<Rightarrow> 'f option" where
  "find_field fields key =
     (case map_of fields key of Some f \<Rightarrow> Some f
      | None \<Rightarrow> map_of (map (map_prod foldName id) fields) (foldName key))"

section \<open>Decoders\<close>

fun dec_members :: "(string \<times> 'a decoder) list \<Rightarrow> (bytes \<times> json) list \<Rightarrow> 'a \<Rightarrow> 'a \<times> status" where
  "dec_members fields [] a = (a, DecOk)"
| "dec_members fields ((k, v) # ms) a =
     (case (case find_field fields (str_val k) of None \<Rightarrow> (a, DecOk) | Some f \<Rightarrow> f v a) of
        (b, DecAbort) \<Rightarrow> (b, DecAbort)
      | (b, st) \<Rightarrow> (case dec_members fields ms b of (c, st') \<Rightarrow> (c, seq_status st st')))"

fun dec_struct :: "(string \<times> 'a decoder) list \<Rightarrow> 'a decoder" where
  "dec_struct fields (JObj r ms) a = dec_members fields ms a"
| "dec_struct fields JNull a = (a, DecOk)"
| "dec_struct fields v a = (a, DecSaved)"

fun dec_string :: "string decoder" where
  "dec_string (JStr r) s = (str_val r, DecOk)"
| "dec_string JNull s = (s, DecOk)"
| "dec_string v s = (s, DecSaved)"

fun dec_int :: "nat \<Rightarrow> int decoder" where
  "dec_int bits (JNum r) i = (case parseInt bits r of None \<Rightarrow> (i, DecSaved) | Some n \<Rightarrow> (n, DecOk))"
| "dec_int bits JNull i = (i, DecOk)"
| "dec_int bits v i = (i, DecSaved)"

text \<open>A pointer: \<^verbatim>\<open>null\<close> makes it \<^verbatim>\<open>nil\<close>, anything else decodes into the old or a new target.\<close>

definition dec_ptr :: "'a \<Rightarrow> 'a decoder \<Rightarrow> 'a option decoder" where
  "dec_ptr zero f v p =
     (if v = JNull then (None, DecOk)
      else (case f v (case p of None \<Rightarrow> zero | Some a \<Rightarrow> a) of (b, st) \<Rightarrow> (Some b, st)))"

text \<open>
  A slice is \<^verbatim>\<open>nil\<close> or the elements of its backing array with its length. Elements are
  decoded into the ones the array holds; those beyond the length stay behind in the array.
\<close>

type_synonym 'a slice = "('a list \<times> nat) option"

definition slice_elems :: "'a slice \<Rightarrow> 'a list" where
  "slice_elems s = (case s of None \<Rightarrow> [] | Some (b, n) \<Rightarrow> take n b)"

fun dec_elems :: "'a \<Rightarrow> 'a decoder \<Rightarrow> json list \<Rightarrow> 'a list \<Rightarrow> 'a list \<times> status" where
  "dec_elems zero f [] b = (b, DecOk)"
| "dec_elems zero f (v # vs) b =
     (case f v (case b of [] \<Rightarrow> zero | x # _ \<Rightarrow> x) of
        (x, DecAbort) \<Rightarrow> (x # tl b, DecAbort)
      | (x, st) \<Rightarrow> (case dec_elems zero f vs (tl b) of (xs, st') \<Rightarrow> (x # xs, seq_status st st')))"

fun dec_slice :: "'a \<Rightarrow> 'a decoder \<Rightarrow> 'a slice decoder" where
  "dec_slice zero f JNull s = (None, DecOk)"
| "dec_slice zero f (JArr r vs) s =
     (if vs = [] then (Some ([], 0), DecOk)
      else (case dec_elems zero f vs (case s of None \<Rightarrow> [] | Some (b, n) \<Rightarrow> b) of
              (b, st) \<Rightarrow> (Some (b, length vs), st)))"
| "dec_slice zero f v s = (s, DecSaved)"

text \<open>A field of a struct, by the getter and setter of the record field.\<close>

definition fld :: "('a \<Rightarrow> 'b) \<Rightarrow> ('b \<Rightarrow> 'a \<Rightarrow> 'a) \<Rightarrow> 'b decoder \<Rightarrow> 'a decoder" where
  "fld get set_to f v a = (case f v (get a) of (b, st) \<Rightarrow> (set_to b a, st))"

text \<open>\<^verbatim>\<open>json.Unmarshal\<close>: the target after the call, and whether it returned \<^verbatim>\<open>nil\<close>.\<close>

definition unmarshal :: "'a decoder \<Rightarrow> bytes \<Rightarrow> 'a \<Rightarrow> 'a \<times> bool" where
  "unmarshal f s a =
     (case json_parse s of None \<Rightarrow> (a, False) | Some v \<Rightarrow> (case f v a of (b, st) \<Rightarrow> (b, st = DecOk)))"

text \<open>\<^verbatim>\<open>json.Unmarshal(raw, &s)\<close> into a fresh string.\<close>

definition unmarshal_string :: "bytes \<Rightarrow> string option" where
  "unmarshal_string s = (case unmarshal dec_string s [] of (v, ok) \<Rightarrow> if ok then Some v else None)"

section \<open>Facts\<close>

lemma dec_elems_length: "length (fst (dec_elems zero f vs b)) \<ge> length vs \<or> snd (dec_elems zero f vs b) = DecAbort"
proof (induction vs arbitrary: b)
  case (Cons v vs)
  show ?case using Cons.IH [of "tl b"]
    by (auto simp: seq_status_def split: prod.splits status.splits)
qed simp

lemma foldName_Nil [simp]: "foldName [] = []"
  by (simp add: foldName.simps)

text \<open>Decoding a fresh slice maps the element decoder over the elements.\<close>

lemma dec_elems_fresh:
  "snd (dec_elems zero f vs []) = DecOk \<Longrightarrow>
   fst (dec_elems zero f vs []) = map (\<lambda>v. fst (f v zero)) vs \<and> (\<forall>v\<in>set vs. snd (f v zero) = DecOk)"
  by (induction vs) (auto simp: seq_status_def split: prod.splits status.splits if_splits)

lemma seq_status_ok: "seq_status st st' = DecOk \<longleftrightarrow> st = DecOk \<and> st' = DecOk"
  by (auto simp: seq_status_def)

end
