(* ===== verification/Paths.thy ===== *)
theory Paths
  imports Encoding
begin

text \<open>
  Request targets: \<^verbatim>\<open>produceTargetFromPath\<close> (\<^verbatim>\<open>internal/api/handler.go\<close>) and
  \<^verbatim>\<open>v3ProduceTargetFromPath\<close> (\<^verbatim>\<open>internal/api/v3.go\<close>) on the escaped path of the
  request, with the parts of \<^verbatim>\<open>net/url\<close> they use.
\<close>

section \<open>Percent encoding\<close>

text \<open>\<^verbatim>\<open>url.PathUnescape\<close>: \<open>None\<close> is a malformed escape.\<close>

fun pathUnescape :: "string \<Rightarrow> string option" where
  "pathUnescape [] = Some []"
| "pathUnescape (c # s) =
     (if c = CHR ''%'' then
        (case s of a # b # t \<Rightarrow>
           (case (hex_val a, hex_val b) of
              (Some x, Some y) \<Rightarrow> map_option ((#) (char_of (16 * x + y))) (pathUnescape t)
            | _ \<Rightarrow> None)
         | _ \<Rightarrow> None)
      else map_option ((#) c) (pathUnescape s))"

definition unreserved :: "char \<Rightarrow> bool" where
  "unreserved c \<longleftrightarrow>
     48 \<le> code c \<and> code c \<le> 57 \<or> 65 \<le> code c \<and> code c \<le> 90 \<or> 97 \<le> code c \<and> code c \<le> 122 \<or>
     c \<in> {CHR ''-'', CHR ''_'', CHR ''.'', CHR ''~''}"

text \<open>\<^verbatim>\<open>shouldEscape\<close> for one path segment.\<close>

definition shouldEscape_segment :: "char \<Rightarrow> bool" where
  "shouldEscape_segment c \<longleftrightarrow>
     \<not> unreserved c \<and> c \<notin> {CHR ''$'', CHR ''&'', CHR ''+'', CHR '':'', CHR ''='', CHR ''@''}"

definition upper_hex :: "nat \<Rightarrow> char" where
  "upper_hex n = (if n < 10 then char_of (48 + n) else char_of (55 + n))"

text \<open>\<^verbatim>\<open>url.PathEscape\<close>.\<close>

fun pathEscape :: "string \<Rightarrow> string" where
  "pathEscape [] = []"
| "pathEscape (c # s) =
     (if shouldEscape_segment c then [CHR ''%'', upper_hex (code c div 16), upper_hex (code c mod 16)] else [c])
     @ pathEscape s"

lemma hex_val_upper: "n < 16 \<Longrightarrow> hex_val (upper_hex n) = Some n"
  by (auto simp: hex_val_def upper_hex_def Let_def)

lemma pathUnescape_pathEscape: "pathUnescape (pathEscape s) = Some s"
proof (induction s)
  case (Cons c s)
  have "c \<noteq> CHR ''%''" if "\<not> shouldEscape_segment c" using that by (auto simp: shouldEscape_segment_def unreserved_def)
  moreover have "char_of (16 * (code c div 16) + code c mod 16) = c" by (simp add: mult.commute)
  ultimately show ?case using Cons by (auto simp: hex_val_upper code_div)
qed simp

lemma slash_not_hex: "n < 16 \<Longrightarrow> CHR ''/'' \<noteq> upper_hex n"
proof -
  assume "n < 16"
  moreover have "hex_val CHR ''/'' = None" by (simp add: hex_val_def)
  ultimately show ?thesis by (metis hex_val_upper option.distinct(1))
qed

lemma pathEscape_no_slash: "CHR ''/'' \<notin> set (pathEscape s)"
  by (induction s) (auto simp: shouldEscape_segment_def unreserved_def code_div slash_not_hex)

lemma pathEscape_Nil_iff [simp]: "pathEscape s = [] \<longleftrightarrow> s = []"
  by (cases s) auto

section \<open>Targets\<close>

record produceTarget =
  tgt_topic :: string
  tgt_partition :: "int option"

definition produceTargetFromPath :: "string \<Rightarrow> produceTarget option" where
  "produceTargetFromPath path =
     (if \<not> hasPrefix path ''/topics/'' \<or> length path = length ''/topics/'' then None
      else
        let segments = go_split (CHR ''/'') (trimPrefix path ''/topics/'')
        in if length segments \<noteq> 1 \<and> length segments \<noteq> 3 then None
           else (case pathUnescape (segments ! 0) of None \<Rightarrow> None
             | Some topic \<Rightarrow>
               if topic = [] then None
               else if length segments = 1 then Some \<lparr>tgt_topic = topic, tgt_partition = None\<rparr>
               else if segments ! 1 \<noteq> ''partitions'' \<or> segments ! 2 = [] then None
               else (case parseInt 32 (segments ! 2) of None \<Rightarrow> None
                 | Some p \<Rightarrow> if p < 0 then None else Some \<lparr>tgt_topic = topic, tgt_partition = Some p\<rparr>)))"

record v3ProduceTarget =
  v3t_clusterID :: string
  v3t_topic :: string
  v3t_batch :: bool

definition v3ProduceTargetFromPath :: "string \<Rightarrow> v3ProduceTarget option" where
  "v3ProduceTargetFromPath path =
     (let segments = go_split (CHR ''/'') (trimPrefix path ''/'')
      in if length segments \<noteq> 6 then None
         else if segments ! 0 \<noteq> ''v3'' \<or> segments ! 1 \<noteq> ''clusters'' \<or> segments ! 3 \<noteq> ''topics'' then None
         else (case pathUnescape (segments ! 2) of None \<Rightarrow> None
           | Some clusterID \<Rightarrow>
             if clusterID = [] then None
             else (case pathUnescape (segments ! 4) of None \<Rightarrow> None
               | Some topic \<Rightarrow>
                 if topic = [] then None
                 else if segments ! 5 = ''records''
                 then Some \<lparr>v3t_clusterID = clusterID, v3t_topic = topic, v3t_batch = False\<rparr>
                 else if segments ! 5 = ''records:batch''
                 then Some \<lparr>v3t_clusterID = clusterID, v3t_topic = topic, v3t_batch = True\<rparr>
                 else None)))"

section \<open>Every topic is addressable\<close>

lemma nat_digits_no_slash: "CHR ''/'' \<notin> set (nat_digits n)"
proof
  assume "CHR ''/'' \<in> set (nat_digits n)"
  then obtain d where "d < 10" "CHR ''/'' = digit_char d" using nat_digits_chars by blast
  moreover have "digit_val CHR ''/'' = None" by (simp add: digit_val_def)
  ultimately show False by (metis digit_val_digit_char option.distinct(1))
qed

lemma produceTarget_topic:
  assumes "topic \<noteq> []"
  shows "produceTargetFromPath (''/topics/'' @ pathEscape topic) = Some \<lparr>tgt_topic = topic, tgt_partition = None\<rparr>"
proof -
  have tp: "trimPrefix (''/topics/'' @ x) ''/topics/'' = x" for x by (rule trimPrefix_append)
  have sp: "go_split (CHR ''/'') (pathEscape topic) = [pathEscape topic]" using pathEscape_no_slash by simp
  have pf: "hasPrefix (''/topics/'' @ x) ''/topics/''" for x by (rule hasPrefix_append)
  show ?thesis
    unfolding produceTargetFromPath_def tp sp using assms pf [of "pathEscape topic"] by (simp add: pathUnescape_pathEscape)
qed

text \<open>A number in 32 bits is read back; a larger one is refused.\<close>

lemma parseInt_32_itoa: "0 \<le> p \<Longrightarrow> parseInt 32 (itoa p) = (if p < 2 ^ 31 then Some p else None)"
proof (cases "p < 2 ^ 31")
  case True
  then show "0 \<le> p \<Longrightarrow> ?thesis" using parseInt_itoa [of 32 p] by simp
next
  case False
  assume "0 \<le> p"
  obtain c cs where c: "nat_digits (nat p) = c # cs" "c \<noteq> CHR ''-''" "c \<noteq> CHR ''+''"
    using hd_nat_digits [of "nat p"] nat_digits_nonempty [of "nat p"] by (metis list.collapse)
  moreover have "parse_digits 0 (c # cs) = Some (nat p)" using parse_nat_digits [of "nat p"] c by simp
  moreover have "2 ^ 31 \<le> nat p" using False by (simp add: le_nat_iff)
  ultimately show ?thesis using False \<open>0 \<le> p\<close> by (simp add: parseInt_def itoa_def Let_def del: parse_digits.simps)
qed

text \<open>
  C19: the v2 produce path. Every topic name, escaped as one path segment, is found again by
  \<open>produceTargetFromPath\<close>, with and without a partition, for every partition number
  of 32 bits that is not negative; slashes and percent signs in the name do no harm. A negative
  partition and one beyond 32 bits are not a target.
\<close>

theorem produceTargetFromPath_roundtrip:
  assumes "topic \<noteq> []" and "0 \<le> p"
  shows "produceTargetFromPath (''/topics/'' @ pathEscape topic) = Some \<lparr>tgt_topic = topic, tgt_partition = None\<rparr> \<and>
    produceTargetFromPath (''/topics/'' @ pathEscape topic @ ''/partitions/'' @ itoa p) =
      (if p < 2 ^ 31 then Some \<lparr>tgt_topic = topic, tgt_partition = Some p\<rparr> else None) \<and>
    produceTargetFromPath (''/topics/'' @ pathEscape topic @ ''/partitions/'' @ itoa (- p - 1)) = None"
proof -
  have tp: "trimPrefix (''/topics/'' @ x) ''/topics/'' = x" for x by (rule trimPrefix_append)
  have sp: "go_split (CHR ''/'') (pathEscape topic @ ''/partitions/'' @ x) = [pathEscape topic, ''partitions'', x]"
    if "CHR ''/'' \<notin> set x" for x
  proof -
    have "go_split (CHR ''/'') (pathEscape topic @ CHR ''/'' # ''partitions'' @ CHR ''/'' # x) =
        [pathEscape topic, ''partitions'', x]"
      using that by (simp add: pathEscape_no_slash)
    then show ?thesis by simp
  qed
  have digits: "CHR ''/'' \<notin> set (itoa i)" for i using nat_digits_no_slash by (simp add: itoa_def)
  have pf: "hasPrefix (''/topics/'' @ x) ''/topics/''" for x by (rule hasPrefix_append)
  have 2: "produceTargetFromPath (''/topics/'' @ pathEscape topic @ ''/partitions/'' @ itoa i) =
      (case parseInt 32 (itoa i) of None \<Rightarrow> None
       | Some q \<Rightarrow> if q < 0 then None else Some \<lparr>tgt_topic = topic, tgt_partition = Some q\<rparr>)" for i
    unfolding produceTargetFromPath_def tp sp [OF digits]
    using assms(1) pf by (simp add: pathUnescape_pathEscape itoa_def del: hasPrefix.simps split: option.split)
  have 4: "(case parseInt 32 (itoa (- p - 1)) of None \<Rightarrow> None
       | Some q \<Rightarrow> if q < 0 then None else Some \<lparr>tgt_topic = topic, tgt_partition = Some q\<rparr>) = None"
    using assms(2) by (auto simp: parseInt_def itoa_def Let_def parse_nat_digits split: option.splits if_splits)
  show ?thesis using produceTarget_topic [OF assms(1)] 2 [of p] 2 [of "- p - 1"] parseInt_32_itoa [OF assms(2)] 4 assms(2) by simp
qed

theorem produceTargetFromPath_roundtrip_witness:
  "produceTargetFromPath (''/topics/'' @ pathEscape ''a/b'') = Some \<lparr>tgt_topic = ''a/b'', tgt_partition = None\<rparr>"
  using produceTargetFromPath_roundtrip [of "''a/b''" 3] by simp



end
