(* ===== verification/Registry.thy ===== *)
theory Registry
  imports Unmarshal Paths
begin

text \<open>
  The schema registry: the request and result types of \<^verbatim>\<open>internal/schema/types.go\<close> and the
  two registries of \<^verbatim>\<open>internal/schema/registry.go\<close>, the one in memory and the HTTP client.
  The server behind the HTTP client is a parameter: a function from its state and a request to
  a response and its next state.
\<close>

section \<open>Types and names\<close>

definition TypeBinary :: string where "TypeBinary = ''BINARY''"
definition TypeJSON :: string where "TypeJSON = ''JSON''"
definition TypeString :: string where "TypeString = ''STRING''"
definition TypeAvro :: string where "TypeAvro = ''AVRO''"
definition TypeJSONSchema :: string where "TypeJSONSchema = ''JSONSCHEMA''"
definition TypeProtobuf :: string where "TypeProtobuf = ''PROTOBUF''"

definition StrategyTopicName :: string where "StrategyTopicName = ''TOPIC_NAME''"
definition StrategyRecordName :: string where "StrategyRecordName = ''RECORD_NAME''"
definition StrategyTopicRecordName :: string where "StrategyTopicRecordName = ''TOPIC_RECORD_NAME''"

lemmas type_defs = TypeBinary_def TypeJSON_def TypeString_def TypeAvro_def TypeJSONSchema_def TypeProtobuf_def

record RequestData =
  rd_Type :: string
  rd_Subject :: string
  rd_SubjectNameStrategy :: string
  rd_SchemaID :: "int option"
  rd_SchemaVersion :: "int option"
  rd_Schema :: string
  rd_Data :: bytes
  rd_DataPresent :: bool

definition zero_RequestData :: RequestData where
  "zero_RequestData =
     \<lparr>rd_Type = [], rd_Subject = [], rd_SubjectNameStrategy = [], rd_SchemaID = None, rd_SchemaVersion = None,
      rd_Schema = [], rd_Data = [], rd_DataPresent = False\<rparr>"

text \<open>
  The custom decoder: the outer \<^verbatim>\<open>data\<close> field, a raw message, shadows the one of the alias.
  A type error inside is an error of \<^verbatim>\<open>UnmarshalJSON\<close> and aborts the decoding around it.
\<close>

definition RequestData_fields :: "(string \<times> RequestData decoder) list" where
  "RequestData_fields =
     [(''type'', fld rd_Type (\<lambda>x d. d\<lparr>rd_Type := x\<rparr>) dec_string),
      (''subject'', fld rd_Subject (\<lambda>x d. d\<lparr>rd_Subject := x\<rparr>) dec_string),
      (''subject_name_strategy'', fld rd_SubjectNameStrategy (\<lambda>x d. d\<lparr>rd_SubjectNameStrategy := x\<rparr>) dec_string),
      (''schema_id'', fld rd_SchemaID (\<lambda>x d. d\<lparr>rd_SchemaID := x\<rparr>) (dec_ptr 0 (dec_int 64))),
      (''schema_version'', fld rd_SchemaVersion (\<lambda>x d. d\<lparr>rd_SchemaVersion := x\<rparr>) (dec_ptr 0 (dec_int 64))),
      (''schema'', fld rd_Schema (\<lambda>x d. d\<lparr>rd_Schema := x\<rparr>) dec_string),
      (''data'', (\<lambda>v d. (d\<lparr>rd_Data := raw v, rd_DataPresent := True\<rparr>, DecOk)))]"

definition RequestData_UnmarshalJSON :: "RequestData decoder" where
  "RequestData_UnmarshalJSON v d =
     (case unmarshal (dec_struct RequestData_fields) (raw v) zero_RequestData of
        (r, ok) \<Rightarrow> if ok then (r, DecOk) else (d, DecAbort))"

definition NormalizedType :: "RequestData \<Rightarrow> string" where
  "NormalizedType d = toUpper (trimSpace (rd_Type d))"

definition IsSchemaAware :: "RequestData \<Rightarrow> bool" where
  "IsSchemaAware d =
     (let t = NormalizedType d in
      t = TypeAvro \<or> t = TypeJSONSchema \<or> t = TypeProtobuf \<or> rd_Schema d \<noteq> [] \<or>
      rd_SchemaID d \<noteq> None \<or> rd_SchemaVersion d \<noteq> None)"

record Metadata =
  md_Type :: string
  md_Size :: int
  md_Subject :: string
  md_SchemaID :: "int option"
  md_SchemaVersion :: "int option"

definition zero_Metadata :: Metadata where
  "zero_Metadata = \<lparr>md_Type = [], md_Size = 0, md_Subject = [], md_SchemaID = None, md_SchemaVersion = None\<rparr>"

record ResolveRequest =
  rq_Subject :: string
  rq_Type :: string
  rq_SchemaID :: "int option"
  rq_SchemaVersion :: "int option"
  rq_Schema :: string

record Resolved =
  rv_Subject :: string
  rv_Type :: string
  rv_SchemaID :: int
  rv_SchemaVersion :: "int option"
  rv_Schema :: string

definition normalizeSchemaType :: "string \<Rightarrow> string" where
  "normalizeSchemaType typ =
     (let t = toUpper (trimSpace typ) in
      if t = TypeJSONSchema \<or> t = ''JSON_SCHEMA'' \<or> t = ''JSON'' then TypeJSONSchema
      else if t = TypeProtobuf \<or> t = ''PROTO'' then TypeProtobuf
      else if t = TypeAvro \<or> t = [] then TypeAvro
      else t)"

definition normalizeRegistrySchemaType :: "string \<Rightarrow> string" where
  "normalizeRegistrySchemaType typ =
     (let t = toUpper (trimSpace typ) in
      if t = ''JSON'' then TypeJSONSchema
      else if t = ''PROTOBUF'' then TypeProtobuf
      else if t = ''AVRO'' \<or> t = [] then TypeAvro
      else t)"

definition registrySchemaType :: "string \<Rightarrow> string" where
  "registrySchemaType typ =
     (let t = normalizeSchemaType typ in
      if t = TypeJSONSchema then ''JSON''
      else if t = TypeProtobuf then ''PROTOBUF''
      else if t = TypeAvro then ''AVRO''
      else [])"

fun firstNonEmpty :: "string list \<Rightarrow> string" where
  "firstNonEmpty [] = []"
| "firstNonEmpty (v # vs) = (if trimSpace v \<noteq> [] then v else firstNonEmpty vs)"

section \<open>The registry in memory\<close>

record MemoryRegistry =
  mr_nextID :: int
  mr_byID :: "int \<rightharpoonup> Resolved"
  mr_versions :: "string \<Rightarrow> Resolved list"

definition NewMemoryRegistry :: MemoryRegistry where
  "NewMemoryRegistry = \<lparr>mr_nextID = 1, mr_byID = Map.empty, mr_versions = (\<lambda>_. [])\<rparr>"

definition Memory_Resolve :: "MemoryRegistry \<Rightarrow> ResolveRequest \<Rightarrow> (message + Resolved) \<times> MemoryRegistry" where
  "Memory_Resolve r0 req =
     (let r = (if mr_nextID r0 = 0 then r0\<lparr>mr_nextID := 1\<rparr> else r0);
          vs = mr_versions r (rq_Subject req)
      in case rq_SchemaID req of
        Some i \<Rightarrow>
          (case mr_byID r i of
             None \<Rightarrow> (Err [Lit ''schema id '', Lit (itoa i), Lit '' not found''], r)
           | Some res \<Rightarrow>
             (Ok (if rq_Subject req \<noteq> [] then res\<lparr>rv_Subject := rq_Subject req\<rparr> else res), r))
      | None \<Rightarrow>
        if rq_Subject req = [] then (Err [Lit ''schema subject is required''], r)
        else (case rq_SchemaVersion req of
          Some v \<Rightarrow>
            (let idx = wrap64 (v - 1) in
             if idx < 0 \<or> int (length vs) \<le> idx
             then (Err [Lit ''schema subject '', Quoted (rq_Subject req), Lit '' version '', Lit (itoa v), Lit '' not found''], r)
             else (Ok (vs ! nat idx), r))
        | None \<Rightarrow>
          if rq_Schema req \<noteq> [] then
            (let version = int (length vs) + 1; i = mr_nextID r;
                 res = \<lparr>rv_Subject = rq_Subject req, rv_Type = normalizeSchemaType (rq_Type req), rv_SchemaID = i,
                        rv_SchemaVersion = Some version, rv_Schema = rq_Schema req\<rparr>
             in (Ok res, r\<lparr>mr_nextID := wrap64 (i + 1), mr_byID := (mr_byID r)(i \<mapsto> res),
                           mr_versions := (mr_versions r)(rq_Subject req := vs @ [res])\<rparr>))
          else if vs = [] then (Err [Lit ''schema subject '', Quoted (rq_Subject req), Lit '' not found''], r)
          else (Ok (last vs), r)))"

section \<open>The HTTP registry\<close>

text \<open>
  A request as it goes over the wire: the path is the escaped one. A response is its status
  code, its status line and its body; a transport error carries its text.
\<close>

record http_request =
  hq_method :: string
  hq_path :: string
  hq_body :: "(string \<times> string) list option"
  hq_auth :: "(string \<times> string) option"

record http_response =
  hs_status :: int
  hs_line :: string
  hs_body :: bytes

record HTTPRegistry =
  hr_path :: string \<comment> \<open>the path of the base URL\<close>
  hr_username :: string
  hr_password :: string

type_synonym 'st http_server = "'st \<Rightarrow> http_request \<Rightarrow> (string + http_response) \<times> 'st"

text \<open>
  \<^verbatim>\<open>path.Join(base, suffix)\<close> on two parts: joined with a slash and cleaned. \<open>clean_segments\<close>
  drops empty and dot segments and resolves a double dot against what precedes it; for a rooted
  path a double dot at the root disappears.
\<close>

fun clean_segments :: "string list \<Rightarrow> string list \<Rightarrow> string list" where
  "clean_segments acc [] = rev acc"
| "clean_segments acc (p # ps) =
     (if p = [] \<or> p = ''.'' then clean_segments acc ps
      else if p = ''..'' then clean_segments (tl acc) ps
      else clean_segments (p # acc) ps)"

definition path_Join :: "string \<Rightarrow> string \<Rightarrow> string" where
  "path_Join base suffix = CHR ''/'' # go_join ''/'' (clean_segments [] (go_split (CHR ''/'') (base @ ''/'' @ suffix)))"

text \<open>\<^verbatim>\<open>URL.String\<close> escapes the path as a whole.\<close>

definition shouldEscape_path :: "char \<Rightarrow> bool" where
  "shouldEscape_path c \<longleftrightarrow>
     \<not> unreserved c \<and>
     c \<notin> {CHR ''$'', CHR ''&'', CHR ''+'', CHR '','', CHR ''/'', CHR '':'', CHR '';'', CHR ''='', CHR ''@''}"

fun escape_path :: "string \<Rightarrow> string" where
  "escape_path [] = []"
| "escape_path (c # s) =
     (if shouldEscape_path c then [CHR ''%'', upper_hex (code c div 16), upper_hex (code c mod 16)] else [c])
     @ escape_path s"

text \<open>The decoder of the error document; what it could not decode is ignored.\<close>

record registry_error =
  re_ErrorCode :: int
  re_Message :: string

definition registry_error_fields :: "(string \<times> registry_error decoder) list" where
  "registry_error_fields =
     [(''error_code'', fld re_ErrorCode (\<lambda>x e. e\<lparr>re_ErrorCode := x\<rparr>) (dec_int 64)),
      (''message'', fld re_Message (\<lambda>x e. e\<lparr>re_Message := x\<rparr>) dec_string)]"

text \<open>
  One \<^verbatim>\<open>Decode\<close> of a \<^verbatim>\<open>json.Decoder\<close> on a whole body: the first value counts, what
  follows it is not read.
\<close>

definition json_first :: "bytes \<Rightarrow> (json \<times> bytes) option" where
  "json_first s = parse_value (json_fuel (skip_ws s)) 0 (skip_ws s)"

definition decode_first :: "'a decoder \<Rightarrow> bytes \<Rightarrow> 'a \<Rightarrow> 'a \<times> bool" where
  "decode_first f s a =
     (case json_first s of None \<Rightarrow> (a, False)
      | Some (v, r) \<Rightarrow> (case f v a of (b, st) \<Rightarrow> (b, st = DecOk)))"

definition doJSON ::
  "'st http_server \<Rightarrow> HTTPRegistry \<Rightarrow> string \<Rightarrow> string \<Rightarrow> (string \<times> string) list option \<Rightarrow> 'a decoder \<Rightarrow> 'a \<Rightarrow> 'st \<Rightarrow>
     (message + 'a) \<times> 'st" where
  "doJSON server r method suffix body out zero st =
     (let req = \<lparr>hq_method = method, hq_path = escape_path (path_Join (hr_path r) suffix), hq_body = body,
                 hq_auth = (if hr_username r \<noteq> [] \<or> hr_password r \<noteq> []
                            then Some (hr_username r, hr_password r) else None)\<rparr>
      in case server st req of
        (Err e, st') \<Rightarrow> (Err [Lit e], st')
      | (Ok resp, st') \<Rightarrow>
        if hs_status resp < 200 \<or> 299 < hs_status resp then
          (let er = fst (decode_first (dec_struct registry_error_fields) (hs_body resp)
                           \<lparr>re_ErrorCode = 0, re_Message = []\<rparr>);
               m = (if re_Message er = [] then hs_line resp else re_Message er)
           in (Err [Lit ''schema registry '', Lit method, Lit '' '', Lit suffix, Lit '': '', Lit m], st'))
        else (case decode_first out (hs_body resp) zero of
                (a, ok) \<Rightarrow> if ok then (Ok a, st') else (Err [JSONError ''schema registry response'' (hs_body resp)], st')))"

record registry_reply =
  rp_Subject :: string
  rp_ID :: int
  rp_Version :: int
  rp_Schema :: string
  rp_SchemaType :: string

definition zero_reply :: registry_reply where
  "zero_reply = \<lparr>rp_Subject = [], rp_ID = 0, rp_Version = 0, rp_Schema = [], rp_SchemaType = []\<rparr>"

definition reply_subject :: "string \<times> registry_reply decoder" where
  "reply_subject = (''subject'', fld rp_Subject (\<lambda>x e. e\<lparr>rp_Subject := x\<rparr>) dec_string)"
definition reply_id :: "string \<times> registry_reply decoder" where
  "reply_id = (''id'', fld rp_ID (\<lambda>x e. e\<lparr>rp_ID := x\<rparr>) (dec_int 64))"
definition reply_version :: "string \<times> registry_reply decoder" where
  "reply_version = (''version'', fld rp_Version (\<lambda>x e. e\<lparr>rp_Version := x\<rparr>) (dec_int 64))"
definition reply_schema :: "string \<times> registry_reply decoder" where
  "reply_schema = (''schema'', fld rp_Schema (\<lambda>x e. e\<lparr>rp_Schema := x\<rparr>) dec_string)"
definition reply_schemaType :: "string \<times> registry_reply decoder" where
  "reply_schemaType = (''schemaType'', fld rp_SchemaType (\<lambda>x e. e\<lparr>rp_SchemaType := x\<rparr>) dec_string)"

definition register_schema ::
  "'st http_server \<Rightarrow> HTTPRegistry \<Rightarrow> ResolveRequest \<Rightarrow> 'st \<Rightarrow> (message + Resolved) \<times> 'st" where
  "register_schema server r req st =
     (let t = registrySchemaType (rq_Type req);
          body = (''schema'', rq_Schema req) # (if t \<noteq> [] then [(''schemaType'', t)] else [])
      in case doJSON server r ''POST'' (''/subjects/'' @ pathEscape (rq_Subject req) @ ''/versions'') (Some body)
                (dec_struct [reply_id]) zero_reply st of
           (Err e, st') \<Rightarrow> (Err e, st')
         | (Ok resp, st') \<Rightarrow>
           (Ok \<lparr>rv_Subject = rq_Subject req, rv_Type = normalizeSchemaType (rq_Type req), rv_SchemaID = rp_ID resp,
                rv_SchemaVersion = None, rv_Schema = rq_Schema req\<rparr>, st'))"

definition getSubjectVersion ::
  "'st http_server \<Rightarrow> HTTPRegistry \<Rightarrow> string \<Rightarrow> string \<Rightarrow> 'st \<Rightarrow> (message + Resolved) \<times> 'st" where
  "getSubjectVersion server r subject version st =
     (case doJSON server r ''GET'' (''/subjects/'' @ pathEscape subject @ ''/versions/'' @ pathEscape version) None
             (dec_struct [reply_subject, reply_id, reply_version, reply_schema, reply_schemaType]) zero_reply st of
        (Err e, st') \<Rightarrow> (Err e, st')
      | (Ok resp, st') \<Rightarrow>
        (Ok \<lparr>rv_Subject = firstNonEmpty [rp_Subject resp, subject],
             rv_Type = normalizeRegistrySchemaType (rp_SchemaType resp), rv_SchemaID = rp_ID resp,
             rv_SchemaVersion = Some (rp_Version resp), rv_Schema = rp_Schema resp\<rparr>, st'))"

definition getSchemaByID ::
  "'st http_server \<Rightarrow> HTTPRegistry \<Rightarrow> int \<Rightarrow> string \<Rightarrow> string \<Rightarrow> 'st \<Rightarrow> (message + Resolved) \<times> 'st" where
  "getSchemaByID server r i typ subject st =
     (case doJSON server r ''GET'' (''/schemas/ids/'' @ itoa i) None
             (dec_struct [reply_schema, reply_schemaType]) zero_reply st of
        (Err e, st') \<Rightarrow> (Err e, st')
      | (Ok resp, st') \<Rightarrow>
        (Ok \<lparr>rv_Subject = subject,
             rv_Type = firstNonEmpty [normalizeRegistrySchemaType (rp_SchemaType resp), normalizeSchemaType typ],
             rv_SchemaID = i, rv_SchemaVersion = None, rv_Schema = rp_Schema resp\<rparr>, st'))"

text \<open>\<^verbatim>\<open>(*HTTPRegistry).Resolve\<close>; \<open>None\<close> is the \<^verbatim>\<open>nil\<close> registry.\<close>

definition HTTP_Resolve ::
  "'st http_server \<Rightarrow> HTTPRegistry option \<Rightarrow> 'st \<Rightarrow> ResolveRequest \<Rightarrow> (message + Resolved) \<times> 'st" where
  "HTTP_Resolve server reg st req =
     (case reg of None \<Rightarrow> (Err [Lit ''schema registry is not configured''], st)
      | Some r \<Rightarrow>
        if trimSpace (rq_Subject req) = [] \<and> rq_SchemaID req = None
        then (Err [Lit ''schema subject is required''], st)
        else if trimSpace (rq_Schema req) \<noteq> [] then register_schema server r req st
        else (case rq_SchemaVersion req of
          Some v \<Rightarrow> getSubjectVersion server r (rq_Subject req) (itoa v) st
        | None \<Rightarrow>
          (case rq_SchemaID req of
             Some i \<Rightarrow> getSchemaByID server r i (rq_Type req) (rq_Subject req) st
           | None \<Rightarrow> getSubjectVersion server r (rq_Subject req) ''latest'' st)))"

text \<open>
  \<^verbatim>\<open>NewHTTPRegistry\<close>: a blank URL means no registry, one without scheme or host is refused.
  \<open>parse\<close> is \<^verbatim>\<open>url.Parse\<close>, giving an error or the scheme, the host and the path.
\<close>

definition NewHTTPRegistry ::
  "(string \<Rightarrow> string + string \<times> string \<times> string) \<Rightarrow> string \<Rightarrow> string \<Rightarrow> string \<Rightarrow> message + HTTPRegistry option" where
  "NewHTTPRegistry parse rawURL0 username password =
     (let rawURL = trimSpace rawURL0 in
      if rawURL = [] then Ok None
      else (case parse rawURL of Err e \<Rightarrow> Err [Lit e]
        | Ok (scheme, host, path) \<Rightarrow>
          if scheme = [] \<or> host = [] then Err [Lit ''schema registry URL must include scheme and host'']
          else Ok (Some \<lparr>hr_path = path, hr_username = username, hr_password = password\<rparr>)))"

end
