(* ===== verification/Encoder.thy ===== *)
theory Encoder
  imports Registry "HOL-Library.Word"
begin

text \<open>
  The payload encoder of \<^verbatim>\<open>internal/schema/encoder.go\<close>: binary, string and JSON payloads, the
  schema-aware ones with their registry lookup, the Confluent wire format and the subject names.
  The registry is a parameter with its state; the Avro, JSON-Schema and Protobuf libraries are
  the fields of the record \<open>codecs\<close>, each call the source makes of them one function.
\<close>

section \<open>Library calls\<close>

text \<open>A message descriptor and the messages nested in it.\<close>

datatype 'd message_desc = Desc (desc_of: 'd) (nested: "'d message_desc list")

record ('c, 'n, 'k, 's, 'i, 'd, 'm) codecs =
  goavro_NewCodec :: "string \<Rightarrow> string + 'c"
  goavro_NativeFromTextual :: "'c \<Rightarrow> bytes \<Rightarrow> string + 'n"
  goavro_BinaryFromNative :: "'c \<Rightarrow> 'n \<Rightarrow> string + bytes"
  jsonschema_AddResource :: "json \<Rightarrow> string + 'k"
  jsonschema_Compile :: "'k \<Rightarrow> string + 's"
  jsonschema_UnmarshalJSON :: "bytes \<Rightarrow> string + 'i"
  jsonschema_Validate :: "'s \<Rightarrow> 'i \<Rightarrow> string option"
  protocompile_Compile :: "string \<Rightarrow> string + 'd message_desc list list" \<comment> \<open>per file, its messages\<close>
  protojson_Unmarshal :: "'d \<Rightarrow> bytes \<Rightarrow> string + 'm"
  proto_Marshal :: "'m \<Rightarrow> string + bytes"

definition encodeAvro :: "('c, 'n, 'k, 's, 'i, 'd, 'm) codecs \<Rightarrow> string \<Rightarrow> bytes \<Rightarrow> message + bytes" where
  "encodeAvro cs schemaText rawData =
     (case goavro_NewCodec cs schemaText of Err e \<Rightarrow> Err [Lit e]
      | Ok codec \<Rightarrow> (case goavro_NativeFromTextual cs codec rawData of Err e \<Rightarrow> Err [Lit e]
        | Ok native \<Rightarrow> (case goavro_BinaryFromNative cs codec native of Err e \<Rightarrow> Err [Lit e] | Ok b \<Rightarrow> Ok b)))"

definition encodeJSONSchema :: "('c, 'n, 'k, 's, 'i, 'd, 'm) codecs \<Rightarrow> string \<Rightarrow> bytes \<Rightarrow> message + bytes" where
  "encodeJSONSchema cs schemaText rawData =
     (case json_first schemaText of None \<Rightarrow> Err [JSONError ''schema'' schemaText]
      | Some (doc, _) \<Rightarrow>
        (case jsonschema_AddResource cs doc of Err e \<Rightarrow> Err [Lit e]
         | Ok compiler \<Rightarrow> (case jsonschema_Compile cs compiler of Err e \<Rightarrow> Err [Lit e]
           | Ok sch \<Rightarrow> (case jsonschema_UnmarshalJSON cs rawData of Err e \<Rightarrow> Err [Lit e]
             | Ok inst \<Rightarrow> (case jsonschema_Validate cs sch inst of Some e \<Rightarrow> Err [Lit e]
               | None \<Rightarrow> (case json_Compact rawData of None \<Rightarrow> Err [JSONError ''compact'' rawData]
                 | Some c \<Rightarrow> Ok c))))))"

text \<open>The loop descends into the first nested message as long as there is one.\<close>

fun firstMessage_loop :: "'d message_desc \<Rightarrow> 'd message_desc" where
  "firstMessage_loop (Desc d []) = Desc d []"
| "firstMessage_loop (Desc d (m # ms)) = firstMessage_loop m"

definition firstMessage :: "'d message_desc list \<Rightarrow> 'd message_desc" where
  "firstMessage messages = firstMessage_loop (messages ! 0)"

definition encodeProtobuf :: "('c, 'n, 'k, 's, 'i, 'd, 'm) codecs \<Rightarrow> string \<Rightarrow> bytes \<Rightarrow> message + bytes" where
  "encodeProtobuf cs schemaText rawData =
     (case protocompile_Compile cs schemaText of Err e \<Rightarrow> Err [Lit e]
      | Ok files \<Rightarrow>
        if files = [] \<or> files ! 0 = [] then Err [Lit ''protobuf schema must define at least one message'']
        else (case protojson_Unmarshal cs (desc_of (firstMessage (files ! 0))) rawData of Err e \<Rightarrow> Err [Lit e]
          | Ok msg \<Rightarrow> (case proto_Marshal cs msg of Err e \<Rightarrow> Err [Lit e] | Ok b \<Rightarrow> Ok b)))"

section \<open>The wire format\<close>

text \<open>\<^verbatim>\<open>binary.BigEndian.PutUint32\<close>: \<open>char_of\<close> keeps the low eight bits, as the conversion to a byte does.\<close>

definition putUint32 :: "32 word \<Rightarrow> bytes" where
  "putUint32 w = [char_of (unat (drop_bit 24 w)), char_of (unat (drop_bit 16 w)),
                  char_of (unat (drop_bit 8 w)), char_of (unat w)]"

definition appendConfluentWireFormat :: "bytes \<Rightarrow> int \<Rightarrow> string \<Rightarrow> bytes \<Rightarrow> bytes" where
  "appendConfluentWireFormat dst schemaID typ payload =
     dst @ [CHR 0x00] @ putUint32 (word_of_int schemaID) @
     (if typ = TypeProtobuf then [CHR 0x00] else []) @ payload"

section \<open>Subjects\<close>

record avro_doc =
  ad_Namespace :: string
  ad_Name :: string

definition avro_doc_fields :: "(string \<times> avro_doc decoder) list" where
  "avro_doc_fields =
     [(''namespace'', fld ad_Namespace (\<lambda>x d. d\<lparr>ad_Namespace := x\<rparr>) dec_string),
      (''name'', fld ad_Name (\<lambda>x d. d\<lparr>ad_Name := x\<rparr>) dec_string)]"

text \<open>
  The regular expression for the first message of a Protobuf schema: at the start of a line,
  white space, the word \<^verbatim>\<open>message\<close>, white space, an identifier, white space, a brace.
\<close>

definition re_space :: "char \<Rightarrow> bool" where
  "re_space c \<longleftrightarrow> c \<in> {CHR 0x09, CHR 0x0A, CHR 0x0C, CHR 0x0D, CHR 0x20}"

definition ident_start :: "char \<Rightarrow> bool" where
  "ident_start c \<longleftrightarrow> 65 \<le> code c \<and> code c \<le> 90 \<or> 97 \<le> code c \<and> code c \<le> 122 \<or> c = CHR ''_''"

definition ident_char :: "char \<Rightarrow> bool" where
  "ident_char c \<longleftrightarrow> ident_start c \<or> 48 \<le> code c \<and> code c \<le> 57"

definition message_here :: "string \<Rightarrow> string option" where
  "message_here s =
     (let s1 = dropWhile re_space s in
      if \<not> hasPrefix s1 ''message'' then None
      else let s2 = drop 7 s1; s3 = dropWhile re_space s2; name = takeWhile ident_char s3 in
        if s3 = s2 \<or> name = [] \<or> \<not> ident_start (hd name)
           \<or> \<not> hasPrefix (dropWhile re_space (dropWhile ident_char s3)) ''{''
        then None else Some name)"

fun find_message :: "bool \<Rightarrow> string \<Rightarrow> string option" where
  "find_message line_start [] = None"
| "find_message line_start (c # s) =
     (case (if line_start then message_here (c # s) else None) of
        Some name \<Rightarrow> Some name
      | None \<Rightarrow> find_message (c = CHR 0x0A) s)"

definition schemaRecordName :: "string \<Rightarrow> string \<Rightarrow> string" where
  "schemaRecordName typ schemaText =
     (let t = normalizeSchemaType typ in
      if t = TypeAvro then
        (let doc = fst (unmarshal (dec_struct avro_doc_fields) schemaText \<lparr>ad_Namespace = [], ad_Name = []\<rparr>) in
         if ad_Name doc = [] then []
         else if ad_Namespace doc \<noteq> [] then ad_Namespace doc @ ''.'' @ ad_Name doc
         else ad_Name doc)
      else if t = TypeJSONSchema then
        fst (unmarshal (dec_struct [(''title'', fld id (\<lambda>x _. x) dec_string)]) schemaText [])
      else if t = TypeProtobuf then
        (case find_message True schemaText of Some name \<Rightarrow> name | None \<Rightarrow> [])
      else [])"

definition resolveSubject :: "string \<Rightarrow> bool \<Rightarrow> RequestData \<Rightarrow> string \<Rightarrow> string" where
  "resolveSubject topic key data typ =
     (if trimSpace (rd_Subject data) \<noteq> [] then trimSpace (rd_Subject data)
      else
        let strategy0 = toUpper (trimSpace (rd_SubjectNameStrategy data));
            strategy = (if strategy0 = [] then StrategyTopicName else strategy0);
            suffix = (if key then ''key'' else ''value'');
            name = schemaRecordName typ (rd_Schema data)
        in if strategy = StrategyRecordName \<and> name \<noteq> [] then name
           else if strategy = StrategyTopicRecordName \<and> name \<noteq> [] then topic @ ''-'' @ name
           else topic @ ''-'' @ suffix)"

section \<open>Encode\<close>

definition isJSONNull :: "bytes \<Rightarrow> bool" where
  "isJSONNull rawData \<longleftrightarrow> trimSpace rawData = ''null''"

definition no_data :: "RequestData \<Rightarrow> bool" where
  "no_data data \<longleftrightarrow> \<not> rd_DataPresent data \<or> isJSONNull (rd_Data data)"

definition encodeBinary :: "RequestData \<Rightarrow> message + bytes option" where
  "encodeBinary data =
     (if no_data data then Ok None
      else (case unmarshal_string (rd_Data data) of None \<Rightarrow> Err [Lit ''BINARY data must be a base64 string'']
        | Some encoded \<Rightarrow> (case b64_decode encoded of None \<Rightarrow> Err [Lit ''BINARY data is not valid base64'']
          | Some decoded \<Rightarrow> Ok (Some decoded))))"

definition encodeString :: "RequestData \<Rightarrow> message + bytes option" where
  "encodeString data =
     (if no_data data then Ok None
      else (case unmarshal_string (rd_Data data) of None \<Rightarrow> Err [Lit ''STRING data must be a string'']
        | Some s \<Rightarrow> Ok (Some s)))"

definition encodeJSON :: "RequestData \<Rightarrow> message + bytes option" where
  "encodeJSON data =
     (if no_data data then Ok None
      else (case json_Compact (rd_Data data) of None \<Rightarrow> Err [JSONError ''compact'' (rd_Data data)]
        | Some b \<Rightarrow> Ok (Some b)))"

text \<open>
  The registry is \<open>None\<close> for a \<^verbatim>\<open>nil\<close> encoder and for an encoder without one. The result is
  the payload (\<open>None\<close>: null) with its metadata, and the registry's state after the call.
\<close>

type_synonym 'r resolver = "'r \<Rightarrow> ResolveRequest \<Rightarrow> (message + Resolved) \<times> 'r"

definition encodeSchemaAware ::
  "('c, 'n, 'k, 's, 'i, 'd, 'm) codecs \<Rightarrow> 'r resolver option \<Rightarrow> 'r \<Rightarrow> string \<Rightarrow> bool \<Rightarrow> string \<Rightarrow> RequestData \<Rightarrow>
     (message + bytes option \<times> Metadata) \<times> 'r" where
  "encodeSchemaAware cs registry st topic key typ data =
     (if no_data data then (Ok (None, zero_Metadata\<lparr>md_Type := typ\<rparr>), st)
      else (case registry of None \<Rightarrow> (Err [Lit ''schema registry is required for '', Lit typ, Lit '' records''], st)
        | Some resolve \<Rightarrow>
          let subject = resolveSubject topic key data typ in
          (case resolve st \<lparr>rq_Subject = subject, rq_Type = typ, rq_SchemaID = rd_SchemaID data,
                            rq_SchemaVersion = rd_SchemaVersion data, rq_Schema = rd_Schema data\<rparr> of
             (Err e, st') \<Rightarrow> (Err e, st')
           | (Ok resolved, st') \<Rightarrow>
             let t = (if rv_Type resolved \<noteq> [] then rv_Type resolved else typ);
                 encoded = (if t = TypeAvro then encodeAvro cs (rv_Schema resolved) (rd_Data data)
                            else if t = TypeJSONSchema then encodeJSONSchema cs (rv_Schema resolved) (rd_Data data)
                            else if t = TypeProtobuf then encodeProtobuf cs (rv_Schema resolved) (rd_Data data)
                            else Err [Lit ''unsupported schema type '', Quoted t])
             in (case encoded of Err e \<Rightarrow> (Err e, st')
               | Ok b \<Rightarrow>
                 let wire = appendConfluentWireFormat [] (rv_SchemaID resolved) t b in
                 (Ok (Some wire,
                      \<lparr>md_Type = t, md_Size = int (length wire), md_Subject = firstNonEmpty [rv_Subject resolved, subject],
                       md_SchemaID = Some (rv_SchemaID resolved), md_SchemaVersion = rv_SchemaVersion resolved\<rparr>), st')))))"

definition payload_size :: "bytes option \<Rightarrow> int" where
  "payload_size p = (case p of None \<Rightarrow> 0 | Some b \<Rightarrow> int (length b))"

definition Encode ::
  "('c, 'n, 'k, 's, 'i, 'd, 'm) codecs \<Rightarrow> 'r resolver option \<Rightarrow> 'r \<Rightarrow> string \<Rightarrow> bool \<Rightarrow> RequestData option \<Rightarrow>
     (message + bytes option \<times> Metadata) \<times> 'r" where
  "Encode cs registry st topic key dopt =
     (case dopt of None \<Rightarrow> (Ok (None, zero_Metadata), st)
      | Some data \<Rightarrow>
        let typ0 = NormalizedType data;
            typ1 = (if typ0 = [] \<and> IsSchemaAware data then TypeAvro else typ0);
            typ = (if typ1 = [] then TypeJSON else typ1);
            plain = (\<lambda>r. (case r of Err e \<Rightarrow> (Err e, st)
                           | Ok p \<Rightarrow> (Ok (p, zero_Metadata\<lparr>md_Type := typ, md_Size := payload_size p\<rparr>), st)))
        in if typ = TypeBinary then plain (encodeBinary data)
           else if typ = TypeString then plain (encodeString data)
           else if typ = TypeJSON then plain (encodeJSON data)
           else if typ = TypeAvro \<or> typ = TypeJSONSchema \<or> typ = TypeProtobuf then
             (case encodeSchemaAware cs registry st topic key typ data of
                (Err e, st') \<Rightarrow> (Err e, st')
              | (Ok (p, meta), st') \<Rightarrow>
                (Ok (p, meta\<lparr>md_Type := (if md_Type meta = [] then typ else md_Type meta),
                              md_Size := payload_size p\<rparr>), st'))
           else (Err [Lit ''unsupported record data type '', Quoted (rd_Type data)], st))"

end
