(* ===== verification/Payload.thy ===== *)
theory Payload
  imports Media Records Encoder
begin

text \<open>
  Payload values of the v2 API (\<^verbatim>\<open>internal/api/types.go\<close>): nullable raw JSON values, base64
  payloads, and the compaction of JSON payloads with its allocation-free fast path.
\<close>

section \<open>Raw values\<close>

record nullableRaw =
  nr_Present :: bool
  nr_Raw :: bytes

definition zero_nullableRaw :: nullableRaw where
  "zero_nullableRaw = \<lparr>nr_Present = False, nr_Raw = []\<rparr>"

definition nullableRaw_UnmarshalJSON :: "nullableRaw decoder" where
  "nullableRaw_UnmarshalJSON v n = (\<lparr>nr_Present = True, nr_Raw = raw v\<rparr>, DecOk)"

section \<open>Compact JSON\<close>

text \<open>The loop of \<^verbatim>\<open>jsonRawIsCompact\<close> with its two flags.\<close>

fun compact_loop :: "bool \<Rightarrow> bool \<Rightarrow> bytes \<Rightarrow> bool" where
  "compact_loop inString escaped [] = True"
| "compact_loop inString escaped (b # bs) =
     (if inString then
        (if escaped then compact_loop True False bs
         else if b = CHR 0x5C then compact_loop True True bs
         else if b = CHR 0x22 then compact_loop False False bs
         else compact_loop True False bs)
      else if b = CHR 0x22 then compact_loop True escaped bs
      else if b = CHR '' '' \<or> b = CHR 0x0A \<or> b = CHR 0x0D \<or> b = CHR 0x09 then False
      else compact_loop False escaped bs)"

definition jsonRawIsCompact :: "bytes \<Rightarrow> bool" where
  "jsonRawIsCompact rawData = compact_loop False False rawData"

definition decodeJSONValue :: "bytes \<Rightarrow> message + bytes" where
  "decodeJSONValue rawData =
     (let trimmed = trimSpace rawData in
      if jsonRawIsCompact trimmed then Ok trimmed
      else (case json_Compact trimmed of None \<Rightarrow> Err [JSONError ''compact'' trimmed] | Some c \<Rightarrow> Ok c))"

section \<open>Values\<close>

text \<open>
  Errors of one value: base64 that does not decode has a type of its own, so that the caller
  can report it without a position.
\<close>

datatype value_error = binaryDecodeError string | OtherError message

definition binaryDecodeError_Error :: "string \<Rightarrow> message" where
  "binaryDecodeError_Error encoded = [Lit ''Bad Request: data='', Quoted encoded, Lit '' is not a valid base64 string.'']"

fun value_error_Error :: "value_error \<Rightarrow> message" where
  "value_error_Error (binaryDecodeError d) = binaryDecodeError_Error d"
| "value_error_Error (OtherError m) = m"

definition decodeNullableValue :: "nullableRaw \<Rightarrow> payloadFormat \<Rightarrow> value_error + bytes option" where
  "decodeNullableValue v format =
     (if \<not> nr_Present v \<or> isJSONNull (nr_Raw v) then Ok None
      else if format = formatBinary then
        (case unmarshal_string (nr_Raw v) of
           None \<Rightarrow> Err (OtherError [Lit ''binary payloads must be base64 strings or null''])
         | Some encoded \<Rightarrow>
           (case b64_decode encoded of None \<Rightarrow> Err (binaryDecodeError encoded) | Some d \<Rightarrow> Ok (Some d)))
      else (case decodeJSONValue (nr_Raw v) of Err e \<Rightarrow> Err (OtherError e) | Ok b \<Rightarrow> Ok (Some b)))"

section \<open>The fast path computes what compaction computes\<close>

text \<open>Text that leaves the loop where it entered it: outside strings.\<close>

definition balanced :: "bytes \<Rightarrow> bool" where
  "balanced t \<longleftrightarrow> (\<forall>u. compact_loop False False (t @ u) = (compact_loop False False t \<and> compact_loop False False u))"

abbreviation compact :: "bytes \<Rightarrow> bool" where
  "compact t \<equiv> compact_loop False False t"

lemma balanced_Nil [simp]: "balanced []"
  by (simp add: balanced_def)

lemma balanced_append: "balanced s \<Longrightarrow> balanced t \<Longrightarrow> balanced (s @ t)"
  by (simp add: balanced_def)

lemma compact_append: "balanced s \<Longrightarrow> compact (s @ t) \<longleftrightarrow> compact s \<and> compact t"
  by (simp add: balanced_def)

lemma balanced_Cons: "c \<noteq> CHR 0x22 \<Longrightarrow> balanced t \<Longrightarrow> balanced (c # t)"
  by (simp add: balanced_def)

lemma compact_Cons:
  "c \<noteq> CHR 0x22 \<Longrightarrow> compact (c # t) \<longleftrightarrow> \<not> json_space c \<and> compact t"
  by (auto simp: json_space_def)

lemma balanced_plain: "CHR 0x22 \<notin> set t \<Longrightarrow> balanced t"
  by (induction t) (auto intro: balanced_Cons)

lemma compact_plain: "CHR 0x22 \<notin> set t \<Longrightarrow> compact t \<longleftrightarrow> list_all (\<lambda>c. \<not> json_space c) t"
  by (induction t) (auto simp: compact_Cons simp del: compact_loop.simps(2))

lemma ws_plain: "ws w \<Longrightarrow> CHR 0x22 \<notin> set w"
  by (auto simp: ws_def list_all_iff)

lemma compact_ws: "ws w \<Longrightarrow> compact w \<longleftrightarrow> w = []"
  using compact_plain [OF ws_plain, of w] by (cases w) (auto simp: ws_def simp del: compact_loop.simps(2))

lemma balanced_ws: "ws w \<Longrightarrow> balanced w"
  by (simp add: balanced_plain ws_plain)

text \<open>A string token: the loop is inside after its opening quote and outside after the closing one.\<close>

lemma compact_loop_str: "str_body s = Some (b, r) \<Longrightarrow> compact_loop True False (b @ u) = compact u"
proof (induction s arbitrary: b r rule: str_body.induct)
  case (2 c s)
  consider "c = CHR 0x22" | e t b0 where "c = CHR 0x5C" "s = e # t" "simple_escape e \<or> e = CHR ''u'' \<and> hex4 t"
      "str_body t = Some (b0, r)" "b = c # e # b0"
    | b0 where "c \<noteq> CHR 0x22" "c \<noteq> CHR 0x5C" "\<not> (of_char c :: nat) < 32" "str_body s = Some (b0, r)" "b = c # b0"
    using "2.prems" by (auto simp: str_body.simps(2) [of c] split: if_splits list.splits)
  then show ?case
  proof cases
    case 1
    then show ?thesis using "2.prems" by (auto simp: str_body.simps(2))
  next
    case 2
    have "\<not> c = CHR 0x22" using 2(1) by simp
    with "2.IH"(1) [OF this 2(1,2,3,4)] show ?thesis using 2(1,5) by simp
  next
    case 3
    then show ?thesis using "2.IH"(2) [OF 3(1,2,3,4)] by simp
  qed
qed simp

lemma balanced_str: "str_body b = Some (b, []) \<Longrightarrow> balanced (CHR 0x22 # b) \<and> compact (CHR 0x22 # b)"
  using compact_loop_str [of b b "[]"] compact_loop_str [of b b "[]" "[]"] by (simp add: balanced_def)

lemma num_tok_chars:
  "num_tok s = Some (b, r) \<Longrightarrow> c \<in> set b \<Longrightarrow> is_digit c \<or> c \<in> {CHR ''-'', CHR ''+'', CHR ''.'', CHR ''e'', CHR ''E''}"
proof -
  have zero_digit: "is_digit CHR ''0''" by (simp add: is_digit_def digit_val_def)
  have i: "\<forall>c\<in>set a. is_digit c" if "num_int s = Some (a, r)" for s a r
    using that zero_digit by (auto simp: num_int_def dest: set_takeWhileD split: list.splits if_splits)
  have f: "\<forall>c\<in>set a. is_digit c \<or> c = CHR ''.''" if "num_frac s = Some (a, r)" for s a r
    using that by (auto simp: num_frac_def Let_def dest: set_takeWhileD split: list.splits if_splits)
  have e: "\<forall>c\<in>set a. is_digit c \<or> c \<in> {CHR ''-'', CHR ''+'', CHR ''e'', CHR ''E''}" if "num_exp s = Some (a, r)" for s a r
    using that by (auto simp: num_exp_def Let_def dest: set_takeWhileD split: list.splits if_splits)
  assume b: "num_tok s = Some (b, r)" and c: "c \<in> set b"
  define sg where "sg = (case s of x # _ \<Rightarrow> if x = CHR ''-'' then [x] else [] | [] \<Rightarrow> [])"
  obtain x r1 y r2 z where "num_int (drop (length sg) s) = Some (x, r1)" "num_frac r1 = Some (y, r2)"
    "num_exp r2 = Some (z, r)" "b = sg @ x @ y @ z"
    using b by (auto simp: num_tok_def Let_def sg_def [symmetric] split: option.splits)
  moreover have "\<forall>c\<in>set sg. c = CHR ''-''" by (auto simp: sg_def split: list.splits)
  ultimately show ?thesis using c i f e by fastforce
qed

lemma num_tok_balanced: "num_tok b = Some (b, []) \<Longrightarrow> balanced b \<and> compact b"
proof -
  assume b: "num_tok b = Some (b, [])"
  have ok: "c \<noteq> CHR 0x22 \<and> \<not> json_space c" if "c \<in> set b" for c
    using num_tok_chars [OF b that] by (auto simp: is_digit_def digit_val_def json_space_def)
  then have "CHR 0x22 \<notin> set b" by blast
  then show ?thesis using ok by (auto simp: balanced_plain compact_plain list_all_iff)
qed

text \<open>
  For a value of the grammar: its text is balanced, and it equals the printed form exactly when
  the loop finds it compact.
\<close>

lemmas compact_rules = compact_append balanced_append balanced_ws compact_ws

lemma spells_compact:
  "spells v \<Longrightarrow> balanced (raw v) \<and> (compact (raw v) \<longrightarrow> render v = raw v)"
  "elems_text vs t \<Longrightarrow> balanced t \<and> (compact t \<longrightarrow> go_join '','' (map render vs) = t)"
  "members_text ms t \<Longrightarrow> balanced t \<and> (compact t \<longrightarrow> go_join '','' (map (\<lambda>m. fst m @ '':'' @ render (snd m)) ms) = t)"
proof (induction rule: spells_elems_text_members_text.inducts)
  case sp_null
  show ?case by (simp add: balanced_def)
next
  case (sp_bool b)
  show ?case by (simp add: balanced_def)
next
  case (sp_num r)
  then show ?case by (simp add: num_tok_balanced)
next
  case (sp_str b)
  then show ?case using balanced_str by simp
next
  case (sp_arr0 w)
  have "balanced (CHR ''['' # w @ '']'')"
    using sp_arr0 by (intro balanced_Cons balanced_append balanced_ws balanced_plain) simp_all
  then show ?case using sp_arr0
    by (simp add: compact_Cons compact_append balanced_ws compact_ws del: compact_loop.simps(2))
next
  case (sp_obj0 w)
  have "balanced (CHR ''{'' # w @ ''}'')"
    using sp_obj0 by (intro balanced_Cons balanced_append balanced_ws balanced_plain) simp_all
  then show ?case using sp_obj0
    by (simp add: compact_Cons compact_append balanced_ws compact_ws del: compact_loop.simps(2))
next
  case (sp_arr w vs t)
  have "balanced (CHR ''['' # w @ t @ '']'')"
    using sp_arr by (auto intro!: balanced_Cons balanced_append intro: balanced_ws balanced_plain)
  then show ?case using sp_arr
    by (auto simp add: compact_Cons compact_append balanced_ws compact_ws simp del: compact_loop.simps(2))
next
  case (sp_obj w ms t)
  have "balanced (CHR ''{'' # w @ t @ ''}'')"
    using sp_obj by (auto intro!: balanced_Cons balanced_append intro: balanced_ws balanced_plain)
  then show ?case using sp_obj
    by (auto simp add: compact_Cons compact_append balanced_ws compact_ws comp_def simp del: compact_loop.simps(2))
next
  case (el_one v w)
  then show ?case by (auto simp: compact_rules)
next
  case (el_more v w w' vs t)
  have "vs \<noteq> []" using el_more.hyps(4) by (cases rule: elems_text.cases) auto
  have "balanced (raw v @ w @ '','' @ w' @ t)"
    using el_more by (auto intro!: balanced_Cons balanced_append intro: balanced_ws balanced_plain)
  then show ?case using el_more \<open>vs \<noteq> []\<close>
    by (auto simp add: compact_append compact_Cons balanced_ws compact_ws go_join_Cons simp del: compact_loop.simps(2))
next
  case (me_one k w1 w2 v w3)
  have kb: "balanced (CHR 0x22 # k)" using me_one balanced_str by blast
  have "balanced ((CHR 0x22 # k) @ w1 @ '':'' @ w2 @ raw v @ w3)"
    using me_one by (intro balanced_append [OF kb]) (auto intro!: balanced_Cons balanced_append intro: balanced_ws balanced_plain)
  then show ?case using me_one kb compact_append [OF kb, of "w1 @ '':'' @ w2 @ raw v @ w3"]
    by (auto simp add: compact_append compact_Cons balanced_ws compact_ws simp del: compact_loop.simps(2))
next
  case (me_more k w1 w2 v w3 w4 ms t)
  have kb: "balanced (CHR 0x22 # k)" using me_more balanced_str by blast
  have "ms \<noteq> []" using me_more.hyps(7) by (cases rule: members_text.cases) auto
  have "balanced ((CHR 0x22 # k) @ w1 @ '':'' @ w2 @ raw v @ w3 @ '','' @ w4 @ t)"
    using me_more by (intro balanced_append [OF kb]) (auto intro!: balanced_Cons balanced_append intro: balanced_ws balanced_plain)
  then show ?case using me_more kb \<open>ms \<noteq> []\<close> compact_append [OF kb, of "w1 @ '':'' @ w2 @ raw v @ w3 @ '','' @ w4 @ t"]
    by (auto simp add: compact_append compact_Cons balanced_ws compact_ws go_join_Cons simp del: compact_loop.simps(2))
qed

lemma json_space_ascii: "json_space c \<Longrightarrow> ascii_space c"
  by (auto simp: json_space_def ascii_space_def)

lemma trimLeft_ws: "ws w \<Longrightarrow> space_len x = 0 \<Longrightarrow> trimLeft (w @ x) = x"
proof (induction w)
  case (Cons c w)
  then have "space_len (c # w @ x) = 1" by (simp add: space_len_def ws_def json_space_ascii)
  then show ?case using Cons by (simp add: trimLeft.simps [of "c # w @ x"] ws_def)
qed (simp add: trimLeft_id)

lemma trimRightRev_ws: "ws w \<Longrightarrow> space_len_end x = 0 \<Longrightarrow> trimRightRev (w @ x) = x"
proof (induction w)
  case (Cons c w)
  then have "space_len_end (c # w @ x) = 1" by (simp add: space_len_end_def ws_def json_space_ascii)
  then show ?case using Cons by (simp add: trimRightRev.simps [of "c # w @ x"] ws_def)
qed (simp add: trimRightRev_id)

text \<open>The first and the last byte of a value are printable ASCII, no white space.\<close>

definition edge :: "char \<Rightarrow> bool" where
  "edge c \<longleftrightarrow> 32 < code c \<and> code c < 128"

lemma edge_no_space:
  assumes "edge c"
  shows "\<not> ascii_space c" "\<not> space2 c b" "\<not> space2 b c" "\<not> space3 c a b" "\<not> space3 a b c"
proof -
  have "code c \<le> 32" if "ascii_space c" using that unfolding ascii_space_def by (elim insertE emptyE) simp_all
  then show "\<not> ascii_space c" using assms by (auto simp: edge_def)
  show "\<not> space2 c b" "\<not> space2 b c" using assms unfolding space2_def edge_def by auto
  show "\<not> space3 c a b" using assms unfolding space3_def edge_def by auto
  have "128 \<le> code c" if "space3 a b c" using that unfolding space3_def by (elim disjE conjE insertE) simp_all
  then show "\<not> space3 a b c" using assms by (auto simp: edge_def)
qed

lemma space_len_edge: "edge c \<Longrightarrow> space_len (c # s) = 0"
  by (simp add: space_len_def edge_no_space split: list.split)

lemma space_len_end_edge: "edge c \<Longrightarrow> space_len_end (c # s) = 0"
  by (simp add: space_len_end_def edge_no_space split: list.split)

lemma str_body_last: "str_body s = Some (b, r) \<Longrightarrow> b \<noteq> [] \<and> last b = CHR 0x22"
proof (induction s arbitrary: b r rule: str_body.induct)
  case (2 c s)
  then show ?case by (auto simp: str_body.simps(2) [of c] split: if_splits list.splits)
qed simp

lemma edge_num: "is_digit c \<or> c \<in> {CHR ''-'', CHR ''+'', CHR ''.'', CHR ''e'', CHR ''E''} \<Longrightarrow> edge c"
  by (auto simp: edge_def is_digit_def digit_val_def split: if_splits)

lemma spells_edges: "spells v \<Longrightarrow> raw v \<noteq> [] \<and> edge (hd (raw v)) \<and> edge (last (raw v))"
proof (induction rule: spells.cases)
  case (sp_num r)
  then have "r \<noteq> []" using num_first by blast
  then show ?case using sp_num num_tok_chars [of r r "[]"] edge_num by (metis hd_in_set last_in_set raw.simps(3))
next
  case (sp_str b)
  then show ?case using str_body_last [of b b "[]"] by (simp add: edge_def)
qed (simp_all add: edge_def)

lemma trimSpace_spelled:
  assumes "spells v" "ws w" "ws w'"
  shows "trimSpace (w @ raw v @ w') = raw v"
proof -
  note e = spells_edges [OF assms(1)]
  obtain c t where c: "raw v = c # t" using e by (cases "raw v") auto
  obtain d u where d: "rev (raw v) = d # u" using e by (cases "rev (raw v)") auto
  have "edge c" "edge d" using e c d by (auto simp: hd_rev [symmetric])
  then have "trimLeft (w @ raw v @ w') = raw v @ w'"
    using c assms(2) by (intro trimLeft_ws) (simp_all add: space_len_edge)
  moreover have "trimRightRev (rev w' @ rev (raw v)) = rev (raw v)"
    using d \<open>edge d\<close> assms(3) by (intro trimRightRev_ws) (simp_all add: space_len_end_edge ws_def)
  ultimately show ?thesis by (simp add: trimSpace_def)
qed

lemma decodeJSONValue_valid: "json_parse s = Some v \<Longrightarrow> decodeJSONValue s = Ok (render v)"
proof -
  assume p: "json_parse s = Some v"
  then obtain w w' where v: "spells v" "ws w" "ws w'" "s = w @ raw v @ w'" by (auto simp: json_parse_iff)
  have t: "trimSpace s = raw v" using trimSpace_spelled v by blast
  show ?thesis
    using spells_compact(1) [OF v(1)] json_parse_raw [OF p]
    by (simp add: decodeJSONValue_def Let_def t jsonRawIsCompact_def json_Compact_def)
qed

text \<open>
  C11: the fast path of JSON payloads is right. On every valid JSON document \<open>decodeJSONValue\<close>
  succeeds and returns exactly what \<^verbatim>\<open>json.Compact\<close> returns for it, whether
  \<open>jsonRawIsCompact\<close> let it skip the compaction or not; and what the fast path returns is
  again accepted and is its own compaction.
\<close>

theorem decodeJSONValue_eq_Compact:
  assumes "json_Compact s = Some c"
  shows "decodeJSONValue s = Ok c \<and> (jsonRawIsCompact (trimSpace s) \<longrightarrow> trimSpace s = c)"
proof -
  obtain v where v: "json_parse s = Some v" "c = render v" using assms by (auto simp: json_Compact_def)
  have d: "decodeJSONValue s = Ok c" using decodeJSONValue_valid [OF v(1)] v(2) by simp
  then show ?thesis by (auto simp: decodeJSONValue_def Let_def)
qed

lemma compact_demo: "json_Compact ''{ x }'' = None \<and> json_Compact '' [1, 2] '' = Some ''[1,2]''"
  by (simp add: json_Compact_def json_parse_def Let_def json_fuel_def skip_ws_def json_space_def numeral_eq_Suc
      maxNestingDepth_def num_tok_def num_int_def num_frac_def num_exp_def is_digit_def digit_val_def)

theorem decodeJSONValue_eq_Compact_witness: "decodeJSONValue '' [1, 2] '' = Ok ''[1,2]''"
  using decodeJSONValue_eq_Compact [of "'' [1, 2] ''" "''[1,2]''"] compact_demo by simp

end
