(* ===== verification/V2.thy ===== *)
theory V2
  imports Payload
begin

text \<open>
  The v2 produce request and response (\<^verbatim>\<open>internal/api/types.go\<close>) and the error
  classification of \<^verbatim>\<open>internal/api/errors.go\<close>. The schema encoder is the interface
  \<^verbatim>\<open>schemaEncoder\<close>: a function on its state, \<open>None\<close> for a \<^verbatim>\<open>nil\<close> interface.
\<close>

section \<open>Errors\<close>

datatype api_error = validationError message | unprocessableError message

fun api_error_Error :: "api_error \<Rightarrow> message" where
  "api_error_Error (validationError m) = m"
| "api_error_Error (unprocessableError m) = m"

text \<open>An error of \<^verbatim>\<open>Produce\<close> as the handlers see it.\<close>

datatype produce_error = ProducerErr err | errContextCanceled

definition mark_context_error :: "err \<Rightarrow> produce_error" where
  "mark_context_error e = (if e = ContextCanceled \<or> e = DeadlineExceeded then errContextCanceled else ProducerErr e)"

text \<open>HTTP status, error code and message.\<close>

fun classifyProduceError :: "produce_error \<Rightarrow> int \<times> int \<times> string" where
  "classifyProduceError (ProducerErr e) =
     (if e = ErrOverloaded then (429, 429, ''producer is overloaded'') else (503, 503, err_Error e))"
| "classifyProduceError errContextCanceled = (504, 504, ''produce request timed out'')"

section \<open>Request documents\<close>

record rawHeader =
  rh_Key :: string
  rh_Value :: nullableRaw

record rawRecord =
  rr_Key :: nullableRaw
  rr_Value :: nullableRaw
  rr_Partition :: "int option"
  rr_Headers :: "rawHeader slice"

record rawProduceRequest =
  pr_KeySchemaID :: "int option"
  pr_KeySchema :: string
  pr_ValueSchemaID :: "int option"
  pr_ValueSchema :: string
  pr_Records :: "rawRecord slice"

definition zero_rawHeader :: rawHeader where
  "zero_rawHeader = \<lparr>rh_Key = [], rh_Value = zero_nullableRaw\<rparr>"

definition zero_rawRecord :: rawRecord where
  "zero_rawRecord = \<lparr>rr_Key = zero_nullableRaw, rr_Value = zero_nullableRaw, rr_Partition = None, rr_Headers = None\<rparr>"

definition zero_rawProduceRequest :: rawProduceRequest where
  "zero_rawProduceRequest =
     \<lparr>pr_KeySchemaID = None, pr_KeySchema = [], pr_ValueSchemaID = None, pr_ValueSchema = [], pr_Records = None\<rparr>"

definition rawHeader_fields :: "(string \<times> rawHeader decoder) list" where
  "rawHeader_fields =
     [(''key'', fld rh_Key (\<lambda>x h. h\<lparr>rh_Key := x\<rparr>) dec_string),
      (''value'', fld rh_Value (\<lambda>x h. h\<lparr>rh_Value := x\<rparr>) nullableRaw_UnmarshalJSON)]"

definition rawRecord_fields :: "(string \<times> rawRecord decoder) list" where
  "rawRecord_fields =
     [(''key'', fld rr_Key (\<lambda>x r. r\<lparr>rr_Key := x\<rparr>) nullableRaw_UnmarshalJSON),
      (''value'', fld rr_Value (\<lambda>x r. r\<lparr>rr_Value := x\<rparr>) nullableRaw_UnmarshalJSON),
      (''partition'', fld rr_Partition (\<lambda>x r. r\<lparr>rr_Partition := x\<rparr>) (dec_ptr 0 (dec_int 32))),
      (''headers'', fld rr_Headers (\<lambda>x r. r\<lparr>rr_Headers := x\<rparr>) (dec_slice zero_rawHeader (dec_struct rawHeader_fields)))]"

definition rawProduceRequest_fields :: "(string \<times> rawProduceRequest decoder) list" where
  "rawProduceRequest_fields =
     [(''key_schema_id'', fld pr_KeySchemaID (\<lambda>x r. r\<lparr>pr_KeySchemaID := x\<rparr>) (dec_ptr 0 (dec_int 64))),
      (''key_schema'', fld pr_KeySchema (\<lambda>x r. r\<lparr>pr_KeySchema := x\<rparr>) dec_string),
      (''value_schema_id'', fld pr_ValueSchemaID (\<lambda>x r. r\<lparr>pr_ValueSchemaID := x\<rparr>) (dec_ptr 0 (dec_int 64))),
      (''value_schema'', fld pr_ValueSchema (\<lambda>x r. r\<lparr>pr_ValueSchema := x\<rparr>) dec_string),
      (''records'', fld pr_Records (\<lambda>x r. r\<lparr>pr_Records := x\<rparr>) (dec_slice zero_rawRecord (dec_struct rawRecord_fields)))]"

section \<open>Limits\<close>

record decodeLimits =
  dl_MaxRecords :: int
  dl_MaxRecordBytes :: int
  dl_MaxKeyBytes :: int
  dl_MaxHeaders :: int
  dl_MaxHeaderBytes :: int

definition positive_or :: "int \<Rightarrow> int \<Rightarrow> int" where
  "positive_or d x = (if x \<le> 0 then d else x)"

definition limits_withDefaults :: "decodeLimits \<Rightarrow> decodeLimits" where
  "limits_withDefaults l =
     \<lparr>dl_MaxRecords = positive_or 1000 (dl_MaxRecords l),
      dl_MaxRecordBytes = positive_or (1024 * 1024) (dl_MaxRecordBytes l),
      dl_MaxKeyBytes = positive_or (1024 * 1024) (dl_MaxKeyBytes l),
      dl_MaxHeaders = positive_or 64 (dl_MaxHeaders l),
      dl_MaxHeaderBytes = positive_or (64 * 1024) (dl_MaxHeaderBytes l)\<rparr>"

section \<open>Decoding\<close>

text \<open>The loop over the headers, from position \<open>i\<close>.\<close>

fun decode_header_loop :: "payloadFormat \<Rightarrow> decodeLimits \<Rightarrow> nat \<Rightarrow> rawHeader list \<Rightarrow> message + Header list" where
  "decode_header_loop format limits i [] = Ok []"
| "decode_header_loop format limits i (h # hs) =
     (if rh_Key h = [] then Err [Lit ''headers['', Lit (itoa (int i)), Lit ''].key is required'']
      else if \<not> nr_Present (rh_Value h) then Err [Lit ''headers['', Lit (itoa (int i)), Lit ''].value is required'']
      else (case decodeNullableValue (rh_Value h) format of
        Err e \<Rightarrow> Err ([Lit ''headers['', Lit (itoa (int i)), Lit ''].value: ''] @ value_error_Error e)
      | Ok v \<Rightarrow>
        if int (length (rh_Key h) + len_nil v) > dl_MaxHeaderBytes limits
        then Err [Lit ''headers['', Lit (itoa (int i)), Lit ''] exceeds configured size limit'']
        else (case decode_header_loop format limits (Suc i) hs of Err e \<Rightarrow> Err e
          | Ok out \<Rightarrow> Ok (\<lparr>hdr_Key = rh_Key h, hdr_Value = v\<rparr> # out))))"

definition decodeHeaders :: "rawHeader list \<Rightarrow> payloadFormat \<Rightarrow> decodeLimits \<Rightarrow> message + Header list" where
  "decodeHeaders headers format limits =
     (if headers = [] then Ok []
      else if int (length headers) > dl_MaxHeaders limits
      then Err [Lit ''too many headers: got '', Lit (itoa (int (length headers))), Lit '', limit '',
                Lit (itoa (dl_MaxHeaders limits))]
      else decode_header_loop format limits 0 headers)"

type_synonym 'r schemaEncoder =
  "'r \<Rightarrow> string \<Rightarrow> bool \<Rightarrow> RequestData option \<Rightarrow> (message + bytes option \<times> Metadata) \<times> 'r"

definition decodeV2NullableValue ::
  "'r schemaEncoder option \<Rightarrow> 'r \<Rightarrow> string \<Rightarrow> bool \<Rightarrow> nullableRaw \<Rightarrow> payloadFormat \<Rightarrow> int option \<Rightarrow> string \<Rightarrow>
     (value_error + bytes option \<times> Metadata) \<times> 'r" where
  "decodeV2NullableValue enc st topic key v format schemaID schemaText =
     (if schemaType format = [] then
        ((case decodeNullableValue v format of Err e \<Rightarrow> Err e | Ok b \<Rightarrow> Ok (b, zero_Metadata)), st)
      else (case enc of
        None \<Rightarrow> (Err (OtherError [Lit ''schema registry is required for '', Lit (format_String format), Lit '' payloads'']), st)
      | Some encode \<Rightarrow>
        let data = zero_RequestData\<lparr>rd_Type := schemaType format, rd_SchemaID := schemaID, rd_Schema := schemaText,
                     rd_Data := nr_Raw v, rd_DataPresent := nr_Present v,
                     rd_SubjectNameStrategy := (if schemaID \<noteq> None then StrategyTopicName else [])\<rparr>
        in (case encode st topic key (Some data) of
              (Err e, st') \<Rightarrow> (Err (OtherError e), st')
            | (Ok r, st') \<Rightarrow> (Ok r, st'))))"

record produceMetadata =
  pm_KeySchemaID :: "int option"
  pm_ValueSchemaID :: "int option"

definition value_failure :: "nat \<Rightarrow> string \<Rightarrow> value_error \<Rightarrow> api_error" where
  "value_failure i what e =
     (case e of binaryDecodeError d \<Rightarrow> validationError (binaryDecodeError_Error d)
      | OtherError m \<Rightarrow> validationError ([Lit ''records['', Lit (itoa (int i)), Lit ''].'', Lit what, Lit '': ''] @ m))"

definition first_some :: "'a option \<Rightarrow> 'a option \<Rightarrow> 'a option" where
  "first_some a b = (case a of None \<Rightarrow> b | Some x \<Rightarrow> a)"

text \<open>The body of the loop: the record at position \<open>i\<close>.\<close>

definition decode_one ::
  "'r schemaEncoder option \<Rightarrow> string \<Rightarrow> payloadFormat \<Rightarrow> decodeLimits \<Rightarrow> rawProduceRequest \<Rightarrow> int option \<Rightarrow>
     nat \<Rightarrow> rawRecord \<Rightarrow> produceMetadata \<times> 'r \<Rightarrow> (api_error + Record \<times> produceMetadata) \<times> 'r" where
  "decode_one enc topic format limits req pathPartition i rr mst =
     (case mst of (meta, st) \<Rightarrow>
      (case decodeV2NullableValue enc st topic True (rr_Key rr) format (pr_KeySchemaID req) (pr_KeySchema req) of
         (Err e, st1) \<Rightarrow> (Err (value_failure i ''key'' e), st1)
       | (Ok (key, keyMeta), st1) \<Rightarrow>
      (case decodeV2NullableValue enc st1 topic False (rr_Value rr) format (pr_ValueSchemaID req) (pr_ValueSchema req) of
         (Err e, st2) \<Rightarrow> (Err (value_failure i ''value'' e), st2)
       | (Ok (val, valueMeta), st2) \<Rightarrow>
         let meta' = \<lparr>pm_KeySchemaID = first_some (pm_KeySchemaID meta) (md_SchemaID keyMeta),
                      pm_ValueSchemaID = first_some (pm_ValueSchemaID meta) (md_SchemaID valueMeta)\<rparr>
         in (case decodeHeaders (slice_elems (rr_Headers rr)) format limits of
           Err e \<Rightarrow> (Err (validationError ([Lit ''records['', Lit (itoa (int i)), Lit ''].headers: ''] @ e)), st2)
         | Ok headers \<Rightarrow>
           if int (len_nil key) > dl_MaxKeyBytes limits
           then (Err (validationError [Lit ''records['', Lit (itoa (int i)), Lit ''].key exceeds configured size limit'']), st2)
           else if pathPartition = None \<and> (case rr_Partition rr of None \<Rightarrow> False | Some p \<Rightarrow> p < 0)
           then (Err (validationError [Lit ''records['', Lit (itoa (int i)), Lit ''].partition must be non-negative'']), st2)
           else
             let r = \<lparr>rec_Topic = topic, rec_Key = key, rec_Value = val, rec_Headers = headers,
                      rec_Partition = (if pathPartition \<noteq> None then pathPartition else rr_Partition rr)\<rparr>
             in if SizeBytes r > dl_MaxRecordBytes limits
                then (Err (validationError [Lit ''records['', Lit (itoa (int i)), Lit ''] exceeds configured record size limit'']), st2)
                else (Ok (r, meta'), st2)))))"

fun decode_loop ::
  "'r schemaEncoder option \<Rightarrow> string \<Rightarrow> payloadFormat \<Rightarrow> decodeLimits \<Rightarrow> rawProduceRequest \<Rightarrow> int option \<Rightarrow>
     nat \<Rightarrow> rawRecord list \<Rightarrow> produceMetadata \<times> 'r \<Rightarrow> (api_error + Record list \<times> produceMetadata) \<times> 'r" where
  "decode_loop enc topic format limits req pathPartition i [] (meta, st) = (Ok ([], meta), st)"
| "decode_loop enc topic format limits req pathPartition i (rr # rrs) (meta, st) =
     (case decode_one enc topic format limits req pathPartition i rr (meta, st) of
        (Err e, st') \<Rightarrow> (Err e, st')
      | (Ok (r, meta'), st') \<Rightarrow>
        (case decode_loop enc topic format limits req pathPartition (Suc i) rrs (meta', st') of
           (Err e, st'') \<Rightarrow> (Err e, st'')
         | (Ok (rs, meta''), st'') \<Rightarrow> (Ok (r # rs, meta''), st'')))"

definition decodeProduceRequestWithSchema ::
  "'r schemaEncoder option \<Rightarrow> 'r \<Rightarrow> string \<Rightarrow> bytes \<Rightarrow> payloadFormat \<Rightarrow> decodeLimits \<Rightarrow> int option \<Rightarrow>
     (api_error + Record list \<times> produceMetadata) \<times> 'r" where
  "decodeProduceRequestWithSchema enc st topic body format limits0 pathPartition =
     (let limits = limits_withDefaults limits0 in
      case unmarshal (dec_struct rawProduceRequest_fields) body zero_rawProduceRequest of
        (req, ok) \<Rightarrow>
          if \<not> ok then (Err (validationError [JSONError ''produce request'' body]), st)
          else if pr_Records req = None then (Err (unprocessableError [Lit ''request body must include records'']), st)
          else
            let records = slice_elems (pr_Records req) in
            if records = [] then (Err (unprocessableError [Lit ''records must not be empty'']), st)
            else if int (length records) > dl_MaxRecords limits
            then (Err (validationError [Lit ''too many records: got '', Lit (itoa (int (length records))), Lit '', limit '',
                        Lit (itoa (dl_MaxRecords limits))]), st)
            else decode_loop enc topic format limits req pathPartition 0 records
                   (\<lparr>pm_KeySchemaID = None, pm_ValueSchemaID = None\<rparr>, st))"

definition decodeProduceRequest ::
  "string \<Rightarrow> bytes \<Rightarrow> payloadFormat \<Rightarrow> decodeLimits \<Rightarrow> int option \<Rightarrow> api_error + Record list" where
  "decodeProduceRequest topic body format limits pathPartition =
     (case fst (decodeProduceRequestWithSchema (None :: unit schemaEncoder option) () topic body format limits pathPartition) of
        Err e \<Rightarrow> Err e | Ok (rs, meta) \<Rightarrow> Ok rs)"

section \<open>Responses\<close>

definition resultFailed :: "Result \<Rightarrow> bool" where
  "resultFailed r \<longleftrightarrow> res_Err r \<noteq> None \<or> res_ErrorCode r \<noteq> None"

definition confluentKafkaRecordErrorCode :: int where
  "confluentKafkaRecordErrorCode = 50002"

definition appendNullableInt :: "int option \<Rightarrow> bytes" where
  "appendNullableInt v = (case v of None \<Rightarrow> ''null'' | Some i \<Rightarrow> itoa i)"

definition resultErrorCode :: "Result \<Rightarrow> int" where
  "resultErrorCode r = (case res_ErrorCode r of Some c \<Rightarrow> c | None \<Rightarrow> confluentKafkaRecordErrorCode)"

definition resultErrorMessage :: "Result \<Rightarrow> string" where
  "resultErrorMessage r = (case res_Err r of Some e \<Rightarrow> err_Error e | None \<Rightarrow> ''Kafka produce failed'')"

definition append_offset :: "(nat \<Rightarrow> bool) \<Rightarrow> Result \<Rightarrow> bytes" where
  \<open>append_offset isPrint r =
     (if resultFailed r then
        ''"partition":null,"offset":null,"error_code":'' @ itoa (resultErrorCode r) @
        '',"error":'' @ quote isPrint (resultErrorMessage r)
      else
        ''"partition":'' @ itoa (res_Partition r) @ '',"offset":'' @ itoa (res_Offset r) @
        '',"error_code":null,"error":null'')\<close>

fun append_offsets :: "(nat \<Rightarrow> bool) \<Rightarrow> Result list \<Rightarrow> bytes" where
  "append_offsets isPrint [] = []"
| "append_offsets isPrint [r] = ''{'' @ append_offset isPrint r @ ''}''"
| "append_offsets isPrint (r # r' # rs) =
     ''{'' @ append_offset isPrint r @ ''}'' @ '','' @ append_offsets isPrint (r' # rs)"

definition appendProduceResponse :: "(nat \<Rightarrow> bool) \<Rightarrow> bytes \<Rightarrow> Result list \<Rightarrow> produceMetadata \<Rightarrow> bytes" where
  \<open>appendProduceResponse isPrint dst results meta =
     dst @ ''{"offsets":['' @ append_offsets isPrint results @
     ''],"key_schema_id":'' @ appendNullableInt (pm_KeySchemaID meta) @
     '',"value_schema_id":'' @ appendNullableInt (pm_ValueSchemaID meta) @ ''}'' @ [CHR 0x0A]\<close>

fun countResultStatus :: "Result list \<Rightarrow> nat \<times> nat" where
  "countResultStatus [] = (0, 0)"
| "countResultStatus (r # rs) =
     (case countResultStatus rs of (successes, failures) \<Rightarrow>
        if resultFailed r then (successes, Suc failures) else (Suc successes, failures))"

end
