(* ===== verification/V2_Response.thy ===== *)
theory V2_Response
  imports V2
begin

text \<open>
  The v2 response read back: the hand-written rendering of \<open>appendProduceResponse\<close> against the
  response structs \<^verbatim>\<open>produceResponse\<close> and \<^verbatim>\<open>produceOffset\<close> of \<^verbatim>\<open>internal/api/types.go\<close>.
\<close>

section \<open>The response structs\<close>

record produceOffset =
  po_Partition :: "int option"
  po_Offset :: "int option"
  po_ErrorCode :: "int option"
  po_Error :: "string option"

record produceResponse =
  ps_Offsets :: "produceOffset slice"
  ps_KeySchemaID :: "int option"
  ps_ValueSchemaID :: "int option"

definition zero_produceOffset :: produceOffset where
  "zero_produceOffset = \<lparr>po_Partition = None, po_Offset = None, po_ErrorCode = None, po_Error = None\<rparr>"

definition zero_produceResponse :: produceResponse where
  "zero_produceResponse = \<lparr>ps_Offsets = None, ps_KeySchemaID = None, ps_ValueSchemaID = None\<rparr>"

definition produceOffset_fields :: "(string \<times> produceOffset decoder) list" where
  "produceOffset_fields =
     [(''partition'', fld po_Partition (\<lambda>x r. r\<lparr>po_Partition := x\<rparr>) (dec_ptr 0 (dec_int 32))),
      (''offset'', fld po_Offset (\<lambda>x r. r\<lparr>po_Offset := x\<rparr>) (dec_ptr 0 (dec_int 64))),
      (''error_code'', fld po_ErrorCode (\<lambda>x r. r\<lparr>po_ErrorCode := x\<rparr>) (dec_ptr 0 (dec_int 64))),
      (''error'', fld po_Error (\<lambda>x r. r\<lparr>po_Error := x\<rparr>) (dec_ptr [] dec_string))]"

definition produceResponse_fields :: "(string \<times> produceResponse decoder) list" where
  "produceResponse_fields =
     [(''offsets'', fld ps_Offsets (\<lambda>x r. r\<lparr>ps_Offsets := x\<rparr>) (dec_slice zero_produceOffset (dec_struct produceOffset_fields))),
      (''key_schema_id'', fld ps_KeySchemaID (\<lambda>x r. r\<lparr>ps_KeySchemaID := x\<rparr>) (dec_ptr 0 (dec_int 64))),
      (''value_schema_id'', fld ps_ValueSchemaID (\<lambda>x r. r\<lparr>ps_ValueSchemaID := x\<rparr>) (dec_ptr 0 (dec_int 64)))]"

text \<open>What a result means to the client.\<close>

definition offset_of :: "Result \<Rightarrow> produceOffset" where
  "offset_of r =
     (if resultFailed r
      then \<lparr>po_Partition = None, po_Offset = None, po_ErrorCode = Some (resultErrorCode r), po_Error = Some (resultErrorMessage r)\<rparr>
      else \<lparr>po_Partition = Some (res_Partition r), po_Offset = Some (res_Offset r), po_ErrorCode = None, po_Error = None\<rparr>)"

text \<open>Values that fit the Go types, and a message of printable ASCII.\<close>

definition result_fits :: "Result \<Rightarrow> bool" where
  "result_fits r \<longleftrightarrow>
     - (2 ^ 31) \<le> res_Partition r \<and> res_Partition r < 2 ^ 31 \<and> in_int64 (res_Offset r) \<and>
     in_int64 (resultErrorCode r) \<and> printable (resultErrorMessage r)"

definition meta_fits :: "produceMetadata \<Rightarrow> bool" where
  "meta_fits m \<longleftrightarrow> pred_option in_int64 (pm_KeySchemaID m) \<and> pred_option in_int64 (pm_ValueSchemaID m)"

section \<open>Numbers\<close>

lemma digit_char_digit: "d < 10 \<Longrightarrow> is_digit (digit_char d)"
  by (simp add: is_digit_def)

lemma hd_nat_digits_pos: "0 < n \<Longrightarrow> hd (nat_digits n) \<noteq> CHR ''0''"
proof (induction n rule: nat_digits.induct)
  case (1 n)
  show ?case
  proof (cases "n < 10")
    case True
    have "digit_val CHR ''0'' = Some 0" by (simp add: digit_val_def)
    then have "digit_char n \<noteq> CHR ''0''" using True "1.prems" by (metis digit_val_digit_char less_irrefl option.inject)
    with True show ?thesis by (simp add: nat_digits.simps [of n])
  next
    case False
    then show ?thesis using 1 by (simp add: nat_digits.simps [of n] hd_append)
  qed
qed

lemma nat_digits_all: "\<forall>c\<in>set (nat_digits n). is_digit c"
  using nat_digits_chars digit_char_digit by blast

lemma takeWhile_all_digits: "\<forall>c\<in>set s. is_digit c \<Longrightarrow> takeWhile is_digit s = s \<and> dropWhile is_digit s = []"
  by (induction s) auto

lemma num_int_nat_digits: "num_int (nat_digits n) = Some (nat_digits n, [])"
proof (cases "n = 0")
  case True
  then show ?thesis using char_of_code_eq [of 48 "CHR ''0''"]
    by (simp add: nat_digits.simps [of 0] num_int_def digit_char_def)
next
  case False
  obtain c cs where c: "nat_digits n = c # cs" using nat_digits_nonempty by (metis list.exhaust)
  then have "c \<noteq> CHR ''0''" "is_digit c" "\<forall>d\<in>set cs. is_digit d"
    using hd_nat_digits_pos [of n] nat_digits_all [of n] False by auto
  then show ?thesis using takeWhile_all_digits [of cs] by (simp add: c num_int_def)
qed

lemma num_tok_itoa: "num_tok (itoa i) = Some (itoa i, [])"
proof -
  have "(case nat_digits n of [] \<Rightarrow> [] | x # xa \<Rightarrow> if x = CHR ''-'' then [x] else []) = []" for n
    using hd_nat_digits [of n] by (cases "nat_digits n") auto
  then show ?thesis
    by (auto simp: num_tok_def itoa_def Let_def num_int_nat_digits num_frac_def num_exp_def)
qed

section \<open>The tree behind the response\<close>

definition num_json :: "int option \<Rightarrow> json" where
  "num_json v = (case v of None \<Rightarrow> JNull | Some i \<Rightarrow> JNum (itoa i))"

definition offset_json :: "(nat \<Rightarrow> bool) \<Rightarrow> Result \<Rightarrow> json" where
  "offset_json p r =
     (let offs = offset_of r in
      JObj [] [(json_string ''partition'', num_json (po_Partition offs)), (json_string ''offset'', num_json (po_Offset offs)),
               (json_string ''error_code'', num_json (po_ErrorCode offs)),
               (json_string ''error'', (case po_Error offs of None \<Rightarrow> JNull | Some m \<Rightarrow> JStr (quote p m)))])"

definition response_json :: "(nat \<Rightarrow> bool) \<Rightarrow> Result list \<Rightarrow> produceMetadata \<Rightarrow> json" where
  "response_json p rs m =
     JObj [] [(json_string ''offsets'', JArr [] (map (offset_json p) rs)),
              (json_string ''key_schema_id'', num_json (pm_KeySchemaID m)),
              (json_string ''value_schema_id'', num_json (pm_ValueSchemaID m))]"

lemma plain_json_ascii:
  "32 \<le> code c \<Longrightarrow> code c < 128 \<Longrightarrow> c \<notin> {CHR 0x22, CHR 0x5C, CHR ''<'', CHR ''>'', CHR ''&''} \<Longrightarrow> json_ascii c = [c]"
proof -
  assume a: "32 \<le> code c" "code c < 128" "c \<notin> {CHR 0x22, CHR 0x5C, CHR ''<'', CHR ''>'', CHR ''&''}"
  have "c \<noteq> CHR 0x08" using a(1) by auto
  moreover have "c \<noteq> CHR 0x0C" using a(1) by auto
  moreover have "c \<noteq> CHR 0x0A" using a(1) by auto
  moreover have "c \<noteq> CHR 0x0D" using a(1) by auto
  moreover have "c \<noteq> CHR 0x09" using a(1) by auto
  ultimately show ?thesis using a by (simp add: json_ascii_def)
qed

lemma json_string_keys:
  \<open>json_string ''partition'' = ''"partition"''\<close> \<open>json_string ''offset'' = ''"offset"''\<close>
  \<open>json_string ''error_code'' = ''"error_code"''\<close> \<open>json_string ''error'' = ''"error"''\<close>
  \<open>json_string ''offsets'' = ''"offsets"''\<close> \<open>json_string ''key_schema_id'' = ''"key_schema_id"''\<close>
  \<open>json_string ''value_schema_id'' = ''"value_schema_id"''\<close>
  by (simp_all add: json_string_def json_chars.simps plain_json_ascii)

lemma str_val_keys:
  "str_val (json_string ''partition'') = ''partition''" "str_val (json_string ''offset'') = ''offset''"
  "str_val (json_string ''error_code'') = ''error_code''" "str_val (json_string ''error'') = ''error''"
  "str_val (json_string ''offsets'') = ''offsets''" "str_val (json_string ''key_schema_id'') = ''key_schema_id''"
  "str_val (json_string ''value_schema_id'') = ''value_schema_id''"
  by (rule str_val_json_string, rule ascii_valid_utf8, simp)+

lemma render_num_json: "render (num_json v) = appendNullableInt v"
  by (simp add: num_json_def appendNullableInt_def split: option.split)

lemma render_offset_json: "render (offset_json p r) = ''{'' @ append_offset p r @ ''}''"
  by (simp add: offset_json_def offset_of_def append_offset_def render_num_json appendNullableInt_def json_string_keys)

lemma render_offsets: "go_join '','' (map (\<lambda>r. render (offset_json p r)) rs) = append_offsets p rs"
  by (induction p rs rule: append_offsets.induct) (simp_all add: render_offset_json)

lemma render_response_json: "appendProduceResponse p [] rs m = render (response_json p rs m) @ [CHR 0x0A]"
  by (simp add: appendProduceResponse_def response_json_def render_num_json comp_def render_offsets json_string_keys)

lemma num_json_ok: "tokens_ok (num_json v)" "jdepth (num_json v) = 0"
  by (simp_all add: num_json_def num_tok_itoa split: option.split)

lemma offset_json_ok:
  "printable (resultErrorMessage r) \<Longrightarrow> tokens_ok (offset_json p r)" "jdepth (offset_json p r) = 1"
  using quote_printable_token [of "resultErrorMessage r" p] json_string_token
  by (auto simp: offset_json_def offset_of_def num_json_ok)

lemma response_json_ok:
  assumes "\<forall>r\<in>set rs. printable (resultErrorMessage r)"
  shows "tokens_ok (response_json p rs m) \<and> jdepth (response_json p rs m) \<le> maxNestingDepth"
proof -
  have "foldr max (map (jdepth \<circ> offset_json p) rs) 0 \<le> 1"
    by (induction rs) (simp_all add: offset_json_ok)
  then show ?thesis using assms json_string_token
    by (auto simp: response_json_def num_json_ok offset_json_ok list_all_iff maxNestingDepth_def comp_def)
qed

section \<open>Reading it back\<close>

lemma canon_num_json [simp]: "canon (num_json v) = num_json v"
  by (simp add: num_json_def split: option.split)

lemma dec_num_json:
  assumes "pred_option (\<lambda>i. - (2 ^ (bits - 1)) \<le> i \<and> i < 2 ^ (bits - 1)) v"
  shows "dec_ptr 0 (dec_int bits) (num_json v) None = (v, DecOk)"
  using assms parseInt_itoa [of bits] by (cases v) (auto simp: dec_ptr_def num_json_def)

lemma in_int64_pow: "in_int64 i \<longleftrightarrow> - (2 ^ (64 - 1)) \<le> i \<and> i < 2 ^ (64 - 1)"
  by (auto simp: in_int64_def max_int64_def)

lemma dec_offset_json:
  assumes "result_fits r"
  shows "dec_struct produceOffset_fields (canon (offset_json p r)) zero_produceOffset = (offset_of r, DecOk)"
proof -
  have p: "dec_ptr 0 (dec_int 32) (num_json (po_Partition (offset_of r))) None = (po_Partition (offset_of r), DecOk)"
    using assms by (intro dec_num_json) (auto simp: result_fits_def offset_of_def)
  have o1: "dec_ptr 0 (dec_int 64) (num_json (po_Offset (offset_of r))) None = (po_Offset (offset_of r), DecOk)"
    using assms by (intro dec_num_json) (auto simp: result_fits_def offset_of_def in_int64_pow)
  have e: "dec_ptr 0 (dec_int 64) (num_json (po_ErrorCode (offset_of r))) None = (po_ErrorCode (offset_of r), DecOk)"
    using assms by (intro dec_num_json) (auto simp: result_fits_def offset_of_def in_int64_pow)
  have m: "dec_ptr [] dec_string (case po_Error (offset_of r) of None \<Rightarrow> JNull | Some m \<Rightarrow> JStr (quote p m)) None =
      (po_Error (offset_of r), DecOk)"
    using assms quote_printable_token [of "resultErrorMessage r" p]
    by (auto simp: result_fits_def offset_of_def dec_ptr_def)
  have c: "canon (case po_Error (offset_of r) of None \<Rightarrow> JNull | Some m \<Rightarrow> JStr (quote p m)) =
      (case po_Error (offset_of r) of None \<Rightarrow> JNull | Some m \<Rightarrow> JStr (quote p m))"
    by (simp split: option.split)
  show ?thesis
    by (simp add: offset_json_def Let_def produceOffset_fields_def find_field_def str_val_keys fld_def
        zero_produceOffset_def p o1 e m c seq_status_def)
qed

lemma dec_offsets:
  "\<forall>r\<in>set rs. result_fits r \<Longrightarrow>
   dec_elems zero_produceOffset (dec_struct produceOffset_fields) (map (\<lambda>r. canon (offset_json p r)) rs) [] =
     (map offset_of rs, DecOk)"
  by (induction rs) (simp_all add: dec_offset_json seq_status_def)

lemma response_parses:
  "\<forall>r\<in>set rs. printable (resultErrorMessage r) \<Longrightarrow> json_parse (appendProduceResponse p [] rs m) = Some (canon (response_json p rs m))"
  unfolding render_response_json using response_json_ok by (intro json_parse_render) (auto simp: ws_def json_space_def)

lemma response_reads_back:
  assumes "\<forall>r\<in>set rs. result_fits r" "meta_fits m"
  shows "unmarshal (dec_struct produceResponse_fields) (appendProduceResponse p [] rs m) zero_produceResponse =
    (\<lparr>ps_Offsets = Some (map offset_of rs, length rs), ps_KeySchemaID = pm_KeySchemaID m,
      ps_ValueSchemaID = pm_ValueSchemaID m\<rparr>, True)"
proof -
  have "\<forall>r\<in>set rs. printable (resultErrorMessage r)" using assms(1) by (auto simp: result_fits_def)
  then have "json_parse (appendProduceResponse p [] rs m) = Some (canon (response_json p rs m))" by (rule response_parses)
  moreover have "dec_ptr 0 (dec_int 64) (num_json (pm_KeySchemaID m)) None = (pm_KeySchemaID m, DecOk)"
    "dec_ptr 0 (dec_int 64) (num_json (pm_ValueSchemaID m)) None = (pm_ValueSchemaID m, DecOk)"
    using assms(2) by (auto intro!: dec_num_json simp: meta_fits_def in_int64_pow [abs_def])
  ultimately show ?thesis
    using dec_offsets [OF assms(1)]
    by (simp add: unmarshal_def response_json_def produceResponse_fields_def find_field_def str_val_keys fld_def
        zero_produceResponse_def seq_status_def comp_def)
qed

text \<open>
  C21: the response a client gets. For every list of results whose numbers fit their Go types
  and whose error texts are printable ASCII, the bytes \<open>appendProduceResponse\<close> writes are a JSON
  document, and reading it into the response struct gives one offset per result, in order: the
  partition and offset of a success with null errors, the code and text of a failure with null
  partition and offset, and the schema ids.
\<close>

theorem appendProduceResponse_reads_back:
  assumes "\<forall>r\<in>set rs. result_fits r" and "meta_fits m"
  shows "\<exists>resp. unmarshal (dec_struct produceResponse_fields) (appendProduceResponse p [] rs m) zero_produceResponse = (resp, True) \<and>
    slice_elems (ps_Offsets resp) = map offset_of rs \<and> ps_KeySchemaID resp = pm_KeySchemaID m \<and>
    ps_ValueSchemaID resp = pm_ValueSchemaID m"
  using response_reads_back [OF assms, of p] by (simp add: slice_elems_def)

theorem appendProduceResponse_reads_back_witness:
  "\<exists>resp. unmarshal (dec_struct produceResponse_fields)
      (appendProduceResponse (\<lambda>_. True) []
        [\<lparr>res_Partition = 3, res_Offset = 17, res_ErrorCode = None, res_Err = None\<rparr>,
         \<lparr>res_Partition = 0, res_Offset = 0, res_ErrorCode = Some 50002, res_Err = Some (KafkaErr ''NOT_LEADER'')\<rparr>]
        \<lparr>pm_KeySchemaID = None, pm_ValueSchemaID = Some 5\<rparr>) zero_produceResponse = (resp, True) \<and>
    slice_elems (ps_Offsets resp) =
      [\<lparr>po_Partition = Some 3, po_Offset = Some 17, po_ErrorCode = None, po_Error = None\<rparr>,
       \<lparr>po_Partition = None, po_Offset = None, po_ErrorCode = Some 50002, po_Error = Some ''NOT_LEADER''\<rparr>]"
proof -
  let ?rs = "[\<lparr>res_Partition = 3, res_Offset = 17, res_ErrorCode = None, res_Err = None\<rparr>,
         \<lparr>res_Partition = 0, res_Offset = 0, res_ErrorCode = Some 50002, res_Err = Some (KafkaErr ''NOT_LEADER'')\<rparr>]"
  have "\<forall>r\<in>set ?rs. result_fits r" "meta_fits \<lparr>pm_KeySchemaID = None, pm_ValueSchemaID = Some 5\<rparr>"
    by (simp_all add: result_fits_def meta_fits_def in_int64_def max_int64_def resultErrorCode_def resultErrorMessage_def
        printable_def confluentKafkaRecordErrorCode_def)
  from appendProduceResponse_reads_back [OF this, of "\<lambda>_. True"] show ?thesis
    by (auto simp: offset_of_def resultFailed_def resultErrorCode_def resultErrorMessage_def)
qed

section \<open>Where the rendering is not JSON\<close>


end
