(* ===== verification/V2_Decode.thy ===== *)
theory V2_Decode
  imports V2_Response
begin

text \<open>
  Properties of the v2 request decoder: what an accepted request is guaranteed to be, what its
  values are, and the round trip of binary payloads through JSON and base64.
\<close>

section \<open>Limits\<close>

definition header_within :: "decodeLimits \<Rightarrow> Header \<Rightarrow> bool" where
  "header_within l h \<longleftrightarrow> hdr_Key h \<noteq> [] \<and> int (length (hdr_Key h) + len_nil (hdr_Value h)) \<le> dl_MaxHeaderBytes l"

definition record_within :: "decodeLimits \<Rightarrow> string \<Rightarrow> int option \<Rightarrow> Record \<Rightarrow> bool" where
  "record_within l topic pathPartition r \<longleftrightarrow>
     rec_Topic r = topic \<and> int (len_nil (rec_Key r)) \<le> dl_MaxKeyBytes l \<and> SizeBytes r \<le> dl_MaxRecordBytes l \<and>
     int (length (rec_Headers r)) \<le> dl_MaxHeaders l \<and> list_all (header_within l) (rec_Headers r) \<and>
     (case pathPartition of Some p \<Rightarrow> rec_Partition r = Some p
      | None \<Rightarrow> (case rec_Partition r of None \<Rightarrow> True | Some p \<Rightarrow> 0 \<le> p))"

lemma limits_withDefaults_positive:
  "0 < dl_MaxRecords (limits_withDefaults l)" "0 < dl_MaxHeaders (limits_withDefaults l)"
  "0 < dl_MaxKeyBytes (limits_withDefaults l)" "0 < dl_MaxRecordBytes (limits_withDefaults l)"
  by (simp_all add: limits_withDefaults_def positive_or_def)

lemma decode_header_loop_within:
  "decode_header_loop format l i hs = Ok out \<Longrightarrow> length out = length hs \<and> list_all (header_within l) out"
proof (induction hs arbitrary: i out)
  case (Cons h hs)
  then show ?case by (auto simp: header_within_def split: if_splits sum.splits)
qed simp

lemma decodeHeaders_within:
  "decodeHeaders hs format l = Ok out \<Longrightarrow> 0 < dl_MaxHeaders l \<Longrightarrow>
   int (length out) \<le> dl_MaxHeaders l \<and> list_all (header_within l) out"
  by (auto simp: decodeHeaders_def dest!: decode_header_loop_within split: if_splits)

lemma decode_one_within:
  assumes "decode_one enc topic format l req pp i rr mst = (Ok (r, meta), st)" "0 < dl_MaxHeaders l"
  shows "record_within l topic pp r"
  using assms
  by (auto simp: decode_one_def record_within_def Let_def not_less dest!: decodeHeaders_within
      split: prod.splits sum.splits if_splits option.splits)

lemma decode_loop_within:
  "decode_loop enc topic format l req pp i rrs mst = (Ok (rs, meta), st) \<Longrightarrow> 0 < dl_MaxHeaders l \<Longrightarrow>
   length rs = length rrs \<and> list_all (record_within l topic pp) rs"
proof (induction enc topic format l req pp i rrs mst arbitrary: rs meta st rule: decode_loop.induct)
  case (1 enc topic format limits req pp i meta st)
  then show ?case by simp
next
  case (2 enc topic format limits req pp i rr rrs meta0 st0)
  obtain r m1 st1 rs' where
    1: "decode_one enc topic format limits req pp i rr (meta0, st0) = (Ok (r, m1), st1)"
    and 2: "decode_loop enc topic format limits req pp (Suc i) rrs (m1, st1) = (Ok (rs', meta), st)" and 3: "rs = r # rs'"
    using "2.prems"(1) by (auto split: prod.splits sum.splits)
  have "record_within limits topic pp r" using decode_one_within [OF 1] "2.prems"(2) by simp
  moreover have "length rs' = length rrs \<and> list_all (record_within limits topic pp) rs'"
    using "2.IH" [OF 1 [symmetric] refl refl 2 "2.prems"(2)] .
  ultimately show ?case by (simp add: 3)
qed

lemma decode_accepted:
  assumes "decodeProduceRequestWithSchema enc st topic body format l0 pp = (Ok (rs, meta), st')"
  shows "rs \<noteq> [] \<and> int (length rs) \<le> dl_MaxRecords (limits_withDefaults l0) \<and>
    list_all (record_within (limits_withDefaults l0) topic pp) rs"
proof -
  obtain req where u: "unmarshal (dec_struct rawProduceRequest_fields) body zero_rawProduceRequest = (req, True)"
    using assms by (auto simp: decodeProduceRequestWithSchema_def Let_def split: prod.splits if_splits)
  let ?rrs = "slice_elems (pr_Records req)"
  have "?rrs \<noteq> []" "int (length ?rrs) \<le> dl_MaxRecords (limits_withDefaults l0)"
    "decode_loop enc topic format (limits_withDefaults l0) req pp 0 ?rrs
       (\<lparr>pm_KeySchemaID = None, pm_ValueSchemaID = None\<rparr>, st) = (Ok (rs, meta), st')"
    using assms by (auto simp: decodeProduceRequestWithSchema_def Let_def u split: if_splits)
  then show ?thesis using decode_loop_within limits_withDefaults_positive(2) by fastforce
qed

section \<open>Binary payloads\<close>

text \<open>A request document with binary keys and values, nulls included.\<close>

definition binary_json :: "bytes option \<Rightarrow> json" where
  "binary_json b = (case b of None \<Rightarrow> JNull | Some x \<Rightarrow> JStr (json_string (b64_encode x)))"

definition binary_record_json :: "bytes option \<times> bytes option \<Rightarrow> json" where
  "binary_record_json kv = JObj [] [(json_string ''key'', binary_json (fst kv)), (json_string ''value'', binary_json (snd kv))]"

definition binary_request :: "(bytes option \<times> bytes option) list \<Rightarrow> bytes" where
  "binary_request kvs = render (JObj [] [(json_string ''records'', JArr [] (map binary_record_json kvs))])"

definition plain_record :: "string \<Rightarrow> bytes option \<times> bytes option \<Rightarrow> Record" where
  "plain_record topic kv =
     \<lparr>rec_Topic = topic, rec_Key = fst kv, rec_Value = snd kv, rec_Headers = [], rec_Partition = None\<rparr>"

lemma str_val_request_keys:
  "str_val (json_string ''records'') = ''records''" "str_val (json_string ''key'') = ''key''"
  "str_val (json_string ''value'') = ''value''"
  by (rule str_val_json_string, rule ascii_valid_utf8, simp)+

lemma binary_json_ok: "tokens_ok (binary_json b)" "jdepth (binary_json b) = 0" "canon (binary_json b) = binary_json b"
  "raw (binary_json b) = render (binary_json b)"
  using json_string_token by (simp_all add: binary_json_def split: option.split)

lemma binary_record_json_ok: "tokens_ok (binary_record_json kv)" "jdepth (binary_record_json kv) = 1"
  using json_string_token by (simp_all add: binary_record_json_def binary_json_ok)

lemma decode_binary_value:
  "decodeNullableValue \<lparr>nr_Present = True, nr_Raw = render (binary_json b)\<rparr> formatBinary = Ok b"
proof (cases b)
  case None
  have "trimSpace ''null'' = ''null''" using trimSpace_spelled [OF sp_null, of "[]" "[]"] by simp
  then show ?thesis by (simp add: None binary_json_def decodeNullableValue_def isJSONNull_def)
next
  case (Some x)
  let ?j = "json_string (b64_encode x)"
  have sp: "spells (JStr ?j)" using json_string_token sp_str by metis
  have "trimSpace ?j = ?j" using trimSpace_spelled [OF sp, of "[]" "[]"] by simp
  then have "\<not> isJSONNull ?j" by (simp add: isJSONNull_def json_string_def)
  moreover have "json_parse ?j = Some (JStr ?j)" using json_parse_spells [OF sp] by simp
  then have "unmarshal_string ?j = Some (b64_encode x)"
    using str_val_json_string [OF ascii_valid_utf8 [OF b64_encode_ascii]]
    by (simp add: unmarshal_string_def unmarshal_def)
  ultimately show ?thesis
    by (simp add: Some binary_json_def decodeNullableValue_def b64_decode_encode)
qed

lemma dec_binary_record:
  "dec_struct rawRecord_fields (canon (binary_record_json kv)) zero_rawRecord =
    (zero_rawRecord\<lparr>rr_Key := \<lparr>nr_Present = True, nr_Raw = render (binary_json (fst kv))\<rparr>,
                    rr_Value := \<lparr>nr_Present = True, nr_Raw = render (binary_json (snd kv))\<rparr>\<rparr>, DecOk)"
  by (simp add: binary_record_json_def rawRecord_fields_def find_field_def str_val_request_keys fld_def
      nullableRaw_UnmarshalJSON_def zero_rawRecord_def seq_status_def binary_json_ok)

lemma dec_binary_records:
  "dec_elems zero_rawRecord (dec_struct rawRecord_fields) (map (\<lambda>kv. canon (binary_record_json kv)) kvs) [] =
    (map (\<lambda>kv. zero_rawRecord\<lparr>rr_Key := \<lparr>nr_Present = True, nr_Raw = render (binary_json (fst kv))\<rparr>,
                    rr_Value := \<lparr>nr_Present = True, nr_Raw = render (binary_json (snd kv))\<rparr>\<rparr>) kvs, DecOk)"
  by (induction kvs) (simp_all add: dec_binary_record seq_status_def)

lemma unmarshal_binary_request:
  assumes "kvs \<noteq> []"
  shows "unmarshal (dec_struct rawProduceRequest_fields) (binary_request kvs) zero_rawProduceRequest =
    (zero_rawProduceRequest\<lparr>pr_Records := Some (map (\<lambda>kv. zero_rawRecord\<lparr>
        rr_Key := \<lparr>nr_Present = True, nr_Raw = render (binary_json (fst kv))\<rparr>,
        rr_Value := \<lparr>nr_Present = True, nr_Raw = render (binary_json (snd kv))\<rparr>\<rparr>) kvs, length kvs)\<rparr>, True)"
proof -
  let ?j = "JObj [] [(json_string ''records'', JArr [] (map binary_record_json kvs))]"
  have "foldr max (map (\<lambda>kv. jdepth (binary_record_json kv)) kvs) 0 \<le> 1"
    by (induction kvs) (simp_all add: binary_record_json_ok)
  then have "json_parse (binary_request kvs) = Some (canon ?j)"
    using json_parse_render [of ?j "[]"] json_string_token
    by (simp add: binary_request_def binary_record_json_ok list_all_iff maxNestingDepth_def comp_def)
  then show ?thesis using assms dec_binary_records [of kvs]
    by (simp add: unmarshal_def rawProduceRequest_fields_def find_field_def str_val_request_keys fld_def
        zero_rawProduceRequest_def seq_status_def comp_def)
qed

lemma decode_loop_binary:
  assumes "\<forall>kv\<in>set kvs. int (len_nil (fst kv)) \<le> dl_MaxKeyBytes l \<and>
    int (len_nil (fst kv) + len_nil (snd kv)) \<le> dl_MaxRecordBytes l"
  shows "decode_loop enc topic formatBinary l req None i
     (map (\<lambda>kv. zero_rawRecord\<lparr>rr_Key := \<lparr>nr_Present = True, nr_Raw = render (binary_json (fst kv))\<rparr>,
        rr_Value := \<lparr>nr_Present = True, nr_Raw = render (binary_json (snd kv))\<rparr>\<rparr>) kvs)
     (\<lparr>pm_KeySchemaID = None, pm_ValueSchemaID = None\<rparr>, st) =
   (Ok (map (plain_record topic) kvs, \<lparr>pm_KeySchemaID = None, pm_ValueSchemaID = None\<rparr>), st)"
  using assms
proof (induction kvs arbitrary: i)
  case (Cons kv kvs)
  then show ?case
    by (simp add: decode_one_def decodeV2NullableValue_def decode_binary_value zero_rawRecord_def slice_elems_def
        decodeHeaders_def first_some_def zero_Metadata_def SizeBytes_def plain_record_def)
qed simp

text \<open>
  C20: binary payloads arrive unchanged. For every list of binary keys and values, nulls
  included, within the limits, the request document that carries them in base64 is decoded to
  exactly these keys and values, in order; a null stays a null and an empty value stays empty.
\<close>

theorem decode_binary_roundtrip:
  assumes "kvs \<noteq> []" and "int (length kvs) \<le> dl_MaxRecords (limits_withDefaults l)"
    and "\<forall>kv\<in>set kvs. int (len_nil (fst kv)) \<le> dl_MaxKeyBytes (limits_withDefaults l) \<and>
      int (len_nil (fst kv) + len_nil (snd kv)) \<le> dl_MaxRecordBytes (limits_withDefaults l)"
  shows "decodeProduceRequestWithSchema enc st topic (binary_request kvs) formatBinary l None =
    (Ok (map (plain_record topic) kvs, \<lparr>pm_KeySchemaID = None, pm_ValueSchemaID = None\<rparr>), st)"
  using assms(1,2) decode_loop_binary [OF assms(3)]
  by (simp add: decodeProduceRequestWithSchema_def unmarshal_binary_request Let_def slice_elems_def)

definition demo_limits :: decodeLimits where
  "demo_limits = \<lparr>dl_MaxRecords = 0, dl_MaxRecordBytes = 0, dl_MaxKeyBytes = 0, dl_MaxHeaders = 0, dl_MaxHeaderBytes = 0\<rparr>"

definition demo_kvs :: "(bytes option \<times> bytes option) list" where
  "demo_kvs = [(Some ''k'', Some [CHR 0x00, CHR 0xFF]), (None, Some [])]"

lemma demo_kvs_within:
  "demo_kvs \<noteq> []" "int (length demo_kvs) \<le> dl_MaxRecords (limits_withDefaults demo_limits)"
  "\<forall>kv\<in>set demo_kvs. int (len_nil (fst kv)) \<le> dl_MaxKeyBytes (limits_withDefaults demo_limits) \<and>
      int (len_nil (fst kv) + len_nil (snd kv)) \<le> dl_MaxRecordBytes (limits_withDefaults demo_limits)"
  by (simp_all add: demo_kvs_def demo_limits_def limits_withDefaults_def positive_or_def len_nil_def)

theorem decode_binary_roundtrip_witness:
  "fst (decodeProduceRequestWithSchema (None :: unit schemaEncoder option) () ''t'' (binary_request demo_kvs) formatBinary demo_limits None) =
   Ok ([\<lparr>rec_Topic = ''t'', rec_Key = Some ''k'', rec_Value = Some [CHR 0x00, CHR 0xFF], rec_Headers = [], rec_Partition = None\<rparr>,
        \<lparr>rec_Topic = ''t'', rec_Key = None, rec_Value = Some [], rec_Headers = [], rec_Partition = None\<rparr>],
       \<lparr>pm_KeySchemaID = None, pm_ValueSchemaID = None\<rparr>)"
  using decode_binary_roundtrip [OF demo_kvs_within, of "None :: unit schemaEncoder option" "()" "''t''"]
  by (simp add: demo_kvs_def plain_record_def)

lemma decode_binary_demo:
  "decodeProduceRequestWithSchema (None :: unit schemaEncoder option) () ''t'' (binary_request demo_kvs) formatBinary demo_limits None =
   (Ok (map (plain_record ''t'') demo_kvs, \<lparr>pm_KeySchemaID = None, pm_ValueSchemaID = None\<rparr>), ())"
  using unmarshal_binary_request [OF demo_kvs_within(1)] decode_loop_binary [OF demo_kvs_within(3)] demo_kvs_within(1,2)
  by (simp add: decodeProduceRequestWithSchema_def Let_def slice_elems_def)

text \<open>
  C8: what an accepted v2 request is. However the document is written and whatever the schema
  encoder does, the records handed to the producer are at least one and at most the configured
  number, all for the topic of the path, each within the limits for its key, its size, the number
  of its headers and their sizes, with a header name in every header, and with the partition of
  the path or else no partition or one that is not negative.
\<close>

theorem decode_accepted_within_limits:
  assumes "decodeProduceRequestWithSchema enc st topic body format l0 pathPartition = (Ok (rs, meta), st')"
  shows "rs \<noteq> [] \<and> int (length rs) \<le> dl_MaxRecords (limits_withDefaults l0) \<and>
    list_all (record_within (limits_withDefaults l0) topic pathPartition) rs"
  by (rule decode_accepted [OF assms])

theorem decode_accepted_within_limits_witness:
  "list_all (record_within (limits_withDefaults demo_limits) ''t'' None) (map (plain_record ''t'') demo_kvs)"
  using decode_accepted_within_limits [OF decode_binary_demo] by simp

end
