(* ===== verification/Registry_Props.thy ===== *)
theory Registry_Props
  imports Encoder
begin

text \<open>
  Properties of the two schema registries and of the encoder on top of them. The locale
  \<open>registry\<close> is the interface \<^verbatim>\<open>Registry\<close> of \<^verbatim>\<open>internal/schema/types.go\<close> as the
  encoder uses it: it is interpreted by the registry in memory and by the HTTP client. The
  invariant \<open>mr_ok\<close> of the registry in memory carries its round trips.
\<close>

section \<open>The registry in memory\<close>

text \<open>
  Identifiers are positive and below the next one; every entry of the identifier table sits
  under its own identifier; the version \<open>k + 1\<close> of a subject is at position \<open>k\<close> of its list, and
  is the entry of the identifier table.
\<close>

definition mr_ok :: "MemoryRegistry \<Rightarrow> bool" where
  "mr_ok r \<longleftrightarrow> 1 \<le> mr_nextID r \<and>
     (\<forall>i res. mr_byID r i = Some res \<longrightarrow> 1 \<le> i \<and> i < mr_nextID r \<and> rv_SchemaID res = i) \<and>
     (\<forall>subject k. k < length (mr_versions r subject) \<longrightarrow>
        rv_Subject (mr_versions r subject ! k) = subject \<and>
        rv_SchemaVersion (mr_versions r subject ! k) = Some (int k + 1) \<and>
        mr_byID r (rv_SchemaID (mr_versions r subject ! k)) = Some (mr_versions r subject ! k))"

lemma mr_okD:
  assumes "mr_ok r"
  shows "1 \<le> mr_nextID r"
    and "mr_byID r i = Some res \<Longrightarrow> 1 \<le> i \<and> i < mr_nextID r \<and> rv_SchemaID res = i"
    and "k < length (mr_versions r subject) \<Longrightarrow> rv_Subject (mr_versions r subject ! k) = subject \<and>
        rv_SchemaVersion (mr_versions r subject ! k) = Some (int k + 1) \<and>
        mr_byID r (rv_SchemaID (mr_versions r subject ! k)) = Some (mr_versions r subject ! k)"
  using assms unfolding mr_ok_def by blast+

lemma NewMemoryRegistry_ok: "mr_ok NewMemoryRegistry"
  by (simp add: mr_ok_def NewMemoryRegistry_def)

text \<open>The request that registers a schema, and what the registry makes of it.\<close>

definition registers :: "ResolveRequest \<Rightarrow> bool" where
  "registers q \<longleftrightarrow> rq_SchemaID q = None \<and> rq_SchemaVersion q = None \<and> rq_Subject q \<noteq> [] \<and> rq_Schema q \<noteq> []"

definition registered :: "MemoryRegistry \<Rightarrow> ResolveRequest \<Rightarrow> Resolved" where
  "registered r q =
     \<lparr>rv_Subject = rq_Subject q, rv_Type = normalizeSchemaType (rq_Type q), rv_SchemaID = mr_nextID r,
      rv_SchemaVersion = Some (int (length (mr_versions r (rq_Subject q))) + 1), rv_Schema = rq_Schema q\<rparr>"

definition add_schema :: "MemoryRegistry \<Rightarrow> ResolveRequest \<Rightarrow> MemoryRegistry" where
  "add_schema r q =
     r\<lparr>mr_nextID := wrap64 (mr_nextID r + 1), mr_byID := (mr_byID r)(mr_nextID r \<mapsto> registered r q),
       mr_versions := (mr_versions r)(rq_Subject q := mr_versions r (rq_Subject q) @ [registered r q])\<rparr>"

lemma Memory_Resolve_register:
  "1 \<le> mr_nextID r \<Longrightarrow> registers q \<Longrightarrow> Memory_Resolve r q = (Ok (registered r q), add_schema r q)"
  by (simp add: Memory_Resolve_def registers_def registered_def add_schema_def Let_def)

lemma Memory_Resolve_lookup:
  "1 \<le> mr_nextID r \<Longrightarrow> \<not> registers q \<Longrightarrow> snd (Memory_Resolve r q) = r"
  by (auto simp: Memory_Resolve_def registers_def Let_def split: option.splits)

lemma mr_nextID_wrap: "mr_ok r \<Longrightarrow> mr_nextID r < 2 ^ 63 - 1 \<Longrightarrow> wrap64 (mr_nextID r + 1) = mr_nextID r + 1"
  by (rule wrap64_id) (auto simp: mr_ok_def in_int64_def max_int64_def)

lemma add_schema_ok:
  assumes "mr_ok r" "mr_nextID r < 2 ^ 63 - 1"
  shows "mr_ok (add_schema r q)"
proof -
  have fresh: "mr_byID r (mr_nextID r) = None"
    using mr_okD(2) [OF assms(1), of "mr_nextID r"] by (cases "mr_byID r (mr_nextID r)") auto
  have "\<not> rv_SchemaID (mr_versions r s ! k) = mr_nextID r" if "k < length (mr_versions r s)" for s k
    using mr_okD(3) [OF assms(1) that] fresh by auto
  then show ?thesis
    using assms unfolding mr_ok_def
    by (auto simp: add_schema_def registered_def mr_nextID_wrap [OF assms] nth_append less_Suc_eq) (meson order_less_imp_le)
qed

lemma Memory_Resolve_ok:
  assumes "mr_ok r" "mr_nextID r < 2 ^ 63 - 1"
  shows "mr_ok (snd (Memory_Resolve r q))"
  using Memory_Resolve_register [OF mr_okD(1) [OF assms(1)]] Memory_Resolve_lookup [OF mr_okD(1) [OF assms(1)]]
    add_schema_ok [OF assms] assms(1)
  by (cases "registers q") simp_all

text \<open>A run of requests.\<close>

definition Memory_run :: "MemoryRegistry \<Rightarrow> ResolveRequest list \<Rightarrow> MemoryRegistry" where
  "Memory_run = foldl (\<lambda>r q. snd (Memory_Resolve r q))"

lemma Memory_run_simps [simp]:
  "Memory_run r [] = r" "Memory_run r (q # qs) = Memory_run (snd (Memory_Resolve r q)) qs"
  by (simp_all add: Memory_run_def)

definition extends :: "MemoryRegistry \<Rightarrow> MemoryRegistry \<Rightarrow> bool" where
  "extends r r' \<longleftrightarrow> mr_byID r \<subseteq>\<^sub>m mr_byID r' \<and> (\<forall>s. \<exists>new. mr_versions r' s = mr_versions r s @ new)"

lemma extends_refl: "extends r r"
  by (simp add: extends_def)

lemma extends_trans: "extends a b \<Longrightarrow> extends b c \<Longrightarrow> extends a c"
  unfolding extends_def using map_le_trans by (metis append_assoc)

lemma Memory_Resolve_extends:
  assumes "mr_ok r"
  shows "extends r (snd (Memory_Resolve r q))"
proof (cases "registers q")
  case True
  have "mr_byID r (mr_nextID r) = None"
    using mr_okD(2) [OF assms, of "mr_nextID r"] by (cases "mr_byID r (mr_nextID r)") auto
  then show ?thesis
    using Memory_Resolve_register [OF mr_okD(1) [OF assms] True]
    by (auto simp: extends_def add_schema_def map_le_def)
next
  case False
  then show ?thesis using Memory_Resolve_lookup [OF mr_okD(1) [OF assms]] by (simp add: extends_refl)
qed

lemma Memory_Resolve_nextID:
  assumes "mr_ok r" "mr_nextID r < 2 ^ 63 - 1"
  shows "mr_nextID (snd (Memory_Resolve r q)) \<le> mr_nextID r + 1"
  using Memory_Resolve_register [OF mr_okD(1) [OF assms(1)]] Memory_Resolve_lookup [OF mr_okD(1) [OF assms(1)]]
    mr_nextID_wrap [OF assms]
  by (cases "registers q") (simp_all add: add_schema_def)

lemma Memory_run_ok:
  "mr_ok r \<Longrightarrow> mr_nextID r + int (length qs) < 2 ^ 63 \<Longrightarrow> mr_ok (Memory_run r qs) \<and> extends r (Memory_run r qs)"
proof (induction qs arbitrary: r)
  case (Cons q qs)
  have b: "mr_nextID r < 2 ^ 63 - 1" using Cons.prems(2) by simp
  let ?r = "snd (Memory_Resolve r q)"
  have "mr_ok (Memory_run ?r qs) \<and> extends ?r (Memory_run ?r qs)"
    using Cons.IH [OF Memory_Resolve_ok [OF Cons.prems(1) b]] Memory_Resolve_nextID [OF Cons.prems(1) b, of q] Cons.prems(2)
    by simp
  then show ?case using Memory_Resolve_extends [OF Cons.prems(1)] extends_trans by auto
qed (simp add: extends_refl)

definition by_id :: "int \<Rightarrow> ResolveRequest" where
  "by_id i = \<lparr>rq_Subject = [], rq_Type = [], rq_SchemaID = Some i, rq_SchemaVersion = None, rq_Schema = []\<rparr>"

definition by_version :: "string \<Rightarrow> int \<Rightarrow> ResolveRequest" where
  "by_version subject v = \<lparr>rq_Subject = subject, rq_Type = [], rq_SchemaID = None, rq_SchemaVersion = Some v, rq_Schema = []\<rparr>"

definition latest :: "string \<Rightarrow> ResolveRequest" where
  "latest subject = \<lparr>rq_Subject = subject, rq_Type = [], rq_SchemaID = None, rq_SchemaVersion = None, rq_Schema = []\<rparr>"

lemma Memory_by_id: "mr_byID r i = Some res \<Longrightarrow> fst (Memory_Resolve r (by_id i)) = Ok res"
  by (simp add: Memory_Resolve_def by_id_def Let_def)

lemma Memory_by_version:
  "k < length (mr_versions r subject) \<Longrightarrow> int k + 1 < 2 ^ 63 \<Longrightarrow> subject \<noteq> [] \<Longrightarrow>
   fst (Memory_Resolve r (by_version subject (int k + 1))) = Ok (mr_versions r subject ! k)"
  by (simp add: Memory_Resolve_def by_version_def Let_def wrap64_id in_int64_def max_int64_def)

lemma Memory_latest:
  "mr_versions r subject = vs @ [v] \<Longrightarrow> subject \<noteq> [] \<Longrightarrow> fst (Memory_Resolve r (latest subject)) = Ok v"
  by (simp add: Memory_Resolve_def latest_def Let_def)

text \<open>
  C24: a schema registered in memory stays what it was. After a registration the registry answers
  the subject's latest version with it; and after any further requests, in any order, the same
  schema is found under its identifier and under its subject and version. (The identifiers must
  not have reached the end of the 64-bit range.)
\<close>

theorem Memory_register_lookup:
  assumes "mr_ok r" and "registers q" and "mr_nextID r + int (length qs) + 1 < 2 ^ 63"
    and "int (length (mr_versions r (rq_Subject q))) + 1 < 2 ^ 63"
  shows "\<exists>res. fst (Memory_Resolve r q) = Ok res \<and> rv_Schema res = rq_Schema q \<and> rv_Subject res = rq_Subject q \<and>
    fst (Memory_Resolve (snd (Memory_Resolve r q)) (latest (rq_Subject q))) = Ok res \<and>
    (let r' = Memory_run (snd (Memory_Resolve r q)) qs in
      fst (Memory_Resolve r' (by_id (rv_SchemaID res))) = Ok res \<and>
      (\<exists>v. rv_SchemaVersion res = Some v \<and> fst (Memory_Resolve r' (by_version (rq_Subject q) v)) = Ok res))"
proof -
  let ?r1 = "add_schema r q" and ?res = "registered r q" and ?k = "length (mr_versions r (rq_Subject q))"
  let ?r' = "Memory_run ?r1 qs"
  have reg: "Memory_Resolve r q = (Ok ?res, ?r1)"
    by (rule Memory_Resolve_register [OF mr_okD(1) [OF assms(1)] assms(2)])
  have b: "mr_nextID r < 2 ^ 63 - 1" using assms(3) by simp
  have "mr_nextID ?r1 = mr_nextID r + 1" using mr_nextID_wrap [OF assms(1) b] by (simp add: add_schema_def)
  then have ext: "extends ?r1 ?r'"
    using Memory_run_ok [OF add_schema_ok [OF assms(1) b]] assms(3) by simp
  have vs: "mr_versions ?r1 (rq_Subject q) = mr_versions r (rq_Subject q) @ [?res]" by (simp add: add_schema_def)
  have s: "rq_Subject q \<noteq> []" using assms(2) by (simp add: registers_def)
  have "mr_byID ?r' (rv_SchemaID ?res) = Some ?res"
    using ext by (auto simp: extends_def map_le_def add_schema_def registered_def)
  moreover obtain new where "mr_versions ?r' (rq_Subject q) = mr_versions r (rq_Subject q) @ ?res # new"
    using ext vs unfolding extends_def by (metis append.assoc append_Cons append_Nil)
  ultimately show ?thesis
    using Memory_by_id [of ?r'] Memory_by_version [of ?k ?r' "rq_Subject q"] Memory_latest [OF vs s] s assms(4)
    by (simp add: reg Let_def registered_def)
qed

definition demo_register :: ResolveRequest where
  "demo_register = \<lparr>rq_Subject = ''t-value'', rq_Type = ''AVRO'', rq_SchemaID = None, rq_SchemaVersion = None, rq_Schema = ''s''\<rparr>"

theorem Memory_register_lookup_witness:
  "\<exists>res. fst (Memory_Resolve NewMemoryRegistry demo_register) = Ok res \<and> rv_Schema res = ''s'' \<and>
    fst (Memory_Resolve (Memory_run (snd (Memory_Resolve NewMemoryRegistry demo_register)) [demo_register, latest ''t''])
      (by_id (rv_SchemaID res))) = Ok res"
  using Memory_register_lookup [OF NewMemoryRegistry_ok, of demo_register "[demo_register, latest ''t'']"]
  by (auto simp: registers_def demo_register_def NewMemoryRegistry_def Let_def simp del: Memory_run_simps)

text \<open>
  The registry in memory keeps its tables consistent. From the empty registry, whatever
  requests are made (fewer than the 64-bit range has identifiers), every schema sits under its own
  identifier, identifiers are handed out upwards from 1, and the versions of a subject are
  numbered from 1 without a gap and agree with the identifier table.
\<close>

theorem Memory_run_consistent:
  assumes "int (length qs) < 2 ^ 63 - 1"
  shows "mr_ok (Memory_run NewMemoryRegistry qs)"
  using Memory_run_ok [OF NewMemoryRegistry_ok, of qs] assms by (simp add: NewMemoryRegistry_def)

theorem Memory_run_consistent_witness:
  "mr_ok (Memory_run NewMemoryRegistry [demo_register, latest ''t-value'', demo_register])"
  by (rule Memory_run_consistent) simp

end
