(* ===== verification/Registry_Http.thy ===== *)
theory Registry_Http
  imports Registry
begin

text \<open>
  What the HTTP client of the schema registry asks its server. A recording server keeps the
  list of the requests it was sent; the theorems below say exactly which requests one
  \<^verbatim>\<open>Resolve\<close> makes, and what becomes of a subject name in the request path.
\<close>

section \<open>A recording server\<close>

definition recording :: "'st http_server \<Rightarrow> ('st \<times> http_request list) http_server" where
  "recording server sl q = (case server (fst sl) q of (a, st') \<Rightarrow> (a, (st', snd sl @ [q])))"

definition request_of :: "HTTPRegistry \<Rightarrow> string \<Rightarrow> string \<Rightarrow> (string \<times> string) list option \<Rightarrow> http_request" where
  "request_of r method path body =
     \<lparr>hq_method = method, hq_path = path, hq_body = body,
      hq_auth = (if hr_username r \<noteq> [] \<or> hr_password r \<noteq> [] then Some (hr_username r, hr_password r) else None)\<rparr>"

lemma doJSON_recorded:
  "snd (snd (doJSON (recording server) r method suffix body out zero (st, ql))) =
     ql @ [request_of r method (escape_path (path_Join (hr_path r) suffix)) body]"
  by (simp add: doJSON_def recording_def request_of_def Let_def split: prod.split sum.split)

section \<open>Paths\<close>

text \<open>A segment that needs no escaping and no cleaning.\<close>

definition plain_segment :: "string \<Rightarrow> bool" where
  "plain_segment s \<longleftrightarrow> s \<noteq> [] \<and> s \<noteq> ''.'' \<and> s \<noteq> ''..'' \<and> list_all unreserved s"

lemma unreserved_no_escape: "unreserved c \<Longrightarrow> \<not> shouldEscape_segment c \<and> \<not> shouldEscape_path c"
  by (simp add: shouldEscape_segment_def shouldEscape_path_def)

lemma pathEscape_unreserved: "list_all unreserved s \<Longrightarrow> pathEscape s = s"
  by (induction s) (simp_all add: unreserved_no_escape)

lemma plain_pathEscape: "plain_segment s \<Longrightarrow> pathEscape s = s"
  by (simp add: plain_segment_def pathEscape_unreserved)

lemma plain_no_slash: "plain_segment s \<Longrightarrow> CHR ''/'' \<notin> set s"
  by (auto simp: plain_segment_def list_all_iff unreserved_def)

lemma escape_path_append: "escape_path (a @ b) = escape_path a @ escape_path b"
  by (induction a) simp_all

lemma escape_path_unreserved: "list_all unreserved s \<Longrightarrow> escape_path s = s"
  by (induction s) (simp_all add: unreserved_no_escape)

lemma escape_path_slash: "escape_path (CHR ''/'' # s) = CHR ''/'' # escape_path s"
  by (simp add: shouldEscape_path_def)

text \<open>The path made of segments, each behind a slash.\<close>

definition slashed :: "string list \<Rightarrow> string" where
  "slashed ps = concat (map (\<lambda>p. CHR ''/'' # p) ps)"

lemma slashed_simps [simp]:
  "slashed [] = []" "slashed (p # ps) = CHR ''/'' # p @ slashed ps" "slashed (ps @ qs) = slashed ps @ slashed qs"
  by (simp_all add: slashed_def)

lemma slashed_join: "ps \<noteq> [] \<Longrightarrow> CHR ''/'' # go_join ''/'' ps = slashed ps"
proof (induction ps)
  case (Cons p ps)
  then show ?case by (cases ps) simp_all
qed simp

lemma go_split_slashed: "list_all (\<lambda>p. CHR ''/'' \<notin> set p) ps \<Longrightarrow> go_split (CHR ''/'') (slashed ps) = [] # ps"
proof (induction ps rule: induct_list012)
  case (3 p q ps)
  then show ?case by simp
qed simp_all

lemma clean_plain: "list_all plain_segment ps \<Longrightarrow> clean_segments acc ps = rev acc @ ps"
  by (induction ps arbitrary: acc) (simp_all add: plain_segment_def)

lemma go_split_slashed_append:
  "CHR ''/'' \<notin> set p \<Longrightarrow> list_all (\<lambda>p. CHR ''/'' \<notin> set p) ps \<Longrightarrow>
   go_split (CHR ''/'') (p @ slashed ps @ CHR ''/'' # s) = p # ps @ go_split (CHR ''/'') s"
  by (induction ps arbitrary: p) simp_all

lemma clean_slashed_join:
  assumes "list_all plain_segment base" "list_all plain_segment ps"
  shows "clean_segments [] (go_split (CHR ''/'') (slashed base @ CHR ''/'' # slashed ps)) = base @ ps"
proof -
  have n: "list_all (\<lambda>p. CHR ''/'' \<notin> set p) base" "list_all (\<lambda>p. CHR ''/'' \<notin> set p) ps"
    using assms plain_no_slash by (simp_all add: list_all_iff)
  have e: "clean_segments acc (qs @ [] # ps) = clean_segments acc (qs @ ps)" for acc qs
    by (induction qs arbitrary: acc) simp_all
  show ?thesis
    using go_split_slashed_append [OF _ n(1), of "[]"] go_split_slashed [OF n(2)] e [of "[]" base]
      clean_plain [of "base @ ps" "[]"] assms by simp
qed

lemma escape_slashed: "list_all plain_segment ps \<Longrightarrow> escape_path (slashed ps) = slashed ps"
proof (induction ps)
  case (Cons p ps)
  then have "escape_path p = p" by (simp add: plain_segment_def escape_path_unreserved)
  then show ?case using Cons by (simp add: escape_path_slash escape_path_append del: escape_path.simps(2))
qed simp

lemma joined_path:
  assumes "list_all plain_segment base" "list_all plain_segment ps" "ps \<noteq> []"
  shows "escape_path (path_Join (slashed base) (slashed ps)) = slashed (base @ ps)"
proof -
  have "path_Join (slashed base) (slashed ps) = slashed (base @ ps)"
    using clean_slashed_join [OF assms(1,2)] slashed_join [of "base @ ps"] assms(3) by (simp add: path_Join_def)
  then show ?thesis using escape_slashed [of "base @ ps"] assms(1,2) by simp
qed

lemma itoa_plain: "plain_segment (itoa i)"
proof -
  have d: "unreserved (digit_char d)" if "d < 10" for d
    using that by (auto simp: digit_char_def unreserved_def)
  have u: "list_all unreserved (nat_digits n)" for n
    using nat_digits_chars d by (auto simp: list_all_iff)
  have dot: "nat_digits n \<noteq> CHR ''.'' # s" for n s
    using parse_nat_digits [of n] by (auto simp: digit_val_def)
  have "itoa i \<noteq> [] \<and> itoa i \<noteq> ''.'' \<and> itoa i \<noteq> ''..''"
    using dot [of "nat i"] by (auto simp: itoa_def)
  moreover have "list_all unreserved (itoa i)" using u by (simp add: itoa_def unreserved_def)
  ultimately show ?thesis by (simp add: plain_segment_def)
qed

section \<open>Requests\<close>

text \<open>
  The request a resolution makes: registration when there is a schema text, else the version
  asked for, else the identifier, else the latest version.
\<close>

definition asked :: "HTTPRegistry \<Rightarrow> string list \<Rightarrow> ResolveRequest \<Rightarrow> http_request list" where
  "asked r base q =
     (if trimSpace (rq_Subject q) = [] \<and> rq_SchemaID q = None then []
      else if trimSpace (rq_Schema q) \<noteq> [] then
        [request_of r ''POST'' (slashed (base @ [''subjects'', rq_Subject q, ''versions'']))
           (Some ((''schema'', rq_Schema q) #
              (if registrySchemaType (rq_Type q) \<noteq> [] then [(''schemaType'', registrySchemaType (rq_Type q))] else [])))]
      else if rq_SchemaVersion q \<noteq> None then
        [request_of r ''GET'' (slashed (base @ [''subjects'', rq_Subject q, ''versions'', itoa (the (rq_SchemaVersion q))])) None]
      else if rq_SchemaID q \<noteq> None then
        [request_of r ''GET'' (slashed (base @ [''schemas'', ''ids'', itoa (the (rq_SchemaID q))])) None]
      else [request_of r ''GET'' (slashed (base @ [''subjects'', rq_Subject q, ''versions'', ''latest''])) None])"

lemma literal_segments:
  "plain_segment ''subjects''" "plain_segment ''versions''" "plain_segment ''schemas''" "plain_segment ''ids''"
  "plain_segment ''latest''"
  by (simp_all add: plain_segment_def unreserved_def)

lemma snd_register:
  "snd (register_schema server r q st) =
    snd (doJSON server r ''POST'' (''/subjects/'' @ pathEscape (rq_Subject q) @ ''/versions'')
      (Some ((''schema'', rq_Schema q) #
        (if registrySchemaType (rq_Type q) \<noteq> [] then [(''schemaType'', registrySchemaType (rq_Type q))] else [])))
      (dec_struct [reply_id]) zero_reply st)"
  unfolding register_schema_def Let_def by (simp split: prod.split sum.split)

lemma snd_getSubjectVersion:
  "snd (getSubjectVersion server r subject version st) =
    snd (doJSON server r ''GET'' (''/subjects/'' @ pathEscape subject @ ''/versions/'' @ pathEscape version) None
      (dec_struct [reply_subject, reply_id, reply_version, reply_schema, reply_schemaType]) zero_reply st)"
  unfolding getSubjectVersion_def by (simp split: prod.split sum.split)

lemma snd_getSchemaByID:
  "snd (getSchemaByID server r i typ subject st) =
    snd (doJSON server r ''GET'' (''/schemas/ids/'' @ itoa i) None (dec_struct [reply_schema, reply_schemaType]) zero_reply st)"
  unfolding getSchemaByID_def by (simp split: prod.split sum.split)

text \<open>Suffixes as lists of segments.\<close>

lemma suffix_slashed:
  "''/subjects/'' @ a @ ''/versions'' = slashed [''subjects'', a, ''versions'']"
  "''/subjects/'' @ a @ ''/versions/'' @ b = slashed [''subjects'', a, ''versions'', b]"
  "''/schemas/ids/'' @ c = slashed [''schemas'', ''ids'', c]"
  by simp_all

lemma recorded_path:
  assumes "list_all plain_segment base" "hr_path r = slashed base" "list_all plain_segment ps" "ps \<noteq> []"
  shows "escape_path (path_Join (hr_path r) (slashed ps)) = slashed (base @ ps)"
  using joined_path [OF assms(1,3,4)] assms(2) by simp

lemma recorded_requests:
  assumes "list_all plain_segment base" "hr_path r = slashed base"
  shows "plain_segment (rq_Subject q) \<Longrightarrow>
      snd (snd (register_schema (recording server) r q (st, ql))) = ql @
        [request_of r ''POST'' (slashed (base @ [''subjects'', rq_Subject q, ''versions'']))
           (Some ((''schema'', rq_Schema q) #
              (if registrySchemaType (rq_Type q) \<noteq> [] then [(''schemaType'', registrySchemaType (rq_Type q))] else [])))]"
    and "plain_segment subject \<Longrightarrow> plain_segment v \<Longrightarrow>
      snd (snd (getSubjectVersion (recording server) r subject v (st, ql))) = ql @
        [request_of r ''GET'' (slashed (base @ [''subjects'', subject, ''versions'', v])) None]"
    and "snd (snd (getSchemaByID (recording server) r i typ subject (st, ql))) = ql @
        [request_of r ''GET'' (slashed (base @ [''schemas'', ''ids'', itoa i])) None]"
  using recorded_path [OF assms, of "[''subjects'', rq_Subject q, ''versions'']"]
    recorded_path [OF assms, of "[''subjects'', subject, ''versions'', v]"]
    recorded_path [OF assms, of "[''schemas'', ''ids'', itoa i]"]
  unfolding snd_register snd_getSubjectVersion snd_getSchemaByID doJSON_recorded suffix_slashed
  by (simp_all only: plain_pathEscape literal_segments itoa_plain list.pred_inject simp_thms not_Cons_self2 list.distinct)

lemma HTTP_Resolve_recorded:
  assumes "list_all plain_segment base" "hr_path r = slashed base" and "plain_segment (rq_Subject q)"
  shows "snd (snd (HTTP_Resolve (recording server) (Some r) (st, ql) q)) = ql @ asked r base q"
  by (cases "rq_SchemaVersion q"; cases "rq_SchemaID q")
     (simp_all add: HTTP_Resolve_def asked_def recorded_requests [OF assms(1,2)] assms(3) literal_segments itoa_plain
       del: slashed_simps)


definition demo_registry :: HTTPRegistry where
  "demo_registry = \<lparr>hr_path = ''/sr'', hr_username = ''u'', hr_password = ''p''\<rparr>"


text \<open>
  A subject that needs escaping is escaped twice. The escaped subject is stored in the
  decoded path of the URL, and printing the URL escapes its percent signs again: for the subject
  \<^verbatim>\<open>a/b\<close> the server is asked for the subject whose name is \<^verbatim>\<open>a%2Fb\<close>.
\<close>

theorem HTTP_subject_escaped_twice:
  "map hq_path (snd (snd (HTTP_Resolve (recording server)
      (Some \<lparr>hr_path = [], hr_username = [], hr_password = []\<rparr>) (st, [])
      \<lparr>rq_Subject = ''a/b'', rq_Type = [], rq_SchemaID = None, rq_SchemaVersion = None, rq_Schema = []\<rparr>))) =
   [''/subjects/a%252Fb/versions/latest'']"
proof -
  have t: "trimSpace ''a/b'' = ''a/b''"
    by (rule trimSpace_id) (simp_all add: space_len_def space_len_end_def ascii_space_def space2_def space3_def)
  have e: "pathEscape ''a/b'' = ''a%2Fb''" "pathEscape ''latest'' = ''latest''"
    by (simp_all add: shouldEscape_segment_def unreserved_def upper_hex_def char_of_code_eq)
  have p: "escape_path (path_Join [] ''/subjects/a%2Fb/versions/latest'') = ''/subjects/a%252Fb/versions/latest''"
    by (simp add: path_Join_def shouldEscape_path_def unreserved_def upper_hex_def char_of_code_eq)
  show ?thesis
    using doJSON_recorded [of server "\<lparr>hr_path = [], hr_username = [], hr_password = []\<rparr>" "''GET''"
        "''/subjects/a%2Fb/versions/latest''" None _ zero_reply st "[]"] p
    by (simp add: HTTP_Resolve_def t snd_getSubjectVersion e request_of_def del: pathEscape.simps escape_path.simps)
qed

end
