(* ===== verification/Encoder_Props.thy ===== *)
theory Encoder_Props
  imports Registry_Props Registry_Http
begin

text \<open>
  Properties of the payload encoder: the wire format, pinned schema identifiers over every
  registry that meets the interface \<open>registry\<close>, string payloads and null payloads.
\<close>

section \<open>The wire format\<close>

text \<open>A reader of the Confluent wire format: the magic byte, the identifier in four bytes, the rest.\<close>

fun wire_read :: "bytes \<Rightarrow> (nat \<times> bytes) option" where
  "wire_read (m # a # b # c # d # rest) =
     (if m = CHR 0x00 then Some (((code a * 256 + code b) * 256 + code c) * 256 + code d, rest) else None)"
| "wire_read _ = None"

lemma unat_drop_bit32: "unat (drop_bit n (w :: 32 word)) = unat w div 2 ^ n"
  by (subst unat_drop_bit_eq) (simp add: drop_bit_eq_div)

lemma bytes4:
  fixes x :: nat
  assumes "x < 4294967296"
  shows "((x div 16777216 mod 256 * 256 + x div 65536 mod 256) * 256 + x div 256 mod 256) * 256 + x mod 256 = x"
proof -
  have "x div 16777216 < 256" using assms by (simp add: less_mult_imp_div_less)
  then have "x div 16777216 mod 256 = x div 16777216" by simp
  moreover have "x div 16777216 = x div 65536 div 256" "x div 65536 = x div 256 div 256"
    by (simp_all add: div_mult2_eq [symmetric])
  ultimately show ?thesis by (metis div_mult_mod_eq)
qed

lemma wire_read_putUint32: "wire_read (CHR 0x00 # putUint32 w @ s) = Some (unat w, s)"
proof -
  have "unat w < 4294967296" using unsigned_less [of w] by simp
  then show ?thesis using bytes4 by (simp add: putUint32_def unat_drop_bit32)
qed

text \<open>
  C26: the wire format reads back. What the encoder writes starts with the zero magic byte and the
  four bytes of the schema identifier, most significant first; a reader gets the identifier back
  (modulo the 32 bits the format has) and then the payload, which for Protobuf has the single
  byte of the message index in front of it.
\<close>

theorem wire_format_reads_back:
  "wire_read (appendConfluentWireFormat [] i typ payload) =
     Some (nat (i mod 2 ^ 32), (if typ = TypeProtobuf then [CHR 0x00] else []) @ payload)"
proof -
  have "unat (word_of_int i :: 32 word) = nat (i mod 2 ^ 32)"
    by (simp add: unat_eq_nat_uint uint_word_of_int)
  then show ?thesis by (simp add: appendConfluentWireFormat_def wire_read_putUint32 del: wire_read.simps)
qed

lemma wire_read_id:
  "0 \<le> i \<Longrightarrow> i < 2 ^ 32 \<Longrightarrow> map_option fst (wire_read (appendConfluentWireFormat [] i typ payload)) = Some (nat i)"
proof -
  assume "0 \<le> i" "i < 2 ^ 32"
  then have "unat (word_of_int i :: 32 word) = nat i"
    by (simp add: unat_eq_nat_uint uint_word_of_int)
  then show ?thesis by (simp add: appendConfluentWireFormat_def wire_read_putUint32 del: wire_read.simps)
qed

section \<open>The interface of a registry\<close>

text \<open>The encoder touches the registry only through a schema-aware encoding.\<close>

lemma Encode_state:
  "snd (Encode cs reg st topic key dopt) = st \<or>
   (\<exists>t d. snd (Encode cs reg st topic key dopt) = snd (encodeSchemaAware cs reg st topic key t d))"
proof (cases dopt)
  case (Some d)
  have branches: "(if a then st else if b then st else if c then st else if u then snd (encodeSchemaAware cs reg st topic key t d) else st) = st \<or>
    (\<exists>t' d'. (if a then st else if b then st else if c then st else if u then snd (encodeSchemaAware cs reg st topic key t d) else st) =
      snd (encodeSchemaAware cs reg st topic key t' d'))" for a b c u t by auto
  have *: "snd (case x of (Err e, st') \<Rightarrow> (Err e, st') | (Ok (p, m), st') \<Rightarrow> (Ok (f p m), st')) = snd x"
    for x :: "(message + bytes option \<times> Metadata) \<times> 'a" and f :: "bytes option \<Rightarrow> Metadata \<Rightarrow> bytes option \<times> Metadata"
    by (simp split: prod.split sum.split)
  have **: "snd (case x of Err e \<Rightarrow> (Err e, st) | Ok p \<Rightarrow> (Ok (f p), st)) = st"
    for x :: "message + bytes option" and f :: "bytes option \<Rightarrow> bytes option \<times> Metadata"
    by (simp split: sum.split)
  show ?thesis unfolding Some Encode_def Let_def option.case by (simp only: if_distrib [of snd] * ** snd_conv) (rule branches)
qed (simp add: Encode_def)

text \<open>
  What the encoder relies on: a resolution that succeeds for an identifier, with no schema text
  and no version, gives the schema of this identifier. \<open>ok\<close> is what the registry maintains.
\<close>

locale registry =
  fixes resolve :: "'r resolver" and ok :: "'r \<Rightarrow> bool"
  assumes resolve_ok: "ok st \<Longrightarrow> ok (snd (resolve st q))"
    and resolve_pinned: "ok st \<Longrightarrow> resolve st q = (Ok res, st') \<Longrightarrow> rq_SchemaID q = Some i \<Longrightarrow>
      rq_SchemaVersion q = None \<Longrightarrow> rq_Schema q = [] \<Longrightarrow> rv_SchemaID res = i"
begin

lemma encodeSchemaAware_ok: "ok st \<Longrightarrow> ok (snd (encodeSchemaAware cs (Some resolve) st topic key typ d))"
proof (cases "no_data d")
  case False
  let ?q = "\<lparr>rq_Subject = resolveSubject topic key d typ, rq_Type = typ, rq_SchemaID = rd_SchemaID d,
              rq_SchemaVersion = rd_SchemaVersion d, rq_Schema = rd_Schema d\<rparr>"
  assume "ok st"
  then have "ok (snd (resolve st ?q))" by (rule resolve_ok)
  moreover have "snd (encodeSchemaAware cs (Some resolve) st topic key typ d) = snd (resolve st ?q)"
    using False by (cases "resolve st ?q"; cases "fst (resolve st ?q)") (auto simp: encodeSchemaAware_def Let_def split: sum.split)
  ultimately show ?thesis by simp
qed (simp add: encodeSchemaAware_def)

lemma encodeSchemaAware_pinned:
  assumes "ok st" "encodeSchemaAware cs (Some resolve) st topic key typ d = (Ok (Some wire, meta), st')"
    and "rd_SchemaID d = Some i" "rd_SchemaVersion d = None" "rd_Schema d = []"
  shows "\<exists>t p. wire = appendConfluentWireFormat [] i t p \<and> md_SchemaID meta = Some i"
  using assms(2) resolve_pinned [OF assms(1)] assms(3-5)
  by (fastforce simp: encodeSchemaAware_def Let_def split: if_splits prod.splits sum.splits)

lemma Encode_ok: "ok st \<Longrightarrow> ok (snd (Encode cs (Some resolve) st topic key dopt))"
  using Encode_state [of cs "Some resolve" st topic key dopt] encodeSchemaAware_ok by metis

text \<open>The client's lemma: the encoder writes the identifier it was asked for, and keeps the registry sound.\<close>

lemma Encode_pinned:
  assumes "ok st" "Encode cs (Some resolve) st topic key (Some d) = (Ok (Some wire, meta), st')"
    and "rd_SchemaID d = Some i" "rd_SchemaVersion d = None" "rd_Schema d = []"
    and "NormalizedType d \<notin> {TypeBinary, TypeString, TypeJSON}"
  shows "ok st' \<and> md_SchemaID meta = Some i \<and> md_Size meta = int (length wire) \<and>
    (\<exists>t p. wire = appendConfluentWireFormat [] i t p)"
proof -
  obtain ty meta1 where e: "encodeSchemaAware cs (Some resolve) st topic key ty d = (Ok (Some wire, meta1), st')"
    and m: "md_SchemaID meta = md_SchemaID meta1" "md_Size meta = int (length wire)"
    using assms(2,3,6)
    by (auto simp: Encode_def Let_def IsSchemaAware_def payload_size_def type_defs split: if_splits prod.splits sum.splits)
  show ?thesis
    using encodeSchemaAware_pinned [OF assms(1) e assms(3-5)] encodeSchemaAware_ok [OF assms(1), of cs topic key ty d] m
    by (simp add: e)
qed

end

text \<open>In memory: every entry sits under its own identifier, also if the identifiers wrap around.\<close>

definition own_ids :: "MemoryRegistry \<Rightarrow> bool" where
  "own_ids r \<longleftrightarrow> (\<forall>i res. mr_byID r i = Some res \<longrightarrow> rv_SchemaID res = i)"

interpretation memory: registry Memory_Resolve own_ids
proof
  show "own_ids (snd (Memory_Resolve st q))" if "own_ids st" for st q
    using that by (auto simp: own_ids_def Memory_Resolve_def Let_def split: option.splits if_splits)
  show "rv_SchemaID res = i"
    if "own_ids st" "Memory_Resolve st q = (Ok res, st')" "rq_SchemaID q = Some i" for st q res st' i
    using that by (auto simp: own_ids_def Memory_Resolve_def Let_def split: option.splits if_splits)
qed

text \<open>Over HTTP: nothing is assumed of the server.\<close>

interpretation http: registry "HTTP_Resolve server reg" "\<lambda>_. True" for server reg
proof
  show "rv_SchemaID res = i"
    if "HTTP_Resolve server reg st q = (Ok res, st')" "rq_SchemaID q = Some i" "rq_SchemaVersion q = None" "rq_Schema q = []"
    for st q res st' i
    using that by (auto simp: HTTP_Resolve_def getSchemaByID_def split: option.splits if_splits prod.splits sum.splits)
qed simp

section \<open>Pinned identifiers\<close>


text \<open>Libraries that accept every schema and copy the data, for concrete runs.\<close>

definition demo_codecs :: "(unit, bytes, unit, unit, unit, unit, bytes) codecs" where
  "demo_codecs =
     \<lparr>goavro_NewCodec = (\<lambda>_. Ok ()), goavro_NativeFromTextual = (\<lambda>_ b. Ok b), goavro_BinaryFromNative = (\<lambda>_ b. Ok b),
      jsonschema_AddResource = (\<lambda>_. Ok ()), jsonschema_Compile = (\<lambda>_. Ok ()), jsonschema_UnmarshalJSON = (\<lambda>_. Ok ()),
      jsonschema_Validate = (\<lambda>_ _. None), protocompile_Compile = (\<lambda>_. Ok [[Desc () []]]),
      protojson_Unmarshal = (\<lambda>_ b. Ok b), proto_Marshal = Ok\<rparr>"

definition demo_server :: "nat http_server" where
  "demo_server n q = (Ok \<lparr>hs_status = 200, hs_line = ''200 OK'', hs_body = ''{}''\<rparr>, Suc n)"

definition demo_data :: RequestData where
  "demo_data = zero_RequestData\<lparr>rd_Type := ''AVRO'', rd_SchemaID := Some 7, rd_Data := ''1'', rd_DataPresent := True,
     rd_SubjectNameStrategy := StrategyTopicName\<rparr>"

lemma trimSpace_demo: "trimSpace ''AVRO'' = ''AVRO''" "trimSpace ''1'' = ''1''" "trimSpace ''t-value'' = ''t-value''"
  "trimSpace StrategyTopicName = StrategyTopicName" "toUpper StrategyTopicName = StrategyTopicName" "toUpper ''AVRO'' = ''AVRO''"
proof -
  show "trimSpace ''AVRO'' = ''AVRO''" "trimSpace ''1'' = ''1''" "trimSpace ''t-value'' = ''t-value''"
    "trimSpace StrategyTopicName = StrategyTopicName"
    by (rule trimSpace_id; simp add: StrategyTopicName_def space_len_def space_len_end_def ascii_space_def space2_def space3_def)+
  show "toUpper StrategyTopicName = StrategyTopicName" "toUpper ''AVRO'' = ''AVRO''" by code_simp+
qed

lemma demo_first: "json_first ''{}'' = Some (JObj ''{}'' [], [])"
  by (simp add: json_first_def json_fuel_def json_space_def maxNestingDepth_def numeral_eq_Suc taken_def)

lemma demo_NormalizedType: "NormalizedType demo_data = ''AVRO''"
  by (simp add: NormalizedType_def demo_data_def zero_RequestData_def trimSpace_demo)

lemma demo_subject: "resolveSubject ''t'' False demo_data ''AVRO'' = ''t-value''"
proof -
  have "StrategyTopicName \<noteq> StrategyRecordName" "StrategyTopicName \<noteq> StrategyTopicRecordName" "StrategyTopicName \<noteq> []"
    by (simp_all add: StrategyTopicName_def StrategyRecordName_def StrategyTopicRecordName_def)
  then show ?thesis by (simp add: resolveSubject_def demo_data_def zero_RequestData_def trimSpace_demo)
qed

lemma demo_resolve:
  "HTTP_Resolve demo_server (Some demo_registry) 0
     \<lparr>rq_Subject = ''t-value'', rq_Type = ''AVRO'', rq_SchemaID = Some 7, rq_SchemaVersion = None, rq_Schema = []\<rparr> =
   (Ok \<lparr>rv_Subject = ''t-value'', rv_Type = ''AVRO'', rv_SchemaID = 7, rv_SchemaVersion = None, rv_Schema = []\<rparr>, 1)"
  by (simp add: HTTP_Resolve_def getSchemaByID_def doJSON_def demo_server_def decode_first_def demo_first zero_reply_def
      normalizeRegistrySchemaType_def TypeAvro_def trimSpace_demo Let_def)

lemma demo_putUint32: "putUint32 7 = [CHR 0x00, CHR 0x00, CHR 0x00, CHR 0x07]"
  by (simp add: putUint32_def unat_drop_bit32 char_of_code_eq)

lemma demo_data_fields:
  "rd_SchemaID demo_data = Some 7" "rd_SchemaVersion demo_data = None" "rd_Schema demo_data = []"
  "rd_Data demo_data = ''1''" "\<not> no_data demo_data"
  by (simp_all add: demo_data_def zero_RequestData_def no_data_def isJSONNull_def trimSpace_demo)

lemma demo_schema_aware:
  "encodeSchemaAware demo_codecs (Some (HTTP_Resolve demo_server (Some demo_registry))) 0 ''t'' False ''AVRO'' demo_data =
   (Ok (Some [CHR 0x00, CHR 0x00, CHR 0x00, CHR 0x00, CHR 0x07, CHR ''1''],
        \<lparr>md_Type = ''AVRO'', md_Size = 6, md_Subject = ''t-value'', md_SchemaID = Some 7, md_SchemaVersion = None\<rparr>), 1)"
proof -
  have e: "encodeAvro demo_codecs [] ''1'' = Ok ''1''" by (simp add: encodeAvro_def demo_codecs_def)
  show ?thesis
    unfolding encodeSchemaAware_def Let_def demo_subject demo_data_fields demo_resolve option.case
    by (simp add: e type_defs trimSpace_demo appendConfluentWireFormat_def demo_putUint32 demo_data_fields)
qed

lemma demo_Encode:
  "Encode demo_codecs (Some (HTTP_Resolve demo_server (Some demo_registry))) 0 ''t'' False (Some demo_data) =
   (Ok (Some [CHR 0x00, CHR 0x00, CHR 0x00, CHR 0x00, CHR 0x07, CHR ''1''],
        \<lparr>md_Type = ''AVRO'', md_Size = 6, md_Subject = ''t-value'', md_SchemaID = Some 7, md_SchemaVersion = None\<rparr>), 1)"
  by (simp add: Encode_def Let_def demo_NormalizedType demo_schema_aware type_defs payload_size_def)


text \<open>
  The same for the registry in memory. As long as every schema it holds sits under its own
  identifier, which every resolution keeps, a payload sent with an identifier alone is written
  under this identifier.
\<close>

theorem memory_Encode_pins_schema_id:
  assumes "own_ids st" and "Encode cs (Some Memory_Resolve) st topic key (Some d) = (Ok (Some wire, meta), st')"
    and "rd_SchemaID d = Some i" and "0 \<le> i" and "i < 2 ^ 32" and "rd_SchemaVersion d = None" and "rd_Schema d = []"
    and "NormalizedType d \<notin> {TypeBinary, TypeString, TypeJSON}"
  shows "own_ids st' \<and> map_option fst (wire_read wire) = Some (nat i) \<and> md_SchemaID meta = Some i"
  using memory.Encode_pinned [OF assms(1,2,3,6,7,8)] wire_read_id [OF assms(4,5)] by auto

text \<open>A registry that holds one schema under the identifier 7.\<close>

definition demo_memory :: MemoryRegistry where
  "demo_memory = NewMemoryRegistry\<lparr>mr_byID := [7 \<mapsto>
     \<lparr>rv_Subject = ''t-value'', rv_Type = ''AVRO'', rv_SchemaID = 7, rv_SchemaVersion = Some 1, rv_Schema = []\<rparr>]\<rparr>"

lemma demo_memory_resolve:
  "Memory_Resolve demo_memory
     \<lparr>rq_Subject = ''t-value'', rq_Type = ''AVRO'', rq_SchemaID = Some 7, rq_SchemaVersion = None, rq_Schema = []\<rparr> =
   (Ok \<lparr>rv_Subject = ''t-value'', rv_Type = ''AVRO'', rv_SchemaID = 7, rv_SchemaVersion = Some 1, rv_Schema = []\<rparr>, demo_memory)"
  by (simp add: Memory_Resolve_def demo_memory_def NewMemoryRegistry_def)

lemma demo_memory_Encode:
  "Encode demo_codecs (Some Memory_Resolve) demo_memory ''t'' False (Some demo_data) =
   (Ok (Some [CHR 0x00, CHR 0x00, CHR 0x00, CHR 0x00, CHR 0x07, CHR ''1''],
        \<lparr>md_Type = ''AVRO'', md_Size = 6, md_Subject = ''t-value'', md_SchemaID = Some 7, md_SchemaVersion = Some 1\<rparr>), demo_memory)"
proof -
  have e: "encodeAvro demo_codecs [] ''1'' = Ok ''1''" by (simp add: encodeAvro_def demo_codecs_def)
  have "encodeSchemaAware demo_codecs (Some Memory_Resolve) demo_memory ''t'' False ''AVRO'' demo_data =
   (Ok (Some [CHR 0x00, CHR 0x00, CHR 0x00, CHR 0x00, CHR 0x07, CHR ''1''],
        \<lparr>md_Type = ''AVRO'', md_Size = 6, md_Subject = ''t-value'', md_SchemaID = Some 7, md_SchemaVersion = Some 1\<rparr>), demo_memory)"
    unfolding encodeSchemaAware_def Let_def demo_subject demo_data_fields demo_memory_resolve option.case
    by (simp add: e type_defs trimSpace_demo appendConfluentWireFormat_def demo_putUint32 demo_data_fields)
  then show ?thesis by (simp add: Encode_def Let_def demo_NormalizedType type_defs payload_size_def)
qed

theorem memory_Encode_pins_schema_id_witness:
  "own_ids demo_memory \<and> map_option fst (wire_read [CHR 0x00, CHR 0x00, CHR 0x00, CHR 0x00, CHR 0x07, CHR ''1'']) = Some 7"
proof -
  have "own_ids demo_memory" by (simp add: own_ids_def demo_memory_def NewMemoryRegistry_def)
  moreover have "NormalizedType demo_data \<notin> {TypeBinary, TypeString, TypeJSON}"
    by (simp add: demo_NormalizedType type_defs)
  ultimately show ?thesis
    using memory_Encode_pins_schema_id [OF _ demo_memory_Encode demo_data_fields(1) _ _ demo_data_fields(2,3)] by simp
qed

section \<open>Strings, bytes and nulls\<close>

definition v3_data :: "string \<Rightarrow> bytes \<Rightarrow> RequestData" where
  "v3_data t d = zero_RequestData\<lparr>rd_Type := t, rd_Data := d, rd_DataPresent := True\<rparr>"

lemma json_string_data:
  assumes "valid_utf8 s"
  shows "\<not> isJSONNull (json_string s)" "unmarshal_string (json_string s) = Some s"
proof -
  have sp: "spells (JStr (json_string s))" using json_string_token sp_str by metis
  have "trimSpace (json_string s) = json_string s"
    by (rule trimSpace_id) (simp_all add: json_string_def space_len_def space_len_end_def ascii_space_def space2_def space3_def split: list.split)
  then show "\<not> isJSONNull (json_string s)" by (simp add: isJSONNull_def json_string_def)
  show "unmarshal_string (json_string s) = Some s"
    using json_parse_spells [OF sp] str_val_json_string [OF assms] by (simp add: unmarshal_string_def unmarshal_def)
qed

lemma NormalizedType_plain:
  "NormalizedType (v3_data ''STRING'' d) = ''STRING''" "NormalizedType (v3_data ''BINARY'' d) = ''BINARY''"
proof -
  have "trimSpace ''STRING'' = ''STRING''" "trimSpace ''BINARY'' = ''BINARY''"
    by (rule trimSpace_id; simp add: space_len_def space_len_end_def ascii_space_def space2_def space3_def)+
  moreover have "toUpper ''STRING'' = ''STRING''" "toUpper ''BINARY'' = ''BINARY''" by code_simp+
  ultimately show "NormalizedType (v3_data ''STRING'' d) = ''STRING''" "NormalizedType (v3_data ''BINARY'' d) = ''BINARY''"
    by (simp_all add: NormalizedType_def v3_data_def zero_RequestData_def)
qed

text \<open>
  C28: strings and bytes of the v3 API arrive unchanged. A \<^verbatim>\<open>STRING\<close> payload whose data is the JSON
  string of a text (valid UTF-8) and a \<^verbatim>\<open>BINARY\<close> payload whose data is the JSON string of the
  base64 text of some bytes are encoded as exactly this text and these bytes; the registry is not
  asked.
\<close>

theorem Encode_plain_roundtrip:
  assumes "valid_utf8 s"
  shows "Encode cs reg st topic key (Some (v3_data ''STRING'' (json_string s))) =
      (Ok (Some s, zero_Metadata\<lparr>md_Type := ''STRING'', md_Size := int (length s)\<rparr>), st) \<and>
    Encode cs reg st topic key (Some (v3_data ''BINARY'' (json_string (b64_encode b)))) =
      (Ok (Some b, zero_Metadata\<lparr>md_Type := ''BINARY'', md_Size := int (length b)\<rparr>), st)"
proof -
  note b = json_string_data [OF ascii_valid_utf8 [OF b64_encode_ascii]]
  have d: "rd_Data (v3_data t x) = x" "rd_DataPresent (v3_data t x)" for t x
    by (simp_all add: v3_data_def)
  show ?thesis
    using json_string_data [OF assms] b
    by (simp add: Encode_def Let_def NormalizedType_plain type_defs encodeString_def encodeBinary_def no_data_def d
        payload_size_def b64_decode_encode)
qed

theorem Encode_plain_roundtrip_witness:
  "Encode demo_codecs (None :: unit resolver option) () ''t'' False (Some (v3_data ''STRING'' (json_string ''hi''))) =
     (Ok (Some ''hi'', zero_Metadata\<lparr>md_Type := ''STRING'', md_Size := 2\<rparr>), ())"
  using Encode_plain_roundtrip [of "''hi''" demo_codecs None "()" "''t''" False] ascii_valid_utf8 [of "''hi''"] by simp

text \<open>
  A null payload stays null. For every supported type, if the data are missing or the JSON
  null, the payload is Kafka's null with no schema identifier, and the registry is not asked.
\<close>

theorem Encode_null:
  assumes "no_data d"
    and "NormalizedType d \<in> {[], TypeBinary, TypeString, TypeJSON, TypeAvro, TypeJSONSchema, TypeProtobuf}"
  shows "\<exists>meta. Encode cs reg st topic key (Some d) = (Ok (None, meta), st) \<and> md_SchemaID meta = None \<and> md_Size meta = 0"
proof -
  have "encodeBinary d = Ok None" "encodeString d = Ok None" "encodeJSON d = Ok None"
    "encodeSchemaAware cs reg st topic key t d = (Ok (None, zero_Metadata\<lparr>md_Type := t\<rparr>), st)" for t
    using assms(1) by (simp_all add: encodeBinary_def encodeString_def encodeJSON_def encodeSchemaAware_def)
  then show ?thesis using assms(2)
    by (auto simp: Encode_def Let_def payload_size_def zero_Metadata_def type_defs)
qed

theorem Encode_null_witness:
  "\<exists>meta. Encode demo_codecs (None :: unit resolver option) () ''t'' False (Some (v3_data ''STRING'' ''null'')) = (Ok (None, meta), ()) \<and>
    md_SchemaID meta = None \<and> md_Size meta = 0"
proof -
  have "trimSpace ''null'' = ''null''"
    by (rule trimSpace_id; simp add: space_len_def space_len_end_def ascii_space_def space2_def space3_def)
  then have "no_data (v3_data ''STRING'' ''null'')" by (simp add: no_data_def v3_data_def isJSONNull_def)
  from Encode_null [OF this] show ?thesis by (simp add: NormalizedType_plain type_defs)
qed

section \<open>Protobuf messages\<close>

text \<open>
  Which Protobuf message is encoded: the encoder descends to the first message nested in the
  first message, as deep as nesting goes: with a first message that has a nested one, the data are
  read as the nested message, while the index byte it writes says the top-level one.
\<close>

lemma encodeProtobuf_nested:
  assumes "protocompile_Compile cs schemaText = Ok ((Desc outer (Desc inner [] # siblings) # others) # files)"
    and "protojson_Unmarshal cs inner rawData = Ok msg" and "proto_Marshal cs msg = Ok b"
  shows "encodeProtobuf cs schemaText rawData = Ok b"
  using assms by (simp add: encodeProtobuf_def firstMessage_def)

lemma encodeProtobuf_nested_witness:
  "encodeProtobuf
     \<lparr>goavro_NewCodec = (\<lambda>_. Ok ()), goavro_NativeFromTextual = (\<lambda>_ b. Ok ()), goavro_BinaryFromNative = (\<lambda>_ b. Ok []),
      jsonschema_AddResource = (\<lambda>_. Ok ()), jsonschema_Compile = (\<lambda>_. Ok ()), jsonschema_UnmarshalJSON = (\<lambda>_. Ok ()),
      jsonschema_Validate = (\<lambda>_ _. None), protocompile_Compile = (\<lambda>_. Ok [[Desc ''Outer'' [Desc ''Inner'' []]]]),
      protojson_Unmarshal = (\<lambda>d b. Ok (d @ b)), proto_Marshal = Ok\<rparr> ''schema'' ''1'' = Ok ''Inner1''"
  by (rule encodeProtobuf_nested) simp_all

end
