(* ===== verification/V2_Schema.thy ===== *)
theory V2_Schema
  imports V2_Decode Encoder_Props
begin

text \<open>
  Schema-aware v2 requests: the decoder of \<^verbatim>\<open>internal/api/types.go\<close> over the encoder of
  \<^verbatim>\<open>internal/schema/encoder.go\<close>, for every registry that meets the interface \<open>registry\<close>.
\<close>

definition carries_id :: "int \<Rightarrow> bytes option \<Rightarrow> bool" where
  "carries_id i p \<longleftrightarrow> (case p of None \<Rightarrow> True | Some w \<Rightarrow> map_option fst (wire_read w) = Some (nat i))"

lemma NormalizedType_schema:
  "schemaType format \<noteq> [] \<Longrightarrow> rd_Type d = schemaType format \<Longrightarrow> NormalizedType d \<in> {TypeAvro, TypeJSONSchema, TypeProtobuf}"
proof -
  have "trimSpace ''AVRO'' = ''AVRO''" "trimSpace ''JSONSCHEMA'' = ''JSONSCHEMA''" "trimSpace ''PROTOBUF'' = ''PROTOBUF''"
    by (rule trimSpace_id; simp add: space_len_def space_len_end_def ascii_space_def space2_def space3_def)+
  moreover have "toUpper ''AVRO'' = ''AVRO''" "toUpper ''JSONSCHEMA'' = ''JSONSCHEMA''" "toUpper ''PROTOBUF'' = ''PROTOBUF''"
    by code_simp+
  ultimately show "schemaType format \<noteq> [] \<Longrightarrow> rd_Type d = schemaType format \<Longrightarrow> NormalizedType d \<in> {TypeAvro, TypeJSONSchema, TypeProtobuf}"
    by (cases format) (simp_all add: NormalizedType_def type_defs)
qed

text \<open>Null payloads have no identifier.\<close>

lemma encodeSchemaAware_None:
  "encodeSchemaAware cs reg st topic key t d = (Ok (None, meta), st') \<Longrightarrow> md_SchemaID meta = None"
  by (auto simp: encodeSchemaAware_def Let_def zero_Metadata_def split: if_splits option.splits prod.splits sum.splits)

lemma Encode_schema:
  assumes "NormalizedType d \<in> {TypeAvro, TypeJSONSchema, TypeProtobuf}"
  shows "Encode cs reg st topic key (Some d) =
    (case encodeSchemaAware cs reg st topic key (NormalizedType d) d of
       (Err e, st') \<Rightarrow> (Err e, st')
     | (Ok (p, meta), st') \<Rightarrow>
       (Ok (p, meta\<lparr>md_Type := (if md_Type meta = [] then NormalizedType d else md_Type meta), md_Size := payload_size p\<rparr>), st'))"
  using assms by (elim insertE) (simp_all add: Encode_def Let_def type_defs split: prod.split sum.split)

lemma Encode_None:
  assumes "Encode cs reg st topic key (Some d) = (Ok (None, meta), st')"
    and "NormalizedType d \<in> {TypeAvro, TypeJSONSchema, TypeProtobuf}"
  shows "md_SchemaID meta = None"
  using assms(1) unfolding Encode_schema [OF assms(2)]
  by (auto split: prod.splits sum.splits dest: encodeSchemaAware_None)

lemma decodeV2_state:
  "snd (decodeV2NullableValue enc st topic key v format sid schemaText) = st \<or>
   (\<exists>encode d. enc = Some encode \<and> snd (decodeV2NullableValue enc st topic key v format sid schemaText) = snd (encode st topic key d))"
proof (cases enc)
  case (Some encode)
  have *: "snd (case x of (Err e, s) \<Rightarrow> (Err (f e), s) | (Ok r, s) \<Rightarrow> (Ok r, s)) = snd x"
    for x :: "(message + bytes option \<times> Metadata) \<times> 'a" and f :: "message \<Rightarrow> value_error"
    by (simp split: prod.split sum.split)
  show ?thesis unfolding decodeV2NullableValue_def Some Let_def option.case by (auto simp: *)
qed (simp add: decodeV2NullableValue_def)

context registry begin

lemma v2_value_pinned:
  assumes "ok st" "schemaType format \<noteq> []" "0 \<le> i" "i < 2 ^ 32"
    and "decodeV2NullableValue (Some (\<lambda>st. Encode cs (Some resolve) st)) st topic key v format (Some i) [] = (Ok (p, meta), st')"
  shows "carries_id i p \<and> (md_SchemaID meta = None \<or> md_SchemaID meta = Some i)"
proof -
  let ?d = "zero_RequestData\<lparr>rd_Type := schemaType format, rd_SchemaID := Some i, rd_Schema := [],
              rd_Data := nr_Raw v, rd_DataPresent := nr_Present v, rd_SubjectNameStrategy := StrategyTopicName\<rparr>"
  have e: "Encode cs (Some resolve) st topic key (Some ?d) = (Ok (p, meta), st')"
    using assms(2,5) by (auto simp: decodeV2NullableValue_def Let_def split: prod.splits sum.splits)
  have t: "NormalizedType ?d \<in> {TypeAvro, TypeJSONSchema, TypeProtobuf}"
    using NormalizedType_schema [OF assms(2), of ?d] by simp
  then have n: "NormalizedType ?d \<notin> {TypeBinary, TypeString, TypeJSON}" by (auto simp: type_defs)
  show ?thesis
  proof (cases p)
    case None
    then show ?thesis using Encode_None [OF e [unfolded None] t] by (simp add: carries_id_def)
  next
    case (Some w)
    have "md_SchemaID meta = Some i" "\<exists>t x. w = appendConfluentWireFormat [] i t x"
      using Encode_pinned [OF assms(1) e [unfolded Some] _ _ _ n] by (simp_all add: zero_RequestData_def)
    then show ?thesis using wire_read_id [OF assms(3,4)] by (auto simp: Some carries_id_def)
  qed
qed

lemma v2_value_ok:
  "ok st \<Longrightarrow> ok (snd (decodeV2NullableValue (Some (\<lambda>st. Encode cs (Some resolve) st)) st topic key v format sid schemaText))"
  using decodeV2_state [of "Some (\<lambda>st. Encode cs (Some resolve) st)" st topic key v format sid schemaText] Encode_ok by auto

lemma decode_one_ok:
  assumes "ok st"
  shows "ok (snd (decode_one (Some (\<lambda>st. Encode cs (Some resolve) st)) topic format l req pp k rr (meta, st)))"
proof -
  let ?enc = "Some (\<lambda>st. Encode cs (Some resolve) st)"
  obtain kres st1 where k: "decodeV2NullableValue ?enc st topic True (rr_Key rr) format (pr_KeySchemaID req) (pr_KeySchema req) = (kres, st1)"
    by fastforce
  obtain vres st2 where v: "decodeV2NullableValue ?enc st1 topic False (rr_Value rr) format (pr_ValueSchemaID req) (pr_ValueSchema req) = (vres, st2)"
    by fastforce
  have "ok st1" using v2_value_ok [OF assms] k by (metis snd_conv)
  moreover have "ok st2" using v2_value_ok [OF \<open>ok st1\<close>] v by (metis snd_conv)
  ultimately show ?thesis
    by (simp add: decode_one_def k v Let_def split: sum.split prod.split)
qed

lemma decode_one_pinned:
  assumes "decode_one (Some (\<lambda>st. Encode cs (Some resolve) st)) topic format l req pp k rr (meta, st) = (Ok (r, meta'), st')"
    and "ok st" "schemaType format \<noteq> []" "0 \<le> i" "i < 2 ^ 32" "pr_ValueSchemaID req = Some i" "pr_ValueSchema req = []"
  shows "carries_id i (rec_Value r) \<and>
    (pm_ValueSchemaID meta \<in> {None, Some i} \<longrightarrow> pm_ValueSchemaID meta' \<in> {None, Some i})"
proof -
  let ?enc = "Some (\<lambda>st. Encode cs (Some resolve) st)"
  obtain kp km st1 vp vm where
    k: "decodeV2NullableValue ?enc st topic True (rr_Key rr) format (pr_KeySchemaID req) (pr_KeySchema req) = (Ok (kp, km), st1)"
    and v: "decodeV2NullableValue ?enc st1 topic False (rr_Value rr) format (Some i) [] = (Ok (vp, vm), st')"
    and r: "rec_Value r = vp" "pm_ValueSchemaID meta' = first_some (pm_ValueSchemaID meta) (md_SchemaID vm)"
    using assms(1,6,7) by (auto simp: decode_one_def Let_def split: prod.splits sum.splits if_splits)
  have "ok st1" using v2_value_ok [OF assms(2)] k by (metis snd_conv)
  then have "carries_id i vp \<and> (md_SchemaID vm = None \<or> md_SchemaID vm = Some i)"
    using v2_value_pinned [OF _ assms(3,4,5) v] by simp
  then show ?thesis using r by (auto simp: first_some_def split: option.splits)
qed

lemma decode_loop_pinned:
  "decode_loop (Some (\<lambda>st. Encode cs (Some resolve) st)) topic format l req pp k rrs (meta, st) = (Ok (rs, meta'), st') \<Longrightarrow>
   ok st \<Longrightarrow> schemaType format \<noteq> [] \<Longrightarrow> 0 \<le> i \<Longrightarrow> i < 2 ^ 32 \<Longrightarrow> pr_ValueSchemaID req = Some i \<Longrightarrow> pr_ValueSchema req = [] \<Longrightarrow>
   pm_ValueSchemaID meta \<in> {None, Some i} \<Longrightarrow>
   list_all (\<lambda>r. carries_id i (rec_Value r)) rs \<and> pm_ValueSchemaID meta' \<in> {None, Some i}"
proof (induction rrs arbitrary: k meta st rs)
  case (Cons rr rrs)
  let ?enc = "Some (\<lambda>st. Encode cs (Some resolve) st)"
  obtain r m1 st1 rs' where
    1: "decode_one ?enc topic format l req pp k rr (meta, st) = (Ok (r, m1), st1)"
    and 2: "decode_loop ?enc topic format l req pp (Suc k) rrs (m1, st1) = (Ok (rs', meta'), st')" and 3: "rs = r # rs'"
    using Cons.prems(1) by (auto split: prod.splits sum.splits)
  have "ok st1" using decode_one_ok [OF Cons.prems(2)] 1 by (metis snd_conv)
  moreover note p = decode_one_pinned [OF 1 Cons.prems(2-7)]
  ultimately have "list_all (\<lambda>r. carries_id i (rec_Value r)) rs' \<and> pm_ValueSchemaID meta' \<in> {None, Some i}"
    using Cons.IH [OF 2 _ Cons.prems(3-7)] Cons.prems(8) by blast
  then show ?case using p 3 by simp
qed simp

end


text \<open>A request with one Avro value under the identifier 7.\<close>

definition demo_avro :: json where
  "demo_avro = JObj [] [(json_string ''value_schema_id'', JNum ''7''),
     (json_string ''records'', JArr [] [JObj [] [(json_string ''value'', JNum ''1'')]])]"

definition demo_avro_request :: rawProduceRequest where
  "demo_avro_request = zero_rawProduceRequest\<lparr>pr_ValueSchemaID := Some 7,
     pr_Records := Some ([zero_rawRecord\<lparr>rr_Value := \<lparr>nr_Present = True, nr_Raw = ''1''\<rparr>\<rparr>], 1)\<rparr>"

lemma demo_avro_unmarshal:
  "unmarshal (dec_struct rawProduceRequest_fields) (render demo_avro) zero_rawProduceRequest = (demo_avro_request, True)"
proof -
  have dec_7: "parseInt 64 ''7'' = Some 7" by (simp add: parseInt_def digit_val_def)
  have n: "num_tok ''7'' = Some (''7'', [])" "num_tok ''1'' = Some (''1'', [])" by code_simp+
  have "json_parse (render demo_avro) = Some (canon demo_avro)"
    using json_parse_render [of demo_avro "[]"] json_string_token n
    by (simp add: demo_avro_def maxNestingDepth_def)
  then show ?thesis
    by (simp add: unmarshal_def demo_avro_def rawProduceRequest_fields_def find_field_def str_val_request_keys str_val_keys fld_def
        zero_rawProduceRequest_def seq_status_def demo_avro_request_def rawRecord_fields_def nullableRaw_UnmarshalJSON_def
        dec_ptr_def dec_7)
qed

definition demo_avro_record :: Record where
  "demo_avro_record = \<lparr>rec_Topic = ''t'', rec_Key = None,
     rec_Value = Some [CHR 0x00, CHR 0x00, CHR 0x00, CHR 0x00, CHR 0x07, CHR ''1''], rec_Headers = [], rec_Partition = None\<rparr>"

lemma demo_avro_key:
  "decodeV2NullableValue (Some (\<lambda>st. Encode demo_codecs (Some (HTTP_Resolve demo_server (Some demo_registry))) st)) 0 ''t'' True
     zero_nullableRaw formatAvro None [] = (Ok (None, zero_Metadata\<lparr>md_Type := ''AVRO''\<rparr>), 0)"
proof -
  let ?d = "zero_RequestData\<lparr>rd_Type := ''AVRO'', rd_SchemaID := None, rd_Schema := [], rd_Data := nr_Raw zero_nullableRaw,
              rd_DataPresent := nr_Present zero_nullableRaw, rd_SubjectNameStrategy := []\<rparr>"
  have "NormalizedType ?d = ''AVRO''" by (simp add: NormalizedType_def trimSpace_demo)
  moreover have "no_data ?d" by (simp add: no_data_def zero_nullableRaw_def)
  ultimately have "Encode demo_codecs (Some (HTTP_Resolve demo_server (Some demo_registry))) 0 ''t'' True (Some ?d) =
      (Ok (None, zero_Metadata\<lparr>md_Type := ''AVRO''\<rparr>), 0)"
    by (subst Encode_schema) (simp_all add: encodeSchemaAware_def type_defs payload_size_def zero_Metadata_def)
  then show ?thesis by (simp add: decodeV2NullableValue_def Let_def TypeAvro_def)
qed

lemma demo_avro_value:
  "decodeV2NullableValue (Some (\<lambda>st. Encode demo_codecs (Some (HTTP_Resolve demo_server (Some demo_registry))) st)) 0 ''t'' False
     \<lparr>nr_Present = True, nr_Raw = ''1''\<rparr> formatAvro (Some 7) [] =
   (Ok (Some [CHR 0x00, CHR 0x00, CHR 0x00, CHR 0x00, CHR 0x07, CHR ''1''],
        \<lparr>md_Type = ''AVRO'', md_Size = 6, md_Subject = ''t-value'', md_SchemaID = Some 7, md_SchemaVersion = None\<rparr>), 1)"
proof -
  have "zero_RequestData\<lparr>rd_Type := ''AVRO'', rd_SchemaID := Some 7, rd_Schema := [], rd_Data := ''1'', rd_DataPresent := True,
      rd_SubjectNameStrategy := StrategyTopicName\<rparr> = demo_data"
    by (simp add: demo_data_def zero_RequestData_def)
  then show ?thesis by (simp add: decodeV2NullableValue_def Let_def TypeAvro_def demo_Encode)
qed

lemma demo_avro_decode:
  "decodeProduceRequestWithSchema (Some (\<lambda>st. Encode demo_codecs (Some (HTTP_Resolve demo_server (Some demo_registry))) st)) 0 ''t''
     (render demo_avro) formatAvro demo_limits None =
   (Ok ([demo_avro_record], \<lparr>pm_KeySchemaID = None, pm_ValueSchemaID = Some 7\<rparr>), 1)"
proof -
  have q: "slice_elems (pr_Records demo_avro_request) = [zero_rawRecord\<lparr>rr_Value := \<lparr>nr_Present = True, nr_Raw = ''1''\<rparr>\<rparr>]"
    "pr_Records demo_avro_request \<noteq> None" "pr_KeySchemaID demo_avro_request = None" "pr_KeySchema demo_avro_request = []"
    "pr_ValueSchemaID demo_avro_request = Some 7" "pr_ValueSchema demo_avro_request = []"
    by (simp_all add: demo_avro_request_def slice_elems_def zero_rawProduceRequest_def)
  have "decode_one (Some (\<lambda>st. Encode demo_codecs (Some (HTTP_Resolve demo_server (Some demo_registry))) st)) ''t'' formatAvro
     (limits_withDefaults demo_limits) demo_avro_request None 0 (zero_rawRecord\<lparr>rr_Value := \<lparr>nr_Present = True, nr_Raw = ''1''\<rparr>\<rparr>)
     (\<lparr>pm_KeySchemaID = None, pm_ValueSchemaID = None\<rparr>, 0) = (Ok (demo_avro_record, \<lparr>pm_KeySchemaID = None, pm_ValueSchemaID = Some 7\<rparr>), 1)"
    by (simp add: decode_one_def q demo_avro_key demo_avro_value zero_rawRecord_def demo_avro_record_def slice_elems_def
        decodeHeaders_def first_some_def zero_Metadata_def SizeBytes_def len_nil_def limits_withDefaults_def positive_or_def
        demo_limits_def)
  then show ?thesis
    by (simp add: decodeProduceRequestWithSchema_def demo_avro_unmarshal q Let_def limits_withDefaults_def positive_or_def demo_limits_def)
qed


end
