(* ===== verification/V3.thy ===== *)
theory V3
  imports V2
begin

text \<open>
  The v3 produce API (\<^verbatim>\<open>internal/api/v3.go\<close>): its request documents, the conversion of a
  record into a producer record, batch identifiers and the response documents. The handlers are
  in the theory \<open>Handler\<close>.
\<close>

section \<open>Timestamps\<close>

text \<open>
  \<^verbatim>\<open>time.Time\<close> decodes itself: the text between the quotes must parse as RFC 3339 (in the
  lenient way of \<^verbatim>\<open>time.Parse\<close>). The parsers below take a number or a separator off the front.
\<close>

definition num_fixed :: "nat \<Rightarrow> string \<Rightarrow> (nat \<times> string) option" where
  "num_fixed k s =
     (if length s < k then None
      else map_option (\<lambda>n. (n, drop k s)) (parse_digits 0 (take k s)))"

text \<open>\<^verbatim>\<open>getnum\<close> without a fixed width: one or two digits.\<close>

definition num_1_2 :: "string \<Rightarrow> (nat \<times> string) option" where
  "num_1_2 s =
     (case num_fixed 2 s of Some r \<Rightarrow> Some r | None \<Rightarrow> num_fixed 1 s)"

definition skip_char :: "char \<Rightarrow> string \<Rightarrow> string option" where
  "skip_char c s = (case s of [] \<Rightarrow> None | x # t \<Rightarrow> if x = c then Some t else None)"

definition leap :: "nat \<Rightarrow> bool" where
  "leap y \<longleftrightarrow> y mod 4 = 0 \<and> (y mod 100 \<noteq> 0 \<or> y mod 400 = 0)"

definition daysIn :: "nat \<Rightarrow> nat \<Rightarrow> nat" where
  "daysIn m y = (if m = 2 then (if leap y then 29 else 28) else if m \<in> {4, 6, 9, 11} then 30 else 31)"

text \<open>An optional fraction of a second after a period or a comma.\<close>

definition skip_fraction :: "string \<Rightarrow> string" where
  "skip_fraction s =
     (case s of p # t \<Rightarrow>
        if (p = CHR ''.'' \<or> p = CHR '','') \<and> t \<noteq> [] \<and> is_digit (hd t) then dropWhile is_digit t else s
      | [] \<Rightarrow> s)"

definition zone_ok :: "string \<Rightarrow> bool" where
  "zone_ok s =
     (s = ''Z'' \<or>
      length s = 6 \<and> s ! 3 = CHR '':'' \<and> (s ! 0 = CHR ''+'' \<or> s ! 0 = CHR ''-'') \<and>
      (case parse_digits 0 (take 2 (drop 1 s)) of None \<Rightarrow> False | Some h \<Rightarrow> h \<le> 24) \<and>
      (case parse_digits 0 (drop 4 s) of None \<Rightarrow> False | Some m \<Rightarrow> m \<le> 60))"

definition date_part :: "string \<Rightarrow> string option" where
  "date_part s =
     (case num_fixed 4 s of None \<Rightarrow> None
      | Some (y, s1) \<Rightarrow> (case skip_char (CHR ''-'') s1 of None \<Rightarrow> None
        | Some s2 \<Rightarrow> (case num_fixed 2 s2 of None \<Rightarrow> None
          | Some (m, s3) \<Rightarrow> (case skip_char (CHR ''-'') s3 of None \<Rightarrow> None
            | Some s4 \<Rightarrow> (case num_fixed 2 s4 of None \<Rightarrow> None
              | Some (d, s5) \<Rightarrow>
                if 1 \<le> m \<and> m \<le> 12 \<and> 1 \<le> d \<and> d \<le> daysIn m y then skip_char (CHR ''T'') s5 else None)))))"

definition clock_part :: "string \<Rightarrow> string option" where
  "clock_part s =
     (case num_1_2 s of None \<Rightarrow> None
      | Some (h, s1) \<Rightarrow> (case skip_char (CHR '':'') s1 of None \<Rightarrow> None
        | Some s2 \<Rightarrow> (case num_fixed 2 s2 of None \<Rightarrow> None
          | Some (m, s3) \<Rightarrow> (case skip_char (CHR '':'') s3 of None \<Rightarrow> None
            | Some s4 \<Rightarrow> (case num_fixed 2 s4 of None \<Rightarrow> None
              | Some (sec, s5) \<Rightarrow> if h < 24 \<and> m < 60 \<and> sec < 60 then Some (skip_fraction s5) else None)))))"

definition rfc3339_ok :: "string \<Rightarrow> bool" where
  "rfc3339_ok s =
     (case date_part s of None \<Rightarrow> False
      | Some t \<Rightarrow> (case clock_part t of None \<Rightarrow> False | Some z \<Rightarrow> zone_ok z))"

text \<open>The program never reads the decoded time; the model keeps its text.\<close>

definition Time_UnmarshalJSON :: "bytes decoder" where
  "Time_UnmarshalJSON v t =
     (case v of JStr r \<Rightarrow> if rfc3339_ok (butlast (tl r)) then (butlast (tl r), DecOk) else (t, DecAbort)
      | JNull \<Rightarrow> (t, DecOk)
      | _ \<Rightarrow> (t, DecAbort))"

section \<open>Request documents\<close>

record v3ProduceHeader =
  v3h_Name :: string
  v3h_Value :: "string option"

record v3ProduceRecord =
  v3r_PartitionID :: "int option"
  v3r_Headers :: "v3ProduceHeader slice"
  v3r_Key :: "RequestData option"
  v3r_Value :: "RequestData option"
  v3r_Timestamp :: "bytes option"

record v3ProduceBatchEntry = v3ProduceRecord +
  v3e_ID :: string

definition zero_v3ProduceHeader :: v3ProduceHeader where
  "zero_v3ProduceHeader = \<lparr>v3h_Name = [], v3h_Value = None\<rparr>"

definition zero_v3ProduceRecord :: v3ProduceRecord where
  "zero_v3ProduceRecord =
     \<lparr>v3r_PartitionID = None, v3r_Headers = None, v3r_Key = None, v3r_Value = None, v3r_Timestamp = None\<rparr>"

definition zero_v3ProduceBatchEntry :: v3ProduceBatchEntry where
  "zero_v3ProduceBatchEntry =
     \<lparr>v3r_PartitionID = None, v3r_Headers = None, v3r_Key = None, v3r_Value = None, v3r_Timestamp = None, v3e_ID = []\<rparr>"

definition v3ProduceHeader_fields :: "(string \<times> v3ProduceHeader decoder) list" where
  "v3ProduceHeader_fields =
     [(''name'', fld v3h_Name (\<lambda>x h. h\<lparr>v3h_Name := x\<rparr>) dec_string),
      (''value'', fld v3h_Value (\<lambda>x h. h\<lparr>v3h_Value := x\<rparr>) (dec_ptr [] dec_string))]"

definition v3ProduceRecord_fields :: "(string \<times> ('a v3ProduceRecord_scheme) decoder) list" where
  "v3ProduceRecord_fields =
     [(''partition_id'', fld v3r_PartitionID (\<lambda>x r. r\<lparr>v3r_PartitionID := x\<rparr>) (dec_ptr 0 (dec_int 32))),
      (''headers'', fld v3r_Headers (\<lambda>x r. r\<lparr>v3r_Headers := x\<rparr>) (dec_slice zero_v3ProduceHeader (dec_struct v3ProduceHeader_fields))),
      (''key'', fld v3r_Key (\<lambda>x r. r\<lparr>v3r_Key := x\<rparr>) (dec_ptr zero_RequestData RequestData_UnmarshalJSON)),
      (''value'', fld v3r_Value (\<lambda>x r. r\<lparr>v3r_Value := x\<rparr>) (dec_ptr zero_RequestData RequestData_UnmarshalJSON)),
      (''timestamp'', fld v3r_Timestamp (\<lambda>x r. r\<lparr>v3r_Timestamp := x\<rparr>) (dec_ptr [] Time_UnmarshalJSON))]"

definition v3ProduceBatchEntry_fields :: "(string \<times> v3ProduceBatchEntry decoder) list" where
  "v3ProduceBatchEntry_fields =
     (''id'', fld v3e_ID (\<lambda>x r. r\<lparr>v3e_ID := x\<rparr>) dec_string) # v3ProduceRecord_fields"

definition v3ProduceBatchRequest_decoder :: "v3ProduceBatchEntry slice decoder" where
  "v3ProduceBatchRequest_decoder =
     dec_struct [(''entries'', dec_slice zero_v3ProduceBatchEntry (dec_struct v3ProduceBatchEntry_fields))]"

section \<open>Records\<close>

record v3RecordEnvelope =
  ev_id :: string
  ev_record :: Record
  ev_key :: Metadata
  ev_value :: Metadata

fun v3_header_loop :: "decodeLimits \<Rightarrow> nat \<Rightarrow> v3ProduceHeader list \<Rightarrow> message + Header list" where
  "v3_header_loop limits i [] = Ok []"
| "v3_header_loop limits i (h # hs) =
     (if v3h_Name h = [] then Err [Lit ''headers['', Lit (itoa (int i)), Lit ''].name is required'']
      else (case (case v3h_Value h of None \<Rightarrow> Some None | Some v \<Rightarrow> map_option Some (b64_decode v)) of
        None \<Rightarrow> Err [Lit ''headers['', Lit (itoa (int i)), Lit ''].value is not valid base64'']
      | Some val \<Rightarrow>
        if int (length (v3h_Name h) + len_nil val) > dl_MaxHeaderBytes limits
        then Err [Lit ''headers['', Lit (itoa (int i)), Lit ''] exceeds configured size limit'']
        else (case v3_header_loop limits (Suc i) hs of Err e \<Rightarrow> Err e
          | Ok out \<Rightarrow> Ok (\<lparr>hdr_Key = v3h_Name h, hdr_Value = val\<rparr> # out))))"

definition decodeV3Headers :: "v3ProduceHeader list \<Rightarrow> decodeLimits \<Rightarrow> message + Header list" where
  "decodeV3Headers headers limits =
     (if headers = [] then Ok []
      else if int (length headers) > dl_MaxHeaders limits
      then Err [Lit ''too many headers: got '', Lit (itoa (int (length headers))), Lit '', limit '',
                Lit (itoa (dl_MaxHeaders limits))]
      else v3_header_loop limits 0 headers)"

text \<open>
  \<^verbatim>\<open>encodeV3Data\<close>. The encoder is \<open>None\<close> or \<open>Some registry\<close>, the registry itself again
  \<open>None\<close> or a resolver: without an encoder the data go through one without a registry.
\<close>

definition encodeV3Data ::
  "('c, 'n, 'k, 's, 'i, 'd, 'm) codecs \<Rightarrow> 'r resolver option option \<Rightarrow> 'r \<Rightarrow> string \<Rightarrow> bool \<Rightarrow> RequestData option \<Rightarrow>
     (message + bytes option \<times> Metadata) \<times> 'r" where
  "encodeV3Data cs enc st topic key dopt =
     (case dopt of None \<Rightarrow> (Ok (None, zero_Metadata), st)
      | Some data \<Rightarrow>
        if IsSchemaAware data \<and> enc = None then (Err [Lit ''schema registry is required''], st)
        else Encode cs (case enc of None \<Rightarrow> None | Some registry \<Rightarrow> registry) st topic key (Some data))"

definition v3EnvelopeFromRecord ::
  "('c, 'n, 'k, 's, 'i, 'd, 'm) codecs \<Rightarrow> 'r resolver option option \<Rightarrow> 'r \<Rightarrow> string \<Rightarrow> string \<Rightarrow>
     'x v3ProduceRecord_scheme \<Rightarrow> decodeLimits \<Rightarrow> (message + v3RecordEnvelope) \<times> 'r" where
  "v3EnvelopeFromRecord cs enc st topic i r limits =
     (case encodeV3Data cs enc st topic True (v3r_Key r) of
        (Err e, st1) \<Rightarrow> (Err (Lit ''key: '' # e), st1)
      | (Ok (key, keyMeta), st1) \<Rightarrow>
        (case encodeV3Data cs enc st1 topic False (v3r_Value r) of
           (Err e, st2) \<Rightarrow> (Err (Lit ''value: '' # e), st2)
         | (Ok (val, valueMeta), st2) \<Rightarrow>
           if int (len_nil key) > dl_MaxKeyBytes limits then (Err [Lit ''key exceeds configured size limit''], st2)
           else if (case v3r_PartitionID r of None \<Rightarrow> False | Some p \<Rightarrow> p < 0)
           then (Err [Lit ''partition_id must be non-negative''], st2)
           else (case decodeV3Headers (slice_elems (v3r_Headers r)) limits of
             Err e \<Rightarrow> (Err e, st2)
           | Ok headers \<Rightarrow>
             let out = \<lparr>rec_Topic = topic, rec_Key = key, rec_Value = val, rec_Headers = headers,
                        rec_Partition = v3r_PartitionID r\<rparr>
             in if SizeBytes out > dl_MaxRecordBytes limits
                then (Err [Lit ''record exceeds configured record size limit''], st2)
                else (Ok \<lparr>ev_id = i, ev_record = out, ev_key = keyMeta, ev_value = valueMeta\<rparr>, st2))))"

section \<open>Batch identifiers\<close>

text \<open>The set of identifiers seen so far, updated when the identifier is accepted.\<close>

definition validateBatchID :: "string \<Rightarrow> string set \<Rightarrow> message option \<times> string set" where
  "validateBatchID i seen =
     (if i = [] then (Some [Lit ''id is required''], seen)
      else if 80 < length i then (Some [Lit ''id exceeds 80 characters''], seen)
      else if i \<in> seen then (Some [Lit ''duplicate id '', Quoted i], seen)
      else (None, insert i seen))"

section \<open>Responses\<close>

record v3ProduceResponseData =
  vd_Size :: int
  vd_Type :: string
  vd_Subject :: "string option"
  vd_SchemaID :: "int option"
  vd_SchemaVersion :: "int option"

record v3ProduceResponse =
  vr_ErrorCode :: int
  vr_Message :: message
  vr_ClusterID :: string
  vr_TopicName :: string
  vr_PartitionID :: "int option"
  vr_Offset :: "int option"
  vr_Timestamp :: "int option"
  vr_Key :: "v3ProduceResponseData option"
  vr_Value :: "v3ProduceResponseData option"

record v3ProduceBatchSuccess =
  vs_ID :: string
  vs_ClusterID :: string
  vs_TopicName :: string
  vs_PartitionID :: "int option"
  vs_Offset :: "int option"
  vs_Timestamp :: "int option"
  vs_Key :: "v3ProduceResponseData option"
  vs_Value :: "v3ProduceResponseData option"

record v3ProduceBatchFailure =
  vf_ID :: string
  vf_ErrorCode :: int
  vf_Message :: message

record v3ProduceBatchResponse =
  vb_Successes :: "v3ProduceBatchSuccess list"
  vb_Failures :: "v3ProduceBatchFailure list"

definition v3ResponseData :: "Metadata \<Rightarrow> v3ProduceResponseData option" where
  "v3ResponseData meta =
     (if md_Type meta = [] \<and> md_Size meta = 0 \<and> md_SchemaID meta = None then None
      else Some \<lparr>vd_Size = md_Size meta, vd_Type = md_Type meta,
                 vd_Subject = (if md_Subject meta \<noteq> [] then Some (md_Subject meta) else None),
                 vd_SchemaID = md_SchemaID meta, vd_SchemaVersion = md_SchemaVersion meta\<rparr>)"

definition v3_error_response :: "int \<Rightarrow> message \<Rightarrow> v3ProduceResponse" where
  "v3_error_response errCode msg =
     \<lparr>vr_ErrorCode = errCode, vr_Message = msg, vr_ClusterID = [], vr_TopicName = [], vr_PartitionID = None,
      vr_Offset = None, vr_Timestamp = None, vr_Key = None, vr_Value = None\<rparr>"

text \<open>The time of the response is an argument.\<close>

definition v3ResponseForResult :: "int \<Rightarrow> v3ProduceTarget \<Rightarrow> v3RecordEnvelope \<Rightarrow> Result \<Rightarrow> v3ProduceResponse" where
  "v3ResponseForResult now target env result =
     (if resultFailed result
      then v3_error_response (resultErrorCode result) [Lit (resultErrorMessage result)]
      else \<lparr>vr_ErrorCode = 200, vr_Message = [], vr_ClusterID = firstNonEmpty [v3t_clusterID target, ''local''],
            vr_TopicName = v3t_topic target, vr_PartitionID = Some (res_Partition result),
            vr_Offset = Some (res_Offset result), vr_Timestamp = Some now,
            vr_Key = v3ResponseData (ev_key env), vr_Value = v3ResponseData (ev_value env)\<rparr>)"

definition v3BatchSuccessForResult ::
  "int \<Rightarrow> v3ProduceTarget \<Rightarrow> v3RecordEnvelope \<Rightarrow> Result \<Rightarrow> v3ProduceBatchSuccess" where
  "v3BatchSuccessForResult now target env result =
     (let resp = v3ResponseForResult now target env result
      in \<lparr>vs_ID = ev_id env, vs_ClusterID = vr_ClusterID resp, vs_TopicName = vr_TopicName resp,
          vs_PartitionID = vr_PartitionID resp, vs_Offset = vr_Offset resp, vs_Timestamp = vr_Timestamp resp,
          vs_Key = vr_Key resp, vs_Value = vr_Value resp\<rparr>)"

end
