(* ===== verification/Float64.thy ===== *)
theory Float64
  imports Complex_Main
begin

text \<open>
  Go's \<^verbatim>\<open>float64\<close> arithmetic on finite values: a value is a rational, and every operation
  is the exact one followed by \<open>fl\<close>, the rounding to the nearest 53-bit binary fraction, ties
  to even, with gradual underflow. Overflow to infinity is left out: the program's rates, token
  counts and latencies are far below \<open>2 ^ 1024\<close>. The locale \<open>rounding\<close> has the laws the
  components use.
\<close>

section \<open>Powers of two and binary exponents\<close>

definition pow2 :: "int \<Rightarrow> rat" where
  "pow2 e = (if 0 \<le> e then 2 ^ nat e else 1 / 2 ^ nat (- e))"

lemma pow2_powi: "pow2 e = 2 powi e"
  by (auto simp: pow2_def power_int_def power_one_over inverse_eq_divide)

lemma pow2_pos [simp]: "0 < pow2 e"
  by (simp add: pow2_def)

lemma pow2_nonneg [simp]: "0 \<le> pow2 e"
  using pow2_pos [of e] by (rule less_imp_le)

lemma pow2_nonzero [simp]: "pow2 e \<noteq> 0"
  using pow2_pos [of e] by linarith

lemma pow2_add: "pow2 (a + b) = pow2 a * pow2 b"
  by (simp add: pow2_powi power_int_add)

lemma pow2_less_iff [simp]: "pow2 a < pow2 b \<longleftrightarrow> a < b"
proof
  show "pow2 a < pow2 b" if "a < b" using that by (simp add: pow2_powi power_int_strict_increasing)
  show "a < b" if "pow2 a < pow2 b"
  proof (rule ccontr)
    assume "\<not> a < b"
    then have "b = a \<or> b < a" by auto
    then have "pow2 b \<le> pow2 a"
      by (auto simp: pow2_powi intro: power_int_increasing)
    with that show False by simp
  qed
qed

lemma pow2_le_iff [simp]: "pow2 a \<le> pow2 b \<longleftrightarrow> a \<le> b"
  by (simp add: not_less [symmetric] del: not_less)

lemma pow2_of_nat: "pow2 (int n) = 2 ^ n"
  by (simp add: pow2_def)

lemma pow2_int_diff: "a \<le> b \<Longrightarrow> pow2 b / pow2 a = of_int (2 ^ nat (b - a))"
  using pow2_add [of "b - a" a] by (simp add: pow2_def [of "b - a"] field_simps)

fun nbits :: "nat \<Rightarrow> nat" where
  "nbits n = (if n = 0 then 0 else Suc (nbits (n div 2)))"

declare nbits.simps [simp del]

lemma nbits_bounds: "0 < n \<Longrightarrow> 2 ^ (nbits n - 1) \<le> n \<and> n < 2 ^ nbits n \<and> 0 < nbits n"
proof (induction n rule: nbits.induct)
  case (1 n)
  show ?case
  proof (cases "n div 2 = 0")
    case True
    with 1 have "n = 1" by auto
    then show ?thesis by (simp add: nbits.simps)
  next
    case False
    with 1 have ih: "2 ^ (nbits (n div 2) - 1) \<le> n div 2" "n div 2 < 2 ^ nbits (n div 2)"
      "0 < nbits (n div 2)" by auto
    have nb: "nbits n = Suc (nbits (n div 2))" using 1 by (simp add: nbits.simps [of n])
    have "2 ^ (nbits n - 1) = 2 * (2 :: nat) ^ (nbits (n div 2) - 1)"
      using ih(3) by (cases "nbits (n div 2)") (simp_all add: nb)
    moreover have "2 * (n div 2) \<le> n" "n < 2 * (n div 2 + 1)" by auto
    ultimately have "2 ^ (nbits n - 1) \<le> n" using ih(1) by linarith
    moreover have "n < 2 ^ nbits n" using ih(2) \<open>n < 2 * (n div 2 + 1)\<close> by (simp add: nb)
    ultimately show ?thesis by (simp add: nb)
  qed
qed

text \<open>The exponent of the leading binary digit of a positive rational.\<close>

definition ilog2 :: "rat \<Rightarrow> int" where
  "ilog2 x =
     (case quotient_of x of (p, q) \<Rightarrow>
        let e = int (nbits (nat p)) - int (nbits (nat q)) in if pow2 e \<le> x then e else e - 1)"

lemma ilog2_bounds:
  assumes "0 < x"
  shows "pow2 (ilog2 x) \<le> x \<and> x < pow2 (ilog2 x + 1)"
proof -
  obtain p q where pq: "quotient_of x = (p, q)" by fastforce
  have q: "0 < q" using quotient_of_denom_pos [OF pq] .
  have x: "x = of_int p / of_int q" using quotient_of_div [OF pq] .
  with assms q have p: "0 < p" by (simp add: zero_less_divide_iff)
  let ?bp = "nbits (nat p)" and ?bq = "nbits (nat q)"
  have "2 ^ (?bp - 1) \<le> nat p" "nat p < 2 ^ ?bp" "0 < ?bp" using nbits_bounds [of "nat p"] p by auto
  then have bp: "(2::int) ^ (?bp - 1) \<le> p" "p < 2 ^ ?bp" using p
    by (simp_all add: nat_less_iff le_nat_iff)
  have "2 ^ (?bq - 1) \<le> nat q" "nat q < 2 ^ ?bq" "0 < ?bq" using nbits_bounds [of "nat q"] q by auto
  then have bq: "(2::int) ^ (?bq - 1) \<le> q" "q < 2 ^ ?bq" "0 < ?bq" using q
    by (simp_all add: nat_less_iff le_nat_iff)
  have P: "pow2 (int ?bp - 1) \<le> of_int p" "of_int p < pow2 (int ?bp)"
    and Q: "pow2 (int ?bq - 1) \<le> of_int q" "of_int q < pow2 (int ?bq)"
  proof -
    have c: "pow2 (int b - 1) = of_int (2 ^ (b - 1))" if "0 < b" for b
      using that pow2_of_nat [of "b - 1"] by (simp add: of_nat_diff)
    have d: "pow2 (int b) = of_int (2 ^ b)" for b by (simp add: pow2_of_nat)
    show "pow2 (int ?bp - 1) \<le> of_int p" "pow2 (int ?bq - 1) \<le> of_int q"
      using bp(1) bq(1) c [of ?bp] c [of ?bq] \<open>0 < ?bp\<close> bq(3)
      by (simp_all only: of_int_le_iff)
    show "of_int p < pow2 (int ?bp)" "of_int q < pow2 (int ?bq)"
      using bp(2) bq(2) by (simp_all only: d of_int_less_iff)
  qed
  have "x < pow2 (int ?bp - int ?bq + 1)"
  proof -
    have "of_int p < pow2 (int ?bp - int ?bq + 1) * pow2 (int ?bq - 1)"
      using P(2) by (simp flip: pow2_add)
    also have "\<dots> \<le> pow2 (int ?bp - int ?bq + 1) * of_int q"
      using Q(1) by (simp add: mult_left_mono less_imp_le)
    finally show ?thesis using q by (simp add: x divide_less_eq)
  qed
  moreover have "pow2 (int ?bp - int ?bq - 1) < x"
  proof -
    have "pow2 (int ?bp - int ?bq - 1) * of_int q < pow2 (int ?bp - int ?bq - 1) * pow2 (int ?bq)"
      using Q(2) by (simp add: mult_strict_left_mono)
    also have "\<dots> \<le> of_int p" using P(1) by (simp flip: pow2_add)
    finally show ?thesis using q by (simp add: x less_divide_eq)
  qed
  ultimately show ?thesis by (auto simp: ilog2_def pq Let_def)
qed

lemma ilog2_unique: "pow2 e \<le> x \<Longrightarrow> x < pow2 (e + 1) \<Longrightarrow> ilog2 x = e"
proof -
  assume a: "pow2 e \<le> x" "x < pow2 (e + 1)"
  have "0 < x" using a(1) pow2_pos [of e] by (meson order_less_le_trans)
  then have b: "pow2 (ilog2 x) \<le> x" "x < pow2 (ilog2 x + 1)" using ilog2_bounds by auto
  have "pow2 (ilog2 x) < pow2 (e + 1)" "pow2 e < pow2 (ilog2 x + 1)"
    using a b by (meson order_le_less_trans order_less_le_trans)+
  then show ?thesis by simp
qed

lemma ilog2_mono: "0 < x \<Longrightarrow> x \<le> y \<Longrightarrow> ilog2 x \<le> ilog2 y"
proof -
  assume a: "0 < x" "x \<le> y"
  have "pow2 (ilog2 x) < pow2 (ilog2 y + 1)"
    using a ilog2_bounds [of x] ilog2_bounds [of y] by linarith
  then show ?thesis by simp
qed

section \<open>Rounding\<close>

text \<open>Round half to even.\<close>

definition rhe :: "rat \<Rightarrow> int" where
  "rhe x = (let f = \<lfloor>x\<rfloor>; d = x - of_int f
     in if d < 1 / 2 then f else if 1 / 2 < d then f + 1 else if even f then f else f + 1)"

lemma rhe_of_int [simp]: "rhe (of_int k) = k"
  by (simp add: rhe_def)

lemma rhe_bounds: "\<lfloor>x\<rfloor> \<le> rhe x \<and> rhe x \<le> \<lfloor>x\<rfloor> + 1"
  by (simp add: rhe_def Let_def)

lemma rhe_mono:
  assumes "x \<le> y"
  shows "rhe x \<le> rhe y"
proof (cases "\<lfloor>x\<rfloor> = \<lfloor>y\<rfloor>")
  case True
  then show ?thesis using assms by (auto simp: rhe_def Let_def)
next
  case False
  with floor_mono [OF assms] have "\<lfloor>x\<rfloor> + 1 \<le> \<lfloor>y\<rfloor>" by simp
  then show ?thesis using rhe_bounds [of x] rhe_bounds [of y] by linarith
qed

definition fl_exp :: "rat \<Rightarrow> int" where
  "fl_exp a = max (ilog2 a - 52) (-1074)"

definition fl_pos :: "rat \<Rightarrow> rat" where
  "fl_pos a = of_int (rhe (a / pow2 (fl_exp a))) * pow2 (fl_exp a)"

definition fl :: "rat \<Rightarrow> rat" where
  "fl x = (if x = 0 then 0 else if 0 < x then fl_pos x else - fl_pos (- x))"

lemma fl_zero [simp]: "fl 0 = 0"
  by (simp add: fl_def)

lemma fl_pos_nonneg: "0 < a \<Longrightarrow> 0 \<le> fl_pos a"
proof -
  assume "0 < a"
  then have "rhe 0 \<le> rhe (a / pow2 (fl_exp a))" by (intro rhe_mono) (simp add: zero_le_divide_iff)
  moreover have "rhe 0 = 0" using rhe_of_int [of 0] by simp
  ultimately show ?thesis by (simp add: fl_pos_def)
qed

lemma fl_exp_mono: "0 < a \<Longrightarrow> a \<le> b \<Longrightarrow> fl_exp a \<le> fl_exp b"
  using ilog2_mono [of a b] by (auto simp: fl_exp_def)

lemma fl_pos_mono:
  assumes a: "0 < a" and ab: "a \<le> b"
  shows "fl_pos a \<le> fl_pos b"
proof (cases "fl_exp a = fl_exp b")
  case True
  have "a / pow2 (fl_exp b) \<le> b / pow2 (fl_exp b)" using ab by (simp add: divide_right_mono)
  then show ?thesis using rhe_mono by (simp add: fl_pos_def True mult_right_mono)
next
  case False
  then have lt: "fl_exp a < fl_exp b" using fl_exp_mono [OF a ab] by simp
  let ?L = "ilog2 b"
  have eb: "fl_exp b = ?L - 52" and la: "ilog2 a < ?L" using lt by (auto simp: fl_exp_def split: if_splits)
  have "a < pow2 ?L"
    using ilog2_bounds [OF a] la by (meson order_less_le_trans pow2_le_iff zless_add1_eq add1_zle_eq)
  then have "a / pow2 (fl_exp a) \<le> pow2 ?L / pow2 (fl_exp a)"
    by (simp add: divide_right_mono less_imp_le)
  then have "a / pow2 (fl_exp a) \<le> of_int (2 ^ nat (?L - fl_exp a))"
    using pow2_int_diff [of "fl_exp a" ?L] lt eb by simp
  then have "rhe (a / pow2 (fl_exp a)) \<le> 2 ^ nat (?L - fl_exp a)"
    using rhe_mono rhe_of_int by metis
  then have "fl_pos a \<le> of_int (2 ^ nat (?L - fl_exp a)) * pow2 (fl_exp a)"
    unfolding fl_pos_def by (intro mult_right_mono) (simp_all only: of_int_le_iff pow2_pos less_imp_le)
  also have "\<dots> = pow2 ?L" using pow2_int_diff [of "fl_exp a" ?L] lt eb
    by (simp add: nonzero_divide_eq_eq less_imp_neq [symmetric] flip: pow2_int_diff)
  also have "\<dots> = of_int (2 ^ 52) * pow2 (fl_exp b)"
    using pow2_add [of 52 "?L - 52"] by (simp add: eb pow2_def)
  also have "\<dots> \<le> fl_pos b"
  proof -
    have "pow2 ?L / pow2 (fl_exp b) \<le> b / pow2 (fl_exp b)"
      using ilog2_bounds [of b] a ab by (simp add: divide_right_mono)
    then have "of_int (2 ^ 52) \<le> b / pow2 (fl_exp b)"
      using pow2_int_diff [of "fl_exp b" ?L] by (simp add: eb)
    then have "2 ^ 52 \<le> rhe (b / pow2 (fl_exp b))" using rhe_mono rhe_of_int by metis
    then show ?thesis unfolding fl_pos_def
      by (intro mult_right_mono) (simp_all only: of_int_le_iff pow2_pos less_imp_le)
  qed
  finally show ?thesis .
qed

lemma fl_mono: "x \<le> y \<Longrightarrow> fl x \<le> fl y"
proof -
  assume xy: "x \<le> y"
  have nn: "0 < a \<Longrightarrow> 0 \<le> fl_pos a" for a by (rule fl_pos_nonneg)
  show ?thesis
  proof (cases "0 < x")
    case True
    with xy show ?thesis by (simp add: fl_def fl_pos_mono)
  next
    case False
    show ?thesis
    proof (cases "y < 0")
      case True
      with xy show ?thesis using fl_pos_mono [of "- y" "- x"] by (simp add: fl_def)
    next
      case y: False
      have "fl x \<le> 0" using False nn [of "- x"] by (auto simp: fl_def)
      moreover have "0 \<le> fl y" using y nn [of y] by (auto simp: fl_def)
      ultimately show ?thesis by simp
    qed
  qed
qed

section \<open>Representable values\<close>

text \<open>A 53-bit integer times a power of two is not changed by rounding.\<close>

lemma fl_pos_exact_lt:
  assumes "0 < k" "k < 2 ^ 53" "-1074 \<le> e"
  shows "fl_pos (of_int k * pow2 e) = of_int k * pow2 e"
proof -
  let ?x = "of_int k * pow2 e"
  have x: "0 < ?x" using assms(1) by simp
  have "of_int k < pow2 53" using assms(2) by (simp add: pow2_def flip: of_int_less_iff)
  then have "?x < pow2 (53 + e)" by (simp add: pow2_add)
  then have "ilog2 ?x < 53 + e"
    using ilog2_bounds [OF x] by (meson order_le_less_trans pow2_less_iff)
  then have le: "fl_exp ?x \<le> e" using assms(3) by (simp add: fl_exp_def)
  have "?x / pow2 (fl_exp ?x) = of_int (k * 2 ^ nat (e - fl_exp ?x))"
    using pow2_int_diff [OF le] by (simp add: field_simps)
  then have "rhe (?x / pow2 (fl_exp ?x)) = k * 2 ^ nat (e - fl_exp ?x)"
    by (simp only: rhe_of_int)
  then have "fl_pos ?x = of_int k * (pow2 e / pow2 (fl_exp ?x)) * pow2 (fl_exp ?x)"
    using pow2_int_diff [OF le] by (simp add: fl_pos_def)
  then show ?thesis by simp
qed

lemma fl_pos_exact:
  assumes "0 < k" "k \<le> 2 ^ 53" "-1074 \<le> e"
  shows "fl_pos (of_int k * pow2 e) = of_int k * pow2 e"
proof (cases "k = 2 ^ 53")
  case True
  have "of_int k * pow2 e = of_int (2 ^ 52) * pow2 (e + 1)"
    using True by (simp add: pow2_add pow2_def [of 1])
  then show ?thesis using fl_pos_exact_lt [of "2 ^ 52" "e + 1"] assms(3) by simp
next
  case False
  then show ?thesis using fl_pos_exact_lt assms by simp
qed

lemma fl_of_int: "\<bar>k\<bar> \<le> 2 ^ 53 \<Longrightarrow> fl (of_int k) = of_int k"
  using fl_pos_exact [of k 0] fl_pos_exact [of "- k" 0] by (auto simp: fl_def pow2_def)

lemma rhe_fl_bound:
  assumes "0 < a"
  shows "0 \<le> rhe (a / pow2 (fl_exp a))" "rhe (a / pow2 (fl_exp a)) \<le> 2 ^ 53"
proof -
  have "rhe 0 \<le> rhe (a / pow2 (fl_exp a))"
    using assms by (intro rhe_mono) (simp add: zero_le_divide_iff)
  then show "0 \<le> rhe (a / pow2 (fl_exp a))" using rhe_of_int [of 0] by simp
  have "a < pow2 (ilog2 a + 1)" using ilog2_bounds [OF assms] by simp
  also have "\<dots> \<le> pow2 (53 + fl_exp a)" by (simp add: fl_exp_def)
  finally have "a / pow2 (fl_exp a) \<le> pow2 53" by (simp add: pow2_add divide_le_eq less_imp_le)
  then have "a / pow2 (fl_exp a) \<le> of_int (2 ^ 53)" by (simp add: pow2_def)
  then show "rhe (a / pow2 (fl_exp a)) \<le> 2 ^ 53" using rhe_mono rhe_of_int by metis
qed

lemma fl_pos_idem:
  assumes "0 < a" "0 < fl_pos a"
  shows "fl_pos (fl_pos a) = fl_pos a"
proof -
  let ?k = "rhe (a / pow2 (fl_exp a))"
  have "0 < ?k" using assms(2) rhe_fl_bound(1) [OF assms(1)] by (cases "?k = 0") (auto simp: fl_pos_def)
  then have "fl_pos (of_int ?k * pow2 (fl_exp a)) = of_int ?k * pow2 (fl_exp a)"
    using rhe_fl_bound(2) [OF assms(1)] by (intro fl_pos_exact) (auto simp: fl_exp_def)
  then show ?thesis unfolding fl_pos_def [of a] .
qed

lemma fl_idem [simp]: "fl (fl x) = fl x"
proof -
  have p: "fl (fl_pos a) = fl_pos a" if "0 < a" for a
    using fl_pos_nonneg [OF that] fl_pos_idem [OF that] by (auto simp: fl_def)
  have m: "fl (- y) = - fl y" for y by (simp add: fl_def)
  consider "x = 0" | "0 < x" | "x < 0" by linarith
  then show ?thesis by cases (simp_all add: fl_def [of x] p m)
qed

section \<open>The laws of rounding\<close>

locale rounding =
  fixes rnd :: "rat \<Rightarrow> rat"
  assumes rnd_mono: "x \<le> y \<Longrightarrow> rnd x \<le> rnd y"
    and rnd_zero: "rnd 0 = 0"
    and rnd_idem: "rnd (rnd x) = rnd x"
begin

lemma rnd_nonneg: "0 \<le> x \<Longrightarrow> 0 \<le> rnd x"
  using rnd_mono [of 0 x] rnd_zero by simp

lemma rnd_le_fixed: "x \<le> y \<Longrightarrow> rnd y = y \<Longrightarrow> rnd x \<le> y"
  using rnd_mono [of x y] by simp

lemma rnd_ge_fixed: "y \<le> x \<Longrightarrow> rnd y = y \<Longrightarrow> y \<le> rnd x"
  using rnd_mono [of y x] by simp

end

interpretation flr: rounding fl
  by unfold_locales (simp_all add: fl_mono)

section \<open>Conversions\<close>

text \<open>
  \<^verbatim>\<open>float64(n)\<close>; \<^verbatim>\<open>time.Duration.Seconds\<close> (whole seconds plus the nanosecond rest over 1e9);
  \<^verbatim>\<open>math.Ceil\<close> followed by a conversion to an integer.
\<close>

definition float_of_int :: "int \<Rightarrow> rat" where
  "float_of_int n = fl (of_int n)"

definition tquot :: "int \<Rightarrow> int \<Rightarrow> int" where
  "tquot a b = sgn a * sgn b * (\<bar>a\<bar> div \<bar>b\<bar>)"

definition trem :: "int \<Rightarrow> int \<Rightarrow> int" where
  "trem a b = a - tquot a b * b"

definition duration_seconds :: "int \<Rightarrow> rat" where
  "duration_seconds d =
     fl (float_of_int (tquot d 1000000000) + fl (float_of_int (trem d 1000000000) / 1000000000))"

lemma duration_seconds_nonneg:
  assumes "0 \<le> d"
  shows "0 \<le> duration_seconds d"
proof -
  have "0 \<le> tquot d 1000000000" "0 \<le> trem d 1000000000"
    using assms by (auto simp: tquot_def trem_def sgn_if minus_mult_div_eq_mod)
  then show ?thesis unfolding duration_seconds_def float_of_int_def
    by (intro flr.rnd_nonneg add_nonneg_nonneg divide_nonneg_nonneg) simp_all
qed

lemma float_of_int_nonneg: "0 \<le> n \<Longrightarrow> 0 \<le> float_of_int n"
  by (simp add: float_of_int_def flr.rnd_nonneg)

end
