(* ===== verification/RateLimit.thy ===== *)
theory RateLimit
  imports Prelude Float64
begin

text \<open>
  The token bucket of \<^verbatim>\<open>internal/ratelimit/ratelimit.go\<close>, in \<^verbatim>\<open>float64\<close> arithmetic. Each
  method holds the mutex for its whole body. The clock is an argument: monotonic nanoseconds.
\<close>

record Limiter =
  lim_rate :: rat
  lim_burst :: rat
  lim_tokens :: rat
  lim_last :: int

definition New :: "rat \<Rightarrow> int \<Rightarrow> int \<Rightarrow> Limiter option" where
  "New ratePerSecond burst now =
     (if ratePerSecond \<le> 0 then None
      else let burst1 = (if burst \<le> 0 then 1 else burst)
           in Some \<lparr>lim_rate = ratePerSecond, lim_burst = float_of_int burst1,
                    lim_tokens = float_of_int burst1, lim_last = now\<rparr>)"

text \<open>\<^verbatim>\<open>Time.Sub\<close> saturates at the largest and smallest duration.\<close>

definition time_sub :: "int \<Rightarrow> int \<Rightarrow> int" where
  "time_sub t u = max (- max_int64 - 1) (min max_int64 (t - u))"

text \<open>The refill at the head of \<^verbatim>\<open>Allow\<close>.\<close>

definition refill :: "Limiter \<Rightarrow> int \<Rightarrow> Limiter" where
  "refill l now =
     (let elapsed = duration_seconds (time_sub now (lim_last l))
      in if elapsed > 0
         then let tokens = fl (lim_tokens l + fl (elapsed * lim_rate l))
              in l\<lparr>lim_tokens := (if tokens > lim_burst l then lim_burst l else tokens), lim_last := now\<rparr>
         else l)"

fun Allow :: "Limiter option \<Rightarrow> int \<Rightarrow> int \<Rightarrow> bool \<times> Limiter option" where
  "Allow None cost now = (True, None)"
| "Allow (Some l) cost now =
     (if cost \<le> 0 then (True, Some l)
      else let l1 = refill l now; needed = float_of_int cost
           in if lim_tokens l1 < needed then (False, Some l1)
              else (True, Some (l1\<lparr>lim_tokens := fl (lim_tokens l1 - needed)\<rparr>)))"

section \<open>Invariant\<close>

definition limiter_ok :: "Limiter \<Rightarrow> bool" where
  "limiter_ok l \<longleftrightarrow> 0 < lim_rate l \<and> 0 \<le> lim_tokens l \<and> lim_tokens l \<le> lim_burst l \<and>
     fl (lim_burst l) = lim_burst l"

lemma New_ok: "New rate burst now = Some l \<Longrightarrow> limiter_ok l"
  by (auto simp: New_def limiter_ok_def float_of_int_nonneg split: if_splits)
    (simp_all add: float_of_int_def)

lemma refill_ok:
  assumes "limiter_ok l"
  shows "limiter_ok (refill l now) \<and> lim_burst (refill l now) = lim_burst l \<and>
    lim_tokens l \<le> lim_burst l"
proof -
  have "0 \<le> fl (lim_tokens l + fl (e * lim_rate l))" if "0 < e" for e
    using assms that by (intro flr.rnd_nonneg add_nonneg_nonneg mult_nonneg_nonneg) (auto simp: limiter_ok_def)
  then show ?thesis using assms by (auto simp: refill_def Let_def limiter_ok_def)
qed

text \<open>
  C16: the bucket invariant. Every limiter made by \<open>New\<close> holds between zero and \<open>burst\<close>
  tokens, and \<open>Allow\<close> keeps that, on every path and for every clock reading, also one that
  goes backwards; rounding of the floating-point operations cannot break it.
\<close>

theorem Allow_keeps_tokens_in_range:
  assumes "limiter_ok l" and "Allow (Some l) cost now = (granted, l')"
  shows "\<exists>m. l' = Some m \<and> limiter_ok m \<and> lim_burst m = lim_burst l \<and> lim_rate m = lim_rate l"
proof -
  have r: "limiter_ok (refill l now)" "lim_burst (refill l now) = lim_burst l"
    using refill_ok [OF assms(1)] by simp_all
  have rate: "lim_rate (refill l now) = lim_rate l" by (simp add: refill_def Let_def)
  have sub: "0 \<le> fl (t - n) \<and> fl (t - n) \<le> lim_burst l" if "n \<le> t" "t \<le> lim_burst l" "0 \<le> n" for t n
  proof
    show "0 \<le> fl (t - n)" using that by (simp add: flr.rnd_nonneg)
    have "t - n \<le> lim_burst l" using that by linarith
    then show "fl (t - n) \<le> lim_burst l"
      using assms(1) by (intro flr.rnd_le_fixed) (auto simp: limiter_ok_def)
  qed
  show ?thesis
  proof (cases "0 < cost \<and> float_of_int cost \<le> lim_tokens (refill l now)")
    case True
    then have l': "l' = Some ((refill l now)\<lparr>lim_tokens := fl (lim_tokens (refill l now) - float_of_int cost)\<rparr>)"
      using assms(2) by (auto simp: Let_def)
    have "lim_tokens (refill l now) \<le> lim_burst l" using r by (simp add: limiter_ok_def)
    from sub [OF _ this] True r rate show ?thesis
      by (auto simp: l' limiter_ok_def float_of_int_nonneg)
  next
    case False
    then show ?thesis using assms r rate by (auto simp: Let_def split: if_splits)
  qed
qed

theorem Allow_keeps_tokens_in_range_witness:
  "\<exists>m. snd (Allow (New 2 5 0) 3 1000000000) = Some m \<and> 0 \<le> lim_tokens m \<and> lim_tokens m \<le> lim_burst m"
proof -
  obtain l where l: "New 2 5 0 = Some l" by (auto simp: New_def)
  then show ?thesis
    using Allow_keeps_tokens_in_range [OF New_ok [OF l], of 3 1000000000]
    by (cases "Allow (Some l) 3 1000000000") (auto simp: limiter_ok_def)
qed



section \<open>The budget of a burst\<close>

text \<open>A sequence of calls at one instant, with the costs that were granted.\<close>

fun allow_all :: "Limiter option \<Rightarrow> int \<Rightarrow> int list \<Rightarrow> int list \<times> Limiter option" where
  "allow_all l now [] = ([], l)"
| "allow_all l now (c # cs) =
     (case Allow l c now of (g, l1) \<Rightarrow>
        (case allow_all l1 now cs of (gs, l2) \<Rightarrow> (if g then c # gs else gs, l2)))"

lemma refill_same_instant: "now \<le> lim_last l \<Longrightarrow> refill l now = l"
proof -
  assume "now \<le> lim_last l"
  then have d: "time_sub now (lim_last l) \<le> 0" by (auto simp: time_sub_def max_int64_def)
  have "duration_seconds x \<le> 0" if "x \<le> 0" for x
  proof -
    have "tquot x 1000000000 \<le> 0" "trem x 1000000000 \<le> 0"
      using that by (auto simp: tquot_def trem_def sgn_if)
    then have "fl (of_int (tquot x 1000000000)) \<le> 0" "fl (of_int (trem x 1000000000)) \<le> 0"
      using flr.rnd_le_fixed [of _ 0] by simp_all
    then show ?thesis unfolding duration_seconds_def float_of_int_def
      by (intro flr.rnd_le_fixed) (simp_all add: add_nonpos_nonpos divide_nonpos_pos flr.rnd_le_fixed)
  qed
  with d show ?thesis by (simp add: refill_def Let_def not_less [symmetric])
qed

lemma allow_all_budget:
  assumes "\<forall>c\<in>set cs. 0 < c \<and> c \<le> 2 ^ 53" "lim_tokens l = of_int k" "0 \<le> k" "k \<le> 2 ^ 53" "now \<le> lim_last l"
  shows "\<exists>m. snd (allow_all (Some l) now cs) = Some m \<and>
    lim_tokens m = of_int (k - sum_list (fst (allow_all (Some l) now cs))) \<and>
    sum_list (fst (allow_all (Some l) now cs)) \<le> k"
  using assms
proof (induction cs arbitrary: l k)
  case Nil
  then show ?case by simp
next
  case (Cons c cs)
  have c: "float_of_int c = of_int c" using Cons.prems by (simp add: float_of_int_def fl_of_int)
  show ?case
  proof (cases "c \<le> k")
    case True
    have e: "fl (of_int k - of_int c) = of_int (k - c)"
      using fl_of_int [of "k - c"] True Cons.prems by simp
    have a: "Allow (Some l) c now = (True, Some (l\<lparr>lim_tokens := of_int (k - c)\<rparr>))"
      using True Cons.prems by (simp add: refill_same_instant c Let_def e)
    show ?thesis
      using Cons.IH [of "l\<lparr>lim_tokens := of_int (k - c)\<rparr>" "k - c"] True Cons.prems
      by (auto simp: a simp del: Allow.simps of_int_diff split: prod.splits)
  next
    case False
    then have a: "Allow (Some l) c now = (False, Some l)"
      using Cons.prems by (simp add: refill_same_instant c)
    show ?thesis using Cons.IH [of l k] Cons.prems by (auto simp: a simp del: Allow.simps split: prod.splits)
  qed
qed

text \<open>
  A fresh limiter never grants more than its burst at one instant, whatever sequence of
  costs arrives, and the tokens left are exactly the burst minus what was granted (for burst
  and costs up to \<open>2 ^ 53\<close>, where the integers are exact in \<^verbatim>\<open>float64\<close>).
\<close>

theorem New_burst_budget:
  assumes "New rate burst t0 = Some l" and "0 < burst" "burst \<le> 2 ^ 53"
    and "\<forall>c\<in>set costs. 0 < c \<and> c \<le> 2 ^ 53" and "now \<le> t0"
  shows "sum_list (fst (allow_all (Some l) now costs)) \<le> burst \<and>
    (\<exists>m. snd (allow_all (Some l) now costs) = Some m \<and>
         lim_tokens m = of_int (burst - sum_list (fst (allow_all (Some l) now costs))))"
proof -
  have "lim_tokens l = of_int burst" "lim_last l = t0"
    using assms(1-3) by (auto simp: New_def float_of_int_def fl_of_int split: if_splits)
  then show ?thesis using allow_all_budget [OF assms(4), of l burst now] assms by auto
qed

theorem New_burst_budget_witness:
  "\<exists>l. New 1 3 0 = Some l \<and> sum_list (fst (allow_all (Some l) 0 [2, 2, 1])) \<le> 3"
  using New_burst_budget [of 1 3 0 _ "[2, 2, 1]" 0] by (auto simp: New_def)

end
