(* ===== verification/Metrics.thy ===== *)
theory Metrics
  imports GoLib Float64
begin

text \<open>
  The instruments of \<^verbatim>\<open>internal/metrics/metrics.go\<close>. A counter is a number (per attribute value
  where it has one), a histogram the list of its recorded values with their attributes, newest
  first, a gauge what its callback observes. Creating the exporter and registering an instrument
  are calls of the OpenTelemetry library, which can fail: their outcomes are arguments.
\<close>

section \<open>State\<close>

record Metrics =
  mt_requests :: "string \<Rightarrow> int" \<comment> \<open>by status class\<close>
  mt_recordsAccepted :: int
  mt_recordsProduced :: int
  mt_recordsFailed :: int
  mt_requestBytes :: int
  mt_produceLatency :: "(rat \<times> string) list"
  mt_decodeLatency :: "(rat \<times> string \<times> bool) list"
  mt_callbackWait :: "(rat \<times> string) list"
  mt_rejections :: int
  mt_rateRejections :: "string \<Rightarrow> int" \<comment> \<open>by kind\<close>
  mt_outstanding :: int

definition metrics_New :: Metrics where
  "metrics_New =
     \<lparr>mt_requests = (\<lambda>_. 0), mt_recordsAccepted = 0, mt_recordsProduced = 0, mt_recordsFailed = 0, mt_requestBytes = 0,
      mt_produceLatency = [], mt_decodeLatency = [], mt_callbackWait = [], mt_rejections = 0,
      mt_rateRejections = (\<lambda>_. 0), mt_outstanding = 0\<rparr>"

text \<open>The upper bounds of the latency buckets, in seconds.\<close>

definition latencyBuckets :: "rat list" where
  "latencyBuckets = map fl [1/1000, 25/10000, 5/1000, 1/100, 25/1000, 5/100, 1/10, 25/100, 5/10, 1, 25/10, 5, 10]"

definition statusClass :: "int \<Rightarrow> string" where
  "statusClass status = (if status \<le> 0 then ''unknown'' else itoa (status div 100) @ ''xx'')"

section \<open>Observations\<close>

definition ObserveRequest :: "int \<Rightarrow> int \<Rightarrow> int \<Rightarrow> int \<Rightarrow> Metrics \<Rightarrow> Metrics" where
  "ObserveRequest status requestBytes records duration m =
     m\<lparr>mt_requests := (mt_requests m)(statusClass status := mt_requests m (statusClass status) + 1),
       mt_requestBytes := mt_requestBytes m + requestBytes,
       mt_produceLatency := (duration_seconds duration, statusClass status) # mt_produceLatency m,
       mt_recordsAccepted := mt_recordsAccepted m + (if 0 < records \<and> status < 400 then records else 0)\<rparr>"

definition ObserveProduceResult :: "int \<Rightarrow> int \<Rightarrow> Metrics \<Rightarrow> Metrics" where
  "ObserveProduceResult successes failures m =
     m\<lparr>mt_recordsProduced := mt_recordsProduced m + (if 0 < successes then successes else 0),
       mt_recordsFailed := mt_recordsFailed m + (if 0 < failures then failures else 0)\<rparr>"

definition ObserveDecode :: "string \<Rightarrow> bool \<Rightarrow> int \<Rightarrow> Metrics \<Rightarrow> Metrics" where
  "ObserveDecode format success duration m =
     m\<lparr>mt_decodeLatency := (duration_seconds duration, format, success) # mt_decodeLatency m\<rparr>"

definition ObserveKafkaCallbackWait :: "int \<Rightarrow> int \<Rightarrow> Metrics \<Rightarrow> Metrics" where
  "ObserveKafkaCallbackWait status duration m =
     m\<lparr>mt_callbackWait := (duration_seconds duration, statusClass status) # mt_callbackWait m\<rparr>"

definition ObserveAdmissionRejected :: "Metrics \<Rightarrow> Metrics" where
  "ObserveAdmissionRejected m = m\<lparr>mt_rejections := mt_rejections m + 1\<rparr>"

definition ObserveRateLimitRejected :: "string \<Rightarrow> Metrics \<Rightarrow> Metrics" where
  "ObserveRateLimitRejected kind m =
     m\<lparr>mt_rateRejections := (mt_rateRejections m)(kind := mt_rateRejections m kind + 1)\<rparr>"

definition IncOutstanding :: "Metrics \<Rightarrow> Metrics" where
  "IncOutstanding m = m\<lparr>mt_outstanding := mt_outstanding m + 1\<rparr>"

definition DecOutstanding :: "Metrics \<Rightarrow> Metrics" where
  "DecOutstanding m = m\<lparr>mt_outstanding := mt_outstanding m - 1\<rparr>"

lemmas observe_defs = ObserveRequest_def ObserveProduceResult_def ObserveDecode_def ObserveKafkaCallbackWait_def
  ObserveAdmissionRejected_def ObserveRateLimitRejected_def IncOutstanding_def DecOutstanding_def

section \<open>Gauges\<close>

text \<open>
  The snapshot functions are \<open>None\<close> until they are set; the callbacks give the observed values
  with their \<^verbatim>\<open>kind\<close> attribute.
\<close>

definition admission_gauge :: "(int \<times> int \<times> int \<times> int) option \<Rightarrow> int \<times> int \<times> int \<times> int" where
  "admission_gauge snapshot = (case snapshot of None \<Rightarrow> (0, 0, 0, 0) | Some s \<Rightarrow> s)"

definition buffered_gauge :: "(int \<times> int) option \<Rightarrow> int \<times> int" where
  "buffered_gauge snapshot = (case snapshot of None \<Rightarrow> (0, 0) | Some s \<Rightarrow> s)"

definition outstanding_callback :: "Metrics \<Rightarrow> (int \<times> string) list" where
  "outstanding_callback m = [(mt_outstanding m, [])]"

definition admission_records_callback :: "(int \<times> int \<times> int \<times> int) option \<Rightarrow> (int \<times> string) list" where
  "admission_records_callback snapshot =
     (case admission_gauge snapshot of (usedRecords, maxRecords, _, _) \<Rightarrow>
        [(usedRecords, ''used''), (maxRecords, ''limit'')])"

definition admission_bytes_callback :: "(int \<times> int \<times> int \<times> int) option \<Rightarrow> (int \<times> string) list" where
  "admission_bytes_callback snapshot =
     (case admission_gauge snapshot of (_, _, usedBytes, maxBytes) \<Rightarrow>
        [(usedBytes, ''used''), (maxBytes, ''limit'')])"

definition buffered_records_callback :: "(int \<times> int) option \<Rightarrow> (int \<times> string) list" where
  "buffered_records_callback snapshot = [(fst (buffered_gauge snapshot), [])]"

definition buffered_bytes_callback :: "(int \<times> int) option \<Rightarrow> (int \<times> string) list" where
  "buffered_bytes_callback snapshot = [(snd (buffered_gauge snapshot), [])]"

section \<open>Registration\<close>

text \<open>The instruments with their name, description and unit, in the order in which they are registered.\<close>

datatype instrument =
    Int64Counter string string string
  | Float64Histogram string string string
  | Int64ObservableGauge string string string

fun instrument_name :: "instrument \<Rightarrow> string" where
  "instrument_name (Int64Counter n d u) = n"
| "instrument_name (Float64Histogram n d u) = n"
| "instrument_name (Int64ObservableGauge n d u) = n"

fun is_histogram :: "instrument \<Rightarrow> bool" where
  "is_histogram (Float64Histogram n d u) = True"
| "is_histogram i = False"

definition instruments :: "instrument list" where
  "instruments =
     [Int64Counter ''kafka_rest_requests'' ''Total HTTP produce requests.'' [],
      Int64Counter ''kafka_rest_records_accepted'' ''Records accepted in successful HTTP requests.'' [],
      Int64Counter ''kafka_rest_records_produced'' ''Records successfully acknowledged by Kafka.'' [],
      Int64Counter ''kafka_rest_records_failed'' ''Records failed by Kafka/client callbacks.'' [],
      Int64Counter ''kafka_rest_request_bytes'' ''HTTP request body bytes processed.'' ''By'',
      Float64Histogram ''kafka_rest_produce_latency'' ''End-to-end HTTP produce request latency.'' ''s'',
      Float64Histogram ''kafka_rest_decode_latency'' ''Request body decode and validation latency.'' ''s'',
      Float64Histogram ''kafka_rest_kafka_callback_wait_latency'' ''Time spent waiting for Kafka producer callbacks for a request.'' ''s'',
      Int64Counter ''kafka_rest_admission_rejections'' ''Requests rejected because local producer admission capacity was exhausted.'' [],
      Int64Counter ''kafka_rest_rate_limit_rejections'' ''Requests rejected by configured request or byte rate limits.'' [],
      Int64ObservableGauge ''kafka_rest_outstanding_requests'' ''Currently active HTTP requests.'' [],
      Int64ObservableGauge ''kafka_rest_admission_records'' ''Records reserved by local admission control.'' [],
      Int64ObservableGauge ''kafka_rest_admission_bytes'' ''Bytes reserved by local admission control.'' ''By'',
      Int64ObservableGauge ''kafka_rest_franz_buffered_records'' ''Records currently buffered by franz-go.'' [],
      Int64ObservableGauge ''kafka_rest_franz_buffered_bytes'' ''Bytes currently buffered by franz-go.'' ''By'']"

text \<open>The views of the provider: the bucket bounds of the histograms.\<close>

definition histogram_views :: "(string \<times> rat list) list" where
  "histogram_views =
     [(''kafka_rest_produce_latency'', latencyBuckets), (''kafka_rest_decode_latency'', latencyBuckets),
      (''kafka_rest_kafka_callback_wait_latency'', latencyBuckets)]"

fun register_all :: "(instrument \<Rightarrow> string option) \<Rightarrow> instrument list \<Rightarrow> string option" where
  "register_all register [] = None"
| "register_all register (i # is) = (case register i of Some e \<Rightarrow> Some e | None \<Rightarrow> register_all register is)"

definition metrics_create :: "string + unit \<Rightarrow> (instrument \<Rightarrow> string option) \<Rightarrow> string + Metrics" where
  "metrics_create exporter register =
     (case exporter of Err e \<Rightarrow> Err e
      | Ok _ \<Rightarrow> (case register_all register instruments of Some e \<Rightarrow> Err e | None \<Rightarrow> Ok metrics_New))"

text \<open>
  No two instruments share a name, so a registry that only refuses names it already has accepts
  them all; every histogram has a view.
\<close>

lemma instrument_names_distinct: "distinct (map instrument_name instruments)"
  by code_simp

lemma histograms_have_views:
  "map instrument_name (filter is_histogram instruments) = map fst histogram_views"
  by (simp add: instruments_def histogram_views_def)

lemma metrics_create_ok:
  "metrics_create (Ok ()) register = Ok metrics_New \<longleftrightarrow> list_all (\<lambda>i. register i = None) instruments"
proof -
  have "register_all register is = None \<longleftrightarrow> list_all (\<lambda>i. register i = None) is" for "is"
    by (induction "is") (auto split: option.splits)
  from this [of instruments] show ?thesis
    by (cases "register_all register instruments") (auto simp: metrics_create_def)
qed

end
