(* ===== verification/Handler.thy ===== *)
theory Handler
  imports V3 RateLimit Metrics
begin

text \<open>
  The HTTP layer: configuration, construction, routing, authentication and the produce handlers
  of \<^verbatim>\<open>internal/api/handler.go\<close> and \<^verbatim>\<open>internal/api/v3.go\<close>. The state a request can
  change is explicit: the two rate limiters, the metrics, the schema registry and the producer.
  The producer and the registry are parameters with a state of their own; clock readings and
  what arrives on the connection are arguments.
\<close>

section \<open>Configuration\<close>

record api_Config =
  ac_MaxRequestBytes :: int
  ac_MaxRecords :: int
  ac_MaxRecordBytes :: int
  ac_MaxKeyBytes :: int
  ac_MaxHeaders :: int
  ac_MaxHeaderBytes :: int
  ac_AllowedTopics :: "string list"
  ac_ProduceTimeout :: int
  ac_BearerTokens :: "string list"
  ac_PprofEnable :: bool
  ac_ClusterID :: string
  ac_RateLimitRequestsPerSecond :: rat
  ac_RateLimitRequestsBurst :: int
  ac_RateLimitBytesPerSecond :: rat
  ac_RateLimitBytesBurst :: int

definition config_withDefaults :: "api_Config \<Rightarrow> api_Config" where
  "config_withDefaults cfg =
     cfg\<lparr>ac_MaxRequestBytes := positive_or (8 * 1024 * 1024) (ac_MaxRequestBytes cfg),
         ac_MaxRecords := positive_or 1000 (ac_MaxRecords cfg),
         ac_MaxRecordBytes := positive_or (1024 * 1024) (ac_MaxRecordBytes cfg),
         ac_MaxKeyBytes := positive_or (1024 * 1024) (ac_MaxKeyBytes cfg),
         ac_MaxHeaders := positive_or 64 (ac_MaxHeaders cfg),
         ac_MaxHeaderBytes := positive_or (64 * 1024) (ac_MaxHeaderBytes cfg),
         ac_ProduceTimeout := positive_or 30000000000 (ac_ProduceTimeout cfg),
         ac_ClusterID := (if trimSpace (ac_ClusterID cfg) = [] then ''local'' else ac_ClusterID cfg)\<rparr>"

definition config_decodeLimits :: "api_Config \<Rightarrow> decodeLimits" where
  "config_decodeLimits cfg =
     \<lparr>dl_MaxRecords = ac_MaxRecords cfg, dl_MaxRecordBytes = ac_MaxRecordBytes cfg, dl_MaxKeyBytes = ac_MaxKeyBytes cfg,
      dl_MaxHeaders = ac_MaxHeaders cfg, dl_MaxHeaderBytes = ac_MaxHeaderBytes cfg\<rparr>"

definition maxInt64 :: "int \<Rightarrow> int \<Rightarrow> int" where
  "maxInt64 a b = (if a > b then a else b)"

section \<open>The handler and its state\<close>

record ('r, 'p) Handler =
  h_produce :: "'p \<Rightarrow> Record list \<Rightarrow> (err + Result list) \<times> 'p"
  h_ping :: "'p \<Rightarrow> err option"
  h_cfg :: api_Config
  h_tokens :: "string set"
  h_allowedTopics :: "string set"
  h_allowedTopicPrefixes :: "string list"
  h_schemaEncoder :: "'r resolver option option"

record ('r, 'p) hstate =
  st_requestRateLimiter :: "Limiter option"
  st_byteRateLimiter :: "Limiter option"
  st_metrics :: "Metrics option"
  st_registry :: 'r
  st_producer :: 'p

text \<open>One configured topic: a trailing star makes it a prefix, a lone star is dropped.\<close>

fun allowlist :: "string list \<Rightarrow> string set \<times> string list" where
  "allowlist [] = ({}, [])"
| "allowlist (t # ts) =
     (let topic = trimSpace t in
      case allowlist ts of (topics, prefixes) \<Rightarrow>
        if topic = [] then (topics, prefixes)
        else if hasSuffix topic ''*'' then
          (let p = trimSuffix topic ''*'' in if p \<noteq> [] then (topics, p # prefixes) else (topics, prefixes))
        else (insert topic topics, prefixes))"

definition token_set :: "string list \<Rightarrow> string set" where
  "token_set ts = set (filter (\<lambda>t. t \<noteq> []) (map trimSpace ts))"

definition request_limiter :: "api_Config \<Rightarrow> int \<Rightarrow> Limiter option" where
  "request_limiter cfg now =
     (if ac_RateLimitRequestsPerSecond cfg > 0 then
        New (ac_RateLimitRequestsPerSecond cfg)
          (if ac_RateLimitRequestsBurst cfg \<le> 0 then \<lceil>ac_RateLimitRequestsPerSecond cfg\<rceil>
           else ac_RateLimitRequestsBurst cfg) now
      else None)"

definition byte_limiter :: "api_Config \<Rightarrow> int \<Rightarrow> Limiter option" where
  "byte_limiter cfg now =
     (if ac_RateLimitBytesPerSecond cfg > 0 then
        New (ac_RateLimitBytesPerSecond cfg)
          (if ac_RateLimitBytesBurst cfg \<le> 0
           then maxInt64 \<lceil>ac_RateLimitBytesPerSecond cfg\<rceil> (ac_MaxRequestBytes cfg)
           else ac_RateLimitBytesBurst cfg) now
      else None)"

definition NewHandlerWithSchema ::
  "('p \<Rightarrow> Record list \<Rightarrow> (err + Result list) \<times> 'p) \<Rightarrow> ('p \<Rightarrow> err option) \<Rightarrow> Metrics option \<Rightarrow> api_Config \<Rightarrow>
     'r resolver option option \<Rightarrow> int \<Rightarrow> 'r \<Rightarrow> 'p \<Rightarrow> ('r, 'p) Handler \<times> ('r, 'p) hstate" where
  "NewHandlerWithSchema produce ping m cfg0 enc now reg pst =
     (let cfg = config_withDefaults cfg0
      in (\<lparr>h_produce = produce, h_ping = ping, h_cfg = cfg, h_tokens = token_set (ac_BearerTokens cfg),
           h_allowedTopics = fst (allowlist (ac_AllowedTopics cfg)),
           h_allowedTopicPrefixes = snd (allowlist (ac_AllowedTopics cfg)), h_schemaEncoder = enc\<rparr>,
          \<lparr>st_requestRateLimiter = request_limiter cfg now, st_byteRateLimiter = byte_limiter cfg now,
           st_metrics = m, st_registry = reg, st_producer = pst\<rparr>))"

definition NewHandler where
  "NewHandler produce ping m cfg now reg pst = NewHandlerWithSchema produce ping m cfg None now reg pst"

definition topicAllowed :: "('r, 'p) Handler \<Rightarrow> string \<Rightarrow> bool" where
  "topicAllowed h topic \<longleftrightarrow>
     h_allowedTopics h = {} \<and> h_allowedTopicPrefixes h = [] \<or> topic \<in> h_allowedTopics h \<or>
     list_ex (hasPrefix topic) (h_allowedTopicPrefixes h)"

definition allowRequestRate :: "int \<Rightarrow> int \<Rightarrow> ('r, 'p) hstate \<Rightarrow> bool \<times> ('r, 'p) hstate" where
  "allowRequestRate cost now s =
     (case Allow (st_requestRateLimiter s) cost now of (ok, l) \<Rightarrow> (ok, s\<lparr>st_requestRateLimiter := l\<rparr>))"

definition allowByteRate :: "int \<Rightarrow> int \<Rightarrow> ('r, 'p) hstate \<Rightarrow> bool \<times> ('r, 'p) hstate" where
  "allowByteRate cost now s =
     (case Allow (st_byteRateLimiter s) cost now of (ok, l) \<Rightarrow> (ok, s\<lparr>st_byteRateLimiter := l\<rparr>))"

definition observe :: "(Metrics \<Rightarrow> Metrics) \<Rightarrow> ('r, 'p) hstate \<Rightarrow> ('r, 'p) hstate" where
  "observe f s = s\<lparr>st_metrics := map_option f (st_metrics s)\<rparr>"

section \<open>Requests and responses\<close>

text \<open>
  \<open>hrq_body\<close> is everything the client sends before the end of the body, \<open>hrq_readError\<close>
  whether reading fails there.
\<close>

record http_req =
  hrq_method :: string
  hrq_path :: string
  hrq_escapedPath :: string
  hrq_authorization :: string
  hrq_accept :: string
  hrq_contentType :: string
  hrq_contentLength :: int
  hrq_body :: bytes
  hrq_readError :: bool

datatype doc =
    ErrorDoc int message
  | RawDoc bytes
  | V3Doc v3ProduceResponse
  | V3BatchDoc v3ProduceBatchResponse
  | StatusDoc string
  | LibraryDoc string \<comment> \<open>written by a library handler\<close>
  | Aborted \<comment> \<open>the handler panicked; the server closes the connection\<close>

record response =
  rsp_status :: int
  rsp_headers :: "(string \<times> string) list"
  rsp_docs :: "doc list"

definition writeAPIError :: "int \<Rightarrow> int \<Rightarrow> message \<Rightarrow> response" where
  "writeAPIError status errCode msg =
     \<lparr>rsp_status = status, rsp_headers = [(''Content-Type'', mediaKafkaV2)], rsp_docs = [ErrorDoc errCode msg]\<rparr>"

definition method_not_allowed :: "string \<Rightarrow> response" where
  "method_not_allowed allow =
     (writeAPIError 405 400 [Lit ''method not allowed''])
       \<lparr>rsp_headers := [(''Allow'', allow), (''Content-Type'', mediaKafkaV2)]\<rparr>"

definition rateLimitMessage :: string where
  "rateLimitMessage = ''Request rate limit exceeded: The rate limit of requests per second has been exceeded.''"

definition writeRateLimitExceeded :: response where
  "writeRateLimitExceeded = writeAPIError 429 429 [Lit rateLimitMessage]"

datatype read_error = TooLarge | ReadFailed

text \<open>
  \<^verbatim>\<open>http.MaxBytesReader\<close>: a longer body fails after its first \<open>maxBytes\<close> bytes. Both branches
  of \<^verbatim>\<open>readRequestBody\<close> read to the end; they differ in how the buffer grows.
\<close>

definition max_bytes_read :: "int \<Rightarrow> http_req \<Rightarrow> bytes \<times> read_error option" where
  "max_bytes_read maxBytes r =
     (if maxBytes < int (length (hrq_body r)) then (take (nat maxBytes) (hrq_body r), Some TooLarge)
      else (hrq_body r, if hrq_readError r then Some ReadFailed else None))"

definition readRequestBody :: "http_req \<Rightarrow> int \<Rightarrow> bytes \<times> read_error option" where
  "readRequestBody r maxBytes =
     (if 0 < hrq_contentLength r \<and> hrq_contentLength r \<le> maxBytes
      then max_bytes_read maxBytes r else max_bytes_read maxBytes r)"

text \<open>Clock readings of one request, in nanoseconds.\<close>

record clock =
  ck_request :: int \<comment> \<open>at the request limiter\<close>
  ck_bytes :: int \<comment> \<open>at the byte limiter\<close>
  ck_decode :: int \<comment> \<open>time spent decoding\<close>
  ck_wait :: int \<comment> \<open>time spent in \<^verbatim>\<open>Produce\<close>\<close>
  ck_total :: int
  ck_now :: int \<comment> \<open>the wall clock of a response\<close>

text \<open>What a produce handler leaves: response, status variable, body length, record count, state.\<close>

record ('r, 'p) outcome =
  oc_response :: response
  oc_status :: int
  oc_bodyLen :: int
  oc_records :: int
  oc_state :: "('r, 'p) hstate"

definition finish :: "response \<Rightarrow> int \<Rightarrow> int \<Rightarrow> ('r, 'p) hstate \<Rightarrow> ('r, 'p) outcome" where
  "finish resp bodyLen records s =
     \<lparr>oc_response = resp, oc_status = rsp_status resp, oc_bodyLen = bodyLen, oc_records = records, oc_state = s\<rparr>"

text \<open>The deferred metric updates around a produce handler.\<close>

definition with_request_metrics ::
  "int \<Rightarrow> (('r, 'p) hstate \<Rightarrow> ('r, 'p) outcome) \<Rightarrow> ('r, 'p) hstate \<Rightarrow> response \<times> ('r, 'p) hstate" where
  "with_request_metrics elapsed body s =
     (let o1 = body (observe IncOutstanding s)
      in (oc_response o1,
          observe DecOutstanding
            (observe (ObserveRequest (oc_status o1) (oc_bodyLen o1) (oc_records o1) elapsed) (oc_state o1))))"

section \<open>Health\<close>

definition handleHealth :: "http_req \<Rightarrow> response" where
  "handleHealth r =
     (if hrq_method r \<noteq> ''GET'' then method_not_allowed ''GET''
      else \<lparr>rsp_status = 200, rsp_headers = [(''Content-Type'', mediaJSON)], rsp_docs = [StatusDoc ''ok'']\<rparr>)"

definition handleReady :: "('r, 'p) Handler \<Rightarrow> http_req \<Rightarrow> ('r, 'p) hstate \<Rightarrow> response" where
  "handleReady h r s =
     (if hrq_method r \<noteq> ''GET'' then method_not_allowed ''GET''
      else (case h_ping h (st_producer s) of
        Some e \<Rightarrow> writeAPIError 503 503 [Lit (err_Error e)]
      | None \<Rightarrow> \<lparr>rsp_status = 200, rsp_headers = [(''Content-Type'', mediaJSON)], rsp_docs = [StatusDoc ''ready'']\<rparr>))"

section \<open>The v2 produce handler\<close>

text \<open>
  The handler passes its \<^verbatim>\<open>*Encoder\<close> as an interface value, which is never \<^verbatim>\<open>nil\<close>: with no
  encoder configured the call goes to a \<^verbatim>\<open>nil\<close> encoder, which has no registry.
\<close>

definition v2_encoder :: "('c, 'n, 'k, 's, 'i, 'd, 'm) codecs \<Rightarrow> ('r, 'p) Handler \<Rightarrow> 'r schemaEncoder option" where
  "v2_encoder cs h = Some (\<lambda>st. Encode cs (case h_schemaEncoder h of None \<Rightarrow> None | Some registry \<Rightarrow> registry) st)"

definition decode_failure :: "api_error \<Rightarrow> response" where
  "decode_failure e =
     (case e of unprocessableError m \<Rightarrow> writeAPIError 422 422 m | validationError m \<Rightarrow> writeAPIError 400 400 m)"

text \<open>From the producer call on.\<close>

definition v2_produce ::
  "(nat \<Rightarrow> bool) \<Rightarrow> ('r, 'p) Handler \<Rightarrow> clock \<Rightarrow> int \<Rightarrow> Record list \<Rightarrow> produceMetadata \<Rightarrow> ('r, 'p) hstate \<Rightarrow> ('r, 'p) outcome" where
  "v2_produce isPrint h ck bodyLen records meta s =
     (case h_produce h (st_producer s) records of
        (Err e, p) \<Rightarrow>
          let s1 = s\<lparr>st_producer := p\<rparr>; pe = mark_context_error e in
          (case classifyProduceError pe of (status, errCode, msg) \<Rightarrow>
             let s2 = observe (ObserveKafkaCallbackWait status (ck_wait ck)) s1;
                 s3 = (if pe = ProducerErr ErrOverloaded then observe ObserveAdmissionRejected s2 else s2)
             in finish (writeAPIError status errCode [Lit msg]) bodyLen (int (length records)) s3)
      | (Ok results, p) \<Rightarrow>
          let s1 = observe (ObserveKafkaCallbackWait 200 (ck_wait ck)) (s\<lparr>st_producer := p\<rparr>);
              s2 = (case countResultStatus results of (successes, failures) \<Rightarrow>
                      observe (ObserveProduceResult (int successes) (int failures)) s1)
          in finish \<lparr>rsp_status = 200, rsp_headers = [(''Content-Type'', mediaKafkaV2)],
                     rsp_docs = [RawDoc (appendProduceResponse isPrint [] results meta)]\<rparr>
               bodyLen (int (length records)) s2)"

definition v2_body ::
  "(nat \<Rightarrow> bool) \<Rightarrow> ('c, 'n, 'k, 's, 'i, 'd, 'm) codecs \<Rightarrow> ('r, 'p) Handler \<Rightarrow> clock \<Rightarrow> http_req \<Rightarrow>
     produceTarget \<Rightarrow> payloadFormat \<Rightarrow> ('r, 'p) hstate \<Rightarrow> ('r, 'p) outcome" where
  "v2_body isPrint cs h ck r target format s =
     (case readRequestBody r (ac_MaxRequestBytes (h_cfg h)) of
        (body, Some TooLarge) \<Rightarrow> finish (writeAPIError 413 413 [Lit ''HTTP 413 Payload Too Large'']) (int (length body)) 0 s
      | (body, Some ReadFailed) \<Rightarrow> finish (writeAPIError 400 400 [Lit ''failed to read request body'']) (int (length body)) 0 s
      | (body, None) \<Rightarrow>
        (case allowByteRate (int (length body)) (ck_bytes ck) s of
           (False, s1) \<Rightarrow> finish writeRateLimitExceeded (int (length body)) 0 (observe (ObserveRateLimitRejected ''bytes'') s1)
         | (True, s1) \<Rightarrow>
           (case decodeProduceRequestWithSchema (v2_encoder cs h) (st_registry s1) (tgt_topic target) body format
                   (config_decodeLimits (h_cfg h)) (tgt_partition target) of
              (decoded, reg) \<Rightarrow>
                let s2 = observe (ObserveDecode (format_String format) (\<not> isl decoded) (ck_decode ck)) (s1\<lparr>st_registry := reg\<rparr>)
                in (case decoded of
                      Err e \<Rightarrow> finish (decode_failure e) (int (length body)) 0 s2
                    | Ok (records, meta) \<Rightarrow> v2_produce isPrint h ck (int (length body)) records meta s2))))"

definition handleTopicProduce_body ::
  "(nat \<Rightarrow> bool) \<Rightarrow> ('c, 'n, 'k, 's, 'i, 'd, 'm) codecs \<Rightarrow> ('r, 'p) Handler \<Rightarrow> clock \<Rightarrow> http_req \<Rightarrow>
     ('r, 'p) hstate \<Rightarrow> ('r, 'p) outcome" where
  "handleTopicProduce_body isPrint cs h ck r s =
     (if hrq_method r \<noteq> ''POST'' then finish (method_not_allowed ''POST'') 0 0 s
      else (case produceTargetFromPath (hrq_escapedPath r) of
        None \<Rightarrow> finish (writeAPIError 404 400 [Lit ''not found'']) 0 0 s
      | Some target \<Rightarrow>
        if \<not> topicAllowed h (tgt_topic target) then finish (writeAPIError 403 403 [Lit ''topic is not allowed'']) 0 0 s
        else if \<not> acceptsResponse (hrq_accept r) then finish (writeAPIError 406 406 [Lit ''HTTP 406 Not Acceptable'']) 0 0 s
        else (case parseContentType (hrq_contentType r) of
          (format, False) \<Rightarrow> finish (writeAPIError 415 415 [Lit ''HTTP 415 Unsupported Media Type'']) 0 0 s
        | (format, True) \<Rightarrow>
          (case allowRequestRate 1 (ck_request ck) s of
             (False, s1) \<Rightarrow> finish writeRateLimitExceeded 0 0 (observe (ObserveRateLimitRejected ''requests'') s1)
           | (True, s1) \<Rightarrow> v2_body isPrint cs h ck r target format s1))))"

definition handleTopicProduce where
  "handleTopicProduce isPrint cs h ck r s = with_request_metrics (ck_total ck) (handleTopicProduce_body isPrint cs h ck r) s"

section \<open>The v3 batch handler\<close>

text \<open>The loop over the entries: the envelopes to produce and the failures, both in order.\<close>

fun batch_entries ::
  "('c, 'n, 'k, 's, 'i, 'd, 'm) codecs \<Rightarrow> 'r resolver option option \<Rightarrow> string \<Rightarrow> decodeLimits \<Rightarrow>
     v3ProduceBatchEntry list \<Rightarrow> string set \<Rightarrow> 'r \<Rightarrow> v3RecordEnvelope list \<times> v3ProduceBatchFailure list \<times> 'r" where
  "batch_entries cs enc topic limits [] seen reg = ([], [], reg)"
| "batch_entries cs enc topic limits (e # es) seen reg =
     (case validateBatchID (v3e_ID e) seen of
        (Some m, seen') \<Rightarrow>
          (case batch_entries cs enc topic limits es seen' reg of (envs, fails, reg') \<Rightarrow>
             (envs, \<lparr>vf_ID = v3e_ID e, vf_ErrorCode = 400, vf_Message = m\<rparr> # fails, reg'))
      | (None, seen') \<Rightarrow>
          (case v3EnvelopeFromRecord cs enc reg topic (v3e_ID e) e limits of
             (Err m, reg1) \<Rightarrow>
               (case batch_entries cs enc topic limits es seen' reg1 of (envs, fails, reg') \<Rightarrow>
                  (envs, \<lparr>vf_ID = v3e_ID e, vf_ErrorCode = 400, vf_Message = m\<rparr> # fails, reg'))
           | (Ok env, reg1) \<Rightarrow>
               (case batch_entries cs enc topic limits es seen' reg1 of (envs, fails, reg') \<Rightarrow> (env # envs, fails, reg'))))"

text \<open>The loop over the results; \<open>None\<close> is the index out of range when there are more results than records.\<close>

fun batch_results ::
  "int \<Rightarrow> v3ProduceTarget \<Rightarrow> v3RecordEnvelope list \<Rightarrow> Result list \<Rightarrow>
     (v3ProduceBatchSuccess list \<times> v3ProduceBatchFailure list) option" where
  "batch_results now target envs [] = Some ([], [])"
| "batch_results now target [] (r # rs) = None"
| "batch_results now target (env # envs) (r # rs) =
     (case batch_results now target envs rs of None \<Rightarrow> None
      | Some (succ, fails) \<Rightarrow>
        if resultFailed r
        then Some (succ, \<lparr>vf_ID = ev_id env, vf_ErrorCode = resultErrorCode r, vf_Message = [Lit (resultErrorMessage r)]\<rparr> # fails)
        else Some (v3BatchSuccessForResult now target env r # succ, fails))"

definition batch_response :: "v3ProduceBatchSuccess list \<Rightarrow> v3ProduceBatchFailure list \<Rightarrow> response" where
  "batch_response succ fails =
     \<lparr>rsp_status = 207, rsp_headers = [(''Content-Type'', mediaJSON)],
      rsp_docs = [V3BatchDoc \<lparr>vb_Successes = succ, vb_Failures = fails\<rparr>]\<rparr>"

definition handleV3BatchBody ::
  "('c, 'n, 'k, 's, 'i, 'd, 'm) codecs \<Rightarrow> ('r, 'p) Handler \<Rightarrow> clock \<Rightarrow> v3ProduceTarget \<Rightarrow> bytes \<Rightarrow>
     ('r, 'p) hstate \<Rightarrow> ('r, 'p) outcome" where
  "handleV3BatchBody cs h ck target body s =
     (case unmarshal v3ProduceBatchRequest_decoder body None of
        (entries0, ok) \<Rightarrow>
          let entries = slice_elems entries0; n = int (length body) in
          if \<not> ok then finish (writeAPIError 400 400 [JSONError ''batch request'' body]) n 0 s
          else if entries = [] then finish (writeAPIError 400 400 [Lit ''entries must not be empty'']) n 0 s
          else if int (length entries) > ac_MaxRecords (h_cfg h)
          then finish (writeAPIError 400 400 [Lit ''too many entries: got '', Lit (itoa (int (length entries))), Lit '', limit '',
                 Lit (itoa (ac_MaxRecords (h_cfg h)))]) n 0 s
          else (case batch_entries cs (h_schemaEncoder h) (v3t_topic target) (config_decodeLimits (h_cfg h)) entries {} (st_registry s) of
            (envs, fails, reg) \<Rightarrow>
              let s1 = s\<lparr>st_registry := reg\<rparr>; count = int (length envs) in
              if envs = [] then finish (batch_response [] fails) n count s1
              else (case h_produce h (st_producer s1) (map ev_record envs) of
                (Err e, p) \<Rightarrow>
                  (case classifyProduceError (ProducerErr e) of (status, errCode, msg) \<Rightarrow>
                     finish (writeAPIError status errCode [Lit msg]) n count (s1\<lparr>st_producer := p\<rparr>))
              | (Ok results, p) \<Rightarrow>
                  let s2 = (case countResultStatus results of (successes, failures) \<Rightarrow>
                              observe (ObserveProduceResult (int successes) (int failures)) (s1\<lparr>st_producer := p\<rparr>))
                  in (case batch_results (ck_now ck) target envs results of
                        None \<Rightarrow> finish \<lparr>rsp_status = 200, rsp_headers = [], rsp_docs = [Aborted]\<rparr> n count s2
                      | Some (succ, rfails) \<Rightarrow> finish (batch_response succ (fails @ rfails)) n count s2))))"

section \<open>The v3 streaming handler\<close>

text \<open>
  What the successive \<^verbatim>\<open>Decode\<close> calls of the stream give, each with the bytes it read from
  the connection: a value, the limit of \<^verbatim>\<open>MaxBytesReader\<close>, or another error with its text. The
  end of the list is the end of the body. Each event comes with its clock readings.
\<close>

datatype decode_event = DecValue int json | DecTooLarge int | DecError int message

text \<open>The documents written so far are in \<open>docs\<close>; nothing was written while it is empty.\<close>

definition stream_response :: "doc list \<Rightarrow> response" where
  "stream_response docs = \<lparr>rsp_status = 200, rsp_headers = [(''Content-Type'', mediaJSON)], rsp_docs = docs\<rparr>"

text \<open>Ending the stream with an error: another document if something was written, an error response otherwise.\<close>

definition stream_stop :: "doc list \<Rightarrow> int \<Rightarrow> int \<Rightarrow> message \<Rightarrow> response" where
  "stream_stop docs status errCode msg =
     (if docs \<noteq> [] then stream_response (docs @ [V3Doc (v3_error_response errCode msg)])
      else writeAPIError status errCode msg)"

text \<open>One accepted record: its envelope is produced and answered. Left: go on; right: stop.\<close>

definition stream_record ::
  "('c, 'n, 'k, 's, 'i, 'd, 'm) codecs \<Rightarrow> ('r, 'p) Handler \<Rightarrow> clock \<Rightarrow> v3ProduceTarget \<Rightarrow> v3ProduceRecord \<Rightarrow>
     doc list \<Rightarrow> ('r, 'p) hstate \<Rightarrow> (doc list \<times> ('r, 'p) hstate) + (response \<times> ('r, 'p) hstate)" where
  "stream_record cs h ck target rec1 docs s =
     (case v3EnvelopeFromRecord cs (h_schemaEncoder h) (st_registry s) (v3t_topic target) [] rec1 (config_decodeLimits (h_cfg h)) of
        (Err m, reg) \<Rightarrow>
          Inl (docs @ [V3Doc (v3_error_response 400 m)], observe (ObserveProduceResult 0 1) (s\<lparr>st_registry := reg\<rparr>))
      | (Ok env, reg) \<Rightarrow>
          (case h_produce h (st_producer s) [ev_record env] of
             (Err e, p) \<Rightarrow>
               let s1 = s\<lparr>st_registry := reg, st_producer := p\<rparr>; pe = mark_context_error e in
               (case classifyProduceError pe of (status, errCode, msg) \<Rightarrow>
                  let s2 = observe (ObserveProduceResult 0 1) (observe (ObserveKafkaCallbackWait status (ck_wait ck)) s1);
                      s3 = (if pe = ProducerErr ErrOverloaded then observe ObserveAdmissionRejected s2 else s2)
                  in Inr (stream_stop docs status errCode [Lit msg], s3))
           | (Ok results0, p) \<Rightarrow>
               let results = (if results0 = []
                     then [\<lparr>res_Partition = 0, res_Offset = 0, res_ErrorCode = None,
                            res_Err = Some (KafkaErr ''kafka produce returned no result'')\<rparr>]
                     else results0);
                   s1 = observe (ObserveKafkaCallbackWait 200 (ck_wait ck)) (s\<lparr>st_registry := reg, st_producer := p\<rparr>);
                   s2 = (case countResultStatus (take 1 results) of (successes, failures) \<Rightarrow>
                           observe (ObserveProduceResult (int successes) (int failures)) s1)
               in Inl (docs @ [V3Doc (v3ResponseForResult (ck_now ck) target env (results ! 0))], s2)))"

text \<open>
  The loop: \<open>n\<close> bytes read and \<open>cnt\<close> records counted so far; \<open>tail\<close> bytes are read by the call
  that finds the end of the body.
\<close>

fun stream_loop ::
  "('c, 'n, 'k, 's, 'i, 'd, 'm) codecs \<Rightarrow> ('r, 'p) Handler \<Rightarrow> v3ProduceTarget \<Rightarrow> int \<Rightarrow>
     (decode_event \<times> clock) list \<Rightarrow> int \<Rightarrow> int \<Rightarrow> doc list \<Rightarrow> ('r, 'p) hstate \<Rightarrow> ('r, 'p) outcome" where
  "stream_loop cs h target tail [] n cnt docs s =
     (if cnt = 0
      then finish (writeAPIError 400 400 [Lit ''request body must include at least one record'']) (n + tail) cnt s
      else finish (stream_response docs) (n + tail) cnt s)"
| "stream_loop cs h target tail ((DecTooLarge k, ck) # evs) n cnt docs s =
     finish (stream_stop docs 413 413 [Lit ''HTTP 413 Payload Too Large'']) (n + k) cnt s"
| "stream_loop cs h target tail ((DecError k msg, ck) # evs) n cnt docs s =
     finish (stream_stop docs 400 400 msg) (n + k) cnt s"
| "stream_loop cs h target tail ((DecValue k v, ck) # evs) n cnt docs s =
     (case dec_struct v3ProduceRecord_fields v zero_v3ProduceRecord of
        (rec1, st) \<Rightarrow>
          if st \<noteq> DecOk then finish (stream_stop docs 400 400 [JSONError ''record'' (raw v)]) (n + k) cnt s
          else (case allowByteRate k (ck_bytes ck) s of
            (False, s1) \<Rightarrow>
              finish (stream_stop docs 429 429 [Lit rateLimitMessage]) (n + k) cnt
                (observe (ObserveProduceResult 0 1) (observe (ObserveRateLimitRejected ''bytes'') s1))
          | (True, s1) \<Rightarrow>
              if cnt + 1 > ac_MaxRecords (h_cfg h)
              then finish (stream_stop docs 400 400 [Lit ''too many records: got '', Lit (itoa (cnt + 1)), Lit '', limit '',
                             Lit (itoa (ac_MaxRecords (h_cfg h)))]) (n + k) (cnt + 1) (observe (ObserveProduceResult 0 1) s1)
              else (case stream_record cs h ck target rec1 docs s1 of
                Inr (resp, s2) \<Rightarrow> finish resp (n + k) (cnt + 1) s2
              | Inl (docs', s2) \<Rightarrow> stream_loop cs h target tail evs (n + k) (cnt + 1) docs' s2)))"

section \<open>The v3 produce handler\<close>

definition handleV3Produce_body ::
  "('c, 'n, 'k, 's, 'i, 'd, 'm) codecs \<Rightarrow> ('r, 'p) Handler \<Rightarrow> clock \<Rightarrow> http_req \<Rightarrow>
     (decode_event \<times> clock) list \<times> int \<Rightarrow> ('r, 'p) hstate \<Rightarrow> ('r, 'p) outcome" where
  "handleV3Produce_body cs h ck r stream s =
     (if hrq_method r \<noteq> ''POST'' then finish (method_not_allowed ''POST'') 0 0 s
      else (case v3ProduceTargetFromPath (hrq_escapedPath r) of
        None \<Rightarrow> finish (writeAPIError 404 400 [Lit ''not found'']) 0 0 s
      | Some target \<Rightarrow>
        if \<not> topicAllowed h (v3t_topic target) then finish (writeAPIError 403 403 [Lit ''topic is not allowed'']) 0 0 s
        else if \<not> acceptsV3Response (hrq_accept r) then finish (writeAPIError 406 406 [Lit ''HTTP 406 Not Acceptable'']) 0 0 s
        else if \<not> isJSONContentType (hrq_contentType r)
        then finish (writeAPIError 415 415 [Lit ''HTTP 415 Unsupported Media Type'']) 0 0 s
        else (case allowRequestRate 1 (ck_request ck) s of
          (False, s1) \<Rightarrow> finish writeRateLimitExceeded 0 0 (observe (ObserveRateLimitRejected ''requests'') s1)
        | (True, s1) \<Rightarrow>
          if \<not> v3t_batch target then stream_loop cs h target (snd stream) (fst stream) 0 0 [] s1
          else (case readRequestBody r (ac_MaxRequestBytes (h_cfg h)) of
            (body, Some TooLarge) \<Rightarrow> finish (writeAPIError 413 413 [Lit ''HTTP 413 Payload Too Large'']) (int (length body)) 0 s1
          | (body, Some ReadFailed) \<Rightarrow> finish (writeAPIError 400 400 [Lit ''failed to read request body'']) (int (length body)) 0 s1
          | (body, None) \<Rightarrow>
            (case allowByteRate (int (length body)) (ck_bytes ck) s1 of
               (False, s2) \<Rightarrow> finish writeRateLimitExceeded (int (length body)) 0 (observe (ObserveRateLimitRejected ''bytes'') s2)
             | (True, s2) \<Rightarrow> handleV3BatchBody cs h ck target body s2)))))"

definition handleV3Produce where
  "handleV3Produce cs h ck r stream s = with_request_metrics (ck_total ck) (handleV3Produce_body cs h ck r stream) s"

section \<open>Routing and authentication\<close>

datatype route = RTopics | RV3 | RHealth | RReady | RMetrics | RPprof | RRedirect string | RNotFound

text \<open>
  \<^verbatim>\<open>cleanPath\<close> of \<^verbatim>\<open>net/http\<close>: rooted, without empty or dot segments, the trailing slash kept.
\<close>

definition cleanPath :: "string \<Rightarrow> string" where
  "cleanPath p0 =
     (if p0 = [] then ''/''
      else let p = (if hd p0 = CHR ''/'' then p0 else CHR ''/'' # p0);
               np = CHR ''/'' # go_join ''/'' (clean_segments [] (go_split (CHR ''/'') p))
           in if last p = CHR ''/'' \<and> np \<noteq> ''/'' then np @ ''/'' else np)"

text \<open>
  The patterns of \<^verbatim>\<open>Routes\<close> on the segments of a clean path, each unescaped. A pattern that ends in a
  slash matches every longer path; without the slash the request is redirected to it.
\<close>

definition mux_match :: "bool \<Rightarrow> bool \<Rightarrow> string list \<Rightarrow> route" where
  "mux_match hasMetrics pprof segs =
     (case segs of
        [a] \<Rightarrow> if a = ''topics'' then RRedirect ''/topics/''
               else if a = ''healthz'' then RHealth
               else if a = ''readyz'' then RReady
               else if a = ''metrics'' \<and> hasMetrics then RMetrics else RNotFound
      | a # b # rest \<Rightarrow>
          if a = ''topics'' then RTopics
          else if a = ''v3'' \<and> b = ''clusters'' then (if rest = [] then RRedirect ''/v3/clusters/'' else RV3)
          else if a = ''debug'' \<and> b = ''pprof'' \<and> pprof then RPprof
          else RNotFound
      | [] \<Rightarrow> RNotFound)"

definition unescape_segment :: "string \<Rightarrow> string" where
  "unescape_segment s = (case pathUnescape s of None \<Rightarrow> s | Some t \<Rightarrow> t)"

definition mux_route :: "bool \<Rightarrow> bool \<Rightarrow> string \<Rightarrow> string \<Rightarrow> route" where
  "mux_route hasMetrics pprof method path0 =
     (let path = (if method = ''CONNECT'' then path0 else cleanPath path0);
          m = mux_match hasMetrics pprof (map unescape_segment (go_split (CHR ''/'') (drop 1 path)))
      in (case m of RRedirect u \<Rightarrow> RRedirect u
          | _ \<Rightarrow> if path \<noteq> path0 then RRedirect path else m))"

definition mux_serve where
  "mux_serve isPrint cs h ck r stream s =
     (case mux_route (st_metrics s \<noteq> None) (ac_PprofEnable (h_cfg h)) (hrq_method r) (hrq_escapedPath r) of
        RTopics \<Rightarrow> handleTopicProduce isPrint cs h ck r s
      | RV3 \<Rightarrow> handleV3Produce cs h ck r stream s
      | RHealth \<Rightarrow> (handleHealth r, s)
      | RReady \<Rightarrow> (handleReady h r s, s)
      | RMetrics \<Rightarrow> (\<lparr>rsp_status = 200, rsp_headers = [], rsp_docs = [LibraryDoc ''metrics'']\<rparr>, s)
      | RPprof \<Rightarrow> (\<lparr>rsp_status = 200, rsp_headers = [], rsp_docs = [LibraryDoc ''pprof'']\<rparr>, s)
      | RRedirect u \<Rightarrow> (\<lparr>rsp_status = 301, rsp_headers = [(''Location'', u)], rsp_docs = []\<rparr>, s)
      | RNotFound \<Rightarrow> (\<lparr>rsp_status = 404, rsp_headers = [], rsp_docs = [LibraryDoc ''404 page not found'']\<rparr>, s))"

definition bearer_token :: "string \<Rightarrow> string option" where
  "bearer_token hdr =
     (let auth = trimSpace hdr in
      if hasPrefix auth ''Bearer '' then Some (trimSpace (trimPrefix auth ''Bearer '')) else None)"

definition authMiddleware ::
  "('r, 'p) Handler \<Rightarrow> (('r, 'p) hstate \<Rightarrow> response \<times> ('r, 'p) hstate) \<Rightarrow> http_req \<Rightarrow> ('r, 'p) hstate \<Rightarrow>
     response \<times> ('r, 'p) hstate" where
  "authMiddleware h next_handler r s =
     (if h_tokens h = {} then next_handler s
      else if hrq_path r = ''/healthz'' \<or> hrq_path r = ''/readyz'' then next_handler s
      else (case bearer_token (hrq_authorization r) of
        None \<Rightarrow> (writeAPIError 401 401 [Lit ''missing bearer token''], s)
      | Some token \<Rightarrow>
        if token \<notin> h_tokens h then (writeAPIError 401 401 [Lit ''invalid bearer token''], s)
        else next_handler s))"

definition Routes where
  "Routes isPrint cs h ck r stream s = authMiddleware h (mux_serve isPrint cs h ck r stream) r s"

end
