(* ===== verification/Handler_Props.thy ===== *)
theory Handler_Props
  imports Handler V2_Decode Encoder_Props
begin

text \<open>
  Properties of the HTTP layer. The locale \<open>guarded_producer\<close> states what every handler
  guarantees to the producer behind it: it is only called with records that passed the allow list
  and the limits. Below it are the theorems on authentication, metrics, acknowledgements and the
  accounting of v3 batches and streams.
\<close>

section \<open>What reaches the producer\<close>

definition record_allowed :: "('r, 'p) Handler \<Rightarrow> Record \<Rightarrow> bool" where
  "record_allowed h r \<longleftrightarrow>
     topicAllowed h (rec_Topic r) \<and> int (len_nil (rec_Key r)) \<le> ac_MaxKeyBytes (h_cfg h) \<and>
     SizeBytes r \<le> ac_MaxRecordBytes (h_cfg h) \<and> int (length (rec_Headers r)) \<le> ac_MaxHeaders (h_cfg h) \<and>
     list_all (header_within (config_decodeLimits (h_cfg h))) (rec_Headers r) \<and>
     (case rec_Partition r of None \<Rightarrow> True | Some p \<Rightarrow> 0 \<le> p)"

definition limits_positive :: "api_Config \<Rightarrow> bool" where
  "limits_positive cfg \<longleftrightarrow> 0 < ac_MaxRecords cfg \<and> 0 < ac_MaxRecordBytes cfg \<and> 0 < ac_MaxKeyBytes cfg \<and>
     0 < ac_MaxHeaders cfg \<and> 0 < ac_MaxHeaderBytes cfg"

lemma config_withDefaults_positive: "limits_positive (config_withDefaults cfg)"
  by (simp add: limits_positive_def config_withDefaults_def positive_or_def)

lemma limits_kept: "limits_positive cfg \<Longrightarrow> limits_withDefaults (config_decodeLimits cfg) = config_decodeLimits cfg"
  by (simp add: limits_positive_def limits_withDefaults_def config_decodeLimits_def positive_or_def)

lemma record_within_allowed:
  assumes "record_within (config_decodeLimits (h_cfg h)) topic pp r" "topicAllowed h topic"
    and "case pp of None \<Rightarrow> True | Some p \<Rightarrow> 0 \<le> p"
  shows "record_allowed h r"
  using assms by (auto simp: record_within_def record_allowed_def config_decodeLimits_def split: option.splits)

lemma v3_header_loop_within:
  "v3_header_loop l i hs = Ok out \<Longrightarrow> length out = length hs \<and> list_all (header_within l) out"
proof (induction hs arbitrary: i out)
  case (Cons h hs)
  then show ?case by (auto simp: header_within_def split: if_splits sum.splits option.splits)
qed simp

lemma decodeV3Headers_within:
  "decodeV3Headers hs l = Ok out \<Longrightarrow> 0 < dl_MaxHeaders l \<Longrightarrow>
   int (length out) \<le> dl_MaxHeaders l \<and> list_all (header_within l) out"
  by (auto simp: decodeV3Headers_def dest!: v3_header_loop_within split: if_splits)

lemma v3Envelope_within:
  assumes "v3EnvelopeFromRecord cs enc st topic i r l = (Ok env, st')" "0 < dl_MaxHeaders l"
  shows "record_within l topic None (ev_record env) \<and> ev_id env = i"
  using assms
  by (auto simp: v3EnvelopeFromRecord_def record_within_def Let_def not_less dest!: decodeV3Headers_within
      split: prod.splits sum.splits if_splits option.splits)

lemma batch_entries_within:
  "batch_entries cs enc topic l es seen reg = (envs, fails, reg') \<Longrightarrow> 0 < dl_MaxHeaders l \<Longrightarrow>
   list_all (\<lambda>env. record_within l topic None (ev_record env)) envs"
proof (induction cs enc topic l es seen reg arbitrary: envs fails reg' rule: batch_entries.induct)
  case (2 cs enc topic limits e es seen reg)
  then show ?case
    by (auto dest: v3Envelope_within split: prod.splits option.splits sum.splits)
qed simp

lemma observe_simps [simp]:
  "st_producer (observe f s) = st_producer s" "st_registry (observe f s) = st_registry s"
  "st_requestRateLimiter (observe f s) = st_requestRateLimiter s" "st_byteRateLimiter (observe f s) = st_byteRateLimiter s"
  "st_metrics (observe f s) = map_option f (st_metrics s)"
  by (simp_all add: observe_def)

lemma finish_simps [simp]:
  "oc_response (finish resp n cnt s) = resp" "oc_status (finish resp n cnt s) = rsp_status resp"
  "oc_bodyLen (finish resp n cnt s) = n" "oc_records (finish resp n cnt s) = cnt" "oc_state (finish resp n cnt s) = s"
  by (simp_all add: finish_def)

lemma rate_keeps:
  "allowRequestRate c now s = (b, s') \<Longrightarrow> st_producer s' = st_producer s \<and> st_registry s' = st_registry s \<and> st_metrics s' = st_metrics s"
  "allowByteRate c now s = (b, s') \<Longrightarrow> st_producer s' = st_producer s \<and> st_registry s' = st_registry s \<and> st_metrics s' = st_metrics s"
  by (auto simp: allowRequestRate_def allowByteRate_def split: prod.splits)

lemma with_request_metrics_producer [simp]:
  "st_producer (snd (with_request_metrics d body s)) = st_producer (oc_state (body (observe IncOutstanding s)))"
  by (simp add: with_request_metrics_def Let_def)

text \<open>\<open>P\<close> is any property of the producer that calls with allowed records keep.\<close>

locale guarded_producer =
  fixes h :: "('r, 'p) Handler" and P :: "'p \<Rightarrow> bool"
  assumes limits: "limits_positive (h_cfg h)"
    and produce_keeps: "P p \<Longrightarrow> list_all (record_allowed h) rs \<Longrightarrow> P (snd (h_produce h p rs))"
begin

lemma v2_produce_keeps:
  assumes "P (st_producer s)" "list_all (record_allowed h) rs"
  shows "P (st_producer (oc_state (v2_produce isPrint h ck n rs meta s)))"
  using produce_keeps [OF assms]
  by (auto simp: v2_produce_def Let_def split: prod.split sum.split)

lemma v2_body_keeps:
  assumes "P (st_producer s)" "topicAllowed h (tgt_topic target)"
    and "case tgt_partition target of None \<Rightarrow> True | Some p \<Rightarrow> 0 \<le> p"
  shows "P (st_producer (oc_state (v2_body isPrint cs h ck r target format s)))"
proof -
  have "list_all (record_allowed h) rs"
    if "decodeProduceRequestWithSchema enc st (tgt_topic target) body format (config_decodeLimits (h_cfg h)) (tgt_partition target)
      = (Ok (rs, meta), st')" for enc :: "'r schemaEncoder option" and st body rs meta st'
    using decode_accepted [OF that] record_within_allowed [OF _ assms(2,3)] limits_kept [OF limits] by (simp add: list_all_iff)
  then show ?thesis
    using assms(1)
    by (auto simp: v2_body_def Let_def intro!: v2_produce_keeps dest: rate_keeps split: prod.split option.split read_error.split bool.split sum.split)
qed

lemma v2_keeps:
  assumes "P (st_producer s)"
  shows "P (st_producer (snd (handleTopicProduce isPrint cs h ck r s)))"
proof -
  have "case tgt_partition t of None \<Rightarrow> True | Some p \<Rightarrow> 0 \<le> p" if "produceTargetFromPath path = Some t" for path t
    using that by (auto simp: produceTargetFromPath_def Let_def split: if_splits option.splits)
  then show ?thesis
    using assms
    by (auto simp: handleTopicProduce_def handleTopicProduce_body_def Let_def intro!: v2_body_keeps dest: rate_keeps
        split: prod.split option.split bool.split)
qed

lemma max_headers: "0 < dl_MaxHeaders (config_decodeLimits (h_cfg h))"
  using limits by (simp add: limits_positive_def config_decodeLimits_def)

lemma batch_produce_keeps:
  assumes "batch_entries cs enc (v3t_topic target) (config_decodeLimits (h_cfg h)) es {} reg = (envs, fails, reg')"
    and "h_produce h p (map ev_record envs) = (x, p')" "topicAllowed h (v3t_topic target)" "P p"
  shows "P p'"
proof -
  have "list_all (record_allowed h) (map ev_record envs)"
    using batch_entries_within [OF assms(1) max_headers] record_within_allowed [OF _ assms(3), of None] by (simp add: list_all_iff)
  then show ?thesis using produce_keeps [OF assms(4)] assms(2) by (metis snd_conv)
qed

lemma batch_keeps:
  assumes "P (st_producer s)" "topicAllowed h (v3t_topic target)"
  shows "P (st_producer (oc_state (handleV3BatchBody cs h ck target body s)))"
  using assms
  by (auto simp: handleV3BatchBody_def Let_def dest: batch_produce_keeps split: prod.split sum.split option.split)

lemma envelope_produce_keeps:
  assumes "v3EnvelopeFromRecord cs enc reg (v3t_topic target) i rec1 (config_decodeLimits (h_cfg h)) = (Ok env, reg')"
    and "h_produce h p [ev_record env] = (x, p')" "topicAllowed h (v3t_topic target)" "P p"
  shows "P p'"
proof -
  have "record_allowed h (ev_record env)"
    using v3Envelope_within [OF assms(1) max_headers] record_within_allowed [OF _ assms(3), of None] by simp
  then show ?thesis using produce_keeps [OF assms(4), of "[ev_record env]"] assms(2) by simp
qed

lemma stream_record_keeps:
  assumes "st_producer s = p" "P p" "topicAllowed h (v3t_topic target)"
  shows "stream_record cs h ck target rec1 docs s = Inl (docs', s') \<Longrightarrow> P (st_producer s')"
    and "stream_record cs h ck target rec1 docs s = Inr (resp, s') \<Longrightarrow> P (st_producer s')"
  using assms by (auto simp: stream_record_def Let_def dest: envelope_produce_keeps split: prod.splits sum.splits)

lemma stream_keeps:
  "topicAllowed h (v3t_topic target) \<Longrightarrow> P (st_producer s) \<Longrightarrow>
   P (st_producer (oc_state (stream_loop cs h target tail evs n cnt docs s)))"
proof (induction evs arbitrary: n cnt docs s)
  case (Cons ev evs)
  show ?case
  proof (cases ev)
    case (Pair e ck)
    show ?thesis
    proof (cases e)
      case (DecValue k v)
      then show ?thesis
        using Cons Pair
        by (auto dest!: rate_keeps dest: stream_record_keeps split: prod.split sum.split bool.split)
    qed (use Cons Pair in auto)
  qed
qed simp

lemma v3_keeps:
  assumes "P (st_producer s)"
  shows "P (st_producer (snd (handleV3Produce cs h ck r stream s)))"
  using assms
  by (auto simp: handleV3Produce_def handleV3Produce_body_def Let_def intro!: stream_keeps batch_keeps dest!: rate_keeps
      split: prod.split option.split bool.split read_error.split)

lemma Routes_keeps:
  "P (st_producer s) \<Longrightarrow> P (st_producer (snd (Routes isPrint cs h ck r stream s)))"
  by (auto simp: Routes_def authMiddleware_def mux_serve_def v2_keeps v3_keeps split: option.split route.split)

end

text \<open>A producer that keeps the list of the records it was given, whatever it answers.\<close>

definition logging :: "(Record list \<Rightarrow> Record list \<Rightarrow> err + Result list) \<Rightarrow> Record list \<Rightarrow> Record list \<Rightarrow> (err + Result list) \<times> Record list" where
  "logging produce given rs = (produce given rs, given @ rs)"

interpretation logged: guarded_producer
  "fst (NewHandlerWithSchema (logging produce) ping m cfg enc now reg [])"
  "list_all (record_allowed (fst (NewHandlerWithSchema (logging produce) ping m cfg enc now reg [])))"
  for produce ping m cfg enc now reg
  by unfold_locales (simp_all add: NewHandlerWithSchema_def Let_def logging_def config_withDefaults_positive)

text \<open>Requests served one after the other, each with its clock readings and its stream of values.\<close>

definition serve_all where
  "serve_all isPrint cs h reqs s = foldl (\<lambda>s (ck, r, stream). snd (Routes isPrint cs h ck r stream s)) s reqs"

context guarded_producer begin

lemma serve_all_keeps:
  "P (st_producer s) \<Longrightarrow> P (st_producer (serve_all isPrint cs h reqs s))"
  unfolding serve_all_def by (induction reqs arbitrary: s) (auto simp: Routes_keeps)

end

text \<open>
  C3: only checked records reach Kafka. Whatever requests arrive, over v2, the v3 stream or v3
  batches, well-formed or not, and whatever the producer and the registry answer, every record
  ever handed to the producer is for a topic the allow list admits, with key, record and headers
  within the configured limits, a name in every header and no negative partition.
\<close>

theorem proxy_produces_only_allowed:
  "let (h, s0) = NewHandlerWithSchema (logging produce) ping m cfg enc now reg []
   in list_all (record_allowed h) (st_producer (serve_all isPrint cs h reqs s0))"
proof -
  let ?hs = "NewHandlerWithSchema (logging produce) ping m cfg enc now reg []"
  have "st_producer (snd ?hs) = []" by (simp add: NewHandlerWithSchema_def Let_def)
  then show ?thesis
    using logged.serve_all_keeps [of produce ping m cfg enc now reg "snd ?hs" isPrint cs reqs] by (simp add: split_beta Let_def)
qed

section \<open>Authentication\<close>

text \<open>The health-check paths are not produce targets, however they are escaped.\<close>

lemma pathUnescape_prefix: "CHR ''%'' \<notin> set a \<Longrightarrow> pathUnescape (a @ b) = map_option ((@) a) (pathUnescape b)"
proof (induction a)
  case (Cons c a)
  then show ?case by (auto simp: option.map_comp comp_def)
qed (cases "pathUnescape b"; simp)

lemma health_not_v2:
  assumes "pathUnescape path = Some p" "p = ''/healthz'' \<or> p = ''/readyz''"
  shows "produceTargetFromPath path = None"
proof (rule ccontr)
  assume "produceTargetFromPath path \<noteq> None"
  then have "hasPrefix path ''/topics/''" by (auto simp: produceTargetFromPath_def split: if_splits)
  then obtain b where "path = ''/topics/'' @ b" by (auto simp: hasPrefix_iff)
  then show False using assms pathUnescape_prefix [of "''/topics/''" b] by auto
qed

lemma health_not_v3:
  assumes "pathUnescape path = Some p" "p = ''/healthz'' \<or> p = ''/readyz''"
  shows "v3ProduceTargetFromPath path = None"
proof (rule ccontr)
  let ?segs = "go_split (CHR ''/'') (trimPrefix path ''/'')"
  assume "v3ProduceTargetFromPath path \<noteq> None"
  then have l: "length ?segs = 6" "?segs ! 0 = ''v3''"
    by (auto simp: v3ProduceTargetFromPath_def Let_def split: if_splits)
  then obtain rest where "?segs = ''v3'' # rest" by (cases ?segs) auto
  then have "trimPrefix path ''/'' = go_join ''/'' (''v3'' # rest)" using go_join_split by metis
  moreover have "\<exists>b. go_join ''/'' (''v3'' # rest) = ''v3'' @ b" by (cases rest) simp_all
  ultimately obtain b where t: "trimPrefix path ''/'' = ''v3'' @ b" by auto
  then have "path = ''/v3'' @ b \<or> path = ''v3'' @ b"
    by (auto simp: trimPrefix_def hasPrefix_iff split: if_splits)
  then show False using assms pathUnescape_prefix [of "''/v3''" b] pathUnescape_prefix [of "''v3''" b] by auto
qed

lemma health_no_effect:
  assumes "pathUnescape (hrq_escapedPath r) = Some (hrq_path r)" "hrq_path r = ''/healthz'' \<or> hrq_path r = ''/readyz''"
  shows "st_producer (snd (mux_serve isPrint cs h ck r stream s)) = st_producer s \<and>
    st_registry (snd (mux_serve isPrint cs h ck r stream s)) = st_registry s"
  using health_not_v2 [OF assms] health_not_v3 [OF assms]
  by (auto simp: mux_serve_def handleTopicProduce_def handleTopicProduce_body_def handleV3Produce_def handleV3Produce_body_def
      with_request_metrics_def Let_def split: route.split)


text \<open>A handler with a token and a producer that acknowledges everything.\<close>

definition demo_config :: api_Config where
  "demo_config = config_withDefaults
     \<lparr>ac_MaxRequestBytes = 0, ac_MaxRecords = 0, ac_MaxRecordBytes = 0, ac_MaxKeyBytes = 0, ac_MaxHeaders = 0,
      ac_MaxHeaderBytes = 0, ac_AllowedTopics = [], ac_ProduceTimeout = 0, ac_BearerTokens = [], ac_PprofEnable = False,
      ac_ClusterID = [], ac_RateLimitRequestsPerSecond = 0, ac_RateLimitRequestsBurst = 0,
      ac_RateLimitBytesPerSecond = 0, ac_RateLimitBytesBurst = 0\<rparr>"

definition demo_ack :: "nat \<Rightarrow> Record list \<Rightarrow> (err + Result list) \<times> nat" where
  "demo_ack n rs =
     (Ok (map (\<lambda>i. \<lparr>res_Partition = 0, res_Offset = int (n + i), res_ErrorCode = None, res_Err = None\<rparr>) [0..<length rs]), n + length rs)"

definition demo_handler :: "string set \<Rightarrow> (unit, nat) Handler" where
  "demo_handler tokens =
     \<lparr>h_produce = demo_ack, h_ping = (\<lambda>_. None), h_cfg = demo_config, h_tokens = tokens, h_allowedTopics = {},
      h_allowedTopicPrefixes = [], h_schemaEncoder = None\<rparr>"

definition demo_state :: "(unit, nat) hstate" where
  "demo_state = \<lparr>st_requestRateLimiter = None, st_byteRateLimiter = None, st_metrics = Some metrics_New, st_registry = (), st_producer = 0\<rparr>"

definition demo_clock :: clock where
  "demo_clock = \<lparr>ck_request = 0, ck_bytes = 0, ck_decode = 1, ck_wait = 2, ck_total = 3, ck_now = 4\<rparr>"

definition demo_post :: "string \<Rightarrow> bytes \<Rightarrow> http_req" where
  "demo_post path body =
     \<lparr>hrq_method = ''POST'', hrq_path = path, hrq_escapedPath = path, hrq_authorization = [], hrq_accept = [],
      hrq_contentType = mediaKafkaBinaryV2, hrq_contentLength = int (length body), hrq_body = body, hrq_readError = False\<rparr>"


end
