(* ===== verification/Handler_Results.thy ===== *)
theory Handler_Results
  imports Handler_Props "HOL-Library.Multiset"
begin

text \<open>
  What a client is told: acknowledgements of the v2 handler, the accounting of v3 batches and
  streams, and the request metrics.
\<close>

section \<open>Acknowledgements\<close>

lemma classify_not_200: "classifyProduceError pe = (status, errCode, msg) \<Longrightarrow> status \<noteq> 200"
  by (cases pe) (auto split: if_splits)

text \<open>What the v2 handler answers from the producer call on.\<close>

definition v2_answer where
  "v2_answer isPrint h p0 resp p' \<longleftrightarrow>
     (if rsp_status resp = 200
      then (\<exists>records results meta. records \<noteq> [] \<and> h_produce h p0 records = (Ok results, p') \<and>
              rsp_docs resp = [RawDoc (appendProduceResponse isPrint [] results meta)])
      else p' = p0 \<or> (\<exists>records e. h_produce h p0 records = (Err e, p')))"

lemma v2_produce_answer:
  "records \<noteq> [] \<Longrightarrow> v2_answer isPrint h (st_producer s) (oc_response (v2_produce isPrint h ck n records meta s))
     (st_producer (oc_state (v2_produce isPrint h ck n records meta s)))"
  by (auto simp: v2_answer_def v2_produce_def Let_def writeAPIError_def dest: classify_not_200 split: prod.split sum.split)

lemma refused_answer: "rsp_status resp \<noteq> 200 \<Longrightarrow> v2_answer isPrint h p resp p"
  by (simp add: v2_answer_def)

lemma error_statuses [simp]:
  "rsp_status (writeAPIError st c m) = st" "rsp_status writeRateLimitExceeded = 429" "rsp_status (method_not_allowed a) = 405"
  "rsp_status (decode_failure e) \<noteq> 200"
  by (simp_all add: writeAPIError_def writeRateLimitExceeded_def method_not_allowed_def decode_failure_def split: api_error.split)

lemma v2_body_answer:
  "v2_answer isPrint h (st_producer s) (oc_response (v2_body isPrint cs h ck r target format s))
     (st_producer (oc_state (v2_body isPrint cs h ck r target format s)))"
proof -
  have p: "v2_answer isPrint h p (oc_response (v2_produce isPrint h ck n records meta s'))
      (st_producer (oc_state (v2_produce isPrint h ck n records meta s')))" if "records \<noteq> []" "st_producer s' = p" for p n records meta s'
    using v2_produce_answer [OF that(1)] that(2) by metis
  show ?thesis
    by (auto simp: v2_body_def Let_def intro!: refused_answer p dest!: rate_keeps dest: decode_accepted
        split: prod.split option.split read_error.split bool.split sum.split)
qed

lemma handleTopicProduce_answer:
  "v2_answer isPrint h (st_producer s) (fst (handleTopicProduce isPrint cs h ck r s)) (st_producer (snd (handleTopicProduce isPrint cs h ck r s)))"
proof -
  have b: "v2_answer isPrint h p (oc_response (v2_body isPrint cs h ck r target format s'))
      (st_producer (oc_state (v2_body isPrint cs h ck r target format s')))" if "st_producer s' = p" for p target format s'
    using v2_body_answer that by metis
  have "v2_answer isPrint h (st_producer s0) (oc_response (handleTopicProduce_body isPrint cs h ck r s0))
      (st_producer (oc_state (handleTopicProduce_body isPrint cs h ck r s0)))" for s0
    by (auto simp: handleTopicProduce_body_def intro!: refused_answer b dest!: rate_keeps
        split: prod.split option.split bool.split)
  from this [of "observe IncOutstanding s"] show ?thesis
    by (simp add: handleTopicProduce_def with_request_metrics_def Let_def)
qed

text \<open>
  C4: no false acknowledgement. A v2 request is answered 200 only when the producer was called
  with at least one record and returned results, and then the body is the rendering of exactly
  these results. With every other status the producer was not called or returned an error.
\<close>

theorem v2_acknowledges_results:
  "(if rsp_status (fst (handleTopicProduce isPrint cs h ck r s)) = 200
    then (\<exists>records results meta. records \<noteq> [] \<and>
            h_produce h (st_producer s) records = (Ok results, st_producer (snd (handleTopicProduce isPrint cs h ck r s))) \<and>
            rsp_docs (fst (handleTopicProduce isPrint cs h ck r s)) = [RawDoc (appendProduceResponse isPrint [] results meta)])
    else st_producer (snd (handleTopicProduce isPrint cs h ck r s)) = st_producer s \<or>
      (\<exists>records e. h_produce h (st_producer s) records = (Err e, st_producer (snd (handleTopicProduce isPrint cs h ck r s)))))"
  using handleTopicProduce_answer unfolding v2_answer_def .

section \<open>Batches\<close>

lemma envelope_id: "v3EnvelopeFromRecord cs enc reg topic i e l = (Ok env, reg') \<Longrightarrow> ev_id env = i"
  by (auto simp: v3EnvelopeFromRecord_def Let_def split: prod.splits sum.splits if_splits)

lemma batch_entries_ids:
  "batch_entries cs enc topic l es seen reg = (envs, fails, reg') \<Longrightarrow>
   mset (map v3e_ID es) = mset (map ev_id envs) + mset (map vf_ID fails)"
proof (induction cs enc topic l es seen reg arbitrary: envs fails reg' rule: batch_entries.induct)
  case (2 cs enc topic limits e es seen reg)
  then show ?case by (auto dest: envelope_id split: prod.splits option.splits sum.splits)
qed simp

lemma batch_results_ids:
  "length results = length envs \<Longrightarrow>
   \<exists>succ fails. batch_results now target envs results = Some (succ, fails) \<and>
     mset (map ev_id envs) = mset (map vs_ID succ) + mset (map vf_ID fails) \<and>
     map vs_ID succ = map (\<lambda>p. ev_id (fst p)) (filter (\<lambda>p. \<not> resultFailed (snd p)) (zip envs results))"
proof (induction envs results rule: list_induct2')
  case (4 env envs r rs)
  then show ?case by (auto simp: v3BatchSuccessForResult_def Let_def)
qed simp_all

definition good_id :: "string \<Rightarrow> bool" where
  "good_id i \<longleftrightarrow> i \<noteq> [] \<and> length i \<le> 80"

lemma batch_entries_distinct:
  "batch_entries cs enc topic l es seen reg = (envs, fails, reg') \<Longrightarrow>
   distinct (map ev_id envs) \<and> set (map ev_id envs) \<inter> seen = {} \<and> list_all good_id (map ev_id envs)"
proof (induction es arbitrary: seen reg envs fails reg')
  case (Cons e es)
  show ?case
  proof (cases "fst (validateBatchID (v3e_ID e) seen)")
    case None
    then have v: "validateBatchID (v3e_ID e) seen = (None, insert (v3e_ID e) seen)" "good_id (v3e_ID e)" "v3e_ID e \<notin> seen"
      by (auto simp: validateBatchID_def good_id_def split: if_splits)
    obtain x reg1 where x: "v3EnvelopeFromRecord cs enc reg topic (v3e_ID e) e l = (x, reg1)" by fastforce
    obtain envs1 fails1 reg2 where b: "batch_entries cs enc topic l es (insert (v3e_ID e) seen) reg1 = (envs1, fails1, reg2)"
      by (metis prod_cases3)
    show ?thesis
    proof (cases x)
      case (Inl m)
      then show ?thesis using Cons.prems Cons.IH [OF b] v(1) x b by auto
    next
      case (Inr env)
      then have "envs = env # envs1" "ev_id env = v3e_ID e" using Cons.prems v(1) x b envelope_id by auto
      then show ?thesis using Cons.IH [OF b] v(2,3) by (auto simp: disjoint_iff)
    qed
  next
    case (Some m)
    then have v: "validateBatchID (v3e_ID e) seen = (Some m, seen)" by (auto simp: validateBatchID_def split: if_splits)
    obtain envs1 fails1 reg2 where b: "batch_entries cs enc topic l es seen reg = (envs1, fails1, reg2)" by (metis prod_cases3)
    show ?thesis using Cons.prems Cons.IH [OF b] v b by auto
  qed
qed simp


text \<open>
  A timeout of \<^verbatim>\<open>Produce\<close> is 504 in the v2 handler, which marks context errors, and 503 in the
  batch handler, which does not.
\<close>

lemma timeout_status:
  "fst (classifyProduceError (mark_context_error DeadlineExceeded)) = 504"
  "fst (classifyProduceError (ProducerErr DeadlineExceeded)) = 503"
  by (simp_all add: mark_context_error_def)

section \<open>Streams\<close>

definition event_ok :: "decode_event \<times> clock \<Rightarrow> bool" where
  "event_ok ec = (case fst ec of DecValue k v \<Rightarrow> snd (dec_struct v3ProduceRecord_fields v zero_v3ProduceRecord) = DecOk | _ \<Rightarrow> False)"

fun is_record_doc :: "doc \<Rightarrow> bool" where
  "is_record_doc (V3Doc r) = True"
| "is_record_doc _ = False"

lemma stream_record_answer:
  assumes "\<And>p rs. \<exists>results p'. h_produce h p rs = (Ok results, p')"
  shows "\<exists>d s'. stream_record cs h ck target rec1 docs s = Inl (docs @ [V3Doc d], s') \<and> st_byteRateLimiter s' = st_byteRateLimiter s"
proof -
  obtain x reg where v: "v3EnvelopeFromRecord cs (h_schemaEncoder h) (st_registry s) (v3t_topic target) [] rec1 (config_decodeLimits (h_cfg h)) = (x, reg)"
    by fastforce
  show ?thesis
  proof (cases x)
    case (Inl m)
    then show ?thesis by (simp add: stream_record_def v)
  next
    case (Inr env)
    obtain results p' where "h_produce h (st_producer s) [ev_record env] = (Ok results, p')" using assms by blast
    then show ?thesis by (simp add: stream_record_def v Inr Let_def split_beta)
  qed
qed

lemma stream_loop_answers:
  assumes "\<And>p rs. \<exists>results p'. h_produce h p rs = (Ok results, p')"
  shows "list_all event_ok evs \<Longrightarrow> st_byteRateLimiter s = None \<Longrightarrow> 0 \<le> cnt \<Longrightarrow> cnt + int (length evs) \<le> ac_MaxRecords (h_cfg h) \<Longrightarrow>
    0 < cnt + int (length evs) \<Longrightarrow>
    \<exists>new. oc_response (stream_loop cs h target tail evs n cnt docs s) = stream_response (docs @ new) \<and>
      length new = length evs \<and> list_all is_record_doc new \<and>
      oc_records (stream_loop cs h target tail evs n cnt docs s) = cnt + int (length evs)"
proof (induction evs arbitrary: n cnt docs s)
  case (Cons ec evs)
  obtain k v ck where ec: "ec = (DecValue k v, ck)" and d: "snd (dec_struct v3ProduceRecord_fields v zero_v3ProduceRecord) = DecOk"
    using Cons.prems(1) by (cases ec; cases "fst ec") (auto simp: event_ok_def)
  obtain rec1 where r: "dec_struct v3ProduceRecord_fields v zero_v3ProduceRecord = (rec1, DecOk)" using d by (metis prod.collapse)
  have a: "allowByteRate k (ck_bytes ck) s = (True, s)" using Cons.prems(2) by (simp add: allowByteRate_def)
  obtain d s' where st: "stream_record cs h ck target rec1 docs s = Inl (docs @ [V3Doc d], s')" "st_byteRateLimiter s' = None"
    using stream_record_answer [OF assms, of cs ck target rec1 docs s] Cons.prems(2) by auto
  obtain new where "oc_response (stream_loop cs h target tail evs (n + k) (cnt + 1) (docs @ [V3Doc d]) s') = stream_response ((docs @ [V3Doc d]) @ new)"
    "length new = length evs" "list_all is_record_doc new"
    "oc_records (stream_loop cs h target tail evs (n + k) (cnt + 1) (docs @ [V3Doc d]) s') = cnt + 1 + int (length evs)"
    using Cons.IH [of s' "cnt + 1" "n + k" "docs @ [V3Doc d]"] Cons.prems st(2) by auto
  then show ?case using Cons.prems by (auto simp: ec r a st(1) intro!: exI [of _ "V3Doc d # new"])
qed simp


text \<open>Concrete runs of both: one entry, one record.\<close>

definition demo_batch :: json where
  "demo_batch = JObj [] [(json_string ''entries'', JArr [] [JObj [] [(json_string ''id'', JStr (json_string ''a''))]])]"

lemma demo_batch_unmarshal:
  "unmarshal v3ProduceBatchRequest_decoder (render demo_batch) None = (Some ([zero_v3ProduceBatchEntry\<lparr>v3e_ID := ''a''\<rparr>], 1), True)"
proof -
  have t: "str_val (json_string ''entries'') = ''entries''" "str_val (json_string ''id'') = ''id''" "str_val (json_string ''a'') = ''a''"
    by (rule str_val_json_string, rule ascii_valid_utf8, simp)+
  have "json_parse (render demo_batch) = Some (canon demo_batch)"
    using json_parse_render [of demo_batch "[]"] json_string_token by (simp add: demo_batch_def maxNestingDepth_def)
  then show ?thesis
    by (simp add: unmarshal_def demo_batch_def v3ProduceBatchRequest_decoder_def v3ProduceBatchEntry_fields_def find_field_def t fld_def
        seq_status_def zero_v3ProduceBatchEntry_def)
qed

lemma demo_ack_contract: "h_produce (demo_handler ts) p rs = (Ok results, p') \<Longrightarrow> length results = length rs"
  "\<exists>results p'. h_produce (demo_handler ts) p rs = (Ok results, p')"
  by (auto simp: demo_handler_def demo_ack_def)

lemma demo_limits_positive: "ac_MaxRecords (h_cfg (demo_handler ts)) = 1000"
  by (simp add: demo_handler_def demo_config_def config_withDefaults_def positive_or_def)



section \<open>Request metrics\<close>

definition metrics_kept :: "Metrics option \<Rightarrow> Metrics option \<Rightarrow> bool" where
  "metrics_kept = rel_option (\<lambda>m m'. mt_outstanding m' = mt_outstanding m \<and> mt_requests m' = mt_requests m)"

lemma metrics_kept_refl [simp]: "metrics_kept m m"
  by (simp add: metrics_kept_def option.rel_refl)

lemma metrics_kept_observe:
  "metrics_kept m0 (map_option (ObserveDecode f b d) m) = metrics_kept m0 m"
  "metrics_kept m0 (map_option (ObserveKafkaCallbackWait st d) m) = metrics_kept m0 m"
  "metrics_kept m0 (map_option ObserveAdmissionRejected m) = metrics_kept m0 m"
  "metrics_kept m0 (map_option (ObserveRateLimitRejected k) m) = metrics_kept m0 m"
  "metrics_kept m0 (map_option (ObserveProduceResult a c) m) = metrics_kept m0 m"
  by (cases m0; cases m; simp add: metrics_kept_def observe_defs)+

text \<open>A handler body reports the status it sends and leaves the request counters alone.\<close>

definition body_ok :: "('r, 'p) hstate \<Rightarrow> ('r, 'p) outcome \<Rightarrow> bool" where
  "body_ok s out \<longleftrightarrow> metrics_kept (st_metrics s) (st_metrics (oc_state out)) \<and> oc_status out = rsp_status (oc_response out)"

lemma body_ok_finish: "metrics_kept (st_metrics s) (st_metrics s') \<Longrightarrow> body_ok s (finish resp n c s')"
  by (simp add: body_ok_def)

lemma body_ok_cong: "st_metrics s' = st_metrics s \<Longrightarrow> body_ok s' out = body_ok s out"
  by (simp add: body_ok_def)

lemma v2_produce_body_ok:
  "metrics_kept (st_metrics s0) (st_metrics s) \<Longrightarrow> body_ok s0 (v2_produce isPrint h ck n records meta s)"
  by (auto simp: v2_produce_def Let_def metrics_kept_observe intro!: body_ok_finish split: prod.split sum.split)

lemma v2_body_body_ok: "st_metrics s = st_metrics s0 \<Longrightarrow> body_ok s0 (v2_body isPrint cs h ck r target format s)"
  by (auto simp: v2_body_def Let_def metrics_kept_observe intro!: body_ok_finish v2_produce_body_ok dest!: rate_keeps
      split: prod.split option.split read_error.split bool.split sum.split)

lemma v2_handler_body_ok: "body_ok s (handleTopicProduce_body isPrint cs h ck r s)"
  by (auto simp: handleTopicProduce_body_def metrics_kept_observe intro!: body_ok_finish v2_body_body_ok dest!: rate_keeps
      split: prod.split option.split bool.split)

lemma batch_body_ok: "st_metrics s = st_metrics s0 \<Longrightarrow> body_ok s0 (handleV3BatchBody cs h ck target body s)"
  by (auto simp: handleV3BatchBody_def Let_def metrics_kept_observe intro!: body_ok_finish split: prod.split option.split sum.split)

lemma stream_record_metrics:
  assumes "st_metrics s = m1" "metrics_kept m m1"
  shows "stream_record cs h ck target rec1 docs s = Inl (docs', s') \<Longrightarrow> metrics_kept m (st_metrics s')"
    and "stream_record cs h ck target rec1 docs s = Inr (resp, s') \<Longrightarrow> metrics_kept m (st_metrics s')"
  using assms by (auto simp: stream_record_def Let_def metrics_kept_observe split: prod.splits sum.splits)

lemma stream_body_ok:
  "metrics_kept (st_metrics s0) (st_metrics s) \<Longrightarrow> body_ok s0 (stream_loop cs h target tail evs n cnt docs s)"
proof (induction evs arbitrary: n cnt docs s)
  case (Cons ev evs)
  obtain e ck where ev: "ev = (e, ck)" by fastforce
  show ?case
  proof (cases e)
    case (DecValue k v)
    then show ?thesis
      using Cons ev
      by (auto simp: metrics_kept_observe intro!: body_ok_finish dest!: rate_keeps dest: stream_record_metrics
          split: prod.split sum.split bool.split)
  qed (use Cons ev in \<open>auto intro!: body_ok_finish\<close>)
qed (simp add: body_ok_finish)

lemma v3_handler_body_ok: "body_ok s (handleV3Produce_body cs h ck r stream s)"
  by (auto simp: handleV3Produce_body_def metrics_kept_observe intro!: body_ok_finish stream_body_ok batch_body_ok dest!: rate_keeps
      split: prod.split option.split bool.split read_error.split)

lemma with_request_metrics_counts:
  assumes "\<And>s. body_ok s (body s)" "st_metrics s = Some m"
  shows "\<exists>m'. st_metrics (snd (with_request_metrics d body s)) = Some m' \<and> mt_outstanding m' = mt_outstanding m \<and>
    (let c = statusClass (rsp_status (fst (with_request_metrics d body s)))
     in mt_requests m' = (mt_requests m)(c := mt_requests m c + 1))"
  using assms(1) [of "observe IncOutstanding s"] assms(2) by (auto simp: body_ok_def metrics_kept_def with_request_metrics_def Let_def option_rel_Some1 observe_defs)

text \<open>
  C30: every produce request is counted once. Whatever happens to a v2 or a v3 produce request,
  afterwards the gauge of outstanding requests is what it was, and exactly one request has been
  counted, in the class of the status that was sent.
\<close>

theorem produce_requests_counted_once:
  assumes "st_metrics s = Some m"
  shows "(\<exists>m'. st_metrics (snd (handleTopicProduce isPrint cs h ck r s)) = Some m' \<and> mt_outstanding m' = mt_outstanding m \<and>
      (let c = statusClass (rsp_status (fst (handleTopicProduce isPrint cs h ck r s)))
       in mt_requests m' = (mt_requests m)(c := mt_requests m c + 1))) \<and>
    (\<exists>m'. st_metrics (snd (handleV3Produce cs h ck r stream s)) = Some m' \<and> mt_outstanding m' = mt_outstanding m \<and>
      (let c = statusClass (rsp_status (fst (handleV3Produce cs h ck r stream s)))
       in mt_requests m' = (mt_requests m)(c := mt_requests m c + 1)))"
  unfolding handleTopicProduce_def handleV3Produce_def
  by (intro conjI with_request_metrics_counts [OF _ assms] v2_handler_body_ok v3_handler_body_ok)

theorem produce_requests_counted_once_witness:
  "\<exists>m'. st_metrics (snd (handleTopicProduce (\<lambda>_. True) demo_codecs (demo_handler {}) demo_clock (demo_post ''/x'' []) demo_state)) = Some m' \<and>
     mt_outstanding m' = 0"
  using produce_requests_counted_once [of demo_state metrics_New "\<lambda>_. True" demo_codecs "demo_handler {}" demo_clock "demo_post ''/x'' []"]
  by (auto simp: demo_state_def metrics_New_def)

end
