(* ===== verification/Config.thy ===== *)
theory Config
  imports GoLib Float64
begin

text \<open>
  Configuration from the environment (\<^verbatim>\<open>internal/config/config.go\<close>). The environment is a
  function from names to values, empty for a variable that is not set.
  \<^verbatim>\<open>time.ParseDuration\<close> is modelled; \<^verbatim>\<open>strconv.ParseFloat\<close> is an argument.
\<close>

section \<open>Durations\<close>

definition duration_unit :: "string \<Rightarrow> int option" where
  "duration_unit u =
     (if u = ''ns'' then Some 1
      else if u = ''us'' \<or> u = [CHR 0xC2, CHR 0xB5, CHR ''s''] \<or> u = [CHR 0xCE, CHR 0xBC, CHR ''s''] then Some 1000
      else if u = ''ms'' then Some 1000000
      else if u = ''s'' then Some 1000000000
      else if u = ''m'' then Some 60000000000
      else if u = ''h'' then Some 3600000000000
      else None)"

definition digit :: "char \<Rightarrow> bool" where
  "digit c \<longleftrightarrow> digit_val c \<noteq> None"

definition digits_value :: "string \<Rightarrow> int" where
  "digits_value ds = (case parse_digits 0 ds of None \<Rightarrow> 0 | Some n \<Rightarrow> int n)"

text \<open>\<^verbatim>\<open>leadingFraction\<close>: digits that would overflow are skipped.\<close>

fun leadingFraction :: "int \<Rightarrow> rat \<Rightarrow> bool \<Rightarrow> string \<Rightarrow> int \<times> rat" where
  "leadingFraction x scale overflow [] = (x, scale)"
| "leadingFraction x scale overflow (c # cs) =
     (if overflow \<or> max_int64 div 10 < x then leadingFraction x scale True cs
      else let y = 10 * x + digits_value [c] in
        if 9223372036854775808 < y then leadingFraction x scale True cs
        else leadingFraction y (10 * scale) False cs)"

text \<open>
  One number with its unit, at the front of the string: its nanoseconds and the rest. A negative
  result never occurs; \<open>None\<close> is an error.
\<close>

definition duration_item :: "string \<Rightarrow> (int \<times> string) option" where
  "duration_item s =
     (let ds = takeWhile digit s; s1 = dropWhile digit s;
          dot = (s1 \<noteq> [] \<and> hd s1 = CHR ''.'');
          fs = (if dot then takeWhile digit (tl s1) else []);
          s2 = (if dot then dropWhile digit (tl s1) else s1);
          u = takeWhile (\<lambda>c. c \<noteq> CHR ''.'' \<and> \<not> digit c) s2;
          rest = dropWhile (\<lambda>c. c \<noteq> CHR ''.'' \<and> \<not> digit c) s2;
          v = digits_value ds
      in if 9223372036854775808 < v \<or> ds = [] \<and> fs = [] \<or> u = [] then None
         else (case duration_unit u of None \<Rightarrow> None
           | Some un \<Rightarrow>
             if 9223372036854775808 div un < v then None
             else (case leadingFraction 0 1 False fs of (f, scale) \<Rightarrow>
               let w = v * un + (if 0 < f then \<lfloor>fl (float_of_int f * fl (float_of_int un / scale))\<rfloor> else 0)
               in if 9223372036854775808 < w then None else Some (w, rest))))"

function duration_items :: "int \<Rightarrow> string \<Rightarrow> int option" where
  "duration_items d s =
     (if s = [] then Some d
      else (case duration_item s of None \<Rightarrow> None
        | Some (w, rest) \<Rightarrow>
          if length s \<le> length rest then None
          else if 9223372036854775808 < d + w then None
          else duration_items (d + w) rest))"
  by pat_completeness auto
termination
  by (relation "measure (\<lambda>(d, s). length s)") auto

declare duration_items.simps [simp del]

definition parseDuration :: "string \<Rightarrow> int option" where
  "parseDuration s0 =
     (let neg = (s0 \<noteq> [] \<and> hd s0 = CHR ''-'');
          s = (if s0 \<noteq> [] \<and> (hd s0 = CHR ''-'' \<or> hd s0 = CHR ''+'') then tl s0 else s0)
      in if s = ''0'' then Some 0
         else if s = [] then None
         else (case duration_items 0 s of None \<Rightarrow> None
           | Some d \<Rightarrow> if neg then Some (- d) else if max_int64 < d then None else Some d))"

section \<open>Variables\<close>

type_synonym env = "string \<Rightarrow> string"

definition envString :: "env \<Rightarrow> string \<Rightarrow> string \<Rightarrow> string" where
  "envString env name def = (let v = trimSpace (env name) in if v \<noteq> [] then v else def)"

definition cleanCSV :: "string \<Rightarrow> string list" where
  "cleanCSV v =
     (if trimSpace v = [] then []
      else filter (\<lambda>p. p \<noteq> []) (map trimSpace (go_split (CHR '','') v)))"

definition envCSV :: "env \<Rightarrow> string \<Rightarrow> string list" where
  "envCSV env name = cleanCSV (env name)"

definition envCSVDefault :: "env \<Rightarrow> string \<Rightarrow> string list \<Rightarrow> string list" where
  "envCSVDefault env name def = (let v = cleanCSV (env name) in if v \<noteq> [] then v else def)"

definition envBool :: "env \<Rightarrow> string \<Rightarrow> bool \<Rightarrow> bool" where
  "envBool env name def =
     (let v = trimSpace (env name); l = toLower v in
      if v = [] then def
      else if l \<in> {''1'', ''true'', ''yes'', ''y'', ''on''} then True
      else if l \<in> {''0'', ''false'', ''no'', ''n'', ''off''} then False
      else def)"

definition envInt :: "env \<Rightarrow> string \<Rightarrow> int \<Rightarrow> int" where
  "envInt env name def =
     (let v = trimSpace (env name) in
      if v = [] then def else (case atoi v of None \<Rightarrow> def | Some n \<Rightarrow> n))"

definition envInt64 :: "env \<Rightarrow> string \<Rightarrow> int \<Rightarrow> int" where
  "envInt64 env name def =
     (let v = trimSpace (env name) in
      if v = [] then def else (case parseInt 64 v of None \<Rightarrow> def | Some n \<Rightarrow> n))"

text \<open>A \<^verbatim>\<open>float64\<close> that came from text may also be infinite or not a number.\<close>

datatype fval = Fin rat | PosInf | NegInf | NotANumber

fun fval_negative :: "fval \<Rightarrow> bool" where
  "fval_negative (Fin r) = (r < 0)"
| "fval_negative NegInf = True"
| "fval_negative PosInf = False"
| "fval_negative NotANumber = False"

definition envFloat :: "(string \<Rightarrow> fval option) \<Rightarrow> env \<Rightarrow> string \<Rightarrow> fval \<Rightarrow> fval" where
  "envFloat parseFloat env name def =
     (let v = trimSpace (env name) in
      if v = [] then def else (case parseFloat v of None \<Rightarrow> def | Some x \<Rightarrow> x))"

definition envDuration :: "env \<Rightarrow> string \<Rightarrow> int \<Rightarrow> int" where
  "envDuration env name def =
     (let v = trimSpace (env name) in
      if v = [] then def
      else (case parseDuration v of Some d \<Rightarrow> d
        | None \<Rightarrow> (case atoi v of None \<Rightarrow> def | Some ms \<Rightarrow> wrap64 (ms * 1000000))))"

section \<open>The configuration\<close>

record RateLimitConfig =
  rl_RequestsPerSecond :: fval
  rl_RequestsBurst :: int
  rl_BytesPerSecond :: fval
  rl_BytesBurst :: int

record SchemaRegistryConfig =
  sr_URL :: string
  sr_Username :: string
  sr_Password :: string

record TLSConfig =
  tls_Enable :: bool
  tls_InsecureSkipVerify :: bool
  tls_CAFile :: string
  tls_CertFile :: string
  tls_KeyFile :: string

record SASLConfig =
  sasl_Mechanism :: string
  sasl_Username :: string
  sasl_Password :: string

record KafkaConfig =
  kc_Brokers :: "string list"
  kc_ClientID :: string
  kc_RequiredAcks :: string
  kc_Compression :: string
  kc_Linger :: int
  kc_DeliveryTimeout :: int
  kc_RequestTimeout :: int
  kc_BatchMaxBytes :: int
  kc_MaxBufferedRecords :: int
  kc_MaxBufferedBytes :: int
  kc_TLS :: TLSConfig
  kc_SASL :: SASLConfig

record Config =
  cf_HTTPAddr :: string
  cf_PprofEnable :: bool
  cf_ReadHeaderTimeout :: int
  cf_ShutdownTimeout :: int
  cf_ProduceTimeout :: int
  cf_RequestMaxBytes :: int
  cf_RequestMaxRecords :: int
  cf_RequestMaxRecordBytes :: int
  cf_RequestMaxKeyBytes :: int
  cf_RequestMaxHeaders :: int
  cf_RequestMaxHeaderBytes :: int
  cf_TopicAllowlist :: "string list"
  cf_AuthBearerTokens :: "string list"
  cf_ClusterID :: string
  cf_RateLimit :: RateLimitConfig
  cf_SchemaRegistry :: SchemaRegistryConfig
  cf_Kafka :: KafkaConfig

text \<open>The values read, before they are validated.\<close>

definition read_Kafka :: "env \<Rightarrow> KafkaConfig" where
  "read_Kafka env =
     \<lparr>kc_Brokers = envCSVDefault env ''KAFKA_BROKERS'' [''localhost:9092''],
      kc_ClientID = envString env ''KAFKA_CLIENT_ID'' ''kafka-rest-proxy-go'',
      kc_RequiredAcks = envString env ''KAFKA_REQUIRED_ACKS'' ''all'',
      kc_Compression = envString env ''KAFKA_COMPRESSION'' ''lz4'',
      kc_Linger = envDuration env ''KAFKA_LINGER'' 0,
      kc_DeliveryTimeout = envDuration env ''KAFKA_DELIVERY_TIMEOUT'' (30 * 1000000000),
      kc_RequestTimeout = envDuration env ''KAFKA_REQUEST_TIMEOUT'' (10 * 1000000000),
      kc_BatchMaxBytes = wrap32 (envInt env ''KAFKA_BATCH_MAX_BYTES'' 1048576),
      kc_MaxBufferedRecords = envInt env ''KAFKA_MAX_BUFFERED_RECORDS'' 100000,
      kc_MaxBufferedBytes = envInt env ''KAFKA_MAX_BUFFERED_BYTES'' (128 * 1024 * 1024),
      kc_TLS = \<lparr>tls_Enable = envBool env ''KAFKA_TLS_ENABLE'' False,
                tls_InsecureSkipVerify = envBool env ''KAFKA_TLS_INSECURE_SKIP_VERIFY'' False,
                tls_CAFile = envString env ''KAFKA_TLS_CA_FILE'' [],
                tls_CertFile = envString env ''KAFKA_TLS_CERT_FILE'' [],
                tls_KeyFile = envString env ''KAFKA_TLS_KEY_FILE'' []\<rparr>,
      kc_SASL = \<lparr>sasl_Mechanism = envString env ''KAFKA_SASL_MECHANISM'' [],
                 sasl_Username = envString env ''KAFKA_SASL_USERNAME'' [],
                 sasl_Password = envString env ''KAFKA_SASL_PASSWORD'' []\<rparr>\<rparr>"

definition read_Config :: "(string \<Rightarrow> fval option) \<Rightarrow> env \<Rightarrow> Config" where
  "read_Config parseFloat env =
     \<lparr>cf_HTTPAddr = envString env ''HTTP_ADDR'' '':8080'',
      cf_PprofEnable = envBool env ''PPROF_ENABLE'' False,
      cf_ReadHeaderTimeout = envDuration env ''HTTP_READ_HEADER_TIMEOUT'' (5 * 1000000000),
      cf_ShutdownTimeout = envDuration env ''SHUTDOWN_TIMEOUT'' (20 * 1000000000),
      cf_ProduceTimeout = envDuration env ''PRODUCE_TIMEOUT'' (30 * 1000000000),
      cf_RequestMaxBytes = envInt64 env ''REQUEST_MAX_BYTES'' (8 * 1024 * 1024),
      cf_RequestMaxRecords = envInt env ''REQUEST_MAX_RECORDS'' 1000,
      cf_RequestMaxRecordBytes = envInt64 env ''REQUEST_MAX_RECORD_BYTES'' (1 * 1024 * 1024),
      cf_RequestMaxKeyBytes = envInt64 env ''REQUEST_MAX_KEY_BYTES'' (1024 * 1024),
      cf_RequestMaxHeaders = envInt env ''REQUEST_MAX_HEADERS'' 64,
      cf_RequestMaxHeaderBytes = envInt64 env ''REQUEST_MAX_HEADER_BYTES'' (64 * 1024),
      cf_TopicAllowlist = envCSV env ''TOPIC_ALLOWLIST'',
      cf_AuthBearerTokens = envCSV env ''AUTH_BEARER_TOKENS'',
      cf_ClusterID = envString env ''KAFKA_CLUSTER_ID'' ''local'',
      cf_RateLimit = \<lparr>rl_RequestsPerSecond = envFloat parseFloat env ''RATE_LIMIT_REQUESTS_PER_SECOND'' (Fin 0),
                      rl_RequestsBurst = envInt64 env ''RATE_LIMIT_REQUESTS_BURST'' 0,
                      rl_BytesPerSecond = envFloat parseFloat env ''RATE_LIMIT_BYTES_PER_SECOND'' (Fin 0),
                      rl_BytesBurst = envInt64 env ''RATE_LIMIT_BYTES_BURST'' 0\<rparr>,
      cf_SchemaRegistry = \<lparr>sr_URL = envString env ''SCHEMA_REGISTRY_URL'' [],
                           sr_Username = envString env ''SCHEMA_REGISTRY_USERNAME'' [],
                           sr_Password = envString env ''SCHEMA_REGISTRY_PASSWORD'' []\<rparr>,
      cf_Kafka = read_Kafka env\<rparr>"

text \<open>The checks, in their order.\<close>

definition config_checks :: "Config \<Rightarrow> (bool \<times> string) list" where
  "config_checks cfg =
     [(kc_Brokers (cf_Kafka cfg) = [], ''KAFKA_BROKERS must include at least one broker''),
      (cf_RequestMaxRecords cfg \<le> 0, ''REQUEST_MAX_RECORDS must be positive''),
      (cf_RequestMaxBytes cfg \<le> 0, ''REQUEST_MAX_BYTES must be positive''),
      (cf_RequestMaxRecordBytes cfg \<le> 0, ''REQUEST_MAX_RECORD_BYTES must be positive''),
      (cf_RequestMaxKeyBytes cfg \<le> 0, ''REQUEST_MAX_KEY_BYTES must be positive''),
      (cf_RequestMaxHeaders cfg < 0, ''REQUEST_MAX_HEADERS must be zero or positive''),
      (cf_RequestMaxHeaderBytes cfg \<le> 0, ''REQUEST_MAX_HEADER_BYTES must be positive''),
      (fval_negative (rl_RequestsPerSecond (cf_RateLimit cfg)), ''RATE_LIMIT_REQUESTS_PER_SECOND must be zero or positive''),
      (rl_RequestsBurst (cf_RateLimit cfg) < 0, ''RATE_LIMIT_REQUESTS_BURST must be zero or positive''),
      (fval_negative (rl_BytesPerSecond (cf_RateLimit cfg)), ''RATE_LIMIT_BYTES_PER_SECOND must be zero or positive''),
      (rl_BytesBurst (cf_RateLimit cfg) < 0, ''RATE_LIMIT_BYTES_BURST must be zero or positive''),
      (kc_MaxBufferedRecords (cf_Kafka cfg) \<le> 0, ''KAFKA_MAX_BUFFERED_RECORDS must be positive''),
      (kc_MaxBufferedBytes (cf_Kafka cfg) \<le> 0, ''KAFKA_MAX_BUFFERED_BYTES must be positive''),
      ((tls_CertFile (kc_TLS (cf_Kafka cfg)) = []) \<noteq> (tls_KeyFile (kc_TLS (cf_Kafka cfg)) = []),
       ''KAFKA_TLS_CERT_FILE and KAFKA_TLS_KEY_FILE must be set together''),
      (sasl_Mechanism (kc_SASL (cf_Kafka cfg)) \<noteq> [] \<and>
         (sasl_Username (kc_SASL (cf_Kafka cfg)) = [] \<or> sasl_Password (kc_SASL (cf_Kafka cfg)) = []),
       ''KAFKA_SASL_USERNAME and KAFKA_SASL_PASSWORD are required when KAFKA_SASL_MECHANISM is set'')]"

fun first_failure :: "(bool \<times> string) list \<Rightarrow> string option" where
  "first_failure [] = None"
| "first_failure ((bad, msg) # cs) = (if bad then Some msg else first_failure cs)"

definition LoadFromEnv :: "(string \<Rightarrow> fval option) \<Rightarrow> env \<Rightarrow> string + Config" where
  "LoadFromEnv parseFloat env =
     (let cfg = read_Config parseFloat env in
      case first_failure (config_checks cfg) of Some msg \<Rightarrow> Err msg | None \<Rightarrow> Ok cfg)"

end
