(* ===== verification/GoFmt.thy ===== *)
theory GoFmt
  imports Config
begin

text \<open>
  Formatting and comparing numbers as the command-line tools do: comparisons of floating-point
  values that came from flags, \<^verbatim>\<open>%.<n>f\<close> of \<^verbatim>\<open>fmt\<close>, \<^verbatim>\<open>Round\<close> and
  \<^verbatim>\<open>String\<close> of \<^verbatim>\<open>time.Duration\<close>, and \<^verbatim>\<open>strings.TrimRight\<close> with one character.
\<close>

section \<open>Floating-point values from text\<close>

text \<open>The order of \<^verbatim>\<open>float64\<close>: nothing is less than, or greater than, not-a-number.\<close>

fun fval_less :: "fval \<Rightarrow> fval \<Rightarrow> bool" where
  "fval_less NotANumber y = False"
| "fval_less x NotANumber = False"
| "fval_less (Fin x) (Fin y) = (x < y)"
| "fval_less NegInf y = (y \<noteq> NegInf)"
| "fval_less x PosInf = (x \<noteq> PosInf)"
| "fval_less PosInf y = False"
| "fval_less x NegInf = False"

text \<open>Division by a positive constant.\<close>

fun fval_div :: "fval \<Rightarrow> rat \<Rightarrow> fval" where
  "fval_div (Fin x) c = Fin (fl (x / c))"
| "fval_div v c = v"

fun fval_mult :: "fval \<Rightarrow> rat \<Rightarrow> fval" where
  "fval_mult (Fin x) c = Fin (fl (x * c))"
| "fval_mult v c = v"

section \<open>Decimal text\<close>

text \<open>\<open>n\<close> in decimal, with zeros in front up to \<open>k\<close> digits.\<close>

definition padded :: "nat \<Rightarrow> nat \<Rightarrow> string" where
  "padded k n = replicate (k - length (nat_digits n)) (CHR ''0'') @ nat_digits n"

text \<open>\<^verbatim>\<open>%.<k>f\<close>: the exact value rounded to \<open>k\<close> decimals, ties to even.\<close>

definition fixed :: "nat \<Rightarrow> rat \<Rightarrow> string" where
  "fixed k x =
     (let n = nat (rhe (\<bar>x\<bar> * 10 ^ k))
      in (if x < 0 then ''-'' else []) @ nat_digits (n div 10 ^ k) @
         (if k = 0 then [] else ''.'' @ padded k (n mod 10 ^ k)))"

fun fval_fixed :: "nat \<Rightarrow> fval \<Rightarrow> string" where
  "fval_fixed k (Fin x) = fixed k x"
| "fval_fixed k PosInf = ''+Inf''"
| "fval_fixed k NegInf = ''-Inf''"
| "fval_fixed k NotANumber = ''NaN''"

section \<open>Durations\<close>

definition millisecond :: int where "millisecond = 1000000"

definition duration_Round :: "int \<Rightarrow> int \<Rightarrow> int" where
  "duration_Round d m =
     (if m \<le> 0 then d
      else let r = trem d m in
        if d < 0 then
          (let r' = - r in
           if r' + r' < m then d + r'
           else if - 9223372036854775808 \<le> d - m + r' then d - m + r' else - 9223372036854775808)
        else if r + r < m then d - r
        else if d + m - r \<le> 9223372036854775807 then d + m - r else 9223372036854775807)"

text \<open>A fraction of \<open>k\<close> digits without its trailing zeros, and without the point when none is left.\<close>

definition fraction_text :: "nat \<Rightarrow> nat \<Rightarrow> string" where
  "fraction_text k u =
     (let ds = rev (dropWhile (\<lambda>c. c = CHR ''0'') (rev (padded k (u mod 10 ^ k))))
      in if ds = [] then [] else CHR ''.'' # ds)"

definition duration_String :: "int \<Rightarrow> string" where
  "duration_String d =
     (let u = nat \<bar>d\<bar>;
          text = (if u < 1000000000 then
                    (if u = 0 then ''0s''
                     else if u < 1000 then nat_digits u @ ''ns''
                     else if u < 1000000 then nat_digits (u div 10 ^ 3) @ fraction_text 3 u @ [CHR 0xC2, CHR 0xB5, CHR ''s'']
                     else nat_digits (u div 10 ^ 6) @ fraction_text 6 u @ ''ms'')
                  else
                    let secs = u div 10 ^ 9; mins = secs div 60; hours = mins div 60 in
                    (if hours > 0 then nat_digits hours @ ''h'' else []) @
                    (if mins > 0 then nat_digits (mins mod 60) @ ''m'' else []) @
                    nat_digits (secs mod 60) @ fraction_text 9 u @ ''s'')
      in if d < 0 then CHR ''-'' # text else text)"

section \<open>Strings\<close>

definition trimRight_char :: "char \<Rightarrow> string \<Rightarrow> string" where
  "trimRight_char c s = rev (dropWhile (\<lambda>x. x = c) (rev s))"

lemma trimRight_char_no: "last s \<noteq> c \<Longrightarrow> trimRight_char c s = s"
  by (cases s rule: rev_cases) (simp_all add: trimRight_char_def)

text \<open>\<^verbatim>\<open>sort.Slice\<close> by a strict order on keys that are all different is sorting by the key.\<close>

text \<open>Conversion of a \<^verbatim>\<open>float64\<close> to an integer type drops the fraction.\<close>

definition float_to_int :: "rat \<Rightarrow> int" where
  "float_to_int x = (if x < 0 then \<lceil>x\<rceil> else \<lfloor>x\<rfloor>)"

end
