(* ===== verification/GoFlag.thy ===== *)
theory GoFlag
  imports GoFmt Unmarshal "HOL-Library.Char_ord"
begin

text \<open>
  Command lines as the package \<^verbatim>\<open>flag\<close> reads them: integers in Go's literal syntax, the values a
  flag can take, and the loop over the arguments. A flag set is a list of flags over a record
  of their values; \<open>parseFloat\<close> stands for \<^verbatim>\<open>strconv.ParseFloat\<close>.
\<close>

section \<open>Integers in any base\<close>

datatype num_error = SyntaxError | RangeError

fun num_error_text :: "num_error \<Rightarrow> string" where
  "num_error_text SyntaxError = ''parse error''"
| "num_error_text RangeError = ''value out of range''"

definition alnum_val :: "char \<Rightarrow> nat option" where
  "alnum_val c =
     (case digit_val c of Some d \<Rightarrow> Some d
      | None \<Rightarrow> let l = lower_char c in
        if CHR ''a'' \<le> l \<and> l \<le> CHR ''z'' then Some (of_char l - of_char (CHR ''a'') + 10) else None)"

text \<open>\<^verbatim>\<open>strconv.ParseUint\<close> with base 0: the prefix chooses the base.\<close>

definition base_prefix :: "string \<Rightarrow> nat \<times> string" where
  "base_prefix s =
     (case s of
        c # d # e # r \<Rightarrow>
          if c \<noteq> CHR ''0'' then (10, s)
          else if lower_char d = CHR ''b'' then (2, e # r)
          else if lower_char d = CHR ''o'' then (8, e # r)
          else if lower_char d = CHR ''x'' then (16, e # r)
          else (8, d # e # r)
      | c # r \<Rightarrow> if c = CHR ''0'' then (8, r) else (10, s)
      | [] \<Rightarrow> (10, s))"

fun uint_loop :: "nat \<Rightarrow> nat \<Rightarrow> string \<Rightarrow> num_error + nat" where
  "uint_loop base n [] = Ok n"
| "uint_loop base n (c # cs) =
     (if c = CHR ''_'' then uint_loop base n cs
      else (case alnum_val c of None \<Rightarrow> Err SyntaxError
        | Some d \<Rightarrow>
          if base \<le> d then Err SyntaxError
          else if 2 ^ 64 \<le> n * base + d then Err RangeError
          else uint_loop base (n * base + d) cs))"

text \<open>Where underscores may stand: after a digit or the prefix, and before a digit.\<close>

datatype seen = Start | Digit | Underscore | Other

fun underscores_ok :: "bool \<Rightarrow> seen \<Rightarrow> string \<Rightarrow> bool" where
  "underscores_ok hex i [] = (i \<noteq> Underscore)"
| "underscores_ok hex i (c # cs) =
     (if digit_val c \<noteq> None \<or> hex \<and> CHR ''a'' \<le> lower_char c \<and> lower_char c \<le> CHR ''f'' then underscores_ok hex Digit cs
      else if c = CHR ''_'' then i = Digit \<and> underscores_ok hex Underscore cs
      else i \<noteq> Underscore \<and> underscores_ok hex Other cs)"

definition underscoreOK :: "string \<Rightarrow> bool" where
  "underscoreOK s =
     (case s of
        c # d # r \<Rightarrow>
          if c = CHR ''0'' \<and> lower_char d \<in> {CHR ''b'', CHR ''o'', CHR ''x''}
          then underscores_ok (lower_char d = CHR ''x'') Digit r else underscores_ok False Start s
      | _ \<Rightarrow> underscores_ok False Start s)"

definition parseUint_any :: "string \<Rightarrow> num_error + nat" where
  "parseUint_any s =
     (if s = [] then Err SyntaxError
      else case base_prefix s of (base, digits) \<Rightarrow>
        (case uint_loop base 0 digits of Err e \<Rightarrow> Err e
         | Ok n \<Rightarrow> if CHR ''_'' \<in> set digits \<and> \<not> underscoreOK s then Err SyntaxError else Ok n))"

definition parseInt_any :: "string \<Rightarrow> num_error + int" where
  "parseInt_any s =
     (let neg = (s \<noteq> [] \<and> hd s = CHR ''-'');
          u = (if s \<noteq> [] \<and> (hd s = CHR ''-'' \<or> hd s = CHR ''+'') then tl s else s)
      in case parseUint_any u of Err e \<Rightarrow> Err e
         | Ok n \<Rightarrow>
           if \<not> neg \<and> 2 ^ 63 \<le> n \<or> neg \<and> 2 ^ 63 < n then Err RangeError
           else Ok (if neg then - int n else int n))"

definition parseBool :: "string \<Rightarrow> bool option" where
  "parseBool s =
     (if s \<in> {''1'', ''t'', ''T'', ''true'', ''TRUE'', ''True''} then Some True
      else if s \<in> {''0'', ''f'', ''F'', ''false'', ''FALSE'', ''False''} then Some False
      else None)"

section \<open>Flags\<close>

text \<open>The name of a flag, whether it is a boolean flag, and what setting it does to the values.\<close>

record 'f flag =
  fg_name :: string
  fg_bool :: bool
  fg_set :: "string \<Rightarrow> 'f \<Rightarrow> message + 'f"

definition string_flag :: "string \<Rightarrow> (string \<Rightarrow> 'f \<Rightarrow> 'f) \<Rightarrow> 'f flag" where
  "string_flag name put = \<lparr>fg_name = name, fg_bool = False, fg_set = (\<lambda>s f. Ok (put s f))\<rparr>"

definition int_flag :: "string \<Rightarrow> (int \<Rightarrow> 'f \<Rightarrow> 'f) \<Rightarrow> 'f flag" where
  "int_flag name put =
     \<lparr>fg_name = name, fg_bool = False,
      fg_set = (\<lambda>s f. case parseInt_any s of Err e \<Rightarrow> Err [Lit (num_error_text e)] | Ok n \<Rightarrow> Ok (put n f))\<rparr>"

definition duration_flag :: "string \<Rightarrow> (int \<Rightarrow> 'f \<Rightarrow> 'f) \<Rightarrow> 'f flag" where
  "duration_flag name put =
     \<lparr>fg_name = name, fg_bool = False,
      fg_set = (\<lambda>s f. case parseDuration s of None \<Rightarrow> Err [Lit (num_error_text SyntaxError)] | Some d \<Rightarrow> Ok (put d f))\<rparr>"

definition bool_flag :: "string \<Rightarrow> (bool \<Rightarrow> 'f \<Rightarrow> 'f) \<Rightarrow> 'f flag" where
  "bool_flag name put =
     \<lparr>fg_name = name, fg_bool = True,
      fg_set = (\<lambda>s f. case parseBool s of None \<Rightarrow> Err [Lit (num_error_text SyntaxError)] | Some b \<Rightarrow> Ok (put b f))\<rparr>"

definition float_flag :: "(string \<Rightarrow> num_error + fval) \<Rightarrow> string \<Rightarrow> (fval \<Rightarrow> 'f \<Rightarrow> 'f) \<Rightarrow> 'f flag" where
  "float_flag parseFloat name put =
     \<lparr>fg_name = name, fg_bool = False,
      fg_set = (\<lambda>s f. case parseFloat s of Err e \<Rightarrow> Err [Lit (num_error_text e)] | Ok x \<Rightarrow> Ok (put x f))\<rparr>"

section \<open>The loop over the arguments\<close>

datatype flag_error = HelpRequested | FlagError message

fun flag_error_text :: "flag_error \<Rightarrow> message" where
  "flag_error_text HelpRequested = [Lit ''flag: help requested'']"
| "flag_error_text (FlagError m) = m"

text \<open>The name and, after the first \<^verbatim>\<open>=\<close> that is not its first character, the value.\<close>

definition split_flag :: "string \<Rightarrow> string \<times> string option" where
  "split_flag body =
     (let n = takeWhile (\<lambda>c. c \<noteq> CHR ''='') (tl body); r = dropWhile (\<lambda>c. c \<noteq> CHR ''='') (tl body)
      in (hd body # n, if r = [] then None else Some (tl r)))"

definition set_flag :: "'f flag list \<Rightarrow> string \<Rightarrow> string option \<Rightarrow> string list \<Rightarrow> 'f \<Rightarrow> flag_error + 'f \<times> string list" where
  "set_flag fs name value args f =
     (case find (\<lambda>g. fg_name g = name) fs of
        None \<Rightarrow>
          if name = ''help'' \<or> name = ''h'' then Err HelpRequested
          else Err (FlagError [Lit ''flag provided but not defined: -'', Lit name])
      | Some g \<Rightarrow>
          if fg_bool g then
            (case value of
               Some v \<Rightarrow>
                 (case fg_set g v f of
                    Err e \<Rightarrow> Err (FlagError ([Lit ''invalid boolean value '', Quoted v, Lit '' for -'', Lit name, Lit '': ''] @ e))
                  | Ok f' \<Rightarrow> Ok (f', args))
             | None \<Rightarrow>
                 (case fg_set g ''true'' f of
                    Err e \<Rightarrow> Err (FlagError ([Lit ''invalid boolean flag '', Lit name, Lit '': ''] @ e))
                  | Ok f' \<Rightarrow> Ok (f', args)))
          else
            (case (value, args) of
               (None, []) \<Rightarrow> Err (FlagError [Lit ''flag needs an argument: -'', Lit name])
             | (None, v # rest) \<Rightarrow>
                 (case fg_set g v f of
                    Err e \<Rightarrow> Err (FlagError ([Lit ''invalid value '', Quoted v, Lit '' for flag -'', Lit name, Lit '': ''] @ e))
                  | Ok f' \<Rightarrow> Ok (f', rest))
             | (Some v, _) \<Rightarrow>
                 (case fg_set g v f of
                    Err e \<Rightarrow> Err (FlagError ([Lit ''invalid value '', Quoted v, Lit '' for flag -'', Lit name, Lit '': ''] @ e))
                  | Ok f' \<Rightarrow> Ok (f', args))))"

lemma set_flag_shorter: "set_flag fs name value args f = Ok (f', rest) \<Longrightarrow> length rest \<le> length args"
  by (auto simp: set_flag_def split: option.splits if_splits sum.splits list.splits)

text \<open>The values of the flags, and the arguments that are left.\<close>

function flag_Parse :: "'f flag list \<Rightarrow> 'f \<Rightarrow> string list \<Rightarrow> flag_error + 'f \<times> string list" where
  "flag_Parse fs f [] = Ok (f, [])"
| "flag_Parse fs f (s # args) =
     (if length s < 2 \<or> hd s \<noteq> CHR ''-'' then Ok (f, s # args)
      else if s = ''--'' then Ok (f, args)
      else let name = (if s ! 1 = CHR ''-'' then drop 2 s else drop 1 s) in
        if name = [] \<or> hd name = CHR ''-'' \<or> hd name = CHR ''='' then Err (FlagError [Lit ''bad flag syntax: '', Lit s])
        else (case split_flag name of (n, value) \<Rightarrow>
          (case set_flag fs n value args f of Err e \<Rightarrow> Err e
           | Ok (f', rest) \<Rightarrow> flag_Parse fs f' rest)))"
  by pat_completeness auto
termination
  by (relation "measure (\<lambda>(fs, f, args). length args)") (auto dest: set_flag_shorter)

text \<open>One argument \<^verbatim>\<open>-name=value\<close> sets the flag of that name and the rest is read with the new values.\<close>

lemma flag_Parse_set:
  assumes "name \<noteq> []" "hd name \<noteq> CHR ''-''" "CHR ''='' \<notin> set name" "find (\<lambda>g. fg_name g = name) fs = Some g" "fg_set g v f = Ok f'"
  shows "flag_Parse fs f ((CHR ''-'' # name @ CHR ''='' # v) # args) = flag_Parse fs f' args"
proof -
  obtain c n where n: "name = c # n" using assms(1) by (cases name) auto
  have "CHR ''='' \<notin> set n" using assms(3) n by simp
  then have "takeWhile (\<lambda>c. c \<noteq> CHR ''='') (n @ CHR ''='' # v) = n \<and> dropWhile (\<lambda>c. c \<noteq> CHR ''='') (n @ CHR ''='' # v) = CHR ''='' # v"
    by (induction n) auto
  then have "split_flag (name @ CHR ''='' # v) = (name, Some v)" by (simp add: split_flag_def n)
  moreover have "set_flag fs name (Some v) args f = Ok (f', args)" using assms(4,5) by (simp add: set_flag_def)
  ultimately show ?thesis using assms(2,3) by (auto simp: n Let_def)
qed

end
