(* ===== verification/Soak.thy ===== *)
theory Soak
  imports GoFlag V2_Response
    "HOL-Library.Char_ord" "HOL-Library.List_Lexorder" "HOL-Library.Product_Lexorder"
begin

text \<open>
  The soak test (\<^verbatim>\<open>cmd/soak-produce/main.go\<close>): its options, the request body it sends, how it
  classifies one exchange, how it collects the results of a run and judges them. One HTTP
  exchange is an argument, and so is the order in which the results of the workers arrive.
\<close>

section \<open>Options\<close>

record soak_thresholds =
  th_MaxFailureRate :: fval
  th_MinRecordsPerSecond :: fval
  th_MaxP99 :: int

record soak_options =
  so_URL :: string
  so_Topic :: string
  so_Duration :: int
  so_Warmup :: int
  so_Clients :: int
  so_RecordsPerRequest :: int
  so_PayloadBytes :: int
  so_Format :: string
  so_Timeout :: int
  so_MaxLatencySamples :: int
  so_Thresholds :: soak_thresholds

record soak_flags =
  sf_url :: string
  sf_topic :: string
  sf_duration :: int
  sf_warmup :: int
  sf_clients :: int
  sf_recordsPerRequest :: int
  sf_payloadBytes :: int
  sf_format :: string
  sf_timeout :: int
  sf_maxLatencySamples :: int
  sf_maxFailureRate :: string
  sf_minRecordsPerSec :: fval
  sf_maxP99 :: int

text \<open>The flags, their default values, and the command line they are read from.\<close>

definition soak_defaults :: soak_flags where
  "soak_defaults =
     \<lparr>sf_url = ''http://localhost:8080'', sf_topic = ''orders'', sf_duration = 10 * 60 * 1000000000, sf_warmup = 0, sf_clients = 32,
      sf_recordsPerRequest = 10, sf_payloadBytes = 512, sf_format = ''json'', sf_timeout = 30 * 1000000000,
      sf_maxLatencySamples = 1000000, sf_maxFailureRate = ''0'', sf_minRecordsPerSec = Fin 0, sf_maxP99 = 0\<rparr>"

definition soak_flag_set :: "(string \<Rightarrow> num_error + fval) \<Rightarrow> soak_flags flag list" where
  "soak_flag_set parseFloat =
     [string_flag ''url'' (\<lambda>x f. f\<lparr>sf_url := x\<rparr>), string_flag ''topic'' (\<lambda>x f. f\<lparr>sf_topic := x\<rparr>),
      duration_flag ''duration'' (\<lambda>x f. f\<lparr>sf_duration := x\<rparr>), duration_flag ''warmup'' (\<lambda>x f. f\<lparr>sf_warmup := x\<rparr>),
      int_flag ''clients'' (\<lambda>x f. f\<lparr>sf_clients := x\<rparr>), int_flag ''records-per-request'' (\<lambda>x f. f\<lparr>sf_recordsPerRequest := x\<rparr>),
      int_flag ''payload-bytes'' (\<lambda>x f. f\<lparr>sf_payloadBytes := x\<rparr>), string_flag ''format'' (\<lambda>x f. f\<lparr>sf_format := x\<rparr>),
      duration_flag ''timeout'' (\<lambda>x f. f\<lparr>sf_timeout := x\<rparr>),
      int_flag ''max-latency-samples'' (\<lambda>x f. f\<lparr>sf_maxLatencySamples := x\<rparr>),
      string_flag ''max-failure-rate'' (\<lambda>x f. f\<lparr>sf_maxFailureRate := x\<rparr>),
      float_flag parseFloat ''min-records-sec'' (\<lambda>x f. f\<lparr>sf_minRecordsPerSec := x\<rparr>),
      duration_flag ''max-p99'' (\<lambda>x f. f\<lparr>sf_maxP99 := x\<rparr>)]"

definition soak_Parse :: "(string \<Rightarrow> num_error + fval) \<Rightarrow> string list \<Rightarrow> message + soak_flags \<times> string list" where
  "soak_Parse parseFloat args =
     (case flag_Parse (soak_flag_set parseFloat) soak_defaults args of Err e \<Rightarrow> Err (flag_error_text e) | Ok r \<Rightarrow> Ok r)"

definition soak_parseFormat :: "string \<Rightarrow> message + string" where
  "soak_parseFormat v =
     (let f = toLower (trimSpace v) in
      if f = [] \<or> f = ''json'' then Ok ''json''
      else if f = ''binary'' \<or> f = ''bin'' then Ok ''binary''
      else Err [Lit ''format must be json or binary, got '', Quoted v])"

definition soak_contentTypeForFormat :: "string \<Rightarrow> string" where
  "soak_contentTypeForFormat format =
     (if format = ''binary'' then ''application/vnd.kafka.binary.v2+json'' else ''application/vnd.kafka.json.v2+json'')"

definition parseFailureRate :: "(string \<Rightarrow> fval option) \<Rightarrow> string \<Rightarrow> message + fval" where
  "parseFailureRate parseFloat v =
     (let text = trimSpace v in
      if text = [] then Err [Lit ''must not be empty'']
      else (case parseFloat (trimSpace (trimSuffix text ''%'')) of
        None \<Rightarrow> Err [Quoted v, Lit '' is not a number'']
      | Some n \<Rightarrow>
        if fval_less n (Fin 0) then Err [Lit ''must be zero or positive'']
        else let m = (if hasSuffix text ''%'' then fval_div n 100 else n) in
          if fval_less (Fin 1) m then Err [Lit ''must be <= 1.0 as a fraction or <= 100%'']
          else Ok m))"

text \<open>\<open>parsed\<close> is what the flag package made of the arguments, \<open>soak_Parse\<close>.\<close>

definition parseOptions ::
  "(string \<Rightarrow> fval option) \<Rightarrow> (string \<Rightarrow> string + string \<times> string \<times> string) \<Rightarrow> message + soak_flags \<times> string list \<Rightarrow>
     message + soak_options" where
  "parseOptions parseFloat parseURL parsed =
     (case parsed of Err e \<Rightarrow> Err e
      | Ok (f, args) \<Rightarrow>
        if args \<noteq> [] then Err [Lit ''unexpected positional arguments: '', Lit (go_join '' '' args)]
        else if (case parseURL (trimSpace (sf_url f)) of Err _ \<Rightarrow> True | Ok (scheme, host, path) \<Rightarrow> scheme = [] \<or> host = [])
        then Err [Lit ''url must be an absolute URL'']
        else if trimSpace (sf_topic f) = [] then Err [Lit ''topic must not be empty'']
        else if sf_duration f \<le> 0 then Err [Lit ''duration must be positive'']
        else if sf_warmup f < 0 then Err [Lit ''warmup must be zero or positive'']
        else if sf_clients f \<le> 0 then Err [Lit ''clients must be positive'']
        else if sf_recordsPerRequest f \<le> 0 then Err [Lit ''records-per-request must be positive'']
        else if sf_payloadBytes f < 0 then Err [Lit ''payload-bytes must be zero or positive'']
        else if sf_timeout f \<le> 0 then Err [Lit ''timeout must be positive'']
        else if sf_maxLatencySamples f \<le> 0 then Err [Lit ''max-latency-samples must be positive'']
        else if fval_less (sf_minRecordsPerSec f) (Fin 0) then Err [Lit ''min-records-sec must be zero or positive'']
        else if sf_maxP99 f < 0 then Err [Lit ''max-p99 must be zero or positive'']
        else (case soak_parseFormat (sf_format f) of Err e \<Rightarrow> Err e
          | Ok format \<Rightarrow>
            (case parseFailureRate parseFloat (sf_maxFailureRate f) of Err e \<Rightarrow> Err (Lit ''max-failure-rate: '' # e)
             | Ok rate \<Rightarrow>
               Ok \<lparr>so_URL = trimRight_char (CHR ''/'') (trimSpace (sf_url f)), so_Topic = trimSpace (sf_topic f),
                   so_Duration = sf_duration f, so_Warmup = sf_warmup f, so_Clients = sf_clients f,
                   so_RecordsPerRequest = sf_recordsPerRequest f, so_PayloadBytes = sf_payloadBytes f,
                   so_Format = format, so_Timeout = sf_timeout f, so_MaxLatencySamples = sf_maxLatencySamples f,
                   so_Thresholds = \<lparr>th_MaxFailureRate = rate, th_MinRecordsPerSecond = sf_minRecordsPerSec f,
                                    th_MaxP99 = sf_maxP99 f\<rparr>\<rparr>)))"

section \<open>The request\<close>

text \<open>
  The document \<^verbatim>\<open>json.Marshal\<close> writes; the keys of a map are written in order, so
  \<^verbatim>\<open>index\<close> comes before \<^verbatim>\<open>payload\<close>.
\<close>

definition soak_value_json :: "string \<Rightarrow> bytes \<Rightarrow> nat \<Rightarrow> json" where
  "soak_value_json format payload i =
     (if format = ''binary'' then JStr (json_string (b64_encode payload))
      else JObj [] [(json_string ''index'', JNum (itoa (int i))), (json_string ''payload'', JStr (json_string payload))])"

definition soak_buildBody :: "int \<Rightarrow> int \<Rightarrow> string \<Rightarrow> bytes" where
  "soak_buildBody records payloadBytes format =
     (let payload = replicate (nat payloadBytes) (CHR ''x'')
      in render (JObj [] [(json_string ''records'',
           JArr [] (map (\<lambda>i. JObj [] [(json_string ''value'', soak_value_json format payload i)]) [0..<nat records]))]))"

section \<open>One exchange\<close>

record soak_offset =
  of_ErrorCode :: "int option"
  of_Error :: "string option"

definition zero_soak_offset :: soak_offset where
  "zero_soak_offset = \<lparr>of_ErrorCode = None, of_Error = None\<rparr>"

definition soak_offset_fields :: "(string \<times> soak_offset decoder) list" where
  "soak_offset_fields =
     [(''error_code'', fld of_ErrorCode (\<lambda>x o1. o1\<lparr>of_ErrorCode := x\<rparr>) (dec_ptr 0 (dec_int 64))),
      (''error'', fld of_Error (\<lambda>x o1. o1\<lparr>of_Error := x\<rparr>) (dec_ptr [] dec_string))]"

definition soak_response_decoder :: "soak_offset slice decoder" where
  "soak_response_decoder = dec_struct [(''offsets'', dec_slice zero_soak_offset (dec_struct soak_offset_fields))]"

definition offset_failed :: "soak_offset \<Rightarrow> bool" where
  "offset_failed o1 \<longleftrightarrow> of_ErrorCode o1 \<noteq> None \<or> (case of_Error o1 of None \<Rightarrow> False | Some e \<Rightarrow> e \<noteq> [])"

definition recordFailureReason :: "soak_offset \<Rightarrow> string" where
  "recordFailureReason o1 =
     (case of_ErrorCode o1 of Some c \<Rightarrow> ''record_error_code_'' @ itoa c
      | None \<Rightarrow> (case of_Error o1 of Some e \<Rightarrow> if e \<noteq> [] then ''record_error'' else ''record_error_unknown''
                 | None \<Rightarrow> ''record_error_unknown''))"

text \<open>The loop over the offsets: successes, failures and the first reason.\<close>

fun count_offsets :: "soak_offset list \<Rightarrow> nat \<Rightarrow> nat \<Rightarrow> string \<Rightarrow> nat \<times> nat \<times> string" where
  "count_offsets [] success failed reason = (success, failed, reason)"
| "count_offsets (o1 # os) success failed reason =
     (if offset_failed o1
      then count_offsets os success (Suc failed) (if reason = [] then recordFailureReason o1 else reason)
      else count_offsets os (Suc success) failed reason)"

definition countRecordResults :: "bytes \<Rightarrow> int \<Rightarrow> message + nat \<times> nat \<times> string" where
  "countRecordResults body expectedRecords =
     (case unmarshal soak_response_decoder body None of
        (offsets0, ok) \<Rightarrow>
          let offsets = slice_elems offsets0 in
          if \<not> ok then Err [Lit ''decode produce response: '', JSONError ''produce response'' body]
          else if int (length offsets) \<noteq> expectedRecords
          then Err [Lit ''produce response offsets length '', Lit (itoa (int (length offsets))),
                    Lit '' does not match records '', Lit (itoa expectedRecords)]
          else Ok (count_offsets offsets 0 0 []))"

text \<open>An error of the HTTP client: whether it wraps a context error, and its text.\<close>

record client_error =
  ce_context :: bool
  ce_text :: string

definition classifyClientError :: "client_error option \<Rightarrow> string" where
  "classifyClientError e0 =
     (case e0 of None \<Rightarrow> []
      | Some e \<Rightarrow>
        let msg = toLower (ce_text e) in
        if ce_context e then ''client_timeout''
        else if contains msg ''connection reset'' then ''client_connection_reset''
        else if contains msg ''connection refused'' then ''client_connection_refused''
        else if contains msg ''eof'' then ''client_eof''
        else if contains msg ''broken pipe'' then ''client_broken_pipe''
        else if contains msg ''timeout'' then ''client_timeout''
        else ''client_error'')"

definition classifyResponseError :: "string option \<Rightarrow> string" where
  "classifyResponseError e =
     (case e of None \<Rightarrow> []
      | Some msg \<Rightarrow>
        if contains msg ''decode produce response'' then ''response_decode_error''
        else if contains msg ''offsets length'' then ''response_offsets_length_mismatch''
        else ''response_error'')"

record requestResult =
  rr_Status :: int
  rr_Records :: int
  rr_SuccessRecords :: int
  rr_FailedRecords :: int
  rr_Bytes :: int
  rr_Latency :: int
  rr_Err :: bool
  rr_FailureReason :: string

text \<open>
  What happens on the wire: the request cannot be built, the client fails, or a response with its
  status and body arrives, whose reading may fail. \<open>wording\<close> is the text of a decoding error.
\<close>

datatype exchange =
    BuildFailed string
  | ClientFailed client_error
  | Responded int bytes bool

definition soak_failure :: "soak_options \<Rightarrow> bytes \<Rightarrow> int \<Rightarrow> int \<Rightarrow> bool \<Rightarrow> string \<Rightarrow> requestResult" where
  "soak_failure opts body status latency failed reason =
     \<lparr>rr_Status = status, rr_Records = so_RecordsPerRequest opts, rr_SuccessRecords = 0,
      rr_FailedRecords = so_RecordsPerRequest opts, rr_Bytes = int (length body), rr_Latency = latency,
      rr_Err = failed, rr_FailureReason = reason\<rparr>"

definition soak_postOnce ::
  "(nat \<Rightarrow> bool) \<Rightarrow> (string \<Rightarrow> bytes \<Rightarrow> string) \<Rightarrow> soak_options \<Rightarrow> bytes \<Rightarrow> exchange \<Rightarrow> int \<Rightarrow> requestResult" where
  "soak_postOnce isPrint wording opts body ex latency =
     (case ex of
        BuildFailed e \<Rightarrow> soak_failure opts body 0 latency True ''request_build_error''
      | ClientFailed e \<Rightarrow> soak_failure opts body 0 latency True (classifyClientError (Some e))
      | Responded status respBody readFailed \<Rightarrow>
        if readFailed then soak_failure opts body status latency True ''response_read_error''
        else if status < 200 \<or> 300 \<le> status
        then soak_failure opts body status latency False (''http_status_'' @ itoa status)
        else (case countRecordResults respBody (so_RecordsPerRequest opts) of
          Err m \<Rightarrow> soak_failure opts body status latency True (classifyResponseError (Some (message_text isPrint wording m)))
        | Ok (success, failed, reason) \<Rightarrow>
          \<lparr>rr_Status = status, rr_Records = so_RecordsPerRequest opts, rr_SuccessRecords = int success,
           rr_FailedRecords = int failed, rr_Bytes = int (length body), rr_Latency = latency,
           rr_Err = False, rr_FailureReason = reason\<rparr>))"

text \<open>The client: its connection limits and time limits, in nanoseconds.\<close>

record http_client =
  hc_MaxIdleConns :: int
  hc_MaxIdleConnsPerHost :: int
  hc_MaxConnsPerHost :: int
  hc_IdleConnTimeout :: int
  hc_TLSHandshakeTimeout :: int
  hc_ResponseHeaderTimeout :: int
  hc_ExpectContinueTimeout :: int
  hc_Timeout :: int

definition newSoakHTTPClient :: "soak_options \<Rightarrow> http_client" where
  "newSoakHTTPClient opts =
     (let maxConns0 = wrap64 (so_Clients opts * 4); maxConns = (if maxConns0 < 32 then 32 else maxConns0)
      in \<lparr>hc_MaxIdleConns = maxConns, hc_MaxIdleConnsPerHost = maxConns, hc_MaxConnsPerHost = maxConns,
          hc_IdleConnTimeout = 90 * 1000000000, hc_TLSHandshakeTimeout = 10 * 1000000000,
          hc_ResponseHeaderTimeout = so_Timeout opts, hc_ExpectContinueTimeout = 1000000000,
          hc_Timeout = so_Timeout opts\<rparr>)"

text \<open>The address a request goes to.\<close>

definition soak_url :: "soak_options \<Rightarrow> string" where
  "soak_url opts = so_URL opts @ ''/topics/'' @ pathEscape (so_Topic opts)"

section \<open>A run\<close>

record failureCount =
  fc_Reason :: string
  fc_Count :: int

text \<open>A Go map from reasons to counts, as the list of its entries.\<close>

fun bump :: "string \<Rightarrow> (string \<times> int) list \<Rightarrow> (string \<times> int) list" where
  "bump reason [] = [(reason, 1)]"
| "bump reason ((k, n) # m) = (if k = reason then (k, wrap64 (n + 1)) # m else (k, n) # bump reason m)"

record soak_acc =
  ac_totalRequests :: int
  ac_successRequests :: int
  ac_failedRequests :: int
  ac_attemptedRecords :: int
  ac_successRecords :: int
  ac_failedRecords :: int
  ac_requestBytes :: int
  ac_latencies :: "int list"
  ac_failureReasons :: "(string \<times> int) list"

definition soak_start :: soak_acc where
  "soak_start =
     \<lparr>ac_totalRequests = 0, ac_successRequests = 0, ac_failedRequests = 0, ac_attemptedRecords = 0, ac_successRecords = 0,
      ac_failedRecords = 0, ac_requestBytes = 0, ac_latencies = [], ac_failureReasons = []\<rparr>"

definition request_failed :: "requestResult \<Rightarrow> bool" where
  "request_failed res \<longleftrightarrow> rr_Err res \<or> rr_Status res < 200 \<or> 300 \<le> rr_Status res \<or> 0 < rr_FailedRecords res"

text \<open>The body of the loop over the results.\<close>

definition soak_collect :: "soak_options \<Rightarrow> soak_acc \<Rightarrow> requestResult \<Rightarrow> soak_acc" where
  "soak_collect opts a res =
     (let a1 = a\<lparr>ac_totalRequests := wrap64 (ac_totalRequests a + 1),
                 ac_attemptedRecords := wrap64 (ac_attemptedRecords a + rr_Records res),
                 ac_successRecords := wrap64 (ac_successRecords a + rr_SuccessRecords res),
                 ac_failedRecords := wrap64 (ac_failedRecords a + rr_FailedRecords res),
                 ac_requestBytes := wrap64 (ac_requestBytes a + rr_Bytes res)\<rparr>;
          a2 = (if request_failed res
                then a1\<lparr>ac_failedRequests := wrap64 (ac_failedRequests a1 + 1),
                        ac_failureReasons := bump (if rr_FailureReason res = [] then ''unknown_failure'' else rr_FailureReason res)
                                               (ac_failureReasons a1)\<rparr>
                else a1\<lparr>ac_successRequests := wrap64 (ac_successRequests a1 + 1)\<rparr>)
      in if int (length (ac_latencies a2)) < so_MaxLatencySamples opts
         then a2\<lparr>ac_latencies := ac_latencies a2 @ [rr_Latency res]\<rparr> else a2)"

text \<open>\<open>p\<close> is a \<^verbatim>\<open>float64\<close>; the list is sorted.\<close>

definition soak_percentile :: "int list \<Rightarrow> rat \<Rightarrow> int" where
  "soak_percentile sorted_values p =
     (if sorted_values = [] then 0
      else let n = int (length sorted_values);
               idx0 = float_to_int (fl (float_of_int (n - 1) * p));
               idx1 = (if idx0 < 0 then 0 else idx0);
               idx = (if n \<le> idx1 then n - 1 else idx1)
           in sorted_values ! nat idx)"

definition topFailureReasons :: "(string \<times> int) list \<Rightarrow> int \<Rightarrow> failureCount list" where
  "topFailureReasons reasons limit =
     (if reasons = [] \<or> limit \<le> 0 then []
      else let out = sort_key (\<lambda>c. (- fc_Count c, fc_Reason c)) (map (\<lambda>(r, n). \<lparr>fc_Reason = r, fc_Count = n\<rparr>) reasons)
           in if limit < int (length out) then take (nat limit) out else out)"

record soak_summary =
  sm_URL :: string
  sm_Topic :: string
  sm_Duration :: int
  sm_Elapsed :: int
  sm_Clients :: int
  sm_RecordsPerRequest :: int
  sm_PayloadBytes :: int
  sm_Format :: string
  sm_TotalRequests :: int
  sm_SuccessRequests :: int
  sm_FailedRequests :: int
  sm_AttemptedRecords :: int
  sm_SuccessRecords :: int
  sm_FailedRecords :: int
  sm_RequestBytes :: int
  sm_RequestsPerSecond :: rat
  sm_RecordsPerSecond :: rat
  sm_RequestFailureRate :: rat
  sm_RecordFailureRate :: rat
  sm_P50 :: int
  sm_P95 :: int
  sm_P99 :: int
  sm_LatencySamples :: int
  sm_FailureBreakdown :: "failureCount list"

definition ratio :: "int \<Rightarrow> int \<Rightarrow> rat" where
  "ratio a b = (if 0 < b then fl (float_of_int a / float_of_int b) else 0)"

definition soak_summarize :: "soak_options \<Rightarrow> int \<Rightarrow> soak_acc \<Rightarrow> soak_summary" where
  "soak_summarize opts elapsed a =
     (let latencies = sort (ac_latencies a);
          secs0 = duration_seconds elapsed;
          secs = (if secs0 \<le> 0 then fl (1 / 1000) else secs0)
      in \<lparr>sm_URL = so_URL opts, sm_Topic = so_Topic opts, sm_Duration = so_Duration opts, sm_Elapsed = elapsed,
          sm_Clients = so_Clients opts, sm_RecordsPerRequest = so_RecordsPerRequest opts,
          sm_PayloadBytes = so_PayloadBytes opts, sm_Format = so_Format opts,
          sm_TotalRequests = ac_totalRequests a, sm_SuccessRequests = ac_successRequests a,
          sm_FailedRequests = ac_failedRequests a, sm_AttemptedRecords = ac_attemptedRecords a,
          sm_SuccessRecords = ac_successRecords a, sm_FailedRecords = ac_failedRecords a,
          sm_RequestBytes = ac_requestBytes a,
          sm_RequestsPerSecond = fl (float_of_int (ac_totalRequests a) / secs),
          sm_RecordsPerSecond = fl (float_of_int (ac_successRecords a) / secs),
          sm_RequestFailureRate = ratio (ac_failedRequests a) (ac_totalRequests a),
          sm_RecordFailureRate = ratio (ac_failedRecords a) (ac_attemptedRecords a),
          sm_P50 = soak_percentile latencies (fl (50 / 100)), sm_P95 = soak_percentile latencies (fl (95 / 100)),
          sm_P99 = soak_percentile latencies (fl (99 / 100)), sm_LatencySamples = int (length latencies),
          sm_FailureBreakdown = topFailureReasons (ac_failureReasons a) 8\<rparr>)"

text \<open>The results in the order in which they arrive on the channel.\<close>

definition runSoak :: "soak_options \<Rightarrow> requestResult list \<Rightarrow> int \<Rightarrow> soak_summary" where
  "runSoak opts results elapsed = soak_summarize opts elapsed (foldl (soak_collect opts) soak_start results)"

section \<open>The verdict\<close>

record violation =
  vi_Name :: string
  vi_Actual :: string
  vi_Threshold :: string

definition formatPercent :: "fval \<Rightarrow> string" where
  "formatPercent v = fval_fixed 4 (fval_mult v 100) @ ''%''"

definition evaluateThresholds :: "soak_summary \<Rightarrow> soak_thresholds \<Rightarrow> violation list" where
  "evaluateThresholds r limits =
     (if fval_less (th_MaxFailureRate limits) (Fin (sm_RecordFailureRate r))
      then [\<lparr>vi_Name = ''max_failure_rate'', vi_Actual = formatPercent (Fin (sm_RecordFailureRate r)),
             vi_Threshold = ''<= '' @ formatPercent (th_MaxFailureRate limits)\<rparr>] else []) @
     (if fval_less (Fin 0) (th_MinRecordsPerSecond limits) \<and> fval_less (Fin (sm_RecordsPerSecond r)) (th_MinRecordsPerSecond limits)
      then [\<lparr>vi_Name = ''min_records_sec'', vi_Actual = fixed 2 (sm_RecordsPerSecond r),
             vi_Threshold = ''>= '' @ fval_fixed 2 (th_MinRecordsPerSecond limits)\<rparr>] else []) @
     (if 0 < th_MaxP99 limits \<and> th_MaxP99 limits < sm_P99 r
      then [\<lparr>vi_Name = ''max_p99'', vi_Actual = duration_String (duration_Round (sm_P99 r) millisecond),
             vi_Threshold = ''<= '' @ duration_String (th_MaxP99 limits)\<rparr>] else [])"

definition formatFailureBreakdown :: "failureCount list \<Rightarrow> string" where
  "formatFailureBreakdown reasons = go_join '','' (map (\<lambda>c. fc_Reason c @ '':'' @ itoa (fc_Count c)) reasons)"

definition rounded :: "int \<Rightarrow> string" where
  "rounded d = duration_String (duration_Round d millisecond)"

text \<open>The printed lines, without their line ends.\<close>

definition printSummary :: "soak_summary \<Rightarrow> soak_thresholds \<Rightarrow> violation list \<Rightarrow> string list" where
  "printSummary r limits violations =
     (''soak_result='' @ (if violations \<noteq> [] then ''fail'' else ''pass'') @ '' url='' @ sm_URL r @ '' topic='' @ sm_Topic r @
      '' duration='' @ duration_String (sm_Duration r) @ '' elapsed='' @ rounded (sm_Elapsed r) @
      '' clients='' @ itoa (sm_Clients r) @ '' records_per_request='' @ itoa (sm_RecordsPerRequest r) @
      '' payload_bytes='' @ itoa (sm_PayloadBytes r) @ '' format='' @ sm_Format r @
      '' requests='' @ itoa (sm_TotalRequests r) @ '' success_requests='' @ itoa (sm_SuccessRequests r) @
      '' failed_requests='' @ itoa (sm_FailedRequests r) @ '' attempted_records='' @ itoa (sm_AttemptedRecords r) @
      '' success_records='' @ itoa (sm_SuccessRecords r) @ '' failed_records='' @ itoa (sm_FailedRecords r) @
      '' records_per_sec='' @ fixed 2 (sm_RecordsPerSecond r) @ '' requests_per_sec='' @ fixed 2 (sm_RequestsPerSecond r) @
      '' record_failure_rate='' @ formatPercent (Fin (sm_RecordFailureRate r)) @
      '' request_failure_rate='' @ formatPercent (Fin (sm_RequestFailureRate r)) @
      '' p50='' @ rounded (sm_P50 r) @ '' p95='' @ rounded (sm_P95 r) @ '' p99='' @ rounded (sm_P99 r) @
      '' latency_samples='' @ itoa (sm_LatencySamples r) @
      '' thresholds=max_failure_rate:'' @ formatPercent (th_MaxFailureRate limits) @
      '',min_records_sec:'' @ fval_fixed 2 (th_MinRecordsPerSecond limits) @ '',max_p99:'' @ duration_String (th_MaxP99 limits))
     # (if sm_FailureBreakdown r \<noteq> [] then [''failure_breakdown='' @ formatFailureBreakdown (sm_FailureBreakdown r)] else [])
     @ map (\<lambda>v. ''violation='' @ vi_Name v @ '' actual='' @ vi_Actual v @ '' threshold='' @ vi_Threshold v) violations"

definition warmup_line :: "soak_summary \<Rightarrow> string" where
  "warmup_line r =
     ''warmup_complete elapsed='' @ rounded (sm_Elapsed r) @ '' requests='' @ itoa (sm_TotalRequests r) @
     '' records='' @ itoa (sm_SuccessRecords r) @ '' records_per_sec='' @ fixed 2 (sm_RecordsPerSecond r) @
     '' failure_rate='' @ fixed 4 (fl (sm_RecordFailureRate r * 100)) @ ''% p99='' @ rounded (sm_P99 r)"

text \<open>
  \<^verbatim>\<open>main\<close>: the exit status, what goes to standard output and what to standard error.
  \<open>exec\<close> is what a run with some options and a body brings: its results and the time it took.
\<close>

definition soak_main ::
  "(string \<Rightarrow> fval option) \<Rightarrow> (string \<Rightarrow> string + string \<times> string \<times> string) \<Rightarrow>
     (soak_options \<Rightarrow> bytes \<Rightarrow> requestResult list \<times> int) \<Rightarrow> message + soak_flags \<times> string list \<Rightarrow>
     int \<times> string list \<times> message" where
  "soak_main parseFloat parseURL exec parsed =
     (case parseOptions parseFloat parseURL parsed of Err e \<Rightarrow> (2, [], e)
      | Ok opts \<Rightarrow>
        let body = soak_buildBody (so_RecordsPerRequest opts) (so_PayloadBytes opts) (so_Format opts);
            run1 = (\<lambda>o1. case exec o1 body of (results, elapsed) \<Rightarrow> runSoak o1 results elapsed);
            warm = (if 0 < so_Warmup opts then [warmup_line (run1 (opts\<lparr>so_Duration := so_Warmup opts\<rparr>))] else []);
            r = run1 opts;
            violations = evaluateThresholds r (so_Thresholds opts)
        in (if violations \<noteq> [] then 1 else 0, warm @ printSummary r (so_Thresholds opts) violations, []))"

end
