(* ===== verification/Soak_Props.thy ===== *)
theory Soak_Props
  imports Soak V2_Decode "HOL-Library.Multiset"
begin

text \<open>
  Properties of the soak test: what it counts is what the proxy reported, what it sends is what the
  proxy accepts, its totals add up, its percentiles are values of the sample in order, and its
  verdict is the conjunction of the thresholds.
\<close>

section \<open>Counting the proxy's response\<close>

definition soak_offset_of :: "Result \<Rightarrow> soak_offset" where
  "soak_offset_of r = \<lparr>of_ErrorCode = po_ErrorCode (offset_of r), of_Error = po_Error (offset_of r)\<rparr>"

lemma dec_soak_offset:
  assumes "result_fits r"
  shows "dec_struct soak_offset_fields (canon (offset_json p r)) zero_soak_offset = (soak_offset_of r, DecOk)"
proof -
  have e: "dec_ptr 0 (dec_int 64) (num_json (po_ErrorCode (offset_of r))) None = (po_ErrorCode (offset_of r), DecOk)"
    using assms by (intro dec_num_json) (auto simp: result_fits_def offset_of_def in_int64_pow)
  have m: "dec_ptr [] dec_string (case po_Error (offset_of r) of None \<Rightarrow> JNull | Some m \<Rightarrow> JStr (quote p m)) None =
      (po_Error (offset_of r), DecOk)"
    using assms quote_printable_token [of "resultErrorMessage r" p]
    by (auto simp: result_fits_def offset_of_def dec_ptr_def)
  have c: "canon (case po_Error (offset_of r) of None \<Rightarrow> JNull | Some m \<Rightarrow> JStr (quote p m)) =
      (case po_Error (offset_of r) of None \<Rightarrow> JNull | Some m \<Rightarrow> JStr (quote p m))"
    by (simp split: option.split)
  have f: "foldName ''partition'' = ''PARTITION''" "foldName ''offset'' = ''OFFSET''" "foldName ''error_code'' = ''ERROR_CODE''"
    "foldName ''error'' = ''ERROR''" by code_simp+
  show ?thesis
    by (simp add: offset_json_def Let_def soak_offset_fields_def find_field_def str_val_keys fld_def f
        zero_soak_offset_def e m c seq_status_def soak_offset_of_def)
qed

lemma dec_soak_offsets:
  "\<forall>r\<in>set rs. result_fits r \<Longrightarrow>
   dec_elems zero_soak_offset (dec_struct soak_offset_fields) (map (\<lambda>r. canon (offset_json p r)) rs) [] =
     (map soak_offset_of rs, DecOk)"
  by (induction rs) (simp_all add: dec_soak_offset seq_status_def)

lemma soak_reads_response:
  assumes "\<forall>r\<in>set rs. result_fits r"
  shows "\<exists>offs. unmarshal soak_response_decoder (appendProduceResponse p [] rs m) None = (offs, True) \<and>
    slice_elems offs = map soak_offset_of rs"
proof -
  have f: "foldName ''offsets'' = ''OFFSETS''" "foldName ''key_schema_id'' = ''KEY_SCHEMA_ID''"
    "foldName ''value_schema_id'' = ''VALUE_SCHEMA_ID''" by code_simp+
  show ?thesis
    using response_parses [of rs p m] assms dec_soak_offsets [OF assms, of p]
    by (auto simp: unmarshal_def response_json_def soak_response_decoder_def find_field_def str_val_keys f seq_status_def comp_def
        slice_elems_def result_fits_def)
qed

lemma offset_failed_iff: "offset_failed (soak_offset_of r) \<longleftrightarrow> resultFailed r"
  by (simp add: offset_failed_def soak_offset_of_def offset_of_def)

lemma count_offsets_counts:
  "count_offsets (map soak_offset_of rs) a b reason =
     (a + fst (countResultStatus rs), b + snd (countResultStatus rs),
      if reason \<noteq> [] then reason
      else case filter resultFailed rs of [] \<Rightarrow> [] | r # _ \<Rightarrow> ''record_error_code_'' @ itoa (resultErrorCode r))"
proof (induction rs arbitrary: a b reason)
  case (Cons r rs)
  have "resultFailed r \<Longrightarrow> recordFailureReason (soak_offset_of r) = ''record_error_code_'' @ itoa (resultErrorCode r)"
    by (simp add: recordFailureReason_def soak_offset_of_def offset_of_def)
  then show ?case using Cons by (simp add: offset_failed_iff split_beta)
qed simp

lemma soak_counts:
  assumes "\<forall>r\<in>set rs. result_fits r"
  shows "countRecordResults (appendProduceResponse isPrint [] rs meta) (int (length rs)) =
    Ok (fst (countResultStatus rs), snd (countResultStatus rs),
        case filter resultFailed rs of [] \<Rightarrow> [] | r # _ \<Rightarrow> ''record_error_code_'' @ itoa (resultErrorCode r))"
proof -
  obtain offs where "unmarshal soak_response_decoder (appendProduceResponse isPrint [] rs meta) None = (offs, True)"
    "slice_elems offs = map soak_offset_of rs" using soak_reads_response [OF assms] by blast
  then show ?thesis by (simp add: countRecordResults_def Let_def count_offsets_counts)
qed

text \<open>
  The soak test counts what the proxy reports. For every list of results whose numbers fit
  their types and whose error texts are printable ASCII, reading the response the proxy writes for
  them gives exactly the proxy's own count of successes and failures, with the error code of the
  first failure as the reason.
\<close>

theorem soak_counts_proxy_results:
  assumes "\<forall>r\<in>set rs. result_fits r"
  shows "countRecordResults (appendProduceResponse isPrint [] rs meta) (int (length rs)) =
    Ok (fst (countResultStatus rs), snd (countResultStatus rs),
        case filter resultFailed rs of [] \<Rightarrow> [] | r # _ \<Rightarrow> ''record_error_code_'' @ itoa (resultErrorCode r))"
  by (rule soak_counts [OF assms])

theorem soak_counts_proxy_results_witness:
  "countRecordResults (appendProduceResponse (\<lambda>_. True) []
     [\<lparr>res_Partition = 3, res_Offset = 17, res_ErrorCode = None, res_Err = None\<rparr>,
      \<lparr>res_Partition = 0, res_Offset = 0, res_ErrorCode = Some 6, res_Err = Some (KafkaErr ''NOT_LEADER'')\<rparr>]
     \<lparr>pm_KeySchemaID = None, pm_ValueSchemaID = None\<rparr>) 2 = Ok (1, 1, ''record_error_code_6'')"
proof -
  have "itoa 6 = ''6''" by (simp add: itoa_def nat_digits.simps digit_char_def char_of_code_eq)
  then show ?thesis
    using soak_counts_proxy_results [of "[\<lparr>res_Partition = 3, res_Offset = 17, res_ErrorCode = None, res_Err = None\<rparr>,
      \<lparr>res_Partition = 0, res_Offset = 0, res_ErrorCode = Some 6, res_Err = Some (KafkaErr ''NOT_LEADER'')\<rparr>]" "\<lambda>_. True"
      "\<lparr>pm_KeySchemaID = None, pm_ValueSchemaID = None\<rparr>"]
    by (simp add: result_fits_def resultErrorCode_def resultErrorMessage_def resultFailed_def confluentKafkaRecordErrorCode_def
        in_int64_def max_int64_def printable_def)
qed

section \<open>Requests with values only\<close>

definition value_record :: "json \<Rightarrow> rawRecord" where
  "value_record v = zero_rawRecord\<lparr>rr_Value := \<lparr>nr_Present = True, nr_Raw = render v\<rparr>\<rparr>"

definition value_request :: "json list \<Rightarrow> bytes" where
  "value_request vs = render (JObj [] [(json_string ''records'', JArr [] (map (\<lambda>v. JObj [] [(json_string ''value'', v)]) vs))])"

lemma dec_value_record:
  "dec_struct rawRecord_fields (canon (JObj [] [(json_string ''value'', v)])) zero_rawRecord = (value_record v, DecOk)"
  by (simp add: rawRecord_fields_def find_field_def str_val_request_keys fld_def nullableRaw_UnmarshalJSON_def
      zero_rawRecord_def seq_status_def value_record_def raw_canon)

lemma dec_value_records:
  "dec_elems zero_rawRecord (dec_struct rawRecord_fields) (map (\<lambda>v. canon (JObj [] [(json_string ''value'', v)])) vs) [] =
     (map value_record vs, DecOk)"
  by (induction vs) (simp_all add: dec_value_record seq_status_def del: canon.simps)

lemma unmarshal_value_request:
  assumes "vs \<noteq> []" "\<forall>v\<in>set vs. tokens_ok v \<and> jdepth v \<le> 10"
  shows "unmarshal (dec_struct rawProduceRequest_fields) (value_request vs) zero_rawProduceRequest =
    (zero_rawProduceRequest\<lparr>pr_Records := Some (map value_record vs, length vs)\<rparr>, True)"
proof -
  let ?j = "JObj [] [(json_string ''records'', JArr [] (map (\<lambda>v. JObj [] [(json_string ''value'', v)]) vs))]"
  have "\<forall>v\<in>set vs. jdepth v \<le> 10 \<Longrightarrow> foldr max (map (\<lambda>v. Suc (jdepth v)) vs) 0 \<le> 11"
    by (induction vs) simp_all
  then have "json_parse (value_request vs) = Some (canon ?j)"
    using json_parse_render [of ?j "[]"] json_string_token assms(2)
    by (simp add: value_request_def list_all_iff maxNestingDepth_def comp_def)
  then show ?thesis using assms(1) dec_value_records [of vs]
    by (simp add: unmarshal_def rawProduceRequest_fields_def find_field_def str_val_request_keys fld_def
        zero_rawProduceRequest_def seq_status_def comp_def)
qed

lemma decode_value_loop:
  assumes "schemaType format = []" "\<forall>v\<in>set vs. decodeNullableValue \<lparr>nr_Present = True, nr_Raw = render v\<rparr> format = Ok (Some (f v)) \<and>
      int (length (f v)) \<le> dl_MaxRecordBytes l" "0 \<le> dl_MaxKeyBytes l"
  shows "decode_loop enc topic format l req None i (map value_record vs) (\<lparr>pm_KeySchemaID = None, pm_ValueSchemaID = None\<rparr>, st) =
   (Ok (map (\<lambda>v. plain_record topic (None, Some (f v))) vs, \<lparr>pm_KeySchemaID = None, pm_ValueSchemaID = None\<rparr>), st)"
  using assms(2)
proof (induction vs arbitrary: i)
  case (Cons v vs)
  have "decodeNullableValue zero_nullableRaw format = Ok None" by (simp add: decodeNullableValue_def zero_nullableRaw_def)
  then show ?case using Cons assms(1,3)
    by (simp add: decode_one_def decodeV2NullableValue_def value_record_def zero_rawRecord_def slice_elems_def
        decodeHeaders_def first_some_def zero_Metadata_def SizeBytes_def plain_record_def len_nil_def)
qed simp

section \<open>The soak body is accepted\<close>

definition soak_payload :: "int \<Rightarrow> bytes" where
  "soak_payload payloadBytes = replicate (nat payloadBytes) (CHR ''x'')"

definition soak_sent :: "string \<Rightarrow> int \<Rightarrow> nat \<Rightarrow> bytes" where
  "soak_sent format payloadBytes i =
     (if format = ''binary'' then soak_payload payloadBytes else render (soak_value_json format (soak_payload payloadBytes) i))"

definition soak_format :: "string \<Rightarrow> payloadFormat" where
  "soak_format format = fst (parseContentType (soak_contentTypeForFormat format))"

lemma soak_value_ok: "tokens_ok (soak_value_json format p i)" "jdepth (soak_value_json format p i) \<le> 10"
  using json_string_token num_tok_itoa by (auto simp: soak_value_json_def)

lemma decode_json_payload:
  assumes "tokens_ok v" "jdepth v \<le> 10" "render v \<noteq> ''null''"
  shows "decodeNullableValue \<lparr>nr_Present = True, nr_Raw = render v\<rparr> formatJSON = Ok (Some (render v))"
proof -
  have p: "json_parse (render v) = Some (canon v)" using json_parse_render [of v "[]"] assms(1,2) by (simp add: maxNestingDepth_def)
  have "trimSpace (render v) = render v" using trimSpace_spelled [OF spells_canon [OF assms(1)], of "[]" "[]"] by (simp add: raw_canon)
  then have "\<not> isJSONNull (render v)" using assms(3) by (simp add: isJSONNull_def)
  then show ?thesis using decodeJSONValue_valid [OF p] by (simp add: decodeNullableValue_def)
qed

lemma soak_content_types:
  "parseContentType (soak_contentTypeForFormat ''binary'') = (formatBinary, True)"
  "parseContentType (soak_contentTypeForFormat ''json'') = (formatJSON, True)"
  by (simp_all add: soak_contentTypeForFormat_def kafka_content_types)

lemma soak_value_decodes:
  assumes "format = ''json'' \<or> format = ''binary''"
  shows "decodeNullableValue \<lparr>nr_Present = True, nr_Raw = render (soak_value_json format (soak_payload k) i)\<rparr> (soak_format format) =
    Ok (Some (soak_sent format k i))"
proof (cases "format = ''binary''")
  case True
  then show ?thesis
    using decode_binary_value [of "Some (soak_payload k)"]
    by (simp add: soak_format_def soak_content_types soak_value_json_def soak_sent_def binary_json_def)
next
  case False
  then have f: "format = ''json''" using assms by simp
  have "render (soak_value_json format (soak_payload k) i) \<noteq> ''null''" using False by (simp add: soak_value_json_def)
  then show ?thesis
    using decode_json_payload [OF soak_value_ok] by (simp add: soak_format_def soak_content_types soak_sent_def f)
qed

lemma parseOptions_ok:
  assumes "parseOptions parseFloat parseURL parsed = Ok opts"
  shows "(so_Format opts = ''json'' \<or> so_Format opts = ''binary'') \<and> 0 < so_RecordsPerRequest opts \<and> 0 \<le> so_PayloadBytes opts \<and>
    0 < so_Clients opts \<and> 0 < so_Duration opts \<and> 0 < so_Timeout opts \<and> 0 < so_MaxLatencySamples opts \<and> so_Topic opts \<noteq> []"
proof -
  have f: "soak_parseFormat v = Ok f \<Longrightarrow> f = ''json'' \<or> f = ''binary''" for v f
    by (auto simp: soak_parseFormat_def Let_def split: if_splits)
  show ?thesis using assms by (auto dest!: f simp: parseOptions_def not_le not_less split: sum.splits prod.splits if_splits)
qed

lemma soak_decodes:
  assumes "parseOptions parseFloat parseURL parsed = Ok opts"
    and "so_RecordsPerRequest opts \<le> dl_MaxRecords (limits_withDefaults l)"
    and "\<forall>i < nat (so_RecordsPerRequest opts).
      int (length (soak_sent (so_Format opts) (so_PayloadBytes opts) i)) \<le> dl_MaxRecordBytes (limits_withDefaults l)"
  shows "decodeProduceRequestWithSchema enc st topic (soak_buildBody (so_RecordsPerRequest opts) (so_PayloadBytes opts) (so_Format opts))
      (soak_format (so_Format opts)) l None =
    (Ok (map (\<lambda>i. plain_record topic (None, Some (soak_sent (so_Format opts) (so_PayloadBytes opts) i))) [0..<nat (so_RecordsPerRequest opts)],
         \<lparr>pm_KeySchemaID = None, pm_ValueSchemaID = None\<rparr>), st)"
proof -
  note ok = parseOptions_ok [OF assms(1)]
  let ?f = "so_Format opts" and ?n = "nat (so_RecordsPerRequest opts)" and ?k = "so_PayloadBytes opts"
  let ?v = "\<lambda>i. soak_value_json ?f (soak_payload ?k) i"
  have body: "soak_buildBody (so_RecordsPerRequest opts) ?k ?f = value_request (map ?v [0..<?n])"
    by (simp add: soak_buildBody_def value_request_def soak_payload_def Let_def comp_def)
  have u: "unmarshal (dec_struct rawProduceRequest_fields) (value_request (map ?v [0..<?n])) zero_rawProduceRequest =
      (zero_rawProduceRequest\<lparr>pr_Records := Some (map value_record (map ?v [0..<?n]), ?n)\<rparr>, True)"
    using unmarshal_value_request [of "map ?v [0..<?n]"] soak_value_ok ok by simp
  have st: "schemaType (soak_format ?f) = []" using ok by (auto simp: soak_format_def soak_content_types)
  let ?g = "\<lambda>v. if ?f = ''binary'' then soak_payload ?k else render v"
  have "\<forall>v\<in>set (map ?v [0..<?n]). decodeNullableValue \<lparr>nr_Present = True, nr_Raw = render v\<rparr> (soak_format ?f) = Ok (Some (?g v)) \<and>
      int (length (?g v)) \<le> dl_MaxRecordBytes (limits_withDefaults l)"
    using soak_value_decodes ok assms(3) by (auto simp: soak_sent_def)
  from decode_value_loop [OF st this less_imp_le [OF limits_withDefaults_positive(3)]]
  have "decode_loop enc topic (soak_format ?f) (limits_withDefaults l) req None 0 (map value_record (map ?v [0..<?n]))
      (\<lparr>pm_KeySchemaID = None, pm_ValueSchemaID = None\<rparr>, st) =
     (Ok (map (\<lambda>i. plain_record topic (None, Some (soak_sent ?f ?k i))) [0..<?n], \<lparr>pm_KeySchemaID = None, pm_ValueSchemaID = None\<rparr>), st)" for req
    by (simp add: comp_def soak_sent_def)
  then show ?thesis
    using ok assms(2)
    by (auto simp: body decodeProduceRequestWithSchema_def u Let_def slice_elems_def soak_content_types)
qed

text \<open>
  The proxy accepts what the soak test sends. For options the soak test accepts, its content
  type is one the proxy knows, and its body, within the proxy's limits, is decoded to exactly the
  configured number of records, without keys, each with the payload (binary) or with the JSON text
  of its index and payload.
\<close>

theorem soak_body_accepted:
  assumes "parseOptions parseFloat parseURL parsed = Ok opts"
    and "so_RecordsPerRequest opts \<le> dl_MaxRecords (limits_withDefaults l)"
    and "\<forall>i < nat (so_RecordsPerRequest opts).
      int (length (soak_sent (so_Format opts) (so_PayloadBytes opts) i)) \<le> dl_MaxRecordBytes (limits_withDefaults l)"
  shows "snd (parseContentType (soak_contentTypeForFormat (so_Format opts))) \<and>
    decodeProduceRequestWithSchema enc st topic (soak_buildBody (so_RecordsPerRequest opts) (so_PayloadBytes opts) (so_Format opts))
      (soak_format (so_Format opts)) l None =
    (Ok (map (\<lambda>i. plain_record topic (None, Some (soak_sent (so_Format opts) (so_PayloadBytes opts) i))) [0..<nat (so_RecordsPerRequest opts)],
         \<lparr>pm_KeySchemaID = None, pm_ValueSchemaID = None\<rparr>), st)"
  using soak_decodes [OF assms] parseOptions_ok [OF assms(1)] by (auto simp: soak_content_types)

definition demo_soak_flags :: soak_flags where
  "demo_soak_flags =
     \<lparr>sf_url = ''http://h/'', sf_topic = ''t'', sf_duration = 1, sf_warmup = 0, sf_clients = 1, sf_recordsPerRequest = 2,
      sf_payloadBytes = 3, sf_format = ''bin'', sf_timeout = 1, sf_maxLatencySamples = 10, sf_maxFailureRate = ''0'',
      sf_minRecordsPerSec = Fin 0, sf_maxP99 = 0\<rparr>"

definition demo_soak_options :: soak_options where
  "demo_soak_options =
     \<lparr>so_URL = ''http://h'', so_Topic = ''t'', so_Duration = 1, so_Warmup = 0, so_Clients = 1, so_RecordsPerRequest = 2,
      so_PayloadBytes = 3, so_Format = ''binary'', so_Timeout = 1, so_MaxLatencySamples = 10,
      so_Thresholds = \<lparr>th_MaxFailureRate = Fin 0, th_MinRecordsPerSecond = Fin 0, th_MaxP99 = 0\<rparr>\<rparr>"

lemma demo_parseOptions:
  "parseOptions (\<lambda>_. Some (Fin 0)) (\<lambda>u. Ok (''http'', ''h'', ''/'')) (Ok (demo_soak_flags, [])) = Ok demo_soak_options"
proof -
  have t: "trimSpace ''http://h/'' = ''http://h/''" "trimSpace ''t'' = ''t''" "trimSpace ''bin'' = ''bin''" "trimSpace ''0'' = ''0''"
    by (rule trimSpace_id; simp add: space_len_def space_len_end_def ascii_space_def space2_def space3_def)+
  have l: "toLower ''bin'' = ''bin''" by code_simp
  show ?thesis
    by (simp add: parseOptions_def demo_soak_flags_def demo_soak_options_def t l soak_parseFormat_def parseFailureRate_def hasSuffix_def
        trimSuffix_def trimRight_char_def Let_def)
qed

theorem soak_body_accepted_witness:
  "fst (decodeProduceRequestWithSchema (None :: unit schemaEncoder option) () ''t'' (soak_buildBody 2 3 ''binary'') formatBinary demo_limits None) =
   Ok ([plain_record ''t'' (None, Some ''xxx''), plain_record ''t'' (None, Some ''xxx'')], \<lparr>pm_KeySchemaID = None, pm_ValueSchemaID = None\<rparr>)"
  using soak_body_accepted [OF demo_parseOptions, of demo_limits "None :: unit schemaEncoder option" "()" "''t''"]
  by (simp add: demo_soak_options_def demo_limits_def limits_withDefaults_def positive_or_def soak_sent_def soak_payload_def soak_format_def
      soak_content_types numeral_eq_Suc)

section \<open>Totals\<close>

text \<open>What holds of the totals after every result.\<close>

definition totals_ok :: "soak_acc \<Rightarrow> bool" where
  "totals_ok a \<longleftrightarrow>
     ac_totalRequests a = wrap64 (ac_successRequests a + ac_failedRequests a) \<and>
     ac_attemptedRecords a = wrap64 (ac_successRecords a + ac_failedRecords a) \<and>
     ac_failedRequests a = wrap64 (\<Sum>c\<leftarrow>ac_failureReasons a. snd c)"

lemma bump_sum: "wrap64 (\<Sum>c\<leftarrow>bump reason m. snd c) = wrap64 (1 + (\<Sum>c\<leftarrow>m. snd c))"
proof (induction reason m rule: bump.induct)
  case (2 reason k n m)
  show ?case
  proof (cases "k = reason")
    case True
    then show ?thesis by (simp add: wrap64_add_wrap add.assoc add.left_commute)
  next
    case False
    have "wrap64 (n + (\<Sum>c\<leftarrow>bump reason m. snd c)) = wrap64 (n + wrap64 (\<Sum>c\<leftarrow>bump reason m. snd c))"
      by (simp add: wrap64_add_wrap)
    then show ?thesis using False 2 by (simp add: wrap64_add_wrap algebra_simps)
  qed
qed simp

lemma soak_collect_totals:
  assumes "totals_ok a" "rr_SuccessRecords res + rr_FailedRecords res = rr_Records res"
  shows "totals_ok (soak_collect opts a res)"
proof -
  have r: "wrap64 (wrap64 (ac_successRecords a + ac_failedRecords a) + rr_Records res) =
      wrap64 (wrap64 (ac_successRecords a + rr_SuccessRecords res) + wrap64 (ac_failedRecords a + rr_FailedRecords res))"
    unfolding wrap64_add_wrap using assms(2) [symmetric] by (simp add: algebra_simps)
  have q: "wrap64 (wrap64 (x + y) + 1) = wrap64 (x + wrap64 (y + 1))" "wrap64 (wrap64 (x + y) + 1) = wrap64 (wrap64 (x + 1) + y)" for x y
    unfolding wrap64_add_wrap by (simp_all add: algebra_simps)
  have f: "wrap64 (wrap64 (\<Sum>c\<leftarrow>m. snd c) + 1) = wrap64 (\<Sum>c\<leftarrow>bump reason m. snd c)" for m :: "(string \<times> int) list" and reason
    unfolding bump_sum wrap64_add_wrap by (simp add: algebra_simps)
  show ?thesis using assms(1) r q f by (simp add: totals_ok_def soak_collect_def Let_def)
qed

lemma foldl_totals:
  "totals_ok a \<Longrightarrow> \<forall>res\<in>set results. rr_SuccessRecords res + rr_FailedRecords res = rr_Records res \<Longrightarrow>
   totals_ok (foldl (soak_collect opts) a results)"
  by (induction results arbitrary: a) (simp_all add: soak_collect_totals)

lemma count_offsets_sum: "count_offsets os a b reason = (x, y, z) \<Longrightarrow> x + y = a + b + length os"
  by (induction os arbitrary: a b reason) (auto split: if_splits dest: sym)

lemma soak_postOnce_records:
  "rr_SuccessRecords (soak_postOnce isPrint wording opts body ex lat) + rr_FailedRecords (soak_postOnce isPrint wording opts body ex lat) =
   rr_Records (soak_postOnce isPrint wording opts body ex lat)"
proof -
  have "int x + int y = n" if "countRecordResults b n = Ok (x, y, z)" for b n x y z
    using that by (auto simp: countRecordResults_def Let_def dest!: count_offsets_sum split: prod.splits if_splits)
  then show ?thesis
    by (auto simp: soak_postOnce_def soak_failure_def split: exchange.split sum.split prod.split)
qed

text \<open>
  C31: the totals of a soak run add up. Whatever the exchanges were and in whatever order their
  results arrived, the requests are the successful and the failed ones, the attempted records are
  the successful and the failed ones, and the failed requests are the sum of the counts of all
  failure reasons, in the 64-bit arithmetic of the counters.
\<close>

theorem soak_totals_add_up:
  "totals_ok (foldl (soak_collect opts) soak_start (map (\<lambda>(ex, lat). soak_postOnce isPrint wording opts body ex lat) exchanges))"
  by (rule foldl_totals) (auto simp: totals_ok_def soak_start_def wrap64_def soak_postOnce_records)

section \<open>Percentiles\<close>

definition percentile_index :: "int \<Rightarrow> rat \<Rightarrow> int" where
  "percentile_index n p =
     (let idx0 = float_to_int (fl (float_of_int (n - 1) * p)); idx1 = (if idx0 < 0 then 0 else idx0)
      in if n \<le> idx1 then n - 1 else idx1)"

lemma soak_percentile_index:
  "xs \<noteq> [] \<Longrightarrow> soak_percentile xs p = xs ! nat (percentile_index (int (length xs)) p)"
  by (simp add: soak_percentile_def percentile_index_def Let_def)

lemma percentile_index_bounds: "0 < n \<Longrightarrow> 0 \<le> percentile_index n p \<and> percentile_index n p < n"
  by (simp add: percentile_index_def Let_def)

lemma percentile_index_mono:
  assumes "0 < n" "0 \<le> p" "p \<le> q"
  shows "percentile_index n p \<le> percentile_index n q"
proof -
  have "0 \<le> float_of_int (n - 1)" using assms(1) by (simp add: float_of_int_nonneg)
  then have "fl (float_of_int (n - 1) * p) \<le> fl (float_of_int (n - 1) * q)" "0 \<le> fl (float_of_int (n - 1) * p)"
    using assms(2,3) by (auto intro!: fl_mono flr.rnd_nonneg mult_left_mono)
  then have "float_to_int (fl (float_of_int (n - 1) * p)) \<le> float_to_int (fl (float_of_int (n - 1) * q))"
    by (auto simp: float_to_int_def intro: floor_mono)
  then show ?thesis by (auto simp: percentile_index_def Let_def)
qed

lemma soak_percentile_mono:
  assumes "sorted xs" "0 \<le> p" "p \<le> q"
  shows "soak_percentile xs p \<le> soak_percentile xs q"
proof (cases "xs = []")
  case False
  then have n: "0 < int (length xs)" by simp
  show ?thesis
    using percentile_index_mono [OF n assms(2,3)] percentile_index_bounds [OF n, of q] percentile_index_bounds [OF n, of p] False assms(1)
    by (auto simp: soak_percentile_index intro!: sorted_nth_mono)
qed (simp add: soak_percentile_def)

lemma soak_percentile_in: "xs \<noteq> [] \<Longrightarrow> soak_percentile xs p \<in> set xs"
  using percentile_index_bounds [of "int (length xs)" p] by (auto simp: soak_percentile_index intro!: nth_mem)

lemma soak_latencies:
  "int (length (ac_latencies a)) \<le> so_MaxLatencySamples opts \<Longrightarrow>
   ac_latencies (foldl (soak_collect opts) a results) = take (nat (so_MaxLatencySamples opts)) (ac_latencies a @ map rr_Latency results)"
proof (induction results arbitrary: a)
  case (Cons res results)
  have "ac_latencies (soak_collect opts a res) =
      (if int (length (ac_latencies a)) < so_MaxLatencySamples opts then ac_latencies a @ [rr_Latency res] else ac_latencies a)"
    by (simp add: soak_collect_def Let_def)
  then show ?case using Cons by (auto simp: take_Cons' Suc_diff_Suc)
qed simp

text \<open>
  C32: the percentiles of a soak run are latencies of the run, in order. For every non-empty run
  and at least one retained sample, the reported 50th, 95th and 99th percentile are latencies that
  were measured, among the first ones retained, each at most the next, though the indices are
  computed in floating point.
\<close>

theorem soak_percentiles_ordered:
  assumes "results \<noteq> []" and "0 < so_MaxLatencySamples opts"
  shows "sm_P50 (runSoak opts results elapsed) \<le> sm_P95 (runSoak opts results elapsed) \<and>
    sm_P95 (runSoak opts results elapsed) \<le> sm_P99 (runSoak opts results elapsed) \<and>
    {sm_P50 (runSoak opts results elapsed), sm_P95 (runSoak opts results elapsed), sm_P99 (runSoak opts results elapsed)}
      \<subseteq> set (take (nat (so_MaxLatencySamples opts)) (map rr_Latency results))"
proof -
  let ?xs = "sort (ac_latencies (foldl (soak_collect opts) soak_start results))"
  have l: "ac_latencies (foldl (soak_collect opts) soak_start results) = take (nat (so_MaxLatencySamples opts)) (map rr_Latency results)"
    using soak_latencies [of soak_start opts results] assms(2) by (simp add: soak_start_def)
  then have "ac_latencies (foldl (soak_collect opts) soak_start results) \<noteq> []" using assms by simp
  then have ne: "?xs \<noteq> []" by (metis set_empty set_sort)
  have "0 \<le> fl (50 / 100)" "fl (50 / 100) \<le> fl (95 / 100)" "0 \<le> fl (95 / 100)" "fl (95 / 100) \<le> fl (99 / 100)"
    by (auto intro!: fl_mono flr.rnd_nonneg)
  then have "soak_percentile ?xs (fl (50 / 100)) \<le> soak_percentile ?xs (fl (95 / 100))"
    "soak_percentile ?xs (fl (95 / 100)) \<le> soak_percentile ?xs (fl (99 / 100))"
    by (auto intro: soak_percentile_mono)
  moreover have "soak_percentile ?xs p \<in> set (take (nat (so_MaxLatencySamples opts)) (map rr_Latency results))" for p
    using soak_percentile_in [OF ne] l by simp
  moreover have "sm_P50 (runSoak opts results elapsed) = soak_percentile ?xs (fl (50 / 100))"
    "sm_P95 (runSoak opts results elapsed) = soak_percentile ?xs (fl (95 / 100))"
    "sm_P99 (runSoak opts results elapsed) = soak_percentile ?xs (fl (99 / 100))"
    unfolding runSoak_def soak_summarize_def Let_def by (simp_all only: soak_summary.simps)
  ultimately show ?thesis by (simp only: insert_subset empty_subsetI simp_thms)
qed

theorem soak_percentiles_ordered_witness:
  "sm_P50 (runSoak demo_soak_options [soak_failure demo_soak_options [] 0 7 True ''x'', soak_failure demo_soak_options [] 0 5 True ''x''] 9) \<in> {5, 7}"
proof -
  have "set (take (nat (so_MaxLatencySamples demo_soak_options))
      (map rr_Latency [soak_failure demo_soak_options [] 0 7 True ''x'', soak_failure demo_soak_options [] 0 5 True ''x''])) \<subseteq> {5, 7}"
    by (auto simp: soak_failure_def dest!: in_set_takeD)
  moreover have "0 < so_MaxLatencySamples demo_soak_options" by (simp add: demo_soak_options_def)
  ultimately show ?thesis
    using soak_percentiles_ordered [of "[soak_failure demo_soak_options [] 0 7 True ''x'', soak_failure demo_soak_options [] 0 5 True ''x'']"
        demo_soak_options 9] by blast
qed

section \<open>Failure reasons\<close>

text \<open>The report does not depend on the order in which the map of reasons is iterated.\<close>

lemma topFailureReasons_order:
  assumes "mset xs = mset ys" "distinct (map fst xs)"
  shows "topFailureReasons xs k = topFailureReasons ys k"
proof -
  let ?key = "\<lambda>c. (- fc_Count c, fc_Reason c)" and ?f = "\<lambda>(r, n). \<lparr>fc_Reason = r, fc_Count = n\<rparr>"
  have inj: "inj_on ?key A" for A :: "failureCount set" by (auto simp: inj_on_def)
  have "distinct xs" "distinct ys" using assms by (auto simp: distinct_map dest: mset_eq_imp_distinct_iff)
  moreover have "inj ?f" by (auto simp: inj_def)
  ultimately have "distinct (map ?f xs)" "distinct (map ?f ys)" by (auto simp: distinct_map intro: inj_on_subset)
  then have "sort_key ?key (map ?f xs) = sort_key ?key (map ?f ys)"
    using inj mset_eq_setD [OF assms(1)]
    by (intro map_sorted_distinct_set_unique [of ?key]) (auto simp: distinct_map)
  moreover have "length xs = length ys" "xs = [] \<longleftrightarrow> ys = []" using assms(1) by (metis size_mset) (metis assms(1) mset_zero_iff)
  ultimately show ?thesis by (simp add: topFailureReasons_def Let_def)
qed

section \<open>A threshold that is not a number\<close>

text \<open>
  \<^verbatim>\<open>-max-failure-rate nan\<close> is accepted, and no failure rate exceeds it.
\<close>

lemma nan_threshold_never_violated:
  "parseFailureRate (\<lambda>_. Some NotANumber) ''nan'' = Ok NotANumber \<and>
   list_all (\<lambda>v. vi_Name v \<noteq> ''max_failure_rate'')
     (evaluateThresholds r \<lparr>th_MaxFailureRate = NotANumber, th_MinRecordsPerSecond = lo, th_MaxP99 = hi\<rparr>)"
proof -
  have "trimSpace ''nan'' = ''nan''"
    by (rule trimSpace_id; simp add: space_len_def space_len_end_def ascii_space_def space2_def space3_def)
  then show ?thesis by (simp add: parseFailureRate_def Let_def hasSuffix_def trimSuffix_def evaluateThresholds_def)
qed

end
