(* ===== verification/End_To_End.thy ===== *)
theory End_To_End
  imports Handler_Results Soak_Props
begin

text \<open>
  A produce request from the client to Kafka and back: the request the soak test sends, through
  the v2 handler, the decoder, the producer and the response, to the soak test's count.
\<close>

definition soak_request :: "soak_options \<Rightarrow> http_req" where
  "soak_request opts =
     (let body = soak_buildBody (so_RecordsPerRequest opts) (so_PayloadBytes opts) (so_Format opts)
      in \<lparr>hrq_method = ''POST'', hrq_path = ''/topics/'' @ so_Topic opts, hrq_escapedPath = ''/topics/'' @ pathEscape (so_Topic opts),
          hrq_authorization = [], hrq_accept = ''application/vnd.kafka.v2+json'',
          hrq_contentType = soak_contentTypeForFormat (so_Format opts), hrq_contentLength = int (length body),
          hrq_body = body, hrq_readError = False\<rparr>)"

text \<open>The records that request stands for.\<close>

definition soak_records :: "soak_options \<Rightarrow> Record list" where
  "soak_records opts =
     map (\<lambda>i. plain_record (so_Topic opts) (None, Some (soak_sent (so_Format opts) (so_PayloadBytes opts) i)))
       [0..<nat (so_RecordsPerRequest opts)]"

text \<open>The proxy has room for them.\<close>

definition soak_fits :: "api_Config \<Rightarrow> soak_options \<Rightarrow> bool" where
  "soak_fits cfg opts \<longleftrightarrow> limits_positive cfg \<and>
     int (length (soak_buildBody (so_RecordsPerRequest opts) (so_PayloadBytes opts) (so_Format opts))) \<le> ac_MaxRequestBytes cfg \<and>
     so_RecordsPerRequest opts \<le> ac_MaxRecords cfg \<and>
     list_all (\<lambda>r. SizeBytes r \<le> ac_MaxRecordBytes cfg) (soak_records opts)"

lemma soak_decoded:
  assumes "parseOptions parseFloat parseURL parsed = Ok opts" "soak_fits cfg opts"
  shows "decodeProduceRequestWithSchema enc st (so_Topic opts) (hrq_body (soak_request opts)) (soak_format (so_Format opts))
      (config_decodeLimits cfg) None = (Ok (soak_records opts, \<lparr>pm_KeySchemaID = None, pm_ValueSchemaID = None\<rparr>), st)"
proof -
  have l: "limits_withDefaults (config_decodeLimits cfg) = config_decodeLimits cfg"
    using assms(2) limits_kept by (simp add: soak_fits_def)
  have "so_RecordsPerRequest opts \<le> dl_MaxRecords (limits_withDefaults (config_decodeLimits cfg))"
    "\<forall>i < nat (so_RecordsPerRequest opts). int (length (soak_sent (so_Format opts) (so_PayloadBytes opts) i))
        \<le> dl_MaxRecordBytes (limits_withDefaults (config_decodeLimits cfg))"
    using assms(2) unfolding l
    by (auto simp: soak_fits_def config_decodeLimits_def soak_records_def list_all_iff SizeBytes_def plain_record_def len_nil_def)
  from soak_decodes [OF assms(1) this] show ?thesis by (simp add: soak_request_def soak_records_def Let_def)
qed

lemma soak_v2_body:
  assumes "parseOptions parseFloat parseURL parsed = Ok opts" "soak_fits (h_cfg h) opts" "st_byteRateLimiter s = None"
    and "h_produce h (st_producer s) (soak_records opts) = (Ok results, p')"
  shows "\<exists>s'. v2_body isPrint cs h ck (soak_request opts) \<lparr>tgt_topic = so_Topic opts, tgt_partition = None\<rparr> (soak_format (so_Format opts)) s =
      finish \<lparr>rsp_status = 200, rsp_headers = [(''Content-Type'', mediaKafkaV2)],
        rsp_docs = [RawDoc (appendProduceResponse isPrint [] results \<lparr>pm_KeySchemaID = None, pm_ValueSchemaID = None\<rparr>)]\<rparr>
        (int (length (hrq_body (soak_request opts)))) (int (length (soak_records opts))) s' \<and> st_producer s' = p'"
proof -
  have r: "readRequestBody (soak_request opts) (ac_MaxRequestBytes (h_cfg h)) = (hrq_body (soak_request opts), None)"
    using assms(2) by (simp add: readRequestBody_def max_bytes_read_def soak_request_def soak_fits_def Let_def)
  have a: "allowByteRate k now s = (True, s)" for k now using assms(3) by (simp add: allowByteRate_def)
  show ?thesis
    using assms(4)
    by (simp add: v2_body_def r a soak_decoded [OF assms(1,2)] Let_def v2_produce_def split_beta)
      (rule exI, rule conjI, rule refl, simp)
qed


lemma demo_soak_fits: "soak_fits demo_config demo_soak_options"
  unfolding soak_fits_def demo_config_def
  by (intro conjI config_withDefaults_positive)
    (code_simp | simp add: config_withDefaults_def positive_or_def demo_soak_options_def soak_records_def SizeBytes_def plain_record_def
      soak_sent_def soak_payload_def numeral_eq_Suc len_nil_def)+


end
