(* ===== verification/Setup.thy ===== *)
theory Setup
  imports Config Franz Handler
begin

text \<open>
  Construction of the Kafka client (\<^verbatim>\<open>New\<close>, \<^verbatim>\<open>requiredAcks\<close>, \<^verbatim>\<open>compressionPreference\<close>,
  \<^verbatim>\<open>newTLSConfig\<close> and \<^verbatim>\<open>saslMechanism\<close> of \<^verbatim>\<open>internal/producer/franz/producer.go\<close>) and the
  life of the process (\<^verbatim>\<open>run\<close> of \<^verbatim>\<open>cmd/kafka-rest-proxy-go/main.go\<close>). Files, certificates
  and the client library are parameters.
\<close>

section \<open>Client options\<close>

datatype acks = NoAck | LeaderAck | AllISRAcks

definition requiredAcks :: "string \<Rightarrow> acks" where
  "requiredAcks v =
     (let l = toLower (trimSpace v) in
      if l \<in> {''0'', ''none'', ''noack'', ''no-ack''} then NoAck
      else if l \<in> {''1'', ''leader''} then LeaderAck
      else AllISRAcks)"

datatype compression = NoCompression | GzipCompression | SnappyCompression | Lz4Compression | ZstdCompression

definition compressionPreference :: "string \<Rightarrow> message + compression list" where
  "compressionPreference v =
     (let l = toLower (trimSpace v) in
      if l \<in> {[], ''default''} then Ok []
      else if l \<in> {''none'', ''off'', ''false''} then Ok [NoCompression]
      else if l = ''gzip'' then Ok [GzipCompression]
      else if l = ''snappy'' then Ok [SnappyCompression]
      else if l = ''lz4'' then Ok [Lz4Compression, NoCompression]
      else if l = ''zstd'' then Ok [ZstdCompression, Lz4Compression, NoCompression]
      else Err [Lit ''unsupported KAFKA_COMPRESSION '', Quoted v])"

record ('pool, 'cert) tls_config =
  tc_MinVersion :: string
  tc_InsecureSkipVerify :: bool
  tc_RootCAs :: "'pool option"
  tc_Certificates :: "'cert list"

text \<open>
  \<open>readFile\<close> is \<^verbatim>\<open>os.ReadFile\<close>, \<open>certPool\<close> \<^verbatim>\<open>AppendCertsFromPEM\<close> on a new pool
  (\<open>None\<close>: no certificate in it), \<open>loadKeyPair\<close> \<^verbatim>\<open>tls.LoadX509KeyPair\<close>.
\<close>

definition newTLSConfig ::
  "(string \<Rightarrow> string + bytes) \<Rightarrow> (bytes \<Rightarrow> 'pool option) \<Rightarrow> (string \<Rightarrow> string \<Rightarrow> string + 'cert) \<Rightarrow> TLSConfig \<Rightarrow>
     message + ('pool, 'cert) tls_config" where
  "newTLSConfig readFile certPool loadKeyPair cfg =
     (let base = \<lparr>tc_MinVersion = ''TLS1.2'', tc_InsecureSkipVerify = tls_InsecureSkipVerify cfg,
                  tc_RootCAs = None, tc_Certificates = []\<rparr>;
          withCA = (if tls_CAFile cfg \<noteq> [] then
              (case readFile (tls_CAFile cfg) of
                 Err e \<Rightarrow> Err [Lit ''read KAFKA_TLS_CA_FILE: '', Lit e]
               | Ok pem \<Rightarrow> (case certPool pem of
                   None \<Rightarrow> Err [Lit ''KAFKA_TLS_CA_FILE did not contain any PEM certificates'']
                 | Some roots \<Rightarrow> Ok (base\<lparr>tc_RootCAs := Some roots\<rparr>)))
            else Ok base)
      in (case withCA of Err e \<Rightarrow> Err e
        | Ok c \<Rightarrow>
          if tls_CertFile cfg \<noteq> [] \<or> tls_KeyFile cfg \<noteq> [] then
            if tls_CertFile cfg = [] \<or> tls_KeyFile cfg = []
            then Err [Lit ''KAFKA_TLS_CERT_FILE and KAFKA_TLS_KEY_FILE must be set together'']
            else (case loadKeyPair (tls_CertFile cfg) (tls_KeyFile cfg) of
              Err e \<Rightarrow> Err [Lit ''load Kafka TLS client certificate: '', Lit e]
            | Ok cert \<Rightarrow> Ok (c\<lparr>tc_Certificates := [cert]\<rparr>))
          else Ok c))"

datatype mechanism = Plain string string | ScramSha256 string string | ScramSha512 string string

definition saslMechanism :: "SASLConfig \<Rightarrow> message + mechanism option" where
  "saslMechanism cfg =
     (let m = toUpper (trimSpace (sasl_Mechanism cfg)) in
      if m = [] then Ok None
      else if m = ''PLAIN'' then Ok (Some (Plain (sasl_Username cfg) (sasl_Password cfg)))
      else if m \<in> {''SCRAM-SHA-256'', ''SCRAM_SHA_256''} then Ok (Some (ScramSha256 (sasl_Username cfg) (sasl_Password cfg)))
      else if m \<in> {''SCRAM-SHA-512'', ''SCRAM_SHA_512''} then Ok (Some (ScramSha512 (sasl_Username cfg) (sasl_Password cfg)))
      else Err [Lit ''unsupported KAFKA_SASL_MECHANISM '', Quoted (sasl_Mechanism cfg)])"

datatype ('pool, 'cert) kgo_opt =
    SeedBrokers "string list"
  | ClientID string
  | ExplicitPartitioner
  | MaxBufferedRecords int
  | MaxBufferedBytes int
  | ProducerLinger int
  | ProducerBatchMaxBytes int
  | ProduceRequestTimeout int
  | RecordDeliveryTimeout int
  | RequiredAcks acks
  | ProducerBatchCompression "compression list"
  | DialTLSConfig "('pool, 'cert) tls_config"
  | SASL mechanism

text \<open>The options \<^verbatim>\<open>New\<close> hands to the client library.\<close>

definition client_options ::
  "(string \<Rightarrow> string + bytes) \<Rightarrow> (bytes \<Rightarrow> 'pool option) \<Rightarrow> (string \<Rightarrow> string \<Rightarrow> string + 'cert) \<Rightarrow> KafkaConfig \<Rightarrow>
     message + ('pool, 'cert) kgo_opt list" where
  "client_options readFile certPool loadKeyPair cfg =
     (let opts = [SeedBrokers (kc_Brokers cfg), ClientID (kc_ClientID cfg), ExplicitPartitioner,
                  MaxBufferedRecords (kc_MaxBufferedRecords cfg), MaxBufferedBytes (kc_MaxBufferedBytes cfg),
                  ProducerLinger (kc_Linger cfg), ProducerBatchMaxBytes (kc_BatchMaxBytes cfg),
                  ProduceRequestTimeout (kc_RequestTimeout cfg), RecordDeliveryTimeout (kc_DeliveryTimeout cfg),
                  RequiredAcks (requiredAcks (kc_RequiredAcks cfg))]
      in (case compressionPreference (kc_Compression cfg) of Err e \<Rightarrow> Err e
        | Ok compressions \<Rightarrow>
          let opts1 = opts @ (if compressions \<noteq> [] then [ProducerBatchCompression compressions] else []) in
          (case (if tls_Enable (kc_TLS cfg)
                 then (case newTLSConfig readFile certPool loadKeyPair (kc_TLS cfg) of Err e \<Rightarrow> Err e
                       | Ok c \<Rightarrow> Ok [DialTLSConfig c]) else Ok []) of Err e \<Rightarrow> Err e
           | Ok tls \<Rightarrow>
             (case saslMechanism (kc_SASL cfg) of Err e \<Rightarrow> Err e
              | Ok mech \<Rightarrow> Ok (opts1 @ tls @ (case mech of None \<Rightarrow> [] | Some m \<Rightarrow> [SASL m]))))))"

text \<open>
  \<^verbatim>\<open>New\<close>: \<open>newClient\<close> is \<^verbatim>\<open>kgo.NewClient\<close>. The admission limits are the client's buffer limits.
\<close>

definition franz_New ::
  "(string \<Rightarrow> string + bytes) \<Rightarrow> (bytes \<Rightarrow> 'pool option) \<Rightarrow> (string \<Rightarrow> string \<Rightarrow> string + 'cert) \<Rightarrow>
     (('pool, 'cert) kgo_opt list \<Rightarrow> string + 'client) \<Rightarrow> KafkaConfig \<Rightarrow> message + 'client \<times> Admission option" where
  "franz_New readFile certPool loadKeyPair newClient cfg =
     (case client_options readFile certPool loadKeyPair cfg of Err e \<Rightarrow> Err e
      | Ok opts \<Rightarrow> (case newClient opts of Err e \<Rightarrow> Err [Lit e]
        | Ok client \<Rightarrow> Ok (client, NewAdmission (kc_MaxBufferedRecords cfg) (kc_MaxBufferedBytes cfg))))"

section \<open>The handler configuration\<close>

text \<open>
  The rate a limiter is built from: what is not a number and a negative infinity fail the test
  for a positive rate and leave the limiter disabled, like zero. A positive infinity has no
  finite rate; the model leaves that configuration out.
\<close>

fun finite_rate :: "fval \<Rightarrow> rat option" where
  "finite_rate (Fin r) = Some r"
| "finite_rate PosInf = None"
| "finite_rate NegInf = Some 0"
| "finite_rate NotANumber = Some 0"

definition api_config :: "Config \<Rightarrow> api_Config option" where
  "api_config cfg =
     (case (finite_rate (rl_RequestsPerSecond (cf_RateLimit cfg)), finite_rate (rl_BytesPerSecond (cf_RateLimit cfg))) of
        (Some rps, Some bps) \<Rightarrow>
          Some \<lparr>ac_MaxRequestBytes = cf_RequestMaxBytes cfg, ac_MaxRecords = cf_RequestMaxRecords cfg,
            ac_MaxRecordBytes = cf_RequestMaxRecordBytes cfg, ac_MaxKeyBytes = cf_RequestMaxKeyBytes cfg,
            ac_MaxHeaders = cf_RequestMaxHeaders cfg, ac_MaxHeaderBytes = cf_RequestMaxHeaderBytes cfg,
            ac_AllowedTopics = cf_TopicAllowlist cfg, ac_ProduceTimeout = cf_ProduceTimeout cfg,
            ac_BearerTokens = cf_AuthBearerTokens cfg, ac_PprofEnable = cf_PprofEnable cfg, ac_ClusterID = cf_ClusterID cfg,
            ac_RateLimitRequestsPerSecond = rps, ac_RateLimitRequestsBurst = rl_RequestsBurst (cf_RateLimit cfg),
            ac_RateLimitBytesPerSecond = bps, ac_RateLimitBytesBurst = rl_BytesBurst (cf_RateLimit cfg)\<rparr>
      | _ \<Rightarrow> None)"

section \<open>The life of the process\<close>

text \<open>What the process does to its parts, in order.\<close>

datatype effect = StartServer | StopServer | CloseClient | ShutdownMetrics

text \<open>\<^verbatim>\<open>prod.Close\<close> with the flag it guards itself with.\<close>

definition close_producer :: "bool \<Rightarrow> effect list \<times> bool" where
  "close_producer flag = (case Close flag of (flag', closes) \<Rightarrow> (if closes then [CloseClient] else [], flag'))"

text \<open>How the wait in \<^verbatim>\<open>run\<close> ends: a signal, or \<^verbatim>\<open>ListenAndServe\<close> returning an error.\<close>

datatype wake = Signal | ServerClosed | ServeFailed string

text \<open>
  The arguments are the outcomes of the calls \<^verbatim>\<open>run\<close> makes; the result is the error it returns
  and the effects, those of the deferred calls included: the metrics provider is shut down first,
  then the producer is closed again.
\<close>

definition run ::
  "string + 'cfg \<Rightarrow> string + 'prod \<Rightarrow> string + 'm \<Rightarrow> string + 'reg \<Rightarrow> wake \<Rightarrow> string option \<Rightarrow> string option \<times> effect list" where
  "run cfg newProducer newMetrics newRegistry woken shutdown =
     (case cfg of Err e \<Rightarrow> (Some e, [])
      | Ok _ \<Rightarrow> (case newProducer of Err e \<Rightarrow> (Some e, [])
        | Ok _ \<Rightarrow>
          (case newMetrics of Err e \<Rightarrow> (Some e, fst (close_producer False))
           | Ok _ \<Rightarrow>
             (case newRegistry of Err e \<Rightarrow> (Some e, [ShutdownMetrics] @ fst (close_producer False))
              | Ok _ \<Rightarrow>
                (case woken of
                   ServeFailed e \<Rightarrow> (Some e, [StartServer, ShutdownMetrics] @ fst (close_producer False))
                 | _ \<Rightarrow>
                   (case shutdown of
                      Some e \<Rightarrow> (Some e, [StartServer, StopServer, ShutdownMetrics] @ fst (close_producer False))
                    | None \<Rightarrow>
                      (case close_producer False of (closing, flag) \<Rightarrow>
                         (None, [StartServer, StopServer] @ closing @ [ShutdownMetrics] @ fst (close_producer flag)))))))))"

text \<open>\<^verbatim>\<open>main\<close>: the exit status.\<close>

definition server_main :: "string option \<times> effect list \<Rightarrow> int" where
  "server_main outcome = (if fst outcome \<noteq> None then 1 else 0)"

end
