(* ===== verification/Setup_Props.thy ===== *)
theory Setup_Props
  imports Setup Handler_Props
begin

text \<open>
  From the environment to the running proxy: the limits the handler enforces are the ones the
  environment sets, and the process releases its Kafka client once on every way out of
  \<^verbatim>\<open>run\<close>. Some configurations that switch a protection off are shown at the end.
\<close>

section \<open>Configured limits\<close>

lemma LoadFromEnv_checked:
  assumes "LoadFromEnv parseFloat env = Ok cfg"
  shows "0 < cf_RequestMaxRecords cfg" "0 < cf_RequestMaxBytes cfg" "0 < cf_RequestMaxRecordBytes cfg" "0 < cf_RequestMaxKeyBytes cfg"
    "0 \<le> cf_RequestMaxHeaders cfg" "0 < cf_RequestMaxHeaderBytes cfg" "0 < kc_MaxBufferedRecords (cf_Kafka cfg)"
    "0 < kc_MaxBufferedBytes (cf_Kafka cfg)"
  using assms by (simp_all add: LoadFromEnv_def config_checks_def Let_def split: option.splits if_splits)

text \<open>The producer's admission control for a configuration: its limits.\<close>

lemma NewAdmission_limits:
  assumes "0 < r" "0 < b"
  shows "\<exists>a. NewAdmission r b = Some a \<and> adm_maxRecords a = r \<and> adm_maxBytes a = b \<and> adm_usedRecords a = 0 \<and> adm_usedBytes a = 0"
  using assms by (simp add: NewAdmission_def)


lemma LoadFromEnv_empty: "LoadFromEnv parseFloat (\<lambda>_. []) = Ok (read_Config parseFloat (\<lambda>_. []))"
  by (simp add: LoadFromEnv_def config_checks_def read_Config_def read_Kafka_def envInt_def envInt64_def envFloat_def envString_def
      envCSVDefault_def cleanCSV_def envBool_def wrap32_def Let_def)


section \<open>The way out\<close>

text \<open>
  C34: the Kafka client is closed exactly once. However \<^verbatim>\<open>run\<close> ends, with whatever error, the
  client is closed once if it was created and not at all otherwise; the server is stopped before
  the client is closed when \<^verbatim>\<open>run\<close> returns without an error.
\<close>

theorem run_closes_client_once:
  "count_list (snd (run cfg newProducer newMetrics newRegistry woken shutdown)) CloseClient =
     (case (cfg, newProducer) of (Ok _, Ok _) \<Rightarrow> 1 | _ \<Rightarrow> 0) \<and>
   (if fst (run cfg newProducer newMetrics newRegistry woken shutdown) = None
    then snd (run cfg newProducer newMetrics newRegistry woken shutdown) = [StartServer, StopServer, CloseClient, ShutdownMetrics]
    else count_list (snd (run cfg newProducer newMetrics newRegistry woken shutdown)) ShutdownMetrics =
      (case (cfg, newProducer, newMetrics) of (Ok _, Ok _, Ok _) \<Rightarrow> 1 | _ \<Rightarrow> 0))"
  by (auto simp: run_def close_producer_def Close_def split: sum.splits wake.splits option.splits)

section \<open>Configurations that switch a protection off\<close>

text \<open>A star alone in the allow list is dropped, and an allow list with nothing in it allows every topic.\<close>

lemma lone_star_allows_every_topic:
  assumes "ac_AllowedTopics cfg = [''*'']"
  shows "topicAllowed (fst (NewHandlerWithSchema produce ping m cfg enc now reg pst)) topic"
proof -
  have "trimSpace ''*'' = ''*''" by (rule trimSpace_id) (simp_all add: space_len_def space_len_end_def ascii_space_def space2_def space3_def)
  then show ?thesis
    using assms by (simp add: NewHandlerWithSchema_def topicAllowed_def config_withDefaults_def hasSuffix_def trimSuffix_def Let_def)
qed

text \<open>Tokens that are all blank leave no token, and then no request needs one.\<close>

lemma blank_tokens_disable_auth:
  assumes "list_all (\<lambda>t. trimSpace t = []) (ac_BearerTokens cfg)"
  shows "authMiddleware (fst (NewHandlerWithSchema produce ping m cfg enc now reg pst)) serve r s = serve s"
  using assms by (auto simp: authMiddleware_def NewHandlerWithSchema_def token_set_def config_withDefaults_def list_all_iff Let_def)

text \<open>A header limit of zero is accepted by the loader and enforced as 64.\<close>

lemma zero_headers_become_64: "ac_MaxHeaders cfg = 0 \<Longrightarrow> ac_MaxHeaders (config_withDefaults cfg) = 64"
  by (simp add: config_withDefaults_def positive_or_def)

end
