(* ===== verification/Bench.thy ===== *)
theory Bench
  imports Soak
begin

text \<open>
  The benchmark driver (\<^verbatim>\<open>cmd/bench-produce/main.go\<close>), first part: its options and scenarios,
  the body it sends, one exchange, the results of a scenario and their summary. As for the soak
  test, one HTTP exchange and the order in which results arrive are arguments; \<open>now\<close> stands
  for \<^verbatim>\<open>time.Now().UnixNano()\<close> when the given number of targets has been parsed, and
  \<open>unspecified\<close> for the conversion of a \<^verbatim>\<open>float64\<close> outside of the integers' range, which
  the language leaves to the implementation.
\<close>

section \<open>Floating-point arithmetic that may overflow\<close>

definition fval_round :: "rat \<Rightarrow> fval" where
  "fval_round x =
     (let r = fl x in if pow2 1024 \<le> r then PosInf else if r \<le> - pow2 1024 then NegInf else Fin r)"

fun fval_sgn :: "fval \<Rightarrow> int" where
  "fval_sgn (Fin x) = (if x < 0 then -1 else if x = 0 then 0 else 1)"
| "fval_sgn PosInf = 1"
| "fval_sgn NegInf = -1"
| "fval_sgn NotANumber = 0"

fun fval_times :: "fval \<Rightarrow> fval \<Rightarrow> fval" where
  "fval_times (Fin x) (Fin y) = fval_round (x * y)"
| "fval_times NotANumber y = NotANumber"
| "fval_times x NotANumber = NotANumber"
| "fval_times x y =
     (let s = fval_sgn x * fval_sgn y in if s = 0 then NotANumber else if 0 < s then PosInf else NegInf)"

text \<open>Adding to, and dividing by, a finite number; the divisor is positive.\<close>

fun fval_plus :: "rat \<Rightarrow> fval \<Rightarrow> fval" where
  "fval_plus c (Fin x) = fval_round (c + x)"
| "fval_plus c v = v"

fun fval_quot :: "fval \<Rightarrow> rat \<Rightarrow> fval" where
  "fval_quot (Fin x) c = fval_round (x / c)"
| "fval_quot v c = v"

fun fval_ceil :: "fval \<Rightarrow> fval" where
  "fval_ceil (Fin x) = Fin (of_int \<lceil>x\<rceil>)"
| "fval_ceil v = v"

definition fval_le :: "fval \<Rightarrow> fval \<Rightarrow> bool" where
  "fval_le x y \<longleftrightarrow> fval_less x y \<or> x = y \<and> x \<noteq> NotANumber"

definition fval_to_int :: "(fval \<Rightarrow> int) \<Rightarrow> fval \<Rightarrow> int" where
  "fval_to_int unspecified v =
     (case v of Fin x \<Rightarrow> if in_int64 (float_to_int x) then float_to_int x else unspecified v | _ \<Rightarrow> unspecified v)"

section \<open>Options\<close>

record targetSpec =
  ts_Name :: string
  ts_URL :: string

record scenarioSpec =
  sc_PayloadBytes :: int
  sc_RecordsPerRequest :: int
  sc_Clients :: int
  sc_Format :: string
  sc_Compression :: string
  sc_Acks :: string

record capacityConfig =
  cc_TargetRecordsPerSecond :: fval
  cc_Headroom :: fval

record benchOptions =
  bo_Topic :: string
  bo_Duration :: int
  bo_Requests :: int
  bo_Timeout :: int
  bo_MaxSamples :: int
  bo_KeyPrefix :: string
  bo_Targets :: "targetSpec list"
  bo_Scenarios :: "scenarioSpec list"
  bo_HTMLPath :: string
  bo_Suite :: bool
  bo_GeneratedAt :: string
  bo_Capacity :: capacityConfig

record bench_flags =
  bf_url :: string
  bf_confluentURL :: string
  bf_topic :: string
  bf_duration :: int
  bf_clients :: int
  bf_records :: int
  bf_payloadBytes :: int
  bf_requests :: int
  bf_timeout :: int
  bf_maxSamples :: int
  bf_keyPrefix :: string
  bf_format :: string
  bf_html :: string
  bf_suite :: bool
  bf_payloadSizes :: string
  bf_recordsPerRequest :: string
  bf_clientCounts :: string
  bf_formats :: string
  bf_compressionLabels :: string
  bf_acksLabels :: string
  bf_compressionLabel :: string
  bf_acksLabel :: string
  bf_capacityTarget :: fval
  bf_capacityHeadroom :: fval
  bf_targets :: "targetSpec list"

section \<open>Parsing\<close>

text \<open>\<^verbatim>\<open>strings.Cut\<close> at the first \<^verbatim>\<open>=\<close>.\<close>

definition cut_equals :: "string \<Rightarrow> string \<times> string \<times> bool" where
  "cut_equals v =
     (let r = dropWhile (\<lambda>c. c \<noteq> CHR ''='') v
      in if r = [] then (v, [], False) else (takeWhile (\<lambda>c. c \<noteq> CHR ''='') v, tl r, True))"

definition parseTarget ::
  "(string \<Rightarrow> string + string \<times> string \<times> string) \<Rightarrow> int \<Rightarrow> string \<Rightarrow> message + targetSpec" where
  "parseTarget parseURL now v =
     (case cut_equals v of (name0, url0, ok) \<Rightarrow>
      let name = trimSpace (if ok then name0 else ''target'' @ itoa now);
          rawURL = trimSpace (if ok then url0 else v)
      in if name = [] \<or> rawURL = [] then Err [Lit ''target must be name=url'']
         else if (case parseURL rawURL of Err _ \<Rightarrow> True | Ok (scheme, host, path) \<Rightarrow> scheme = [] \<or> host = [])
         then Err [Lit ''target '', Quoted v, Lit '' must be an absolute URL'']
         else Ok \<lparr>ts_Name = name, ts_URL = trimRight_char (CHR ''/'') rawURL\<rparr>)"

definition splitCSV :: "string \<Rightarrow> string list" where
  "splitCSV v =
     (if trimSpace v = [] then []
      else filter (\<lambda>part. part \<noteq> []) (map trimSpace (go_split (CHR '','') v)))"

definition positiveInts :: "int list \<Rightarrow> message + int list" where
  "positiveInts ns =
     (if ns = [] then Err [Lit ''at least one value is required'']
      else if list_ex (\<lambda>n. n \<le> 0) ns then Err [Lit ''values must be positive'']
      else Ok ns)"

definition parseByteSize :: "string \<Rightarrow> message + int" where
  "parseByteSize v =
     (let text = filter (\<lambda>c. c \<noteq> CHR '' '') (toUpper (trimSpace v)) in
      if text = [] then Err [Lit ''empty size'']
      else
        let (multiplier, number) =
          (if hasSuffix text ''KIB'' then (1024, trimSuffix text ''KIB'')
           else if hasSuffix text ''KB'' then (1000, trimSuffix text ''KB'')
           else if hasSuffix text ''MIB'' then (1024 * 1024, trimSuffix text ''MIB'')
           else if hasSuffix text ''MB'' then (1000 * 1000, trimSuffix text ''MB'')
           else if hasSuffix text ''B'' then (1, trimSuffix text ''B'')
           else (1, text))
        in (case atoi number of None \<Rightarrow> Err [Quoted v, Lit '' is not a valid byte size'']
            | Some n \<Rightarrow> Ok (wrap64 (n * multiplier))))"

definition parseByteSizeList :: "string \<Rightarrow> message + int list" where
  "parseByteSizeList v =
     (case traverse parseByteSize (splitCSV v) of Err e \<Rightarrow> Err e | Ok out \<Rightarrow> positiveInts out)"

definition parseIntList :: "string \<Rightarrow> message + int list" where
  "parseIntList v =
     (case traverse (\<lambda>part. case atoi part of None \<Rightarrow> Err [Quoted part, Lit '' is not an integer''] | Some n \<Rightarrow> Ok n) (splitCSV v)
      of Err e \<Rightarrow> Err e | Ok out \<Rightarrow> positiveInts out)"

definition parseLabelList :: "string \<Rightarrow> string list" where
  "parseLabelList v = (let parts = splitCSV v in if parts = [] then [''runtime''] else parts)"

definition firstLabel :: "string \<Rightarrow> string" where
  "firstLabel v = hd (parseLabelList v)"

definition bench_parseFormat :: "string \<Rightarrow> message + string" where
  "bench_parseFormat v =
     (let f = toLower (trimSpace v) in
      if f = [] \<or> f = ''json'' then Ok ''json''
      else if f = ''binary'' \<or> f = ''bin'' then Ok ''binary''
      else Err [Lit ''format must be json or binary, got '', Quoted v])"

definition parseFormatList :: "string \<Rightarrow> message + string list" where
  "parseFormatList v =
     (let parts = splitCSV v in if parts = [] then Ok [''json''] else traverse bench_parseFormat parts)"

definition bench_contentTypeForFormat :: "string \<Rightarrow> string" where
  "bench_contentTypeForFormat format =
     (if format = ''binary'' then ''application/vnd.kafka.binary.v2+json'' else ''application/vnd.kafka.json.v2+json'')"

text \<open>The targets of the command line as \<^verbatim>\<open>flag.Value\<close>.\<close>

definition targetFlags_Set ::
  "(string \<Rightarrow> string + string \<times> string \<times> string) \<Rightarrow> (nat \<Rightarrow> int) \<Rightarrow> string \<Rightarrow> targetSpec list \<Rightarrow> message + targetSpec list" where
  "targetFlags_Set parseURL now v ts =
     (case parseTarget parseURL (now (length ts)) v of Err e \<Rightarrow> Err e | Ok t \<Rightarrow> Ok (ts @ [t]))"

definition targetFlags_String :: "targetSpec list \<Rightarrow> string" where
  "targetFlags_String ts = go_join '','' (map (\<lambda>t. ts_Name t @ ''='' @ ts_URL t) ts)"

section \<open>The command line\<close>

definition bench_defaults :: bench_flags where
  "bench_defaults =
     \<lparr>bf_url = ''http://localhost:8080'', bf_confluentURL = [], bf_topic = ''orders'', bf_duration = 30 * 1000000000, bf_clients = 32,
      bf_records = 10, bf_payloadBytes = 512, bf_requests = 0, bf_timeout = 30 * 1000000000, bf_maxSamples = 1000000,
      bf_keyPrefix = [], bf_format = ''json'', bf_html = [], bf_suite = False, bf_payloadSizes = ''128,512,1KB,10KB'',
      bf_recordsPerRequest = ''1,10,100,1000'', bf_clientCounts = ''4,16,64,256'', bf_formats = ''json'',
      bf_compressionLabels = ''runtime'', bf_acksLabels = ''runtime'', bf_compressionLabel = ''runtime'', bf_acksLabel = ''runtime'',
      bf_capacityTarget = Fin 1000000, bf_capacityHeadroom = Fin (fl (30 / 100)), bf_targets = []\<rparr>"

definition bench_flag_set ::
  "(string \<Rightarrow> num_error + fval) \<Rightarrow> (string \<Rightarrow> string + string \<times> string \<times> string) \<Rightarrow> (nat \<Rightarrow> int) \<Rightarrow> bench_flags flag list" where
  "bench_flag_set parseFloat parseURL now =
     [string_flag ''url'' (\<lambda>x f. f\<lparr>bf_url := x\<rparr>), string_flag ''confluent-url'' (\<lambda>x f. f\<lparr>bf_confluentURL := x\<rparr>),
      string_flag ''topic'' (\<lambda>x f. f\<lparr>bf_topic := x\<rparr>), duration_flag ''duration'' (\<lambda>x f. f\<lparr>bf_duration := x\<rparr>),
      int_flag ''clients'' (\<lambda>x f. f\<lparr>bf_clients := x\<rparr>), int_flag ''records'' (\<lambda>x f. f\<lparr>bf_records := x\<rparr>),
      int_flag ''payload-bytes'' (\<lambda>x f. f\<lparr>bf_payloadBytes := x\<rparr>), int_flag ''requests'' (\<lambda>x f. f\<lparr>bf_requests := x\<rparr>),
      duration_flag ''timeout'' (\<lambda>x f. f\<lparr>bf_timeout := x\<rparr>), int_flag ''max-latency-samples'' (\<lambda>x f. f\<lparr>bf_maxSamples := x\<rparr>),
      string_flag ''key-prefix'' (\<lambda>x f. f\<lparr>bf_keyPrefix := x\<rparr>), string_flag ''format'' (\<lambda>x f. f\<lparr>bf_format := x\<rparr>),
      string_flag ''html'' (\<lambda>x f. f\<lparr>bf_html := x\<rparr>), bool_flag ''suite'' (\<lambda>x f. f\<lparr>bf_suite := x\<rparr>),
      string_flag ''payload-sizes'' (\<lambda>x f. f\<lparr>bf_payloadSizes := x\<rparr>),
      string_flag ''records-per-request'' (\<lambda>x f. f\<lparr>bf_recordsPerRequest := x\<rparr>),
      string_flag ''client-counts'' (\<lambda>x f. f\<lparr>bf_clientCounts := x\<rparr>), string_flag ''formats'' (\<lambda>x f. f\<lparr>bf_formats := x\<rparr>),
      string_flag ''compression-labels'' (\<lambda>x f. f\<lparr>bf_compressionLabels := x\<rparr>),
      string_flag ''acks-labels'' (\<lambda>x f. f\<lparr>bf_acksLabels := x\<rparr>),
      string_flag ''compression-label'' (\<lambda>x f. f\<lparr>bf_compressionLabel := x\<rparr>),
      string_flag ''acks-label'' (\<lambda>x f. f\<lparr>bf_acksLabel := x\<rparr>),
      float_flag parseFloat ''capacity-target-records'' (\<lambda>x f. f\<lparr>bf_capacityTarget := x\<rparr>),
      float_flag parseFloat ''capacity-headroom'' (\<lambda>x f. f\<lparr>bf_capacityHeadroom := x\<rparr>),
      \<lparr>fg_name = ''target'', fg_bool = False,
       fg_set = (\<lambda>v f. case targetFlags_Set parseURL now v (bf_targets f) of Err e \<Rightarrow> Err e | Ok ts \<Rightarrow> Ok (f\<lparr>bf_targets := ts\<rparr>))\<rparr>]"

section \<open>The options of a run\<close>

text \<open>The targets: those of the command line or the default one, and Confluent's proxy if given.\<close>

definition build_targets ::
  "(string \<Rightarrow> string + string \<times> string \<times> string) \<Rightarrow> (nat \<Rightarrow> int) \<Rightarrow> bench_flags \<Rightarrow> message + targetSpec list" where
  "build_targets parseURL now f =
     (case (if bf_targets f = []
            then (case parseTarget parseURL (now 0) (''go='' @ bf_url f) of Err e \<Rightarrow> Err e | Ok t \<Rightarrow> Ok [t])
            else Ok (bf_targets f)) of Err e \<Rightarrow> Err e
      | Ok ts \<Rightarrow>
        if trimSpace (bf_confluentURL f) \<noteq> []
        then (case parseTarget parseURL (now (length ts)) (''confluent='' @ bf_confluentURL f) of Err e \<Rightarrow> Err e | Ok t \<Rightarrow> Ok (ts @ [t]))
        else Ok ts)"

definition suite_scenarios ::
  "int list \<Rightarrow> int list \<Rightarrow> int list \<Rightarrow> string list \<Rightarrow> string list \<Rightarrow> string list \<Rightarrow> scenarioSpec list" where
  "suite_scenarios payloads recordCounts clientsList formats compressions acksValues =
     [\<lparr>sc_PayloadBytes = payload, sc_RecordsPerRequest = recs, sc_Clients = clientCount, sc_Format = format,
       sc_Compression = compression, sc_Acks = acks\<rparr>.
        payload \<leftarrow> payloads, recs \<leftarrow> recordCounts, clientCount \<leftarrow> clientsList, format \<leftarrow> formats,
        compression \<leftarrow> compressions, acks \<leftarrow> acksValues]"

definition build_scenarios :: "bench_flags \<Rightarrow> message + scenarioSpec list" where
  "build_scenarios f =
     (if bf_suite f then
        (case parseByteSizeList (bf_payloadSizes f) of Err e \<Rightarrow> Err (Lit ''payload-sizes: '' # e)
         | Ok payloads \<Rightarrow> (case parseIntList (bf_recordsPerRequest f) of Err e \<Rightarrow> Err (Lit ''records-per-request: '' # e)
         | Ok recordCounts \<Rightarrow> (case parseIntList (bf_clientCounts f) of Err e \<Rightarrow> Err (Lit ''client-counts: '' # e)
         | Ok clientsList \<Rightarrow> (case parseFormatList (bf_formats f) of Err e \<Rightarrow> Err (Lit ''formats: '' # e)
         | Ok formats \<Rightarrow>
           Ok (suite_scenarios payloads recordCounts clientsList formats (parseLabelList (bf_compressionLabels f))
                 (parseLabelList (bf_acksLabels f)))))))
      else if bf_clients f \<le> 0 \<or> bf_records f \<le> 0 \<or> bf_payloadBytes f < 0
      then Err [Lit ''clients and records must be positive, and payload-bytes must be zero or positive'']
      else (case bench_parseFormat (bf_format f) of Err e \<Rightarrow> Err e
        | Ok format \<Rightarrow>
          Ok [\<lparr>sc_PayloadBytes = bf_payloadBytes f, sc_RecordsPerRequest = bf_records f, sc_Clients = bf_clients f,
               sc_Format = format, sc_Compression = firstLabel (bf_compressionLabel f), sc_Acks = firstLabel (bf_acksLabel f)\<rparr>]))"

text \<open>\<open>generatedAt\<close> is the time of the call in the format of RFC 3339.\<close>

definition buildOptions ::
  "(string \<Rightarrow> string + string \<times> string \<times> string) \<Rightarrow> (nat \<Rightarrow> int) \<Rightarrow> string \<Rightarrow> bench_flags \<Rightarrow> message + benchOptions" where
  "buildOptions parseURL now generatedAt f =
     (if trimSpace (bf_topic f) = [] then Err [Lit ''topic must not be empty'']
      else if bf_duration f \<le> 0 \<or> bf_timeout f \<le> 0 then Err [Lit ''duration and timeout must be positive'']
      else if bf_maxSamples f \<le> 0 then Err [Lit ''max-latency-samples must be positive'']
      else if fval_less (bf_capacityTarget f) (Fin 0) then Err [Lit ''capacity-target-records must be zero or positive'']
      else if fval_less (bf_capacityHeadroom f) (Fin 0) then Err [Lit ''capacity-headroom must be zero or positive'']
      else (case build_targets parseURL now f of Err e \<Rightarrow> Err e
        | Ok targets \<Rightarrow> (case build_scenarios f of Err e \<Rightarrow> Err e
          | Ok scenarios \<Rightarrow>
            if scenarios = [] then Err [Lit ''at least one scenario is required'']
            else Ok \<lparr>bo_Topic = bf_topic f, bo_Duration = bf_duration f, bo_Requests = bf_requests f, bo_Timeout = bf_timeout f,
                     bo_MaxSamples = bf_maxSamples f, bo_KeyPrefix = bf_keyPrefix f, bo_Targets = targets,
                     bo_Scenarios = scenarios, bo_HTMLPath = bf_html f, bo_Suite = bf_suite f, bo_GeneratedAt = generatedAt,
                     bo_Capacity = \<lparr>cc_TargetRecordsPerSecond = bf_capacityTarget f, cc_Headroom = bf_capacityHeadroom f\<rparr>\<rparr>)))"

section \<open>The request\<close>

definition bench_record_json :: "string \<Rightarrow> string \<Rightarrow> bytes \<Rightarrow> nat \<Rightarrow> json" where
  "bench_record_json keyPrefix format payload i =
     (let k = keyPrefix @ ''-'' @ itoa (int i)
      in JObj []
         ((if keyPrefix \<noteq> []
           then [(json_string ''key'', JStr (json_string (if format = ''binary'' then b64_encode k else k)))] else []) @
          [(json_string ''value'',
            if format = ''binary'' then JStr (json_string (b64_encode payload))
            else JObj [] [(json_string ''index'', JNum (itoa (int i))), (json_string ''payload'', JStr (json_string payload))])]))"

definition bench_buildBody :: "int \<Rightarrow> int \<Rightarrow> string \<Rightarrow> string \<Rightarrow> bytes" where
  "bench_buildBody records payloadBytes keyPrefix format =
     render (JObj [] [(json_string ''records'',
       JArr [] (map (bench_record_json keyPrefix format (replicate (nat payloadBytes) (CHR ''x''))) [0..<nat records]))])"

text \<open>The default transport's own limits are the ones the soak test sets.\<close>

definition newBenchHTTPClient :: "int \<Rightarrow> int \<Rightarrow> http_client" where
  "newBenchHTTPClient clients timeout =
     (let maxConns0 = wrap64 (clients * 4); maxConns = (if maxConns0 < 32 then 32 else maxConns0)
      in \<lparr>hc_MaxIdleConns = maxConns, hc_MaxIdleConnsPerHost = maxConns, hc_MaxConnsPerHost = maxConns,
          hc_IdleConnTimeout = 90 * 1000000000, hc_TLSHandshakeTimeout = 10 * 1000000000,
          hc_ResponseHeaderTimeout = timeout, hc_ExpectContinueTimeout = 1000000000, hc_Timeout = timeout\<rparr>)"

definition bench_url :: "string \<Rightarrow> string \<Rightarrow> string" where
  "bench_url baseURL topic = trimRight_char (CHR ''/'') baseURL @ ''/topics/'' @ pathEscape topic"

section \<open>One exchange\<close>

record bench_res =
  rs_status :: int
  rs_recs :: int
  rs_len :: int
  rs_latency :: int
  rs_err :: bool

definition bench_postOnce :: "bytes \<Rightarrow> int \<Rightarrow> exchange \<Rightarrow> int \<Rightarrow> bench_res" where
  "bench_postOnce body records ex latency =
     (case ex of
        BuildFailed e \<Rightarrow> \<lparr>rs_status = 0, rs_recs = 0, rs_len = 0, rs_latency = latency, rs_err = True\<rparr>
      | ClientFailed e \<Rightarrow> \<lparr>rs_status = 0, rs_recs = 0, rs_len = int (length body), rs_latency = latency, rs_err = True\<rparr>
      | Responded status respBody readFailed \<Rightarrow>
          \<lparr>rs_status = status, rs_recs = records, rs_len = int (length body), rs_latency = latency, rs_err = False\<rparr>)"

section \<open>The results of a scenario\<close>

record bench_acc =
  ba_totalRequests :: int
  ba_successRequests :: int
  ba_failedRequests :: int
  ba_attemptedRecords :: int
  ba_successRecords :: int
  ba_requestBytes :: int
  ba_latencies :: "int list"

definition bench_start :: bench_acc where
  "bench_start =
     \<lparr>ba_totalRequests = 0, ba_successRequests = 0, ba_failedRequests = 0, ba_attemptedRecords = 0, ba_successRecords = 0,
      ba_requestBytes = 0, ba_latencies = []\<rparr>"

definition bench_failed :: "bench_res \<Rightarrow> bool" where
  "bench_failed res \<longleftrightarrow> rs_err res \<or> rs_status res < 200 \<or> 300 \<le> rs_status res"

definition bench_collect :: "int \<Rightarrow> bench_acc \<Rightarrow> bench_res \<Rightarrow> bench_acc" where
  "bench_collect maxSamples a res =
     (let a1 = a\<lparr>ba_totalRequests := wrap64 (ba_totalRequests a + 1),
                 ba_attemptedRecords := wrap64 (ba_attemptedRecords a + rs_recs res),
                 ba_requestBytes := wrap64 (ba_requestBytes a + rs_len res)\<rparr>;
          a2 = (if bench_failed res then a1\<lparr>ba_failedRequests := wrap64 (ba_failedRequests a1 + 1)\<rparr>
                else a1\<lparr>ba_successRequests := wrap64 (ba_successRequests a1 + 1),
                        ba_successRecords := wrap64 (ba_successRecords a1 + rs_recs res)\<rparr>)
      in if int (length (ba_latencies a2)) < maxSamples
         then a2\<lparr>ba_latencies := ba_latencies a2 @ [rs_latency res]\<rparr> else a2)"

definition bench_percentile :: "int list \<Rightarrow> rat \<Rightarrow> int" where
  "bench_percentile sorted_values p =
     (if sorted_values = [] then 0
      else let n = int (length sorted_values);
               idx0 = float_to_int (fl (float_of_int (n - 1) * p));
               idx1 = (if idx0 < 0 then 0 else idx0);
               idx = (if n \<le> idx1 then n - 1 else idx1)
           in sorted_values ! nat idx)"

section \<open>Labels and estimates\<close>

definition formatBytes :: "int \<Rightarrow> string" where
  "formatBytes n =
     (if trem n 1024 = 0 \<and> 1024 * 1024 \<le> n then itoa (tquot n (1024 * 1024)) @ ''MiB''
      else if trem n 1024 = 0 \<and> 1024 \<le> n then itoa (tquot n 1024) @ ''KiB''
      else itoa n @ ''B'')"

definition scenarioLabel :: "scenarioSpec \<Rightarrow> string" where
  "scenarioLabel s =
     ''format='' @ sc_Format s @ '' payload='' @ formatBytes (sc_PayloadBytes s) @
     '' records/request='' @ itoa (sc_RecordsPerRequest s) @ '' clients='' @ itoa (sc_Clients s) @
     '' compression='' @ sc_Compression s @ '' acks='' @ sc_Acks s"

definition formatRate :: "fval \<Rightarrow> string" where
  "formatRate v =
     (if fval_le (Fin 1000000) v then fval_fixed 2 (fval_quot v 1000000) @ ''M''
      else if fval_le (Fin 1000) v then fval_fixed 2 (fval_quot v 1000) @ ''K''
      else fval_fixed 0 v)"

definition effectiveTarget :: "capacityConfig \<Rightarrow> fval" where
  "effectiveTarget cfg = fval_times (cc_TargetRecordsPerSecond cfg) (fval_plus 1 (cc_Headroom cfg))"

text \<open>The sign for infinity is written in UTF-8.\<close>

definition estimateNodes :: "(fval \<Rightarrow> int) \<Rightarrow> capacityConfig \<Rightarrow> rat \<Rightarrow> int \<times> string" where
  "estimateNodes unspecified cfg recordsPerSecond =
     (if fval_le (cc_TargetRecordsPerSecond cfg) (Fin 0) then (0, ''n/a'')
      else if recordsPerSecond \<le> 0 then (0, [CHR 0xE2, CHR 0x88, CHR 0x9E])
      else let n = fval_to_int unspecified (fval_ceil (fval_quot (effectiveTarget cfg) recordsPerSecond));
               nodes = (if n < 1 then 1 else n)
           in (nodes, itoa nodes))"

section \<open>The summary of a scenario\<close>

record benchResult =
  br_GeneratedAt :: string
  br_TargetName :: string
  br_TargetURL :: string
  br_Scenario :: string
  br_Topic :: string
  br_Duration :: string
  br_RequestsLimit :: int
  br_Timeout :: string
  br_KeyPrefix :: string
  br_PayloadBytes :: int
  br_RecordsPerRequest :: int
  br_Clients :: int
  br_Format :: string
  br_Compression :: string
  br_Acks :: string
  br_Elapsed :: string
  br_TotalRequests :: int
  br_SuccessRequests :: int
  br_FailedRequests :: int
  br_AttemptedRecords :: int
  br_SuccessRecords :: int
  br_RequestBytes :: int
  br_RequestsPerSecond :: rat
  br_RecordsPerSecond :: rat
  br_MiBPerSecond :: rat
  br_FailureRate :: rat
  br_CapacityNodes :: int
  br_LatencyP50 :: int
  br_LatencyP95 :: int
  br_LatencyP99 :: int
  br_LatencySamples :: int
  br_Error :: string
  br_RequestsPerSecondText :: string
  br_RecordsPerSecondText :: string
  br_MiBPerSecondText :: string
  br_FailureRateText :: string
  br_CapacityNodesText :: string
  br_LatencyP50Text :: string
  br_LatencyP95Text :: string
  br_LatencyP99Text :: string
  br_LatencyP50Millis :: string
  br_LatencyP95Millis :: string
  br_LatencyP99Millis :: string

definition millis_text :: "int \<Rightarrow> string" where
  "millis_text d = fixed 2 (fl (float_of_int d / float_of_int millisecond))"

definition bench_summarize ::
  "(fval \<Rightarrow> int) \<Rightarrow> benchOptions \<Rightarrow> targetSpec \<Rightarrow> scenarioSpec \<Rightarrow> int \<Rightarrow> bench_acc \<Rightarrow> int list \<Rightarrow> string \<Rightarrow> benchResult" where
  "bench_summarize unspecified opts target scenario elapsed a latencies errText =
     (let secs = max (duration_seconds elapsed) (fl (1 / 1000));
          p50 = bench_percentile latencies (fl (50 / 100));
          p95 = bench_percentile latencies (fl (95 / 100));
          p99 = bench_percentile latencies (fl (99 / 100));
          failureRate = (if 0 < ba_totalRequests a
                         then fl (fl (float_of_int (ba_failedRequests a) / float_of_int (ba_totalRequests a)) * 100) else 0);
          rps = fl (float_of_int (ba_totalRequests a) / secs);
          recordsPerSec = fl (float_of_int (ba_successRecords a) / secs);
          mibPerSec = fl (fl (float_of_int (ba_requestBytes a) / (1024 * 1024)) / secs);
          (capacityNodes, capacityNodesText) = estimateNodes unspecified (bo_Capacity opts) recordsPerSec
      in \<lparr>br_GeneratedAt = bo_GeneratedAt opts, br_TargetName = ts_Name target, br_TargetURL = ts_URL target,
          br_Scenario = scenarioLabel scenario, br_Topic = bo_Topic opts, br_Duration = duration_String (bo_Duration opts),
          br_RequestsLimit = bo_Requests opts, br_Timeout = duration_String (bo_Timeout opts), br_KeyPrefix = bo_KeyPrefix opts,
          br_PayloadBytes = sc_PayloadBytes scenario, br_RecordsPerRequest = sc_RecordsPerRequest scenario,
          br_Clients = sc_Clients scenario, br_Format = sc_Format scenario, br_Compression = sc_Compression scenario,
          br_Acks = sc_Acks scenario, br_Elapsed = rounded elapsed, br_TotalRequests = ba_totalRequests a,
          br_SuccessRequests = ba_successRequests a, br_FailedRequests = ba_failedRequests a,
          br_AttemptedRecords = ba_attemptedRecords a, br_SuccessRecords = ba_successRecords a,
          br_RequestBytes = ba_requestBytes a, br_RequestsPerSecond = rps, br_RecordsPerSecond = recordsPerSec,
          br_MiBPerSecond = mibPerSec, br_FailureRate = failureRate, br_CapacityNodes = capacityNodes,
          br_LatencyP50 = p50, br_LatencyP95 = p95, br_LatencyP99 = p99, br_LatencySamples = int (length latencies),
          br_Error = errText, br_RequestsPerSecondText = fixed 2 rps, br_RecordsPerSecondText = fixed 2 recordsPerSec,
          br_MiBPerSecondText = fixed 2 mibPerSec, br_FailureRateText = fixed 2 failureRate @ ''%'',
          br_CapacityNodesText = capacityNodesText, br_LatencyP50Text = rounded p50, br_LatencyP95Text = rounded p95,
          br_LatencyP99Text = rounded p99, br_LatencyP50Millis = millis_text p50, br_LatencyP95Millis = millis_text p95,
          br_LatencyP99Millis = millis_text p99\<rparr>)"

definition failedResult ::
  "(fval \<Rightarrow> int) \<Rightarrow> benchOptions \<Rightarrow> targetSpec \<Rightarrow> scenarioSpec \<Rightarrow> string \<Rightarrow> benchResult" where
  "failedResult unspecified opts target scenario errText = bench_summarize unspecified opts target scenario 0 bench_start [] errText"

text \<open>
  \<^verbatim>\<open>json.Marshal\<close> of the request cannot fail, so the scenario is always run; \<open>results\<close> are what the
  workers put on the channel, in the order in which they are taken from it.
\<close>

definition runScenario ::
  "(fval \<Rightarrow> int) \<Rightarrow> benchOptions \<Rightarrow> targetSpec \<Rightarrow> scenarioSpec \<Rightarrow> bench_res list \<Rightarrow> int \<Rightarrow> benchResult" where
  "runScenario unspecified opts target scenario results elapsed =
     (let a = foldl (bench_collect (bo_MaxSamples opts)) bench_start results
      in bench_summarize unspecified opts target scenario elapsed a (sort (ba_latencies a)) [])"

end
