(* ===== verification/FilePath.thy ===== *)
theory FilePath
  imports Prelude
begin

text \<open>
  Slash-separated file names as the package \<^verbatim>\<open>path/filepath\<close> treats them on Unix: \<^verbatim>\<open>Clean\<close>,
  \<^verbatim>\<open>Dir\<close>, \<^verbatim>\<open>Base\<close>, \<^verbatim>\<open>Join\<close> and \<^verbatim>\<open>Ext\<close>.
\<close>

text \<open>\<open>acc\<close> holds the elements kept so far, the last one first.\<close>

fun clean_elems :: "bool \<Rightarrow> string list \<Rightarrow> string list \<Rightarrow> string list" where
  "clean_elems rooted acc [] = rev acc"
| "clean_elems rooted acc (p # ps) =
     (if p = [] \<or> p = ''.'' then clean_elems rooted acc ps
      else if p = ''..'' then
        (if acc \<noteq> [] \<and> hd acc \<noteq> ''..'' then clean_elems rooted (tl acc) ps
         else if rooted then clean_elems rooted acc ps
         else clean_elems rooted (''..'' # acc) ps)
      else clean_elems rooted (p # acc) ps)"

definition filepath_Clean :: "string \<Rightarrow> string" where
  "filepath_Clean path =
     (let rooted = (path \<noteq> [] \<and> hd path = CHR ''/'');
          out = go_join ''/'' (clean_elems rooted [] (go_split (CHR ''/'') path))
      in if rooted then CHR ''/'' # out else if out = [] then ''.'' else out)"

text \<open>What follows the last slash, and what goes up to it.\<close>

definition after_slash :: "string \<Rightarrow> string" where
  "after_slash path = rev (takeWhile (\<lambda>c. c \<noteq> CHR ''/'') (rev path))"

definition up_to_slash :: "string \<Rightarrow> string" where
  "up_to_slash path = rev (dropWhile (\<lambda>c. c \<noteq> CHR ''/'') (rev path))"

definition filepath_Dir :: "string \<Rightarrow> string" where
  "filepath_Dir path = filepath_Clean (up_to_slash path)"

definition filepath_Base :: "string \<Rightarrow> string" where
  "filepath_Base path =
     (if path = [] then ''.''
      else let p = rev (dropWhile (\<lambda>c. c = CHR ''/'') (rev path))
           in if p = [] then ''/'' else after_slash p)"

text \<open>Empty elements are left out.\<close>

definition filepath_Join :: "string list \<Rightarrow> string" where
  "filepath_Join elems =
     (let es = dropWhile (\<lambda>e. e = []) elems in if es = [] then [] else filepath_Clean (go_join ''/'' es))"

text \<open>The suffix from the last dot of the last element.\<close>

definition filepath_Ext :: "string \<Rightarrow> string" where
  "filepath_Ext path =
     (let b = after_slash path; r = rev b
      in if CHR ''.'' \<in> set b then CHR ''.'' # rev (takeWhile (\<lambda>c. c \<noteq> CHR ''.'') r) else [])"

end
