(* ===== verification/Bench_Report.thy ===== *)
theory Bench_Report
  imports Bench FilePath
begin

text \<open>
  The benchmark driver (\<^verbatim>\<open>cmd/bench-produce/main.go\<close>), second part: the comparison of targets,
  the report, its summary in words, and the main program. Rendering the report with
  \<^verbatim>\<open>html/template\<close> is an argument.
\<close>

section \<open>Comparisons\<close>

record comparisonRow =
  cr_Scenario :: string
  cr_Winner :: string
  cr_BestRecordsPerSecondText :: string
  cr_NodeWinner :: string
  cr_FewestNodesText :: string
  cr_Results :: "benchResult list"

text \<open>The loop over the results of one scenario.\<close>

record winners =
  wn_winner :: string
  wn_best :: rat
  wn_nodeWinner :: string
  wn_fewestNodes :: int

definition better :: "winners \<Rightarrow> benchResult \<Rightarrow> winners" where
  "better w res =
     (let w1 = (if wn_winner w = [] \<or> wn_best w < br_RecordsPerSecond res
                then w\<lparr>wn_winner := br_TargetName res, wn_best := br_RecordsPerSecond res\<rparr> else w)
      in if 0 < br_CapacityNodes res \<and> (wn_nodeWinner w1 = [] \<or> br_CapacityNodes res < wn_fewestNodes w1)
         then w1\<lparr>wn_nodeWinner := br_TargetName res, wn_fewestNodes := br_CapacityNodes res\<rparr> else w1)"

definition group_winners :: "benchResult list \<Rightarrow> winners" where
  "group_winners grp = foldl better \<lparr>wn_winner = [], wn_best = 0, wn_nodeWinner = [], wn_fewestNodes = 0\<rparr> grp"

text \<open>
  \<^verbatim>\<open>sort.Slice\<close> by the name of the target; it is an insertion sort, which keeps the order of equal names,
  on the few targets a run compares.
\<close>

definition comparison_row :: "benchResult list \<Rightarrow> string \<Rightarrow> comparisonRow" where
  "comparison_row results scenario =
     (let grp = sort_key br_TargetName (filter (\<lambda>r. br_Scenario r = scenario) results);
          w = group_winners grp
      in \<lparr>cr_Scenario = scenario, cr_Winner = wn_winner w, cr_BestRecordsPerSecondText = fixed 2 (wn_best w),
          cr_NodeWinner = wn_nodeWinner w,
          cr_FewestNodesText = (if wn_nodeWinner w \<noteq> [] then itoa (wn_fewestNodes w) else ''n/a''),
          cr_Results = grp\<rparr>)"

definition buildComparisons :: "benchResult list \<Rightarrow> comparisonRow list" where
  "buildComparisons results = map (comparison_row results) (sort (remdups (map br_Scenario results)))"

section \<open>The summary in words\<close>

record tldrReport =
  tl_Enabled :: bool
  tl_Lead :: string
  tl_Bullets :: "string list"

record capacityReport =
  cp_Enabled :: bool
  cp_TargetText :: string
  cp_HeadroomText :: string
  cp_EffectiveText :: string
  cp_Description :: string

definition capacityReportFromConfig :: "capacityConfig \<Rightarrow> capacityReport" where
  "capacityReportFromConfig cfg =
     (if fval_le (cc_TargetRecordsPerSecond cfg) (Fin 0)
      then \<lparr>cp_Enabled = False, cp_TargetText = [], cp_HeadroomText = [], cp_EffectiveText = [], cp_Description = []\<rparr>
      else \<lparr>cp_Enabled = True, cp_TargetText = formatRate (cc_TargetRecordsPerSecond cfg),
            cp_HeadroomText = fval_fixed 0 (fval_times (cc_Headroom cfg) (Fin 100)) @ ''%'',
            cp_EffectiveText = formatRate (effectiveTarget cfg),
            cp_Description = ''Nodes are estimated as ceil(target records/sec '' @ [CHR 0xC3, CHR 0x97] @ '' (1 + headroom) '' @
              [CHR 0xC3, CHR 0xB7] @ '' measured records/sec). Treat rows with non-zero failure rate as saturation signals, not reliable sizing points.''\<rparr>)"

text \<open>The two fastest results of one row; \<open>None\<close> is the zero value, with an empty target name.\<close>

definition set_name :: "benchResult option \<Rightarrow> bool" where
  "set_name r = (case r of None \<Rightarrow> False | Some x \<Rightarrow> br_TargetName x \<noteq> [])"

definition rate_of :: "benchResult option \<Rightarrow> rat" where
  "rate_of r = (case r of None \<Rightarrow> 0 | Some x \<Rightarrow> br_RecordsPerSecond x)"

fun best_two :: "benchResult option \<times> benchResult option \<Rightarrow> benchResult list \<Rightarrow> benchResult option \<times> benchResult option" where
  "best_two (best, second) [] = (best, second)"
| "best_two (best, second) (res # rs) =
     (if br_RecordsPerSecond res \<le> 0 then best_two (best, second) rs
      else if \<not> set_name best \<or> rate_of best < br_RecordsPerSecond res then best_two (Some res, best) rs
      else if \<not> set_name second \<or> rate_of second < br_RecordsPerSecond res then best_two (best, Some res) rs
      else best_two (best, second) rs)"

record closestGap =
  cg_winner :: string
  cg_runnerUp :: string
  cg_scenario :: string
  cg_ratio :: rat

definition closer :: "closestGap \<Rightarrow> comparisonRow \<Rightarrow> closestGap" where
  "closer closest row =
     (case best_two (None, None) (cr_Results row) of
        (Some best, Some second) \<Rightarrow>
          if br_TargetName best = [] \<or> br_TargetName second = [] \<or> br_RecordsPerSecond second \<le> 0 then closest
          else let ratio = fl (br_RecordsPerSecond best / br_RecordsPerSecond second) in
            if cg_winner closest = [] \<or> ratio < cg_ratio closest
            then \<lparr>cg_winner = br_TargetName best, cg_runnerUp = br_TargetName second, cg_scenario = cr_Scenario row, cg_ratio = ratio\<rparr>
            else closest
      | _ \<Rightarrow> closest)"

definition closestComparison :: "comparisonRow list \<Rightarrow> closestGap" where
  "closestComparison comparisons =
     foldl closer \<lparr>cg_winner = [], cg_runnerUp = [], cg_scenario = [], cg_ratio = 0\<rparr> comparisons"

definition uniqueTargetCount :: "benchResult list \<Rightarrow> nat" where
  "uniqueTargetCount results = length (remdups (filter (\<lambda>n. n \<noteq> []) (map br_TargetName results)))"

definition large_binary :: "benchResult \<Rightarrow> bool" where
  "large_binary res \<longleftrightarrow> br_Format res = ''binary'' \<and> 1024 \<le> br_PayloadBytes res \<and> 100 \<le> br_RecordsPerRequest res"

definition hasNarrowLargeBinaryBatch :: "comparisonRow list \<Rightarrow> bool" where
  "hasNarrowLargeBinaryBatch comparisons =
     list_ex (\<lambda>row. let gap = closestComparison [row] in
       \<not> (cg_winner gap = [] \<or> fl (115 / 100) < cg_ratio gap) \<and> list_ex large_binary (cr_Results row)) comparisons"

definition hasLargeBinaryBatch :: "benchResult list \<Rightarrow> bool" where
  "hasLargeBinaryBatch results = list_ex large_binary results"

definition hasFormat :: "benchResult list \<Rightarrow> string \<Rightarrow> bool" where
  "hasFormat results format = list_ex (\<lambda>res. br_Format res = format) results"

text \<open>The counts are a Go map, as the list of its entries.\<close>

definition winnerSummary :: "(string \<times> int) list \<Rightarrow> int \<Rightarrow> string" where
  "winnerSummary counts cases =
     (if cases \<le> 0 \<or> counts = [] then ''no winner could be determined.''
      else go_join ''; ''
             (map (\<lambda>(name, count). name @ '' won '' @ itoa count @ ''/'' @ itoa cases @ '' scenarios'')
               (sort_key (\<lambda>(name, count). (- count, name)) counts)) @ ''.'')"

definition winner_counts :: "(comparisonRow \<Rightarrow> string) \<Rightarrow> comparisonRow list \<Rightarrow> (string \<times> int) list" where
  "winner_counts who comparisons = foldl (\<lambda>m row. if who row \<noteq> [] then bump (who row) m else m) [] comparisons"

definition buildTLDR :: "benchResult list \<Rightarrow> comparisonRow list \<Rightarrow> capacityReport \<Rightarrow> tldrReport" where
  "buildTLDR results comparisons capacity =
     (if results = [] then \<lparr>tl_Enabled = False, tl_Lead = [], tl_Bullets = []\<rparr>
      else
        let compared = (comparisons \<noteq> [] \<and> 1 < uniqueTargetCount results);
            cases = int (length comparisons);
            lead = (if compared then ''Throughput: '' @ winnerSummary (winner_counts cr_Winner comparisons) cases
                    else ''Single-target run; use this report as a baseline for that target and scenario.'');
            nodes = (if compared \<and> cp_Enabled capacity \<and> winner_counts cr_NodeWinner comparisons \<noteq> []
                     then [''Estimated nodes: '' @ winnerSummary (winner_counts cr_NodeWinner comparisons) cases] else []);
            closest = closestComparison comparisons;
            gap = (if cg_winner closest \<noteq> []
                   then [''Closest throughput gap: '' @ cg_winner closest @ '' was '' @ fixed 2 (cg_ratio closest) @ ''x over '' @
                         cg_runnerUp closest @ '' for '' @ cg_scenario closest @
                         ''; treat small margins as topology-sensitive until confirmed with longer, broker-isolated runs.''] else []);
            large = (if hasNarrowLargeBinaryBatch comparisons
                     then [''Large binary batches can naturally narrow the gap: at 1KiB+ payloads and 100 records/request, REST overhead is amortized and Kafka broker/network byte throughput becomes the ceiling.'']
                     else if hasLargeBinaryBatch results
                     then [''Large binary batch rows are more likely to measure Kafka broker/network byte throughput than REST proxy overhead.'']
                     else []);
            binary = (if hasFormat results ''binary''
                      then [''Binary format here means Confluent REST binary media type: JSON envelope with base64 keys/values, not raw Kafka protocol bytes.'']
                      else []);
            estimate = (if cp_Enabled capacity
                        then [''Node estimates are rough capacity planning numbers based on measured records/sec plus configured headroom; validate with longer production-like runs before sizing clusters.'']
                        else [])
        in \<lparr>tl_Enabled = True, tl_Lead = lead, tl_Bullets = nodes @ gap @ large @ binary @ estimate\<rparr>)"

section \<open>The program\<close>

record benchReport =
  rp_GeneratedAt :: string
  rp_Suite :: bool
  rp_Targets :: "targetSpec list"
  rp_Results :: "benchResult list"
  rp_Comparisons :: "comparisonRow list"
  rp_Capacity :: capacityReport
  rp_TLDR :: tldrReport

definition printResult :: "benchResult \<Rightarrow> message list" where
  "printResult res =
     [Lit (''target='' @ br_TargetName res @ '' scenario=''), Quoted (br_Scenario res),
      Lit ('' elapsed='' @ br_Elapsed res @ '' requests='' @ itoa (br_TotalRequests res) @
           '' success='' @ itoa (br_SuccessRequests res) @ '' failed='' @ itoa (br_FailedRequests res) @
           '' records='' @ itoa (br_SuccessRecords res) @ '' records_per_sec='' @ br_RecordsPerSecondText res @
           '' requests_per_sec='' @ br_RequestsPerSecondText res @ '' capacity_nodes='' @ br_CapacityNodesText res @
           '' latency_p50='' @ br_LatencyP50Text res @ '' latency_p95='' @ br_LatencyP95Text res @
           '' latency_p99='' @ br_LatencyP99Text res @ '' failure_rate='' @ br_FailureRateText res)]
     # (if br_Error res \<noteq> []
        then [[Lit (''target='' @ br_TargetName res @ '' scenario=''), Quoted (br_Scenario res), Lit ('' error='' @ br_Error res)]]
        else [])"

text \<open>
  The calls of the operating system, each with its outcome: \<open>mkdir\<close> and \<open>create\<close> say whether they
  fail, \<open>execute\<close> whether rendering fails. The result is the error and the calls made.
\<close>

datatype os_call = MkdirAll string | CreateFile string | ExecuteTemplate

definition writeHTMLReport ::
  "(string \<Rightarrow> string option) \<Rightarrow> (string \<Rightarrow> string option) \<Rightarrow> (benchReport \<Rightarrow> string option) \<Rightarrow> string \<Rightarrow> benchReport \<Rightarrow>
     string option \<times> os_call list" where
  "writeHTMLReport mkdir create execute path report =
     (let dir = filepath_Dir path;
          (made, calls) = (if dir \<noteq> ''.'' \<and> dir \<noteq> [] then (mkdir dir, [MkdirAll dir]) else (None, []))
      in case made of Some e \<Rightarrow> (Some e, calls)
         | None \<Rightarrow> (case create path of Some e \<Rightarrow> (Some e, calls @ [CreateFile path])
           | None \<Rightarrow> (execute report, calls @ [CreateFile path, ExecuteTemplate])))"

text \<open>Every target runs every scenario; \<open>exec\<close> gives the results of a run and the time it took.\<close>

definition bench_results ::
  "(fval \<Rightarrow> int) \<Rightarrow> (targetSpec \<Rightarrow> scenarioSpec \<Rightarrow> bench_res list \<times> int) \<Rightarrow> benchOptions \<Rightarrow> benchResult list" where
  "bench_results unspecified exec opts =
     [(case exec target scenario of (results, elapsed) \<Rightarrow> runScenario unspecified opts target scenario results elapsed).
        scenario \<leftarrow> bo_Scenarios opts, target \<leftarrow> bo_Targets opts]"

definition bench_report :: "benchOptions \<Rightarrow> benchResult list \<Rightarrow> benchReport" where
  "bench_report opts results =
     (let comparisons = buildComparisons results; capacity = capacityReportFromConfig (bo_Capacity opts)
      in \<lparr>rp_GeneratedAt = bo_GeneratedAt opts, rp_Suite = bo_Suite opts, rp_Targets = bo_Targets opts, rp_Results = results,
          rp_Comparisons = comparisons, rp_Capacity = capacity, rp_TLDR = buildTLDR results comparisons capacity\<rparr>)"

text \<open>The exit status, the lines on standard output and the message on standard error.\<close>

definition bench_main ::
  "(string \<Rightarrow> num_error + fval) \<Rightarrow> (string \<Rightarrow> string + string \<times> string \<times> string) \<Rightarrow> (nat \<Rightarrow> int) \<Rightarrow> string \<Rightarrow> (fval \<Rightarrow> int) \<Rightarrow>
     (targetSpec \<Rightarrow> scenarioSpec \<Rightarrow> bench_res list \<times> int) \<Rightarrow> (string \<Rightarrow> benchReport \<Rightarrow> string option \<times> os_call list) \<Rightarrow>
     string list \<Rightarrow> int \<times> message list \<times> message" where
  "bench_main parseFloat parseURL now generatedAt unspecified exec write args =
     (case flag_Parse (bench_flag_set parseFloat parseURL now) bench_defaults args of
        Err HelpRequested \<Rightarrow> (0, [], [])
      | Err (FlagError e) \<Rightarrow> (2, [], e)
      | Ok (f, rest) \<Rightarrow>
        (case buildOptions parseURL now generatedAt f of Err e \<Rightarrow> (2, [], e)
         | Ok opts \<Rightarrow>
           let results = bench_results unspecified exec opts; lines = concat (map printResult results)
           in if bo_HTMLPath opts = [] then (0, lines, [])
              else (case fst (write (bo_HTMLPath opts) (bench_report opts results)) of
                Some e \<Rightarrow> (1, lines, [Lit ''write html report: '', Lit e])
              | None \<Rightarrow> (0, lines @ [[Lit ''html_report='', Lit (bo_HTMLPath opts)]], []))))"

end
