(* ===== verification/Workers.thy ===== *)
theory Workers
  imports Prelude "HOL-Library.Multiset"
begin

text \<open>
  The worker pool of the two load drivers: goroutines that post requests until a timer closes
  \<^verbatim>\<open>done\<close> or, in the benchmark, until the shared counter \<^verbatim>\<open>started\<close> has passed the limit, a buffered
  channel for their results, a goroutine that closes the channel when all workers have returned,
  and the loop that receives. Every access to shared state is one step.
\<close>

section \<open>The pool\<close>

text \<open>
  Where a worker is: before the counter, before the look at \<^verbatim>\<open>done\<close>, before the request, with a
  result to send, returned.
\<close>

datatype 'a worker = Claiming | Checking | Posting | Sending 'a | Exited

text \<open>\<open>pl_made\<close> collects the results of all requests made; it is not part of the program.\<close>

record 'a pool =
  pl_started :: int
  pl_stopped :: bool
  pl_workers :: "'a worker list"
  pl_chan :: "'a list"
  pl_closed :: bool
  pl_received :: "'a list"
  pl_returned :: bool
  pl_made :: "'a multiset"

definition pool_start :: "nat \<Rightarrow> 'a pool" where
  "pool_start clients =
     \<lparr>pl_started = 0, pl_stopped = False, pl_workers = replicate clients Claiming, pl_chan = [], pl_closed = False,
      pl_received = [], pl_returned = False, pl_made = {#}\<rparr>"

text \<open>The atomic addition and the test of its result; without a limit there is neither.\<close>

definition claim :: "int \<Rightarrow> int \<Rightarrow> int" where
  "claim limit started = (if 0 < limit then wrap64 (started + 1) else started)"

definition over :: "int \<Rightarrow> int \<Rightarrow> bool" where
  "over limit started \<longleftrightarrow> 0 < limit \<and> limit < started"

inductive pool_step :: "int \<Rightarrow> nat \<Rightarrow> 'a pool \<Rightarrow> 'a pool \<Rightarrow> bool" for limit capacity where
  claim_one: "i < length (pl_workers p) \<Longrightarrow> pl_workers p ! i = Claiming \<Longrightarrow>
     pool_step limit capacity p
       (p\<lparr>pl_started := claim limit (pl_started p),
          pl_workers := (pl_workers p)[i := (if over limit (claim limit (pl_started p)) then Exited else Checking)]\<rparr>)"
| check_done: "i < length (pl_workers p) \<Longrightarrow> pl_workers p ! i = Checking \<Longrightarrow>
     pool_step limit capacity p (p\<lparr>pl_workers := (pl_workers p)[i := (if pl_stopped p then Exited else Posting)]\<rparr>)"
| post_once: "i < length (pl_workers p) \<Longrightarrow> pl_workers p ! i = Posting \<Longrightarrow>
     pool_step limit capacity p (p\<lparr>pl_workers := (pl_workers p)[i := Sending r], pl_made := add_mset r (pl_made p)\<rparr>)"
| send_result: "i < length (pl_workers p) \<Longrightarrow> pl_workers p ! i = Sending r \<Longrightarrow> length (pl_chan p) < capacity \<Longrightarrow>
     pool_step limit capacity p (p\<lparr>pl_workers := (pl_workers p)[i := Claiming], pl_chan := pl_chan p @ [r]\<rparr>)"
| stop_timer: "\<not> pl_stopped p \<Longrightarrow> pool_step limit capacity p (p\<lparr>pl_stopped := True\<rparr>)"
| close_results: "\<not> pl_closed p \<Longrightarrow> set (pl_workers p) \<subseteq> {Exited} \<Longrightarrow> pool_step limit capacity p (p\<lparr>pl_closed := True\<rparr>)"
| receive: "pl_chan p = r # rest \<Longrightarrow>
     pool_step limit capacity p (p\<lparr>pl_chan := rest, pl_received := pl_received p @ [r]\<rparr>)"
| range_ends: "pl_closed p \<Longrightarrow> pl_chan p = [] \<Longrightarrow> \<not> pl_returned p \<Longrightarrow> pool_step limit capacity p (p\<lparr>pl_returned := True\<rparr>)"

inductive pool_reachable :: "int \<Rightarrow> nat \<Rightarrow> nat \<Rightarrow> 'a pool \<Rightarrow> bool" for limit capacity clients where
  pool_init: "pool_reachable limit capacity clients (pool_start clients)"
| pool_more: "pool_reachable limit capacity clients p \<Longrightarrow> pool_step limit capacity p p' \<Longrightarrow> pool_reachable limit capacity clients p'"

section \<open>The invariant\<close>

fun sending :: "'a worker \<Rightarrow> 'a multiset" where
  "sending (Sending r) = {#r#}"
| "sending w = {#}"

fun claimed :: "'a worker \<Rightarrow> int" where
  "claimed Checking = 1"
| "claimed Posting = 1"
| "claimed w = 0"

fun exited :: "'a worker \<Rightarrow> int" where
  "exited Exited = 1"
| "exited w = 0"

definition in_hand :: "'a pool \<Rightarrow> 'a multiset" where
  "in_hand p = (\<Sum>w\<leftarrow>pl_workers p. sending w)"

definition claims :: "'a pool \<Rightarrow> int" where
  "claims p = int (size (pl_made p)) + (\<Sum>w\<leftarrow>pl_workers p. claimed w)"

definition exits :: "'a pool \<Rightarrow> int" where
  "exits p = (\<Sum>w\<leftarrow>pl_workers p. exited w)"

text \<open>
  Every result made is received, in the channel or in the hand of a worker. With a limit, the
  claims that led or may lead to a request are at most the counter and the limit, exactly so while
  the timer has not fired, and the counter passes the limit by at most one per returned worker.
\<close>

definition pool_ok :: "int \<Rightarrow> nat \<Rightarrow> 'a pool \<Rightarrow> bool" where
  "pool_ok limit clients p \<longleftrightarrow>
     length (pl_workers p) = clients \<and>
     pl_made p = mset (pl_received p) + mset (pl_chan p) + in_hand p \<and>
     (pl_closed p \<longrightarrow> set (pl_workers p) \<subseteq> {Exited}) \<and>
     (pl_returned p \<longrightarrow> pl_closed p \<and> pl_chan p = [])"

definition limit_ok :: "int \<Rightarrow> 'a pool \<Rightarrow> bool" where
  "limit_ok limit p \<longleftrightarrow>
     0 \<le> pl_started p \<and> claims p \<le> min (pl_started p) limit \<and> pl_started p \<le> limit + exits p \<and>
     (\<not> pl_stopped p \<longrightarrow> claims p = min (pl_started p) limit \<and> (0 < exits p \<longrightarrow> limit < pl_started p))"

lemma sum_update:
  fixes f :: "'w \<Rightarrow> 'b :: ab_group_add"
  assumes "i < length ws"
  shows "(\<Sum>w\<leftarrow>ws[i := v]. f w) = (\<Sum>w\<leftarrow>ws. f w) - f (ws ! i) + f v"
  using assms by (induction ws arbitrary: i) (auto split: nat.splits)

lemma sending_update:
  assumes "i < length ws"
  shows "(\<Sum>w\<leftarrow>ws[i := v]. sending w) + sending (ws ! i) = (\<Sum>w\<leftarrow>ws. sending w) + sending v"
  using assms by (induction ws arbitrary: i) (auto split: nat.splits simp: ac_simps)

lemma pool_ok_start: "pool_ok limit clients (pool_start clients)"
proof -
  have "sum_list (replicate clients {#}) = {#}" by (induction clients) auto
  then show ?thesis by (simp add: pool_ok_def pool_start_def in_hand_def)
qed

lemma exited_stays: "set ws \<subseteq> {Exited} \<Longrightarrow> i < length ws \<Longrightarrow> ws ! i = Exited"
  using nth_mem by fastforce

lemma pool_step_ok:
  assumes "pool_step limit capacity p p'" "pool_ok limit clients p"
  shows "pool_ok limit clients p'"
  using assms(1)
proof cases
  case (post_once i r)
  then show ?thesis
    using assms(2) exited_stays [of "pl_workers p" i] sending_update [of i "pl_workers p" "Sending r"]
    by (auto simp: pool_ok_def in_hand_def)
next
  case (send_result i r)
  then show ?thesis
    using assms(2) exited_stays [of "pl_workers p" i] sending_update [of i "pl_workers p" Claiming]
    by (auto simp: pool_ok_def in_hand_def)
next
  case (claim_one i)
  then show ?thesis
    using assms(2) exited_stays [of "pl_workers p" i] sending_update [of i "pl_workers p" Exited] sending_update [of i "pl_workers p" Checking]
    by (auto simp: pool_ok_def in_hand_def)
next
  case (check_done i)
  then show ?thesis
    using assms(2) exited_stays [of "pl_workers p" i] sending_update [of i "pl_workers p" Exited] sending_update [of i "pl_workers p" Posting]
    by (auto simp: pool_ok_def in_hand_def)
qed (use assms(2) in \<open>auto simp: pool_ok_def in_hand_def\<close>)

lemma limit_ok_start: "0 < limit \<Longrightarrow> limit_ok limit (pool_start clients)"
  by (simp add: limit_ok_def pool_start_def claims_def exits_def sum_list_replicate)

lemma exits_bounds: "0 \<le> exits p" "exits p \<le> int (length (pl_workers p))"
proof -
  have "0 \<le> (\<Sum>w\<leftarrow>ws. exited w) \<and> (\<Sum>w\<leftarrow>ws. exited w) \<le> int (length ws)" for ws :: "'a worker list"
  proof (induction ws)
    case (Cons w ws)
    then show ?case by (cases w) auto
  qed simp
  then show "0 \<le> exits p" "exits p \<le> int (length (pl_workers p))" by (auto simp: exits_def)
qed

lemma exits_less: "i < length (pl_workers p) \<Longrightarrow> exited (pl_workers p ! i) = 0 \<Longrightarrow> exits p < int (length (pl_workers p))"
proof -
  assume i: "i < length (pl_workers p)" "exited (pl_workers p ! i) = 0"
  have "exits (p\<lparr>pl_workers := (pl_workers p)[i := Exited]\<rparr>) = exits p + 1"
    using i by (simp add: exits_def sum_update)
  then show ?thesis using exits_bounds(2) [of "p\<lparr>pl_workers := (pl_workers p)[i := Exited]\<rparr>"] by simp
qed

lemma claim_no_wrap:
  assumes "limit_ok limit p" "i < length (pl_workers p)" "exited (pl_workers p ! i) = 0" "0 < limit"
    "limit + int (length (pl_workers p)) \<le> max_int64"
  shows "claim limit (pl_started p) = pl_started p + 1"
proof -
  have "exits p < int (length (pl_workers p))" using exits_less assms(2,3) by blast
  then have "pl_started p + 1 \<le> max_int64" "0 \<le> pl_started p" using assms(1,5) by (auto simp: limit_ok_def)
  then have "wrap64 (pl_started p + 1) = pl_started p + 1" by (intro wrap64_id in_int64_nonneg) auto
  then show ?thesis using assms(4) by (simp add: claim_def)
qed

lemma limit_step_ok:
  assumes "pool_step limit capacity p p'" "limit_ok limit p" "length (pl_workers p) = clients" "0 < limit" "limit + int clients \<le> max_int64"
  shows "limit_ok limit p'"
  using assms(1)
proof cases
  case (claim_one i)
  have "claim limit (pl_started p) = pl_started p + 1" using claim_no_wrap [of limit p i] claim_one assms by simp
  then show ?thesis
    using claim_one assms(2,4) exits_bounds(1) [of p] by (auto simp: limit_ok_def claims_def exits_def sum_update over_def)
qed (use assms(2) exits_bounds(1) [of p] in \<open>auto simp: limit_ok_def claims_def exits_def sum_update\<close>)

lemma pool_reachable_ok: "pool_reachable limit capacity clients p \<Longrightarrow> pool_ok limit clients p"
  by (induction rule: pool_reachable.induct) (auto intro: pool_ok_start pool_step_ok)

lemma limit_reachable_ok:
  assumes "pool_reachable limit capacity clients p" "0 < limit" "limit + int clients \<le> max_int64"
  shows "limit_ok limit p"
  using assms(1)
proof induction
  case (pool_more p p')
  then show ?case using limit_step_ok [of limit capacity p p' clients] assms(2,3) pool_reachable_ok [of limit capacity clients p] by (auto simp: pool_ok_def)
qed (use limit_ok_start assms(2) in auto)

section \<open>What a run delivers\<close>

lemma all_exited: "set ws \<subseteq> {Exited} \<Longrightarrow> (\<Sum>w\<leftarrow>ws. sending w) = {#} \<and> (\<Sum>w\<leftarrow>ws. claimed w) = 0 \<and> (\<Sum>w\<leftarrow>ws. exited w) = int (length ws)"
  by (induction ws) auto

lemma pool_delivers:
  assumes "pool_reachable limit capacity clients p" "pl_returned p"
  shows "mset (pl_received p) = pl_made p"
  using pool_reachable_ok [OF assms(1)] assms(2) all_exited [of "pl_workers p"] by (auto simp: pool_ok_def in_hand_def)

lemma pool_limited:
  assumes "pool_reachable limit capacity clients p" "0 < limit" "limit + int clients \<le> max_int64"
  shows "int (size (pl_made p)) \<le> limit"
proof -
  have "0 \<le> (\<Sum>w\<leftarrow>ws. claimed w)" for ws :: "'a worker list"
  proof (induction ws)
    case (Cons w ws)
    then show ?case by (cases w) auto
  qed simp
  from this [of "pl_workers p"] have "int (size (pl_made p)) \<le> claims p" by (simp add: claims_def)
  also have "\<dots> \<le> limit" using limit_reachable_ok [OF assms] by (simp add: limit_ok_def)
  finally show ?thesis .
qed

lemma pool_exact:
  assumes "pool_reachable limit capacity clients p" "pl_returned p" "0 < limit" "limit + int clients \<le> max_int64" "\<not> pl_stopped p" "0 < clients"
  shows "int (length (pl_received p)) = limit"
proof -
  have ok: "pool_ok limit clients p" using pool_reachable_ok assms(1) by blast
  then have all: "set (pl_workers p) \<subseteq> {Exited}" "length (pl_workers p) = clients" using assms(2) by (auto simp: pool_ok_def)
  have "exits p = int clients" "claims p = int (size (pl_made p))" using all_exited [OF all(1)] all(2) by (auto simp: exits_def claims_def)
  moreover have "size (pl_made p) = length (pl_received p)" using pool_delivers [OF assms(1,2)] size_mset by metis
  ultimately show ?thesis using limit_reachable_ok [OF assms(1,3,4)] assms(5,6) by (auto simp: limit_ok_def)
qed

section \<open>Counting the results\<close>

text \<open>
  What the two collecting loops have in common: a counter that starts at zero and is increased by
  one, in 64 bits, for every result.
\<close>

locale collector =
  fixes collect :: "'acc \<Rightarrow> 'a \<Rightarrow> 'acc" and start :: 'acc and requests :: "'acc \<Rightarrow> int"
  assumes start_zero: "requests start = 0"
    and collect_one: "requests (collect a r) = wrap64 (requests a + 1)"
begin

lemma requests_foldl: "wrap64 (requests (foldl collect a rs)) = wrap64 (requests a + int (length rs))"
proof (induction rs arbitrary: a)
  case (Cons r rs)
  show ?case using Cons [of "collect a r"] by (simp add: collect_one wrap64_add_wrap algebra_simps)
qed simp

lemma requests_counted: "requests (foldl collect start rs) = wrap64 (int (length rs))"
proof (cases rs rule: rev_cases)
  case Nil
  then show ?thesis by (simp add: start_zero wrap64_def)
next
  case (snoc qs q)
  have "requests (foldl collect start rs) = wrap64 (wrap64 (requests (foldl collect start qs)) + 1)"
    by (simp add: snoc collect_one wrap64_add_wrap)
  then show ?thesis by (simp add: requests_foldl start_zero snoc wrap64_add_wrap algebra_simps)
qed

text \<open>When the loop has ended, the counter is the number of requests made.\<close>

lemma pool_counted:
  assumes "pool_reachable limit capacity clients p" "pl_returned p"
  shows "requests (foldl collect start (pl_received p)) = wrap64 (int (size (pl_made p)))"
proof -
  have "length (pl_received p) = size (pl_made p)" using pool_delivers [OF assms] size_mset by metis
  then show ?thesis by (simp add: requests_counted)
qed

end

section \<open>Progress and termination\<close>

lemma pool_not_stuck:
  assumes "0 < capacity" "\<not> pl_returned p"
  shows "\<exists>p'. pool_step limit capacity p p'"
proof (cases "pl_chan p")
  case (Cons r rest)
  then show ?thesis by (blast intro: pool_step.receive)
next
  case Nil
  show ?thesis
  proof (cases "set (pl_workers p) \<subseteq> {Exited}")
    case True
    then show ?thesis using Nil assms(2) pool_step.close_results pool_step.range_ends by blast
  next
    case False
    then obtain w where "w \<in> set (pl_workers p)" "w \<noteq> Exited" by blast
    then obtain i where i: "i < length (pl_workers p)" "pl_workers p ! i \<noteq> Exited" by (metis in_set_conv_nth)
    show ?thesis
    proof (cases "pl_workers p ! i")
      case (Sending r)
      then show ?thesis using pool_step.send_result [OF i(1) Sending, of capacity] Nil assms(1) by auto
    next
      case Claiming
      then show ?thesis using pool_step.claim_one [OF i(1)] by blast
    next
      case Checking
      then show ?thesis using pool_step.check_done [OF i(1)] by blast
    next
      case Posting
      then show ?thesis using pool_step.post_once [OF i(1)] by blast
    qed (use i(2) in simp)
  qed
qed

text \<open>The work left to a worker, after the timer has fired and before, and to the pool.\<close>

fun work_stopped :: "'a worker \<Rightarrow> nat" where
  "work_stopped Exited = 0"
| "work_stopped Checking = 1"
| "work_stopped Claiming = 2"
| "work_stopped (Sending r) = 4"
| "work_stopped Posting = 5"

fun work_running :: "'a worker \<Rightarrow> nat" where
  "work_running Exited = 0"
| "work_running Claiming = 2"
| "work_running (Sending r) = 4"
| "work_running Posting = 5"
| "work_running Checking = 6"

definition pool_work :: "int \<Rightarrow> 'a pool \<Rightarrow> nat" where
  "pool_work limit p =
     (if pl_stopped p then (\<Sum>w\<leftarrow>pl_workers p. work_stopped w)
      else (\<Sum>w\<leftarrow>pl_workers p. work_running w) + 5 * nat (limit - pl_started p)) +
     length (pl_chan p) + (if pl_closed p then 0 else 1) + (if pl_returned p then 0 else 1)"

lemma sum_nat_update:
  fixes f :: "'w \<Rightarrow> nat"
  assumes "i < length ws"
  shows "(\<Sum>w\<leftarrow>ws[i := v]. f w) + f (ws ! i) = (\<Sum>w\<leftarrow>ws. f w) + f v"
  using assms by (induction ws arbitrary: i) (auto split: nat.splits)

lemma pool_step_work:
  assumes "pool_step limit capacity p p'" "pl_stopped p \<or> 0 < limit \<and> limit_ok limit p \<and> limit + int (length (pl_workers p)) \<le> max_int64"
  shows "(if pl_stopped p' then 0 else 1 :: nat) < (if pl_stopped p then 0 else 1) \<or>
    pl_stopped p' = pl_stopped p \<and> pool_work limit p' < pool_work limit p"
  using assms(1)
proof cases
  case (claim_one i)
  note u = sum_nat_update [OF claim_one(2)]
  show ?thesis
  proof (cases "pl_stopped p")
    case True
    then show ?thesis using claim_one u [where f = work_stopped and v = Exited] u [where f = work_stopped and v = Checking]
      by (auto simp: pool_work_def)
  next
    case False
    then have "claim limit (pl_started p) = pl_started p + 1" using claim_no_wrap [of limit p i] claim_one assms(2) by simp
    then show ?thesis
      using False assms(2) claim_one u [where f = work_running and v = Exited] u [where f = work_running and v = Checking]
      by (auto simp: pool_work_def over_def)
  qed
next
  case (check_done i)
  then show ?thesis
    using sum_nat_update [OF check_done(2), where f = work_stopped and v = Exited] sum_nat_update [OF check_done(2), where f = work_running and v = Posting]
    by (auto simp: pool_work_def)
next
  case (post_once i r)
  then show ?thesis
    using sum_nat_update [OF post_once(2), where f = work_stopped and v = "Sending r"]
      sum_nat_update [OF post_once(2), where f = work_running and v = "Sending r"]
    by (auto simp: pool_work_def)
next
  case (send_result i r)
  then show ?thesis
    using sum_nat_update [OF send_result(2), where f = work_stopped and v = Claiming]
      sum_nat_update [OF send_result(2), where f = work_running and v = Claiming]
    by (auto simp: pool_work_def)
qed (auto simp: pool_work_def)

end
