(* ===== verification/Bench_Props.thy ===== *)
theory Bench_Props
  imports Bench_Report Soak_Props Workers
begin

text \<open>
  The benchmark driver against the proxy and against its own purpose: the proxy reads its bodies
  as the records they stand for, a run collects every request its workers made and keeps the limit,
  runs end, and the comparison of targets loses no result and names a fastest target.
\<close>

section \<open>The body is accepted\<close>

definition kv_json :: "json \<times> json \<Rightarrow> json" where
  "kv_json kv = JObj [] [(json_string ''key'', fst kv), (json_string ''value'', snd kv)]"

definition kv_record :: "json \<times> json \<Rightarrow> rawRecord" where
  "kv_record kv = zero_rawRecord\<lparr>rr_Key := \<lparr>nr_Present = True, nr_Raw = render (fst kv)\<rparr>,
                                  rr_Value := \<lparr>nr_Present = True, nr_Raw = render (snd kv)\<rparr>\<rparr>"

definition kv_request :: "(json \<times> json) list \<Rightarrow> bytes" where
  "kv_request kvs = render (JObj [] [(json_string ''records'', JArr [] (map kv_json kvs))])"

lemma dec_kv_record: "dec_struct rawRecord_fields (canon (kv_json kv)) zero_rawRecord = (kv_record kv, DecOk)"
  by (simp add: kv_json_def rawRecord_fields_def find_field_def str_val_request_keys fld_def nullableRaw_UnmarshalJSON_def
      zero_rawRecord_def seq_status_def kv_record_def raw_canon)

lemma dec_kv_records:
  "dec_elems zero_rawRecord (dec_struct rawRecord_fields) (map (\<lambda>kv. canon (kv_json kv)) kvs) [] = (map kv_record kvs, DecOk)"
  by (induction kvs) (simp_all add: dec_kv_record seq_status_def)

definition kv_ok :: "json \<times> json \<Rightarrow> bool" where
  "kv_ok kv \<longleftrightarrow> tokens_ok (fst kv) \<and> tokens_ok (snd kv) \<and> jdepth (fst kv) \<le> 10 \<and> jdepth (snd kv) \<le> 10"

lemma unmarshal_kv_request:
  assumes "kvs \<noteq> []" "\<forall>kv\<in>set kvs. kv_ok kv"
  shows "unmarshal (dec_struct rawProduceRequest_fields) (kv_request kvs) zero_rawProduceRequest =
    (zero_rawProduceRequest\<lparr>pr_Records := Some (map kv_record kvs, length kvs)\<rparr>, True)"
proof -
  let ?j = "JObj [] [(json_string ''records'', JArr [] (map kv_json kvs))]"
  have k: "kv_ok kv \<Longrightarrow> tokens_ok (kv_json kv) \<and> jdepth (kv_json kv) \<le> 11" for kv
    using json_string_token by (simp add: kv_ok_def kv_json_def)
  have "\<forall>kv\<in>set kvs. kv_ok kv \<Longrightarrow> foldr max (map (\<lambda>kv. jdepth (kv_json kv)) kvs) 0 \<le> 11"
    using k by (induction kvs) simp_all
  then have "json_parse (kv_request kvs) = Some (canon ?j)"
    using json_parse_render [of ?j "[]"] json_string_token assms(2) k
    by (simp add: kv_request_def list_all_iff maxNestingDepth_def comp_def)
  then show ?thesis using assms(1) dec_kv_records [of kvs]
    by (simp add: unmarshal_def rawProduceRequest_fields_def find_field_def str_val_request_keys fld_def
        zero_rawProduceRequest_def seq_status_def comp_def)
qed

text \<open>The key of a record, and what Kafka gets for it.\<close>

definition bench_key :: "string \<Rightarrow> nat \<Rightarrow> string" where
  "bench_key keyPrefix i = keyPrefix @ ''-'' @ itoa (int i)"

definition bench_key_json :: "string \<Rightarrow> string \<Rightarrow> nat \<Rightarrow> json" where
  "bench_key_json format keyPrefix i =
     JStr (json_string (if format = ''binary'' then b64_encode (bench_key keyPrefix i) else bench_key keyPrefix i))"

definition bench_sent_key :: "string \<Rightarrow> string \<Rightarrow> nat \<Rightarrow> bytes" where
  "bench_sent_key format keyPrefix i =
     (if format = ''binary'' then bench_key keyPrefix i else json_string (bench_key keyPrefix i))"

text \<open>Without keys the benchmark sends what the soak test sends.\<close>

lemma bench_body_without_keys: "bench_buildBody records payloadBytes [] format = soak_buildBody records payloadBytes format"
  by (simp add: bench_buildBody_def soak_buildBody_def bench_record_json_def soak_value_json_def Let_def comp_def cong: if_cong)

lemma bench_body_with_keys:
  "keyPrefix \<noteq> [] \<Longrightarrow> bench_buildBody records payloadBytes keyPrefix format =
    kv_request (map (\<lambda>i. (bench_key_json format keyPrefix i, soak_value_json format (soak_payload payloadBytes) i)) [0..<nat records])"
  by (simp add: bench_buildBody_def kv_request_def kv_json_def bench_record_json_def soak_value_json_def bench_key_json_def bench_key_def
      soak_payload_def Let_def comp_def cong: if_cong)

lemma bench_key_decodes:
  assumes "format = ''json'' \<or> format = ''binary''"
  shows "decodeNullableValue \<lparr>nr_Present = True, nr_Raw = render (bench_key_json format keyPrefix i)\<rparr> (soak_format format) =
    Ok (Some (bench_sent_key format keyPrefix i))"
proof (cases "format = ''binary''")
  case True
  then show ?thesis
    using decode_binary_value [of "Some (bench_key keyPrefix i)"]
    by (simp add: soak_format_def soak_content_types bench_key_json_def bench_sent_key_def binary_json_def)
next
  case False
  then have f: "format = ''json''" using assms by simp
  have "tokens_ok (bench_key_json format keyPrefix i)" "jdepth (bench_key_json format keyPrefix i) \<le> 10"
    "render (bench_key_json format keyPrefix i) \<noteq> ''null''"
    using json_string_token by (auto simp: bench_key_json_def json_string_def)
  from decode_json_payload [OF this] show ?thesis
    by (simp add: soak_format_def soak_content_types bench_sent_key_def f) (simp add: bench_key_json_def)
qed

lemma bench_format_ok: "bench_parseFormat v = Ok f \<Longrightarrow> f = ''json'' \<or> f = ''binary''"
  by (auto simp: bench_parseFormat_def Let_def split: if_splits)

lemma traverse_formats: "traverse bench_parseFormat parts = Ok fs \<Longrightarrow> set fs \<subseteq> {''json'', ''binary''}"
  by (induction parts arbitrary: fs) (auto split: sum.splits dest: bench_format_ok)

lemma positiveInts_ok: "positiveInts ns = Ok ms \<Longrightarrow> ms = ns \<and> ns \<noteq> [] \<and> (\<forall>n\<in>set ns. 0 < n)"
  by (auto simp: positiveInts_def list_ex_iff not_le split: if_splits)

lemma parse_lists_positive:
  "parseByteSizeList v = Ok ms \<Longrightarrow> ms \<noteq> [] \<and> (\<forall>n\<in>set ms. 0 < n)"
  "parseIntList v = Ok ms \<Longrightarrow> ms \<noteq> [] \<and> (\<forall>n\<in>set ms. 0 < n)"
  using positiveInts_ok by (fastforce simp: parseByteSizeList_def parseIntList_def split: sum.splits)+

definition scenario_ok :: "scenarioSpec \<Rightarrow> bool" where
  "scenario_ok s \<longleftrightarrow> (sc_Format s = ''json'' \<or> sc_Format s = ''binary'') \<and> 0 < sc_RecordsPerRequest s \<and> 0 \<le> sc_PayloadBytes s \<and> 0 < sc_Clients s"

lemma suite_member:
  "s \<in> set (suite_scenarios payloads recordCounts clientsList formats compressions acksValues) \<Longrightarrow>
    sc_PayloadBytes s \<in> set payloads \<and> sc_RecordsPerRequest s \<in> set recordCounts \<and> sc_Clients s \<in> set clientsList \<and> sc_Format s \<in> set formats"
  by (auto simp: suite_scenarios_def)

lemma build_suite:
  assumes "build_scenarios f = Ok ss" "bf_suite f"
  obtains payloads recordCounts clientsList formats where
    "ss = suite_scenarios payloads recordCounts clientsList formats (parseLabelList (bf_compressionLabels f)) (parseLabelList (bf_acksLabels f))"
    "\<forall>n\<in>set payloads. 0 < n" "\<forall>n\<in>set recordCounts. 0 < n" "\<forall>n\<in>set clientsList. 0 < n" "set formats \<subseteq> {''json'', ''binary''}"
proof -
  obtain payloads recordCounts clientsList formats where l: "parseByteSizeList (bf_payloadSizes f) = Ok payloads"
      "parseIntList (bf_recordsPerRequest f) = Ok recordCounts" "parseIntList (bf_clientCounts f) = Ok clientsList"
      "parseFormatList (bf_formats f) = Ok formats"
      "ss = suite_scenarios payloads recordCounts clientsList formats (parseLabelList (bf_compressionLabels f)) (parseLabelList (bf_acksLabels f))"
    using assms by (auto simp: build_scenarios_def split: sum.splits)
  have "set formats \<subseteq> {''json'', ''binary''}"
    using l(4) traverse_formats [of _ formats] by (auto simp: parseFormatList_def Let_def split: if_splits)
  then show thesis using that l(5) parse_lists_positive(1) [OF l(1)] parse_lists_positive(2) [OF l(2)] parse_lists_positive(2) [OF l(3)] by blast
qed

lemma build_scenarios_ok:
  assumes "build_scenarios f = Ok ss" "s \<in> set ss"
  shows "scenario_ok s"
proof (cases "bf_suite f")
  case True
  from assms(1) True obtain payloads recordCounts clientsList formats where
    "ss = suite_scenarios payloads recordCounts clientsList formats (parseLabelList (bf_compressionLabels f)) (parseLabelList (bf_acksLabels f))"
    "\<forall>n\<in>set payloads. 0 < n" "\<forall>n\<in>set recordCounts. 0 < n" "\<forall>n\<in>set clientsList. 0 < n" "set formats \<subseteq> {''json'', ''binary''}"
    by (rule build_suite)
  then show ?thesis using suite_member [of s payloads] assms(2) by (fastforce simp: scenario_ok_def intro: less_imp_le)
next
  case False
  then show ?thesis using assms
    by (auto simp: build_scenarios_def scenario_ok_def split: sum.splits if_splits dest: bench_format_ok)
qed

lemma buildOptions_ok:
  assumes "buildOptions parseURL now generatedAt f = Ok opts"
  shows "build_scenarios f = Ok (bo_Scenarios opts)" "build_targets parseURL now f = Ok (bo_Targets opts)" "bo_Scenarios opts \<noteq> []"
    "0 < bo_MaxSamples opts"
  using assms by (auto simp: buildOptions_def split: if_splits sum.splits)

lemma bench_format: "parseContentType (bench_contentTypeForFormat format) = parseContentType (soak_contentTypeForFormat format)"
  by (simp add: bench_contentTypeForFormat_def soak_contentTypeForFormat_def)

text \<open>
  C37: the proxy accepts what the benchmark sends. For options the benchmark accepts, with a key
  prefix, its content type is one the proxy knows and its body, within the proxy's limits, is
  decoded to exactly the configured number of records in order, the \<open>i\<close>-th with the key made
  of the prefix and \<open>i\<close> (as JSON text in the JSON format) and with its payload.
\<close>

theorem bench_body_accepted:
  assumes "buildOptions parseURL now generatedAt f = Ok opts" and "s \<in> set (bo_Scenarios opts)" and "bo_KeyPrefix opts \<noteq> []"
    and "sc_RecordsPerRequest s \<le> dl_MaxRecords (limits_withDefaults l)"
    and "\<forall>i < nat (sc_RecordsPerRequest s).
      int (length (bench_sent_key (sc_Format s) (bo_KeyPrefix opts) i)) \<le> dl_MaxKeyBytes (limits_withDefaults l) \<and>
      int (length (bench_sent_key (sc_Format s) (bo_KeyPrefix opts) i) + length (soak_sent (sc_Format s) (sc_PayloadBytes s) i))
        \<le> dl_MaxRecordBytes (limits_withDefaults l)"
  shows "parseContentType (bench_contentTypeForFormat (sc_Format s)) = (soak_format (sc_Format s), True) \<and>
    decodeProduceRequestWithSchema enc st topic
      (bench_buildBody (sc_RecordsPerRequest s) (sc_PayloadBytes s) (bo_KeyPrefix opts) (sc_Format s)) (soak_format (sc_Format s)) l None =
    (Ok (map (\<lambda>i. plain_record topic (Some (bench_sent_key (sc_Format s) (bo_KeyPrefix opts) i), Some (soak_sent (sc_Format s) (sc_PayloadBytes s) i)))
           [0..<nat (sc_RecordsPerRequest s)],
         \<lparr>pm_KeySchemaID = None, pm_ValueSchemaID = None\<rparr>), st)"
proof -
  have ok: "scenario_ok s" using build_scenarios_ok buildOptions_ok(1) [OF assms(1)] assms(2) by blast
  then have fm: "sc_Format s = ''json'' \<or> sc_Format s = ''binary''" by (simp add: scenario_ok_def)
  let ?f = "sc_Format s" and ?n = "nat (sc_RecordsPerRequest s)" and ?k = "sc_PayloadBytes s" and ?p = "bo_KeyPrefix opts"
  let ?kv = "\<lambda>i. (bench_key_json ?f ?p i, soak_value_json ?f (soak_payload ?k) i)"
  have "kv_ok (?kv i)" for i
    using soak_value_ok json_string_token by (simp add: kv_ok_def bench_key_json_def)
  then have u: "unmarshal (dec_struct rawProduceRequest_fields) (kv_request (map ?kv [0..<?n])) zero_rawProduceRequest =
      (zero_rawProduceRequest\<lparr>pr_Records := Some (map kv_record (map ?kv [0..<?n]), ?n)\<rparr>, True)"
    using unmarshal_kv_request [of "map ?kv [0..<?n]"] ok by (simp add: scenario_ok_def)
  have loop: "decode_loop enc topic (soak_format ?f) (limits_withDefaults l) req None j (map kv_record (map ?kv is))
      (\<lparr>pm_KeySchemaID = None, pm_ValueSchemaID = None\<rparr>, st) =
     (Ok (map (\<lambda>i. plain_record topic (Some (bench_sent_key ?f ?p i), Some (soak_sent ?f ?k i))) is,
          \<lparr>pm_KeySchemaID = None, pm_ValueSchemaID = None\<rparr>), st)" if "set is \<subseteq> {0..<?n}" for req j "is"
    using that
  proof (induction "is" arbitrary: j)
    case (Cons i "is")
    have "schemaType (soak_format ?f) = []" using fm by (auto simp: soak_format_def soak_content_types)
    moreover have "int (length (bench_sent_key ?f ?p i)) \<le> dl_MaxKeyBytes (limits_withDefaults l) \<and>
        int (length (bench_sent_key ?f ?p i) + length (soak_sent ?f ?k i)) \<le> dl_MaxRecordBytes (limits_withDefaults l)"
      using Cons.prems assms(5) by simp
    ultimately show ?case
      using Cons bench_key_decodes [OF fm, of ?p i] soak_value_decodes [OF fm, of ?k i]
      by (simp add: decode_one_def decodeV2NullableValue_def kv_record_def zero_rawRecord_def slice_elems_def
        decodeHeaders_def first_some_def zero_Metadata_def SizeBytes_def plain_record_def len_nil_def)
  qed simp
  show ?thesis
    using fm ok assms(4) loop [of "[0..<?n]"]
    by (auto simp: bench_body_with_keys [OF assms(3)] decodeProduceRequestWithSchema_def u Let_def slice_elems_def soak_content_types
        bench_format soak_format_def scenario_ok_def)
qed

definition demo_bench_flags :: bench_flags where
  "demo_bench_flags = bench_defaults\<lparr>bf_topic := ''t'', bf_clients := 1, bf_requests := 1, bf_records := 2, bf_payloadBytes := 3, bf_format := ''bin'', bf_keyPrefix := ''k''\<rparr>"

definition demo_scenario :: scenarioSpec where
  "demo_scenario = \<lparr>sc_PayloadBytes = 3, sc_RecordsPerRequest = 2, sc_Clients = 1, sc_Format = ''binary'', sc_Compression = ''runtime'', sc_Acks = ''runtime''\<rparr>"

lemma demo_buildOptions:
  "\<exists>opts. buildOptions (\<lambda>u. Ok (''http'', ''h'', ''/'')) (\<lambda>_. 0) [] demo_bench_flags = Ok opts \<and> bo_Scenarios opts = [demo_scenario] \<and>
     bo_KeyPrefix opts = ''k'' \<and> bo_Requests opts = 1 \<and> bo_Targets opts = [\<lparr>ts_Name = ''go'', ts_URL = ''http://localhost:8080''\<rparr>]"
proof -
  have t: "trimSpace ''t'' = ''t''" "trimSpace ''bin'' = ''bin''" "trimSpace ''go'' = ''go''" "trimSpace ''runtime'' = ''runtime''"
    "trimSpace ''http://localhost:8080'' = ''http://localhost:8080''"
    by (rule trimSpace_id; simp add: space_len_def space_len_end_def ascii_space_def space2_def space3_def)+
  have l: "toLower ''bin'' = ''bin''" by code_simp
  have s: "go_split (CHR '','') ''runtime'' = [''runtime'']" by simp
  have h: "\<not> fl (3 / 10) < 0" using fl_mono [of 0 "3 / 10"] fl_zero by simp
  have c: "cut_equals ''go=http://localhost:8080'' = (''go'', ''http://localhost:8080'', True)" by (simp add: cut_equals_def)
  show ?thesis
    by (simp add: buildOptions_def demo_bench_flags_def bench_defaults_def t l s c h build_targets_def build_scenarios_def parseTarget_def
        bench_parseFormat_def firstLabel_def parseLabelList_def splitCSV_def demo_scenario_def trimRight_char_def Let_def)
qed

theorem bench_body_accepted_witness:
  "fst (decodeProduceRequestWithSchema (None :: unit schemaEncoder option) () ''t'' (bench_buildBody 2 3 ''k'' ''binary'') formatBinary demo_limits None) =
   Ok ([plain_record ''t'' (Some ''k-0'', Some ''xxx''), plain_record ''t'' (Some ''k-1'', Some ''xxx'')],
       \<lparr>pm_KeySchemaID = None, pm_ValueSchemaID = None\<rparr>)"
proof -
  obtain opts where o: "buildOptions (\<lambda>u. Ok (''http'', ''h'', ''/'')) (\<lambda>_. 0) [] demo_bench_flags = Ok opts"
      "bo_Scenarios opts = [demo_scenario]" "bo_KeyPrefix opts = ''k''" using demo_buildOptions by blast
  have k: "bench_key ''k'' 0 = ''k-0''" "bench_key ''k'' (Suc 0) = ''k-1''" by code_simp+
  have n: "[0..<nat (sc_RecordsPerRequest demo_scenario)] = [0, Suc 0]" by (simp add: demo_scenario_def upt_rec)
  have fm: "sc_Format demo_scenario = ''binary''" "sc_PayloadBytes demo_scenario = 3" "sc_RecordsPerRequest demo_scenario = 2"
    by (simp_all add: demo_scenario_def)
  have sent: "soak_sent ''binary'' 3 i = ''xxx''" for i by (simp add: soak_sent_def soak_payload_def numeral_eq_Suc)
  have key: "bench_sent_key ''binary'' ''k'' i = bench_key ''k'' i" for i by (simp add: bench_sent_key_def)
  have ft: "soak_format ''binary'' = formatBinary" by (simp add: soak_format_def soak_content_types)
  have "i < nat (sc_RecordsPerRequest demo_scenario) \<Longrightarrow> length (bench_key ''k'' i) = 3" for i
    using k by (auto simp: fm less_2_cases_iff)
  then show ?thesis
    using bench_body_accepted [OF o(1), of demo_scenario demo_limits "None :: unit schemaEncoder option" "()" "''t''", unfolded o fm sent key ft n [unfolded fm]]
    by (simp add: fm k sent demo_limits_def limits_withDefaults_def positive_or_def)
qed

section \<open>The workers of a scenario\<close>

text \<open>
  The states of the pool that runs a scenario, and of the one that runs the soak test; the
  channel holds four results per client.
\<close>

definition bench_pool :: "benchOptions \<Rightarrow> scenarioSpec \<Rightarrow> bench_res pool \<Rightarrow> bool" where
  "bench_pool opts s = pool_reachable (bo_Requests opts) (nat (sc_Clients s * 4)) (nat (sc_Clients s))"

definition soak_pool :: "soak_options \<Rightarrow> requestResult pool \<Rightarrow> bool" where
  "soak_pool opts = pool_reachable 0 (nat (so_Clients opts * 4)) (nat (so_Clients opts))"

interpretation bench_run: collector "bench_collect m" bench_start ba_totalRequests
  by unfold_locales (simp_all add: bench_start_def bench_collect_def Let_def)

interpretation soak_run: collector "soak_collect opts" soak_start ac_totalRequests
  by unfold_locales (simp_all add: soak_start_def soak_collect_def Let_def)

lemma bench_total_requests:
  "br_TotalRequests (runScenario unspecified opts target s results elapsed) = ba_totalRequests (foldl (bench_collect (bo_MaxSamples opts)) bench_start results)"
  by (simp add: runScenario_def bench_summarize_def Let_def split_beta)

text \<open>A soak run counts every request its workers made.\<close>

lemma soak_run_complete:
  assumes "soak_pool opts p" "pl_returned p"
  shows "mset (pl_received p) = pl_made p" "sm_TotalRequests (runSoak opts (pl_received p) elapsed) = wrap64 (int (size (pl_made p)))"
  using pool_delivers soak_run.pool_counted assms by (auto simp: soak_pool_def runSoak_def soak_summarize_def Let_def)

text \<open>
  C35: a scenario counts every request it made, and no more than its limit. Whatever the order in
  which the workers, the timer, the closing goroutine and the collecting loop take their steps,
  when the loop is over it has counted each request made exactly once. With a request limit no more
  requests are made, and exactly as many unless the timer fired.
\<close>

theorem bench_run_complete:
  assumes "buildOptions parseURL now generatedAt f = Ok opts" and "s \<in> set (bo_Scenarios opts)" and "bench_pool opts s p" and "pl_returned p"
    and "bo_Requests opts + sc_Clients s \<le> max_int64"
  shows "mset (pl_received p) = pl_made p \<and>
    br_TotalRequests (runScenario unspecified opts target s (pl_received p) elapsed) = wrap64 (int (size (pl_made p))) \<and>
    (0 < bo_Requests opts \<longrightarrow> int (size (pl_made p)) \<le> bo_Requests opts \<and>
      (\<not> pl_stopped p \<longrightarrow> br_TotalRequests (runScenario unspecified opts target s (pl_received p) elapsed) = bo_Requests opts))"
proof -
  have c: "0 < sc_Clients s" using build_scenarios_ok buildOptions_ok(1) [OF assms(1)] assms(2) by (auto simp: scenario_ok_def)
  note r = assms(3) [unfolded bench_pool_def]
  note d = pool_delivers [OF r assms(4)]
  have n: "length (pl_received p) = size (pl_made p)" using d size_mset by metis
  have "int (size (pl_made p)) \<le> bo_Requests opts" if "0 < bo_Requests opts"
    using pool_limited [OF r that] assms(5) c by simp
  moreover have "int (length (pl_received p)) = bo_Requests opts" if "0 < bo_Requests opts" "\<not> pl_stopped p"
    using pool_exact [OF r assms(4) that(1) _ that(2)] assms(5) c by simp
  ultimately show ?thesis
    using d n c assms(5) by (auto simp: bench_total_requests bench_run.requests_counted intro!: wrap64_id in_int64_nonneg)
qed

definition demo_pool :: "int \<Rightarrow> 'a worker \<Rightarrow> 'a list \<Rightarrow> bool \<Rightarrow> 'a list \<Rightarrow> bool \<Rightarrow> 'a list \<Rightarrow> 'a pool" where
  "demo_pool started w chan closing received returned made =
     \<lparr>pl_started = started, pl_stopped = False, pl_workers = [w], pl_chan = chan, pl_closed = closing, pl_received = received,
      pl_returned = returned, pl_made = mset made\<rparr>"

lemma demo_pool_run: "pool_reachable 1 4 1 (demo_pool 2 Exited [] True [r] True [r])"
proof -
  have "pool_reachable 1 4 1 (demo_pool 0 Claiming [] False [] False [])"
    using pool_init [of 1 4 1] by (simp add: pool_start_def demo_pool_def)
  from pool_more [OF this pool_step.claim_one [of 0]] have "pool_reachable 1 4 1 (demo_pool 1 Checking [] False [] False [])"
    by (simp add: demo_pool_def claim_def over_def wrap64_def)
  from pool_more [OF this pool_step.check_done [of 0]] have "pool_reachable 1 4 1 (demo_pool 1 Posting [] False [] False [])"
    by (simp add: demo_pool_def)
  from pool_more [OF this pool_step.post_once [of 0 _ _ _ r]] have "pool_reachable 1 4 1 (demo_pool 1 (Sending r) [] False [] False [r])"
    by (simp add: demo_pool_def)
  from pool_more [OF this pool_step.send_result [of 0 _ r]] have "pool_reachable 1 4 1 (demo_pool 1 Claiming [r] False [] False [r])"
    by (simp add: demo_pool_def)
  from pool_more [OF this pool_step.claim_one [of 0]] have "pool_reachable 1 4 1 (demo_pool 2 Exited [r] False [] False [r])"
    by (simp add: demo_pool_def claim_def over_def wrap64_def)
  from pool_more [OF this pool_step.close_results] have "pool_reachable 1 4 1 (demo_pool 2 Exited [r] True [] False [r])"
    by (simp add: demo_pool_def)
  from pool_more [OF this pool_step.receive [of _ r "[]"]] have "pool_reachable 1 4 1 (demo_pool 2 Exited [] True [r] False [r])"
    by (simp add: demo_pool_def)
  from pool_more [OF this pool_step.range_ends] show ?thesis
    by (simp add: demo_pool_def)
qed

theorem bench_run_complete_witness:
  "\<exists>opts. bo_Requests opts = 1 \<and>
     br_TotalRequests (runScenario (\<lambda>_. 0) opts \<lparr>ts_Name = ''go'', ts_URL = ''u''\<rparr> demo_scenario [bench_postOnce [] 2 (Responded 200 [] False) 5] 9) = 1"
proof -
  obtain opts where o: "buildOptions (\<lambda>u. Ok (''http'', ''h'', ''/'')) (\<lambda>_. 0) [] demo_bench_flags = Ok opts"
      "bo_Scenarios opts = [demo_scenario]" "bo_Requests opts = 1" using demo_buildOptions by blast
  let ?p = "demo_pool 2 Exited [] True [bench_postOnce [] 2 (Responded 200 [] False) 5] True [bench_postOnce [] 2 (Responded 200 [] False) 5]"
  have "bench_pool opts demo_scenario ?p" using demo_pool_run by (simp add: bench_pool_def o demo_scenario_def)
  from bench_run_complete [OF o(1) _ this, of "\<lambda>_. 0" "\<lparr>ts_Name = ''go'', ts_URL = ''u''\<rparr>" 9] o show ?thesis
    by (intro exI [of _ opts]) (simp add: demo_pool_def demo_scenario_def max_int64_def)
qed

text \<open>
  C36: runs end. In every reachable state of the pool of a benchmark scenario or a soak run, as
  long as the collecting loop has not ended some step is possible, so no run gets stuck; and once the timer
  has fired, or when there is a request limit, every sequence of steps is finite, so that the loop
  does end, however the goroutines are scheduled.
\<close>

theorem load_runs_end:
  assumes "0 < clients" and "limit + int clients \<le> max_int64"
  shows "wf {(p', p :: 'a pool). pool_reachable limit (clients * 4) clients p \<and> pool_step limit (clients * 4) p p' \<and> (pl_stopped p \<or> 0 < limit)} \<and>
    (\<forall>p :: 'a pool. pl_returned p \<or> (\<exists>p'. pool_step limit (clients * 4) p p'))"
proof -
  let ?r = "{(p', p :: 'a pool). pool_reachable limit (clients * 4) clients p \<and> pool_step limit (clients * 4) p p' \<and> (pl_stopped p \<or> 0 < limit)}"
  have "?r \<subseteq> measures [\<lambda>p. if pl_stopped p then 0 else 1, pool_work limit]"
  proof (rule subrelI)
    fix p' p
    assume "(p', p) \<in> ?r"
    then have a: "pool_reachable limit (clients * 4) clients p" "pool_step limit (clients * 4) p p'" "pl_stopped p \<or> 0 < limit" by auto
    have "length (pl_workers p) = clients" using pool_reachable_ok [OF a(1)] by (simp add: pool_ok_def)
    then have "pl_stopped p \<or> 0 < limit \<and> limit_ok limit p \<and> limit + int (length (pl_workers p)) \<le> max_int64"
      using a(1,3) limit_reachable_ok assms(2) by blast
    from pool_step_work [OF a(2) this] show "(p', p) \<in> measures [\<lambda>p. if pl_stopped p then 0 else 1, pool_work limit]"
      by (auto split: if_splits)
  qed
  then have "wf ?r" using wf_measures wf_subset by blast
  then show ?thesis using pool_not_stuck [of "clients * 4" _ limit] assms(1) by auto
qed

theorem load_runs_end_witness:
  "wf {(p', p :: nat pool). pool_reachable 1 4 1 p \<and> pool_step 1 4 p p' \<and> (pl_stopped p \<or> 0 < (1 :: int))} \<and>
    (\<forall>p :: nat pool. pl_returned p \<or> (\<exists>p'. pool_step 1 4 p p'))"
  using load_runs_end [of 1 1] by (simp add: max_int64_def)

section \<open>The comparison of targets\<close>

lemma mset_filter_disjoint:
  "(\<And>x. \<not> (P x \<and> Q x)) \<Longrightarrow> mset (filter (\<lambda>x. P x \<or> Q x) xs) = mset (filter P xs) + mset (filter Q xs)"
  by (induction xs) auto

lemma mset_groups:
  "distinct ks \<Longrightarrow> mset (concat (map (\<lambda>k. sort_key g (filter (\<lambda>x. f x = k) xs)) ks)) = mset (filter (\<lambda>x. f x \<in> set ks) xs)"
proof (induction ks)
  case (Cons k ks)
  then have "mset (filter (\<lambda>x. f x = k \<or> f x \<in> set ks) xs) = mset (filter (\<lambda>x. f x = k) xs) + mset (filter (\<lambda>x. f x \<in> set ks) xs)"
    by (intro mset_filter_disjoint) auto
  then show ?case using Cons by simp
qed simp

lemma group_winners_best:
  assumes "grp \<noteq> []" "\<forall>r\<in>set grp. br_TargetName r \<noteq> []"
  shows "\<exists>r\<in>set grp. br_TargetName r = wn_winner (group_winners grp) \<and> br_RecordsPerSecond r = wn_best (group_winners grp) \<and>
    (\<forall>r'\<in>set grp. br_RecordsPerSecond r' \<le> br_RecordsPerSecond r)"
  using assms
proof (induction grp rule: rev_induct)
  case (snoc x xs)
  have w: "wn_winner (better w x) = (if wn_winner w = [] \<or> wn_best w < br_RecordsPerSecond x then br_TargetName x else wn_winner w)"
    "wn_best (better w x) = (if wn_winner w = [] \<or> wn_best w < br_RecordsPerSecond x then br_RecordsPerSecond x else wn_best w)" for w
    by (simp_all add: better_def Let_def)
  show ?case
  proof (cases "xs = []")
    case True
    then show ?thesis by (simp add: group_winners_def w)
  next
    case False
    then obtain r where r: "r \<in> set xs" "br_TargetName r = wn_winner (group_winners xs)" "br_RecordsPerSecond r = wn_best (group_winners xs)"
        "\<forall>r'\<in>set xs. br_RecordsPerSecond r' \<le> br_RecordsPerSecond r" using snoc by auto
    have g: "group_winners (xs @ [x]) = better (group_winners xs) x" by (simp add: group_winners_def)
    have "wn_winner (group_winners xs) \<noteq> []" using r(1,2) snoc.prems(2) by auto
    then show ?thesis using r by (cases "wn_best (group_winners xs) < br_RecordsPerSecond x") (auto simp: g w intro: order_trans)
  qed
qed simp

text \<open>
  C38: the comparison loses no result and names a fastest target. For results with named targets,
  the rows are in strictly increasing order of their scenario, together they hold exactly the
  results, each in the row of its scenario, and the winner of a row is a target with the highest
  number of records per second in it.
\<close>

theorem comparisons_complete:
  assumes "\<forall>r\<in>set results. br_TargetName r \<noteq> []"
  shows "sorted_wrt (<) (map cr_Scenario (buildComparisons results)) \<and>
    mset (concat (map cr_Results (buildComparisons results))) = mset results \<and>
    (\<forall>row\<in>set (buildComparisons results). \<exists>r\<in>set (cr_Results row). br_TargetName r = cr_Winner row \<and>
      (\<forall>r'\<in>set (cr_Results row). br_Scenario r' = cr_Scenario row \<and> br_RecordsPerSecond r' \<le> br_RecordsPerSecond r))"
proof (intro conjI ballI)
  let ?ks = "sort (remdups (map br_Scenario results))"
  have r: "cr_Scenario (comparison_row results k) = k" "cr_Winner (comparison_row results k) = wn_winner (group_winners (cr_Results (comparison_row results k)))"
    "cr_Results (comparison_row results k) = sort_key br_TargetName (filter (\<lambda>r. br_Scenario r = k) results)" for k
    by (simp_all add: comparison_row_def Let_def)
  show "sorted_wrt (<) (map cr_Scenario (buildComparisons results))"
    by (simp add: buildComparisons_def comp_def r strict_sorted_iff)
  have "mset (concat (map cr_Results (buildComparisons results))) = mset (filter (\<lambda>x. br_Scenario x \<in> set ?ks) results)"
    using mset_groups [of ?ks br_TargetName br_Scenario results] by (simp add: buildComparisons_def comp_def r)
  also have "filter (\<lambda>x. br_Scenario x \<in> set ?ks) results = results" by (simp add: filter_id_conv)
  finally show "mset (concat (map cr_Results (buildComparisons results))) = mset results" .
  fix row
  assume "row \<in> set (buildComparisons results)"
  then obtain k where k: "row = comparison_row results k" "k \<in> br_Scenario ` set results" by (auto simp: buildComparisons_def)
  then obtain x where "x \<in> set (cr_Results row)" by (auto simp: r)
  then have n: "cr_Results row \<noteq> []" by auto
  have "\<forall>r\<in>set (cr_Results row). br_TargetName r \<noteq> []" and same: "\<forall>r\<in>set (cr_Results row). br_Scenario r = cr_Scenario row"
    using assms by (auto simp: k(1) r(1,3))
  from group_winners_best [OF n this(1)] obtain best where "best \<in> set (cr_Results row)"
      "br_TargetName best = wn_winner (group_winners (cr_Results row))"
      "\<forall>r'\<in>set (cr_Results row). br_RecordsPerSecond r' \<le> br_RecordsPerSecond best" by blast
  moreover have "cr_Winner row = wn_winner (group_winners (cr_Results row))" unfolding k(1) by (rule r(2))
  ultimately show "\<exists>r\<in>set (cr_Results row). br_TargetName r = cr_Winner row \<and>
      (\<forall>r'\<in>set (cr_Results row). br_Scenario r' = cr_Scenario row \<and> br_RecordsPerSecond r' \<le> br_RecordsPerSecond r)"
    using same by (intro bexI [of _ best]) auto
qed

text \<open>The results of a run are named: a target without a name is refused.\<close>

lemma parseTarget_named: "parseTarget parseURL n v = Ok t \<Longrightarrow> ts_Name t \<noteq> []"
  by (auto simp: parseTarget_def Let_def split: prod.splits if_splits)

lemma bench_results_named:
  assumes "\<forall>t\<in>set (bo_Targets opts). ts_Name t \<noteq> []"
  shows "\<forall>r\<in>set (bench_results unspecified exec opts). br_TargetName r \<noteq> []"
proof -
  have "br_TargetName (runScenario unspecified opts t s results elapsed) = ts_Name t" for t s results elapsed
    by (simp add: runScenario_def bench_summarize_def Let_def split_beta)
  then show ?thesis using assms by (auto simp: bench_results_def split_beta)
qed

definition demo_bench_options :: benchOptions where
  "demo_bench_options =
     \<lparr>bo_Topic = ''t'', bo_Duration = 1, bo_Requests = 1, bo_Timeout = 1, bo_MaxSamples = 10, bo_KeyPrefix = [],
      bo_Targets = [\<lparr>ts_Name = ''a'', ts_URL = ''u''\<rparr>, \<lparr>ts_Name = ''b'', ts_URL = ''v''\<rparr>], bo_Scenarios = [demo_scenario], bo_HTMLPath = [],
      bo_Suite = False, bo_GeneratedAt = [], bo_Capacity = \<lparr>cc_TargetRecordsPerSecond = Fin 1000000, cc_Headroom = Fin 0\<rparr>\<rparr>"

definition demo_results :: "benchResult list" where
  "demo_results = bench_results (\<lambda>_. 0) (\<lambda>t s. ([bench_postOnce [] 2 (Responded 200 [] False) 5], 7)) demo_bench_options"

theorem comparisons_complete_witness:
  "mset (concat (map cr_Results (buildComparisons demo_results))) = mset demo_results \<and> length demo_results = 2"
proof -
  have "\<forall>r\<in>set demo_results. br_TargetName r \<noteq> []"
    unfolding demo_results_def by (rule bench_results_named) (simp add: demo_bench_options_def)
  then show ?thesis
    using comparisons_complete [of demo_results] by (simp add: demo_results_def bench_results_def demo_bench_options_def)
qed

section \<open>Estimates and labels\<close>

text \<open>
  The estimated number of nodes is at least one and at least the quotient of the effective target
  and the measured rate, as long as this quotient is finite and fits an integer.
\<close>

lemma estimateNodes_covers:
  assumes "\<not> fval_le (cc_TargetRecordsPerSecond cfg) (Fin 0)" "0 < recordsPerSecond"
    "fval_quot (effectiveTarget cfg) recordsPerSecond = Fin q" "in_int64 \<lceil>q\<rceil>"
  shows "1 \<le> fst (estimateNodes unspecified cfg recordsPerSecond)" "q \<le> of_int (fst (estimateNodes unspecified cfg recordsPerSecond))"
proof -
  have "fval_to_int unspecified (fval_ceil (fval_quot (effectiveTarget cfg) recordsPerSecond)) = \<lceil>q\<rceil>"
    using assms(3,4) by (simp add: fval_to_int_def float_to_int_def)
  then have "fst (estimateNodes unspecified cfg recordsPerSecond) = max 1 \<lceil>q\<rceil>"
    using assms(1,2) by (simp add: estimateNodes_def Let_def)
  then show "1 \<le> fst (estimateNodes unspecified cfg recordsPerSecond)" "q \<le> of_int (fst (estimateNodes unspecified cfg recordsPerSecond))"
    by (auto simp: max_def not_le intro: order_trans [OF le_of_int_ceiling])
qed

text \<open>
  Payloads of one and of one and a half mebibytes have the same label, so that the rows of a suite
  with both are compared as one scenario.
\<close>

lemma formatBytes_collision: "formatBytes 1572864 = formatBytes 1048576"
  by code_simp

text \<open>The product of a size and its unit wraps around: this size is read as 384 bytes.\<close>

lemma parseByteSize_wraps: "parseByteSize ''18446744073709552KB'' = Ok 384"
proof -
  have t: "trimSpace ''18446744073709552KB'' = ''18446744073709552KB''"
    by (rule trimSpace_id; simp add: space_len_def space_len_end_def ascii_space_def space2_def space3_def)
  have u: "toUpper ''18446744073709552KB'' = ''18446744073709552KB''" by code_simp
  have n: "atoi ''18446744073709552'' = Some 18446744073709552"
    by (simp add: atoi_def parseInt_def digit_val_def)
  show ?thesis by (simp add: parseByteSize_def t u n hasSuffix_def trimSuffix_def wrap64_def Let_def)
qed

end
