(* ===== verification/Licenses.thy ===== *)
theory Licenses
  imports GoFlag FilePath "HOL-Library.List_Lexorder" "HOL-Library.Product_Lexorder" "HOL-Library.Multiset"
begin

text \<open>
  The license bundle generator (\<^verbatim>\<open>cmd/license-bundle/main.go\<close>). What the file system answers is an
  argument, a record of functions; what the program does to it is a list of calls. The output of
  the \<^verbatim>\<open>go\<close> commands and the hash function are arguments too.
\<close>

section \<open>Modules\<close>

record moduleInfo =
  mi_Path :: string
  mi_Version :: string
  mi_Dir :: string
  mi_Main :: bool

record moduleNotice =
  mn_Path :: string
  mn_Version :: string
  mn_LicenseRefs :: "string list"
  mn_SHA256 :: string
  mn_Missing :: bool

fun dec_bool :: "bool decoder" where
  "dec_bool (JBool b) x = (b, DecOk)"
| "dec_bool JNull x = (x, DecOk)"
| "dec_bool v x = (x, DecSaved)"

definition zero_moduleInfo :: moduleInfo where
  "zero_moduleInfo = \<lparr>mi_Path = [], mi_Version = [], mi_Dir = [], mi_Main = False\<rparr>"

definition moduleInfo_fields :: "(string \<times> moduleInfo decoder) list" where
  "moduleInfo_fields =
     [(''Path'', fld mi_Path (\<lambda>x m. m\<lparr>mi_Path := x\<rparr>) dec_string), (''Version'', fld mi_Version (\<lambda>x m. m\<lparr>mi_Version := x\<rparr>) dec_string),
      (''Dir'', fld mi_Dir (\<lambda>x m. m\<lparr>mi_Dir := x\<rparr>) dec_string), (''Main'', fld mi_Main (\<lambda>x m. m\<lparr>mi_Main := x\<rparr>) dec_bool)]"

text \<open>
  The loop over the values of the output of \<^verbatim>\<open>go list\<close>. \<^verbatim>\<open>More\<close> is false at the end and before a
  closing bracket; main modules are left out.
\<close>

function decode_modules :: "bytes \<Rightarrow> message + moduleInfo list" where
  "decode_modules s =
     (let t = skip_ws s in
      if t = [] \<or> hd t = CHR '']'' \<or> hd t = CHR ''}'' then Ok []
      else (case parse_value (json_fuel t) 0 t of None \<Rightarrow> Err [Lit ''decode module list: '', JSONError ''decode'' t]
        | Some (v, r) \<Rightarrow>
          (case dec_struct moduleInfo_fields v zero_moduleInfo of (m, st) \<Rightarrow>
             if st \<noteq> DecOk \<or> length s \<le> length r then Err [Lit ''decode module list: '', JSONError ''decode'' t]
             else (case decode_modules r of Err e \<Rightarrow> Err e
               | Ok ms \<Rightarrow> Ok (if mi_Main m then ms else m # ms)))))"
  by pat_completeness auto
termination
  by (relation "measure length") auto

declare decode_modules.simps [simp del]

text \<open>\<open>download\<close> and \<open>listed\<close> are the outcomes of the two commands, with their output.\<close>

definition listModules :: "(string \<times> string) + unit \<Rightarrow> (string \<times> string) + bytes \<Rightarrow> message + moduleInfo list" where
  "listModules download listed =
     (case download of Err (e, out) \<Rightarrow> Err [Lit ''go mod download all: '', Lit e, Lit [CHR 0x0A], Lit out]
      | Ok _ \<Rightarrow> (case listed of Err (e, out) \<Rightarrow> Err [Lit ''go list modules: '', Lit e, Lit [CHR 0x0A], Lit out]
        | Ok out \<Rightarrow> (case decode_modules out of Err e \<Rightarrow> Err e
          | Ok ms \<Rightarrow> Ok (sort_key (\<lambda>m. (mi_Path m, mi_Version m)) ms))))"

section \<open>Names\<close>

definition isLicenseLike :: "string \<Rightarrow> bool" where
  "isLicenseLike file =
     (let name = trimSuffix (trimSuffix (trimSuffix (toLower file) ''.md'') ''.txt'') ''.rst''
      in name = ''license'' \<or> name = ''licence'' \<or> name = ''copying'' \<or> name = ''notice'' \<or> name = ''copyright'' \<or>
         hasPrefix name ''license-'' \<or> hasPrefix name ''license.'' \<or> hasPrefix name ''licence-'' \<or> hasPrefix name ''licence.'')"

definition safe_char :: "char \<Rightarrow> string" where
  "safe_char c =
     (if c = CHR ''/'' \<or> c = CHR 0x5C then ''__'' else if c = CHR '':'' \<or> c = CHR '' '' then ''_''
      else if c = CHR ''@'' then ''_at_'' else [c])"

definition safeModuleDir :: "moduleInfo \<Rightarrow> string" where
  "safeModuleDir m =
     (let version = (if mi_Version m = [] then ''unknown'' else mi_Version m)
      in concat (map safe_char (mi_Path m @ ''@'' @ version)))"

definition sanitizeFileName :: "string \<Rightarrow> string" where
  "sanitizeFileName file =
     (let name = map (\<lambda>c. if c = CHR ''/'' then CHR ''_'' else c) (filepath_Base file)
      in if name = ''.'' \<or> name = [] then ''LICENSE'' else name)"

definition hex_encode :: "bytes \<Rightarrow> string" where
  "hex_encode b = concat (map (\<lambda>c. let n = of_char c :: nat; d = (\<lambda>k. if k < 10 then digit_char k else char_of (k + 87)) in [d (n div 16), d (n mod 16)]) b)"

section \<open>The bundle\<close>

text \<open>What the operating system answers; \<open>None\<close> is success. A directory entry has a name and may be a directory.\<close>

record os_answers =
  os_MkdirAll :: "string \<Rightarrow> string option"
  os_RemoveAll :: "string \<Rightarrow> string option"
  os_ReadDir :: "string \<Rightarrow> string + (string \<times> bool) list"
  os_ReadFile :: "string \<Rightarrow> string + bytes"
  os_WriteFile :: "string \<Rightarrow> string option"

datatype fs_call = Made string | Removed string | Wrote string bytes

text \<open>The loop over the entries of a module's directory; \<open>n\<close> is the notice so far.\<close>

fun copy_entries ::
  "os_answers \<Rightarrow> (bytes \<Rightarrow> bytes) \<Rightarrow> string \<Rightarrow> moduleInfo \<Rightarrow> (string \<times> bool) list \<Rightarrow> moduleNotice \<Rightarrow>
     (string + moduleNotice) \<times> fs_call list" where
  "copy_entries os sha256 moduleOutDir m [] n = (Ok n, [])"
| "copy_entries os sha256 moduleOutDir m ((file, isDir) # es) n =
     (if isDir \<or> \<not> isLicenseLike file then copy_entries os sha256 moduleOutDir m es n
      else let src = filepath_Join [mi_Dir m, file] in
        (case os_ReadFile os src of Err e \<Rightarrow> (Err (''read license file '' @ src @ '': '' @ e), [])
         | Ok body \<Rightarrow>
           (case os_MkdirAll os moduleOutDir of Some e \<Rightarrow> (Err e, [])
            | None \<Rightarrow>
              let dstName = sanitizeFileName file; dst = filepath_Join [moduleOutDir, dstName] in
              (case os_WriteFile os dst of Some e \<Rightarrow> (Err (''write license file '' @ dst @ '': '' @ e), [Made moduleOutDir])
               | None \<Rightarrow>
                 let n' = n\<lparr>mn_SHA256 := hex_encode (sha256 body),
                            mn_LicenseRefs := mn_LicenseRefs n @ [filepath_Join [''modules'', safeModuleDir m, dstName]]\<rparr>
                 in (case copy_entries os sha256 moduleOutDir m es n' of (r, calls) \<Rightarrow>
                       (r, [Made moduleOutDir, Wrote dst body] @ calls))))))"

definition copyModuleLicenses ::
  "os_answers \<Rightarrow> (bytes \<Rightarrow> bytes) \<Rightarrow> string \<Rightarrow> moduleInfo \<Rightarrow> (string + moduleNotice) \<times> fs_call list" where
  "copyModuleLicenses os sha256 modulesDir m =
     (let n = \<lparr>mn_Path = mi_Path m, mn_Version = mi_Version m, mn_LicenseRefs = [], mn_SHA256 = [], mn_Missing = False\<rparr> in
      if mi_Dir m = [] then (Ok (n\<lparr>mn_Missing := True\<rparr>), [])
      else (case os_ReadDir os (mi_Dir m) of Err _ \<Rightarrow> (Ok (n\<lparr>mn_Missing := True\<rparr>), [])
        | Ok entries \<Rightarrow>
          (case copy_entries os sha256 (filepath_Join [modulesDir, safeModuleDir m]) m entries n of
             (Err e, calls) \<Rightarrow> (Err e, calls)
           | (Ok n', calls) \<Rightarrow>
             (Ok (n'\<lparr>mn_Missing := (mn_LicenseRefs n' = []), mn_LicenseRefs := sort (mn_LicenseRefs n')\<rparr>), calls))))"

fun copy_modules ::
  "os_answers \<Rightarrow> (bytes \<Rightarrow> bytes) \<Rightarrow> string \<Rightarrow> moduleInfo list \<Rightarrow> (string + moduleNotice list) \<times> fs_call list" where
  "copy_modules os sha256 modulesDir [] = (Ok [], [])"
| "copy_modules os sha256 modulesDir (m # ms) =
     (case copyModuleLicenses os sha256 modulesDir m of
        (Err e, calls) \<Rightarrow> (Err e, calls)
      | (Ok n, calls) \<Rightarrow>
        (case copy_modules os sha256 modulesDir ms of
           (Err e, calls') \<Rightarrow> (Err e, calls @ calls')
         | (Ok ns, calls') \<Rightarrow> (Ok (n # ns), calls @ calls')))"

section \<open>The notices\<close>

definition newline :: string where "newline = [CHR 0x0A]"

text \<open>A backquote around a text.\<close>

definition backquoted :: "string \<Rightarrow> string" where
  "backquoted s = [CHR 0x60] @ s @ [CHR 0x60]"

definition notice_row :: "moduleNotice \<Rightarrow> string" where
  "notice_row n =
     ''| '' @ backquoted (mn_Path n) @ '' | '' @ backquoted (mn_Version n) @ '' | '' @
     (if mn_LicenseRefs n \<noteq> []
      then go_join '', '' (map (\<lambda>r. ''['' @ filepath_Base r @ '']('' @ r @ '')'') (mn_LicenseRefs n))
      else ''REVIEW_NEEDED'') @
     '' | '' @ (if mn_Missing n then ''missing license file in module cache'' else []) @ '' |'' @ newline"

definition noticesMarkdown :: "moduleNotice list \<Rightarrow> string" where
  "noticesMarkdown ns =
     ''# Third-party notices'' @ newline @ newline @
     ''This file is generated from '' @ backquoted ''go list -m -json all'' @ '' by '' @ backquoted ''make generate-licenses'' @ ''.'' @ newline @
     ''Do not edit generated module entries by hand.'' @ newline @ newline @
     ''| Module | Version | License files | Review |'' @ newline @ ''|---|---:|---|---|'' @ newline @
     concat (map notice_row ns) @
     newline @ ''Release reviewers should confirm this generated bundle before public distribution.'' @ newline"

definition modulesReadme :: string where
  "modulesReadme =
     ''# Generated module license files'' @ newline @ newline @
     ''This directory is generated by '' @ backquoted ''make generate-licenses'' @ ''.'' @ newline @
     ''It contains copied license/notice files from Go module cache directories.'' @ newline"

definition writeLicenseBundle ::
  "os_answers \<Rightarrow> (bytes \<Rightarrow> bytes) \<Rightarrow> string \<Rightarrow> moduleInfo list \<Rightarrow> (string + moduleNotice list) \<times> fs_call list" where
  "writeLicenseBundle os sha256 outDir modules =
     (case os_MkdirAll os outDir of Some e \<Rightarrow> (Err e, [])
      | None \<Rightarrow>
        let modulesDir = filepath_Join [outDir, ''modules''] in
        (case os_RemoveAll os modulesDir of Some e \<Rightarrow> (Err e, [Made outDir])
         | None \<Rightarrow>
           (case os_MkdirAll os modulesDir of Some e \<Rightarrow> (Err e, [Made outDir, Removed modulesDir])
            | None \<Rightarrow>
              (case copy_modules os sha256 modulesDir modules of (r, copied) \<Rightarrow>
                 let calls = [Made outDir, Removed modulesDir, Made modulesDir] @ copied;
                     readme = filepath_Join [modulesDir, ''README.md'']; list = filepath_Join [outDir, ''THIRD_PARTY_NOTICES.md'']
                 in (case r of Err e \<Rightarrow> (Err e, calls)
                     | Ok notices \<Rightarrow>
                       (case os_WriteFile os readme of Some e \<Rightarrow> (Err e, calls)
                        | None \<Rightarrow>
                          (case os_WriteFile os list of Some e \<Rightarrow> (Err e, calls @ [Wrote readme modulesReadme])
                           | None \<Rightarrow>
                             (Ok notices, calls @ [Wrote readme modulesReadme, Wrote list (noticesMarkdown notices)]))))))))"

text \<open>The exit status, the line on standard output and the message on standard error.\<close>

definition license_run :: "message + moduleInfo list \<Rightarrow> os_answers \<Rightarrow> (bytes \<Rightarrow> bytes) \<Rightarrow> string \<Rightarrow> int \<times> string \<times> message" where
  "license_run modules os sha256 outDir =
     (case modules of Err e \<Rightarrow> (1, [], e)
      | Ok ms \<Rightarrow> (case fst (writeLicenseBundle os sha256 outDir ms) of Err e \<Rightarrow> (1, [], [Lit e])
        | Ok notices \<Rightarrow>
          (0, ''generated '' @ filepath_Join [outDir, ''THIRD_PARTY_NOTICES.md''] @ '' with '' @ itoa (int (length notices)) @
              '' third-party modules'', [])))"

definition license_main ::
  "message + moduleInfo list \<Rightarrow> os_answers \<Rightarrow> (bytes \<Rightarrow> bytes) \<Rightarrow> string list \<Rightarrow> int \<times> string \<times> message" where
  "license_main modules os sha256 args =
     (case flag_Parse [string_flag ''out'' (\<lambda>x _. x)] ''licenses'' args of
        Err HelpRequested \<Rightarrow> (0, [], [])
      | Err (FlagError e) \<Rightarrow> (2, [], e)
      | Ok (outDir, rest) \<Rightarrow> license_run modules os sha256 outDir)"

end
