(* ===== verification/Licenses_Props.thy ===== *)
theory Licenses_Props
  imports Licenses
begin

text \<open>The license bundle holds a notice for every module and a copy of every license file.\<close>

definition license_entry :: "string \<times> bool \<Rightarrow> bool" where
  "license_entry e \<longleftrightarrow> \<not> snd e \<and> isLicenseLike (fst e)"

definition license_ref :: "moduleInfo \<Rightarrow> string \<times> bool \<Rightarrow> string" where
  "license_ref m e = filepath_Join [''modules'', safeModuleDir m, sanitizeFileName (fst e)]"

definition copied :: "os_answers \<Rightarrow> string \<Rightarrow> moduleInfo \<Rightarrow> fs_call list \<Rightarrow> string \<times> bool \<Rightarrow> bool" where
  "copied os moduleOutDir m calls e \<longleftrightarrow>
     (\<exists>body. os_ReadFile os (filepath_Join [mi_Dir m, fst e]) = Ok body \<and>
        Wrote (filepath_Join [moduleOutDir, sanitizeFileName (fst e)]) body \<in> set calls)"

lemma copied_mono: "copied os d m calls e \<Longrightarrow> set calls \<subseteq> set calls' \<Longrightarrow> copied os d m calls' e"
  by (auto simp: copied_def)

lemma copy_entries_copies:
  assumes "copy_entries os sha256 d m es n = (Ok n', calls)"
  shows "mn_Path n' = mn_Path n \<and> mn_Version n' = mn_Version n \<and> mn_LicenseRefs n' = mn_LicenseRefs n @ map (license_ref m) (filter license_entry es) \<and>
    (\<forall>e\<in>set (filter license_entry es). copied os d m calls e)"
  using assms
proof (induction es arbitrary: n calls)
  case (Cons e es)
  obtain fname isDir where e: "e = (fname, isDir)" by (cases e)
  show ?case
  proof (cases "license_entry e")
    case False
    then have "copy_entries os sha256 d m es n = (Ok n', calls)" using Cons.prems by (auto simp: e license_entry_def split: if_splits)
    from Cons.IH [OF this] False show ?thesis by simp
  next
    case True
    let ?dst = "filepath_Join [d, sanitizeFileName fname]"
    obtain body calls1 where b: "os_ReadFile os (filepath_Join [mi_Dir m, fname]) = Ok body" "calls = Made d # Wrote ?dst body # calls1"
        and r: "copy_entries os sha256 d m es (n\<lparr>mn_SHA256 := hex_encode (sha256 body), mn_LicenseRefs := mn_LicenseRefs n @ [license_ref m e]\<rparr>) = (Ok n', calls1)"
      using Cons.prems True
      by (auto simp: e license_entry_def license_ref_def Let_def split: if_splits sum.splits option.splits prod.splits)
    have "copied os d m calls e" using b by (auto simp: copied_def e)
    moreover have "\<forall>x\<in>set (filter license_entry es). copied os d m calls x"
    proof
      fix x
      assume "x \<in> set (filter license_entry es)"
      then have "copied os d m calls1 x" using Cons.IH [OF r] by blast
      then show "copied os d m calls x" by (rule copied_mono) (auto simp: b(2))
    qed
    ultimately show ?thesis using Cons.IH [OF r] True b by simp
  qed
qed simp

definition notice_ok :: "os_answers \<Rightarrow> string \<Rightarrow> fs_call list \<Rightarrow> moduleInfo \<Rightarrow> moduleNotice \<Rightarrow> bool" where
  "notice_ok os modulesDir calls m n \<longleftrightarrow>
     mn_Path n = mi_Path m \<and> mn_Version n = mi_Version m \<and> mn_Missing n = (mn_LicenseRefs n = []) \<and> sorted (mn_LicenseRefs n) \<and>
     (let found = (case os_ReadDir os (mi_Dir m) of Ok entries \<Rightarrow> if mi_Dir m = [] then [] else filter license_entry entries | Err _ \<Rightarrow> [])
      in mset (mn_LicenseRefs n) = mset (map (license_ref m) found) \<and>
         list_all (copied os (filepath_Join [modulesDir, safeModuleDir m]) m calls) found)"

lemma copyModuleLicenses_ok:
  assumes "copyModuleLicenses os sha256 modulesDir m = (Ok n, calls)"
  shows "notice_ok os modulesDir calls m n"
proof (cases "mi_Dir m = [] \<or> isl (os_ReadDir os (mi_Dir m))")
  case True
  then show ?thesis using assms by (auto simp: copyModuleLicenses_def notice_ok_def Let_def split: sum.splits)
next
  case False
  then obtain entries where d: "os_ReadDir os (mi_Dir m) = Ok entries" "mi_Dir m \<noteq> []" by (cases "os_ReadDir os (mi_Dir m)") auto
  then obtain n1 where n: "copy_entries os sha256 (filepath_Join [modulesDir, safeModuleDir m]) m entries
       \<lparr>mn_Path = mi_Path m, mn_Version = mi_Version m, mn_LicenseRefs = [], mn_SHA256 = [], mn_Missing = False\<rparr> = (Ok n1, calls)"
      "n = n1\<lparr>mn_Missing := (mn_LicenseRefs n1 = []), mn_LicenseRefs := sort (mn_LicenseRefs n1)\<rparr>"
    using assms by (auto simp: copyModuleLicenses_def Let_def split: sum.splits prod.splits)
  have e: "(sort xs = []) = (xs = [])" for xs :: "string list" by (metis length_0_conv length_sort)
  show ?thesis using copy_entries_copies [OF n(1)] d by (simp add: n(2) notice_ok_def list_all_iff e)
qed

lemma notice_ok_mono: "notice_ok os d calls m n \<Longrightarrow> set calls \<subseteq> set calls' \<Longrightarrow> notice_ok os d calls' m n"
  using copied_mono by (fastforce simp: notice_ok_def Let_def list_all_iff)

lemma copy_modules_ok:
  "copy_modules os sha256 modulesDir ms = (Ok ns, calls) \<Longrightarrow> list_all2 (notice_ok os modulesDir calls) ms ns"
proof (induction ms arbitrary: ns calls)
  case (Cons m ms)
  then obtain n c1 ns' c2 where c: "copyModuleLicenses os sha256 modulesDir m = (Ok n, c1)" "copy_modules os sha256 modulesDir ms = (Ok ns', c2)"
      "ns = n # ns'" "calls = c1 @ c2"
    by (auto split: sum.splits prod.splits)
  have "list_all2 (notice_ok os modulesDir calls) ms ns'"
    using Cons.IH [OF c(2)] by (rule list_all2_mono) (auto intro: notice_ok_mono simp: c(4))
  then show ?case using copyModuleLicenses_ok [OF c(1)] by (auto intro: notice_ok_mono simp: c(3,4))
qed simp


definition demo_os :: os_answers where
  "demo_os =
     \<lparr>os_MkdirAll = (\<lambda>_. None), os_RemoveAll = (\<lambda>_. None), os_ReadDir = (\<lambda>_. Ok [(''LICENSE'', False), (''main.go'', False)]),
      os_ReadFile = (\<lambda>_. Ok ''text''), os_WriteFile = (\<lambda>_. None)\<rparr>"

definition demo_module :: moduleInfo where
  "demo_module = \<lparr>mi_Path = ''a/b'', mi_Version = ''v1'', mi_Dir = ''/m'', mi_Main = False\<rparr>"

lemma demo_bundle:
  "fst (writeLicenseBundle demo_os (\<lambda>_. []) ''out'' [demo_module]) =
     Ok [\<lparr>mn_Path = ''a/b'', mn_Version = ''v1'', mn_LicenseRefs = [''modules/a__b_at_v1/LICENSE''], mn_SHA256 = [], mn_Missing = False\<rparr>]"
  by code_simp


text \<open>Different modules may share a directory of the bundle; then the files of one replace those of the other.\<close>

lemma safeModuleDir_collision: "safeModuleDir (demo_module\<lparr>mi_Path := ''a/b''\<rparr>) = safeModuleDir (demo_module\<lparr>mi_Path := ''a__b''\<rparr>)"
  by code_simp

end
