(* ===== verification/Capture.thy ===== *)
theory Capture
  imports GoFlag FilePath Paths Json
begin

text \<open>
  The tool that captures how a proxy answers the edge cases of the produce API
  (\<^verbatim>\<open>cmd/capture-compatibility/main.go\<close>). One exchange of the HTTP client, the answers of the file
  system and \<^verbatim>\<open>json.MarshalIndent\<close> are arguments.
\<close>

section \<open>The cases\<close>

record captureRequest =
  cq_Method :: string
  cq_Path :: string
  cq_Headers :: "(string \<times> string) list"
  cq_Body :: bytes

record captureResponse =
  cs_Status :: int
  cs_Headers :: "(string \<times> string) list"
  cs_Body :: "bytes option"
  cs_BodyText :: string
  cs_BodyIsJSON :: bool
  cs_ElapsedMS :: int
  cs_RequestErr :: string

record captureCase =
  ca_Name :: string
  ca_Request :: captureRequest
  ca_Response :: captureResponse

record captureReport =
  ct_GeneratedAt :: string
  ct_TargetURL :: string
  ct_Cases :: "captureCase list"

text \<open>A value of a Go map, empty when there is none.\<close>

definition header :: "captureRequest \<Rightarrow> string \<Rightarrow> string" where
  "header tc name = (case map_of (cq_Headers tc) name of None \<Rightarrow> [] | Some v \<Rightarrow> v)"

definition produce_case :: "string \<Rightarrow> string \<Rightarrow> string \<Rightarrow> bytes \<Rightarrow> captureRequest" where
  "produce_case topic contentType accept body =
     \<lparr>cq_Method = ''POST'', cq_Path = ''/topics/'' @ pathEscape topic,
      cq_Headers = [(''Content-Type'', contentType), (''Accept'', accept)], cq_Body = body\<rparr>"

definition goodBody :: bytes where
  "goodBody = ''{\"records\":[{\"value\":{\"ok\":true}}]}''"

definition captureCases :: "string \<Rightarrow> captureRequest list" where
  "captureCases topic =
     [produce_case topic ''text/plain'' ''application/vnd.kafka.v2+json'' goodBody,
      produce_case topic ''application/vnd.kafka.json.v2+json'' ''application/xml'' goodBody,
      produce_case ''bad topic'' ''application/vnd.kafka.json.v2+json'' ''application/vnd.kafka.v2+json'' goodBody,
      produce_case topic ''application/vnd.kafka.json.v2+json'' ''application/vnd.kafka.v2+json''
        ''{\"records\":[{\"partition\":999999,\"value\":{\"ok\":true}}]}'',
      produce_case topic ''application/vnd.kafka.json.v2+json'' ''application/vnd.kafka.v2+json''
        (''{\"records\":[{\"value\":{\"payload\":\"'' @ replicate (2 * 1024 * 1024) (CHR ''x'') @ ''\"}}]}''),
      produce_case topic ''application/vnd.kafka.json.v2+json'' ''application/vnd.kafka.v2+json'' ''{\"records\":['',
      produce_case topic ''application/vnd.kafka.binary.v2+json'' ''application/vnd.kafka.v2+json''
        ''{\"records\":[{\"value\":\"not-base64!\"}]}'',
      produce_case topic ''application/vnd.kafka.json.v2+json'' ''application/vnd.kafka.v2+json''
        ''{\"records\":[{\"partition\":0,\"value\":{\"ok\":true}},{\"partition\":999999,\"value\":{\"ok\":false}}]}'']"

text \<open>\<^verbatim>\<open>strings.Count\<close> of a text that is not empty: occurrences that do not overlap.\<close>

fun occurrences :: "nat \<Rightarrow> string \<Rightarrow> string \<Rightarrow> nat" where
  "occurrences skip [] sub = 0"
| "occurrences 0 (c # s) sub = (if hasPrefix (c # s) sub then Suc (occurrences (length sub - 1) s sub) else occurrences 0 s sub)"
| "occurrences (Suc k) (c # s) sub = occurrences k s sub"

definition caseName :: "captureRequest \<Rightarrow> string" where
  "caseName tc =
     (if header tc ''Content-Type'' = ''text/plain'' then ''bad-content-type''
      else if header tc ''Accept'' = ''application/xml'' then ''bad-accept''
      else if contains (cq_Path tc) ''bad%20topic'' then ''invalid-topic''
      else if contains (cq_Body tc) ''not-base64'' then ''binary-decode-failure''
      else if cq_Body tc = ''{\"records\":['' then ''malformed-json''
      else if contains (cq_Body tc) (replicate 1024 (CHR ''x'')) then ''oversized-body''
      else if 1 < occurrences 0 (cq_Body tc) ''partition'' then ''partial-record-errors''
      else if contains (cq_Body tc) ''999999'' then ''invalid-partition''
      else ''unknown'')"

section \<open>One case\<close>

definition preview :: "string \<Rightarrow> int \<Rightarrow> string" where
  "preview v limit =
     (if int (length v) \<le> limit then v
      else take (nat limit) v @ [CHR 0x0A] @ ''... truncated '' @ itoa (int (length v) - limit) @ '' bytes ...'')"

definition previewRequest :: "captureRequest \<Rightarrow> captureRequest" where
  "previewRequest tc = tc\<lparr>cq_Body := preview (cq_Body tc) 2048\<rparr>"

definition selectedHeaders :: "(string \<Rightarrow> string) \<Rightarrow> (string \<times> string) list" where
  "selectedHeaders h = filter (\<lambda>(name, v). v \<noteq> []) (map (\<lambda>name. (name, h name)) [''Content-Type'', ''X-Request-Id''])"

definition json_Valid :: "bytes \<Rightarrow> bool" where
  "json_Valid body \<longleftrightarrow> json_parse body \<noteq> None"

definition jsonBody :: "bytes \<Rightarrow> bytes option" where
  "jsonBody body = (if json_Valid body then Some body else None)"

definition textBody :: "bytes \<Rightarrow> string" where
  "textBody body = (if json_Valid body then [] else body)"

text \<open>
  What the client brings: no request, an error after some milliseconds, or a status, the headers
  and what could be read of the body.
\<close>

datatype capture_outcome =
    NoRequest string
  | NoResponse string int
  | Response int "string \<Rightarrow> string" bytes int

definition zero_captureResponse :: captureResponse where
  "zero_captureResponse =
     \<lparr>cs_Status = 0, cs_Headers = [], cs_Body = None, cs_BodyText = [], cs_BodyIsJSON = False, cs_ElapsedMS = 0, cs_RequestErr = []\<rparr>"

definition runCase :: "(captureRequest \<Rightarrow> capture_outcome) \<Rightarrow> captureRequest \<Rightarrow> captureCase" where
  "runCase exchange tc =
     \<lparr>ca_Name = caseName tc, ca_Request = previewRequest tc,
      ca_Response =
        (case exchange tc of
           NoRequest e \<Rightarrow> zero_captureResponse\<lparr>cs_RequestErr := e\<rparr>
         | NoResponse e ms \<Rightarrow> zero_captureResponse\<lparr>cs_RequestErr := e, cs_ElapsedMS := ms\<rparr>
         | Response status h body ms \<Rightarrow>
             \<lparr>cs_Status = status, cs_Headers = selectedHeaders h, cs_Body = jsonBody body, cs_BodyText = textBody body,
              cs_BodyIsJSON = json_Valid body, cs_ElapsedMS = ms, cs_RequestErr = []\<rparr>)\<rparr>"

section \<open>The program\<close>

datatype capture_call = MadeDir string | WroteReport string bytes

definition writeReport ::
  "(string \<Rightarrow> string option) \<Rightarrow> (captureReport \<Rightarrow> string + bytes) \<Rightarrow> (string \<Rightarrow> string option) \<Rightarrow> string \<Rightarrow> captureReport \<Rightarrow>
     string option \<times> capture_call list" where
  "writeReport mkdir marshal write path report =
     (let dir = filepath_Dir path;
          (made, calls) = (if dir \<noteq> ''.'' \<and> dir \<noteq> [] then (mkdir dir, [MadeDir dir]) else (None, []))
      in case made of Some e \<Rightarrow> (Some e, calls)
         | None \<Rightarrow> (case marshal report of Err e \<Rightarrow> (Some e, calls)
           | Ok b \<Rightarrow> (case write path of Some e \<Rightarrow> (Some e, calls) | None \<Rightarrow> (None, calls @ [WroteReport path (b @ [CHR 0x0A])]))))"

record capture_flags =
  cf_url :: string
  cf_topic :: string
  cf_out :: string
  cf_timeout :: int

definition capture_defaults :: capture_flags where
  "capture_defaults =
     \<lparr>cf_url = ''http://localhost:8082'', cf_topic = ''orders'', cf_out = ''compatibility/captured/confluent-producer-edge-cases.json'',
      cf_timeout = 10 * 1000000000\<rparr>"

definition capture_flag_set :: "capture_flags flag list" where
  "capture_flag_set =
     [string_flag ''url'' (\<lambda>x f. f\<lparr>cf_url := x\<rparr>), string_flag ''topic'' (\<lambda>x f. f\<lparr>cf_topic := x\<rparr>),
      string_flag ''out'' (\<lambda>x f. f\<lparr>cf_out := x\<rparr>), duration_flag ''timeout'' (\<lambda>x f. f\<lparr>cf_timeout := x\<rparr>)]"

text \<open>\<open>exchange\<close> is given the base address and the timeout too; the result is as for the other programs.\<close>

definition capture_main ::
  "(string \<Rightarrow> int \<Rightarrow> captureRequest \<Rightarrow> capture_outcome) \<Rightarrow> (string \<Rightarrow> captureReport \<Rightarrow> string option \<times> capture_call list) \<Rightarrow>
     string \<Rightarrow> string list \<Rightarrow> int \<times> string \<times> message" where
  "capture_main exchange write generatedAt args =
     (case flag_Parse capture_flag_set capture_defaults args of
        Err HelpRequested \<Rightarrow> (0, [], [])
      | Err (FlagError e) \<Rightarrow> (2, [], e)
      | Ok (f, rest) \<Rightarrow>
        let target = trimRight_char (CHR ''/'') (cf_url f);
            report = \<lparr>ct_GeneratedAt = generatedAt, ct_TargetURL = target,
                      ct_Cases = map (runCase (exchange target (cf_timeout f))) (captureCases (cf_topic f))\<rparr>
        in (case fst (write (cf_out f) report) of
              Some e \<Rightarrow> (1, [], [Lit e])
            | None \<Rightarrow> (0, ''captured_cases='' @ itoa (int (length (ct_Cases report))) @ '' out='' @ cf_out f, [])))"

end
