(* ===== verification/Capture_Props.thy ===== *)
theory Capture_Props
  imports Capture Handler_Props
begin

text \<open>
  The captured edge cases: each has a name of its own, and the proxy answers those that are wrong
  as requests in the way the captured proxy did.
\<close>

section \<open>Names\<close>

lemma contains_iff: "contains s p \<longleftrightarrow> (\<exists>a b. s = a @ p @ b)"
proof (induction s)
  case (Cons c s)
  have "(\<exists>a b. c # s = a @ p @ b) \<longleftrightarrow> (\<exists>b. c # s = p @ b) \<or> (\<exists>a b. s = a @ p @ b)"
    by (metis append_Cons append_Nil list.exhaust list.inject)
  then show ?case using Cons by (simp add: hasPrefix_iff)
qed (simp add: hasPrefix_iff)

lemma contains_set: "contains s p \<Longrightarrow> set p \<subseteq> set s"
  by (auto simp: contains_iff)

lemma contains_many: "n \<le> m \<Longrightarrow> contains (a @ replicate m c @ b) (replicate n c)"
proof -
  assume "n \<le> m"
  then have "replicate m c = replicate n c @ replicate (m - n) c" by (simp flip: replicate_add)
  then show ?thesis unfolding contains_iff by (metis append.assoc)
qed

lemma contains_few: "length s < length p \<Longrightarrow> \<not> contains s p"
  by (auto simp: contains_iff)

text \<open>
  Every captured case has its name. For every topic whose path does not itself contain the
  escaped name of the invalid topic, the eight cases get eight different names, in the order of
  the list, and none is unknown; the two-mebibyte body is recognised as such.
\<close>

theorem capture_cases_named:
  assumes "\<not> contains (''/topics/'' @ pathEscape topic) ''bad%20topic''"
  shows "map caseName (captureCases topic) =
    [''bad-content-type'', ''bad-accept'', ''invalid-topic'', ''invalid-partition'', ''oversized-body'', ''malformed-json'',
     ''binary-decode-failure'', ''partial-record-errors'']"
proof -
  let ?json = "''application/vnd.kafka.json.v2+json''" and ?v2 = "''application/vnd.kafka.v2+json''"
  have bad: "contains (''/topics/'' @ pathEscape ''bad topic'') ''bad%20topic''" by code_simp
  let ?big = "''{\"records\":[{\"value\":{\"payload\":\"'' @ replicate (2 * 1024 * 1024) (CHR ''x'') @ ''\"}}]}''"
  have small: "\<not> contains b (replicate 1024 (CHR ''x''))" if "length b < 1024" for b using contains_few that by simp
  have "contains ?big (replicate 1024 (CHR ''x''))" by (rule contains_many) simp
  moreover have "\<not> contains ?big ''not-base64''"
  proof
    assume "contains ?big ''not-base64''"
    from contains_set [OF this] have "CHR ''6'' \<in> set ?big" by auto
    then show False by simp
  qed
  ultimately have big: "caseName (produce_case topic ?json ?v2 ?big) = ''oversized-body''"
    using assms by (simp add: caseName_def produce_case_def header_def del: pathEscape.simps contains.simps replicate_Suc)
  let ?one = "''{\"records\":[{\"partition\":999999,\"value\":{\"ok\":true}}]}''"
  have "\<not> contains ?one ''not-base64''" "\<not> 1 < occurrences 0 ?one ''partition''" "contains ?one ''999999''" by code_simp+
  then have one: "caseName (produce_case topic ?json ?v2 ?one) = ''invalid-partition''"
    using assms small [of ?one] by (simp add: caseName_def produce_case_def header_def del: pathEscape.simps contains.simps occurrences.simps)
  let ?two = "''{\"records\":[{\"partition\":0,\"value\":{\"ok\":true}},{\"partition\":999999,\"value\":{\"ok\":false}}]}''"
  have "\<not> contains ?two ''not-base64''" "1 < occurrences 0 ?two ''partition''" by code_simp+
  then have two: "caseName (produce_case topic ?json ?v2 ?two) = ''partial-record-errors''"
    using assms small [of ?two] by (simp add: caseName_def produce_case_def header_def del: pathEscape.simps contains.simps occurrences.simps)
  have "contains ''{\"records\":[{\"value\":\"not-base64!\"}]}'' ''not-base64''" "\<not> contains ''{\"records\":['' ''not-base64''" by code_simp+
  then have rest: "caseName (produce_case topic ''application/vnd.kafka.binary.v2+json'' ?v2 ''{\"records\":[{\"value\":\"not-base64!\"}]}'') = ''binary-decode-failure''"
    "caseName (produce_case topic ?json ?v2 ''{\"records\":['') = ''malformed-json''"
    using assms by (simp_all add: caseName_def produce_case_def header_def del: pathEscape.simps contains.simps)
  have early: "caseName (produce_case topic ''text/plain'' ?v2 goodBody) = ''bad-content-type''"
    "caseName (produce_case topic ?json ''application/xml'' goodBody) = ''bad-accept''"
    "caseName (produce_case ''bad topic'' ?json ?v2 goodBody) = ''invalid-topic''"
    using bad by (simp_all add: caseName_def produce_case_def header_def del: pathEscape.simps contains.simps)
  show ?thesis by (simp only: captureCases_def list.map early big one two rest)
qed

theorem capture_cases_named_witness: "map caseName (captureCases ''orders'') ! 4 = ''oversized-body''"
proof -
  have "\<not> contains (''/topics/'' @ pathEscape ''orders'') ''bad%20topic''" by code_simp
  from capture_cases_named [OF this] show ?thesis by (simp only:) simp
qed

section \<open>The answers of the proxy\<close>

text \<open>A case as it arrives at a server.\<close>

definition capture_http :: "captureRequest \<Rightarrow> http_req" where
  "capture_http tc =
     \<lparr>hrq_method = cq_Method tc, hrq_path = (case pathUnescape (cq_Path tc) of Some p \<Rightarrow> p | None \<Rightarrow> cq_Path tc), hrq_escapedPath = cq_Path tc,
      hrq_authorization = [], hrq_accept = header tc ''Accept'', hrq_contentType = header tc ''Content-Type'',
      hrq_contentLength = int (length (cq_Body tc)), hrq_body = cq_Body tc, hrq_readError = False\<rparr>"

lemma produce_case_http:
  "capture_http (produce_case topic ct ac body) =
     \<lparr>hrq_method = ''POST'', hrq_path = ''/topics/'' @ topic,
      hrq_escapedPath = ''/topics/'' @ pathEscape topic, hrq_authorization = [], hrq_accept = ac, hrq_contentType = ct,
      hrq_contentLength = int (length body), hrq_body = body, hrq_readError = False\<rparr>"
  by (simp add: capture_http_def produce_case_def header_def pathUnescape_pathEscape del: pathEscape.simps)

lemma captured_requests:
  "captureCases topic ! 0 = produce_case topic ''text/plain'' ''application/vnd.kafka.v2+json'' goodBody"
  "captureCases topic ! 1 = produce_case topic ''application/vnd.kafka.json.v2+json'' ''application/xml'' goodBody"
  "captureCases topic ! 5 = produce_case topic ''application/vnd.kafka.json.v2+json'' ''application/vnd.kafka.v2+json'' ''{\"records\":[''"
  "captureCases topic ! 6 = produce_case topic ''application/vnd.kafka.binary.v2+json'' ''application/vnd.kafka.v2+json''
     ''{\"records\":[{\"value\":\"not-base64!\"}]}''"
  unfolding captureCases_def by simp_all

lemma decode_malformed:
  "decodeProduceRequestWithSchema enc st topic ''{\"records\":['' format l p =
     (Err (validationError [JSONError ''produce request'' ''{\"records\":['']), st)"
proof -
  have "json_parse ''{\"records\":['' = None" by code_simp
  then show ?thesis by (simp add: decodeProduceRequestWithSchema_def unmarshal_def Let_def)
qed

lemma decode_bad_base64:
  "decodeProduceRequestWithSchema enc st topic ''{\"records\":[{\"value\":\"not-base64!\"}]}'' formatBinary l p =
     (Err (validationError (binaryDecodeError_Error ''not-base64!'')), st)"
proof -
  have u: "unmarshal (dec_struct rawProduceRequest_fields) ''{\"records\":[{\"value\":\"not-base64!\"}]}'' zero_rawProduceRequest =
      (zero_rawProduceRequest\<lparr>pr_Records := Some ([zero_rawRecord\<lparr>rr_Value := \<lparr>nr_Present = True, nr_Raw = ''\"not-base64!\"''\<rparr>\<rparr>], 1)\<rparr>, True)"
    by code_simp
  have v: "decodeNullableValue \<lparr>nr_Present = True, nr_Raw = ''\"not-base64!\"''\<rparr> formatBinary = Err (binaryDecodeError ''not-base64!'')" by code_simp
  have k: "decodeNullableValue zero_nullableRaw formatBinary = Ok None" by code_simp
  have n: "1 \<le> dl_MaxRecords (limits_withDefaults l)" using limits_withDefaults_positive(1) [of l] by simp
  show ?thesis
    using n by (simp add: decodeProduceRequestWithSchema_def u slice_elems_def decode_one_def decodeV2NullableValue_def zero_rawRecord_def v k
        value_failure_def Let_def)
qed

text \<open>A proxy that allows the topic, has no rate limits and room for small bodies.\<close>

definition open_proxy :: "('r, 'p) Handler \<Rightarrow> ('r, 'p) hstate \<Rightarrow> string \<Rightarrow> bool" where
  "open_proxy h s topic \<longleftrightarrow> topic \<noteq> [] \<and> topicAllowed h topic \<and> st_requestRateLimiter s = None \<and> st_byteRateLimiter s = None \<and>
     64 \<le> ac_MaxRequestBytes (h_cfg h)"

lemma case_fields:
  "hrq_method (capture_http (produce_case topic ct ac body)) = ''POST''" "hrq_accept (capture_http (produce_case topic ct ac body)) = ac"
  "hrq_contentType (capture_http (produce_case topic ct ac body)) = ct"
  "topic \<noteq> [] \<Longrightarrow> produceTargetFromPath (hrq_escapedPath (capture_http (produce_case topic ct ac body))) = Some \<lparr>tgt_topic = topic, tgt_partition = None\<rparr>"
  unfolding produce_case_http using produceTarget_topic by simp_all

lemma open_proxy_rates:
  assumes "open_proxy h s topic"
  shows "allowRequestRate k now (observe f s) = (True, observe f s)" "allowByteRate k now (observe f s) = (True, observe f s)"
  using assms by (simp_all add: open_proxy_def allowRequestRate_def allowByteRate_def)

lemma early_answers:
  assumes "open_proxy h s topic"
  shows "handleTopicProduce isPrint cs h ck (capture_http (produce_case topic ''text/plain'' ''application/vnd.kafka.v2+json'' body)) s =
      (resp, s') \<Longrightarrow> resp = writeAPIError 415 415 [Lit ''HTTP 415 Unsupported Media Type''] \<and> st_producer s' = st_producer s"
    "handleTopicProduce isPrint cs h ck (capture_http (produce_case topic ct ''application/xml'' body)) s = (resp, s') \<Longrightarrow>
      resp = writeAPIError 406 406 [Lit ''HTTP 406 Not Acceptable''] \<and> st_producer s' = st_producer s"
proof -
  have "\<not> snd (parseContentType ''text/plain'')" by code_simp
  then obtain f0 where f0: "parseContentType ''text/plain'' = (f0, False)" by (metis prod.collapse)
  have ac: "\<not> acceptsResponse ''application/xml''" by code_simp
  note body = handleTopicProduce_def with_request_metrics_def handleTopicProduce_body_def Let_def
  show "handleTopicProduce isPrint cs h ck (capture_http (produce_case topic ''text/plain'' ''application/vnd.kafka.v2+json'' body)) s =
      (resp, s') \<Longrightarrow> resp = writeAPIError 415 415 [Lit ''HTTP 415 Unsupported Media Type''] \<and> st_producer s' = st_producer s"
    using assms unfolding body by (auto simp: open_proxy_def case_fields f0 kafka_v2_accepted)
  show "handleTopicProduce isPrint cs h ck (capture_http (produce_case topic ct ''application/xml'' body)) s = (resp, s') \<Longrightarrow>
      resp = writeAPIError 406 406 [Lit ''HTTP 406 Not Acceptable''] \<and> st_producer s' = st_producer s"
    using assms unfolding body by (auto simp: open_proxy_def case_fields ac)
qed

lemma rejected_body:
  assumes "open_proxy h s topic" "parseContentType ct = (format, True)" "length body \<le> 64"
    and "\<And>reg. decodeProduceRequestWithSchema (v2_encoder cs h) reg topic body format (config_decodeLimits (h_cfg h)) None = (Err e, reg)"
    and "handleTopicProduce isPrint cs h ck (capture_http (produce_case topic ct ''application/vnd.kafka.v2+json'' body)) s = (resp, s')"
  shows "resp = decode_failure e \<and> st_producer s' = st_producer s"
proof -
  let ?r = "capture_http (produce_case topic ct ''application/vnd.kafka.v2+json'' body)"
  have r: "readRequestBody ?r (ac_MaxRequestBytes (h_cfg h)) = (body, None)"
    using assms(1,3) by (simp add: readRequestBody_def max_bytes_read_def produce_case_http open_proxy_def)
  have "v2_body isPrint cs h ck ?r \<lparr>tgt_topic = topic, tgt_partition = None\<rparr> format (observe IncOutstanding s) =
      finish (decode_failure e) (int (length body)) 0 (observe (ObserveDecode (format_String format) False (ck_decode ck)) (observe IncOutstanding s))"
    using assms(4) by (simp add: v2_body_def r open_proxy_rates [OF assms(1)] Let_def)
  moreover have "handleTopicProduce_body isPrint cs h ck ?r (observe IncOutstanding s) =
      v2_body isPrint cs h ck ?r \<lparr>tgt_topic = topic, tgt_partition = None\<rparr> format (observe IncOutstanding s)"
    using assms(1,2) kafka_v2_accepted
    by (simp add: handleTopicProduce_body_def case_fields open_proxy_def open_proxy_rates [OF assms(1)])
  ultimately show ?thesis using assms(5) by (auto simp: handleTopicProduce_def with_request_metrics_def Let_def)
qed



end
