(* ===== verification/Spec2Isabelle.thy ===== *)
theory Spec2Isabelle
  imports Franz_Props V2_Schema End_To_End Setup_Props Bench_Props Licenses_Props Capture_Props
begin

text \<open>
  A verification development for a REST proxy for Kafka producers, written in Go.

  \<^bold>\<open>The program.\<close> The proxy (\<^verbatim>\<open>cmd/kafka-rest-proxy-go\<close>) reads its configuration from the environment
  (\<^verbatim>\<open>internal/config\<close>), builds a Kafka producer on top of franz-go with admission control
  (\<^verbatim>\<open>internal/producer/franz\<close>, \<^verbatim>\<open>internal/limits\<close>), metrics (\<^verbatim>\<open>internal/metrics\<close>) and a schema
  encoder over a schema registry (\<^verbatim>\<open>internal/schema\<close>), and serves the produce endpoints of the v2 and v3 APIs
  (\<^verbatim>\<open>internal/api\<close>) behind authentication, a topic allow list and token-bucket rate limits
  (\<^verbatim>\<open>internal/ratelimit\<close>). Four tools go with it: a soak test and a benchmark that drive a proxy with many
  clients, a tool that captures how a proxy answers edge cases, and a generator of license notices.

  \<^bold>\<open>Conventions.\<close> A struct is a record, an enumeration or a set of alternatives a datatype, a method that changes
  its receiver a function that returns the new state, a pair of a value and an error a sum
  (\<open>Ok\<close>/\<open>Err\<close> abbreviate \<open>Inr\<close>/\<open>Inl\<close>). Bytes and strings are lists of characters. Integers are \<open>int\<close> with
  \<open>wrap64\<close> or \<open>wrap32\<close> wherever an operation of the source can wrap around; \<^verbatim>\<open>float64\<close> is the
  rational number it denotes, with every operation rounded by \<open>fl\<close> (nearest, ties to even), and values read
  from text can also be infinite or not a number (\<open>fval\<close>); negative zero is not distinguished. A
  message is a list of fragments, because the wording of a decoding error and the quoting of \<^verbatim>\<open>%q\<close> belong to
  the library (\<open>message_text\<close> takes them as arguments). Time, random order and the answers of the network, of
  Kafka, of the registry server, of the operating system and of third-party libraries are
  arguments of the definitions.

  \<^bold>\<open>Theories.\<close>
  \<^item> \<open>Prelude\<close>, \<open>GoLib\<close>, \<open>Float64\<close>, \<open>GoFmt\<close>, \<open>GoFlag\<close>, \<open>FilePath\<close>: shared types and lemmas and what the source
    uses of Go's library: \<^verbatim>\<open>strings\<close>, \<^verbatim>\<open>strconv\<close>, rounding, \<^verbatim>\<open>time.Duration\<close>, \<^verbatim>\<open>fmt\<close>, \<^verbatim>\<open>flag\<close>, \<^verbatim>\<open>path/filepath\<close>.
  \<^item> \<open>Json\<close>, \<open>Encoding\<close>, \<open>Unmarshal\<close>: \<^verbatim>\<open>encoding/json\<close> with a parser that keeps the text of every value, base64, UTF-8,
    quoting, and decoding into structs with its error behaviour. The parser has fuel \<open>json_fuel\<close>, twice the length
    of the input and one; \<open>parse_fuel\<close> shows that more never changes the answer, and \<open>json_parse_iff\<close> characterises
    the accepted texts without fuel.
  \<^item> \<open>Admission\<close> (\<^verbatim>\<open>limits/admission.go\<close>), \<open>RateLimit\<close> (\<^verbatim>\<open>ratelimit/ratelimit.go\<close>), \<open>Records\<close> (\<^verbatim>\<open>producer/producer.go\<close>),
    \<open>Partitioner\<close> and \<open>Franz\<close> (\<^verbatim>\<open>producer/franz\<close>): \<open>Produce\<close> run by one schedule as a function, and \<open>req_step\<close>,
    \<open>franz_step\<close> with every atomic action of callers, callbacks and cancellation as a step. \<open>Franz_Inv\<close> has the
    invariant, one lemma per action; \<open>Franz_Props\<close> the properties.
  \<^item> \<open>Media\<close>, \<open>Paths\<close>, \<open>Payload\<close>, \<open>V2\<close>, \<open>V3\<close>, \<open>Handler\<close> (\<^verbatim>\<open>api\<close>): content negotiation with \<^verbatim>\<open>mime\<close>, request targets, payload values,
    the documents of both APIs, the handlers with their early returns and metrics, routing and authentication.
    \<open>V2_Decode\<close>, \<open>V2_Response\<close>, \<open>V2_Schema\<close>, \<open>Handler_Props\<close>, \<open>Handler_Results\<close> hold their properties.
  \<^item> \<open>Registry\<close>, \<open>Encoder\<close> (\<^verbatim>\<open>schema\<close>): the registry in memory and over HTTP, and the encoder; the Avro, JSON Schema and
    Protobuf libraries are a record of functions. \<open>Registry_Props\<close>, \<open>Registry_Http\<close>, \<open>Encoder_Props\<close> hold their properties.
  \<^item> \<open>Metrics\<close>, \<open>Config\<close>, \<open>Setup\<close>: instruments, configuration, TLS and SASL options, and \<^verbatim>\<open>run\<close>; \<open>Setup_Props\<close>.
  \<^item> \<open>Workers\<close>: the pool of worker goroutines of the two load drivers as a step relation, with its invariant,
    progress and termination. \<open>Soak\<close>, \<open>Soak_Props\<close>: the soak test; \<open>Bench\<close>, \<open>Bench_Report\<close>, \<open>Bench_Props\<close>: the benchmark.
  \<^item> \<open>Licenses\<close>, \<open>Licenses_Props\<close>: the license bundle; \<open>Capture\<close>, \<open>Capture_Props\<close>: the captured edge cases.
  \<^item> \<open>End_To_End\<close>: one request from the soak test through the proxy to the producer and back.

  \<^bold>\<open>Interfaces.\<close> \<open>admission_control\<close> is what the producer relies on (interpreted by \<open>TryAcquire\<close> and \<open>Release\<close>),
  \<open>producer_contract\<close> what the handlers rely on (by the franz producer), \<open>guarded_producer\<close> the handler's use of a
  producer that records what it is given, \<open>registry\<close> what the encoder relies on (by both registries), \<open>rounding\<close> what
  the token bucket needs of floating point (by \<open>fl\<close>), \<open>collector\<close> the counting loops of the load drivers.

  \<^bold>\<open>What is shown.\<close>
  \<^item> Producer: under every interleaving the admission counters equal what requests in progress hold, results are
    returned in order, the channel is closed once, every request ends, and what was admitted is released.
  \<^item> Handlers: only allowed topics within the limits reach the producer; no request without a token has an effect; a
    status of 200 means that the producer returned the results that are rendered; batches and streams account
    for every record; every request is counted once in the metrics.
  \<^item> Documents: the fast path for JSON payloads equals compaction; binary payloads and paths round-trip; responses
    read back as the results, except for error texts that Go quoting does not write as JSON.
  \<^item> Schemas: registered schemas are found again; payloads carry the identifier asked for; one HTTP request per resolution.
  \<^item> Limits: admission decisions are exact, the token bucket stays in range in floating point, configured limits are in
    force, and \<^verbatim>\<open>run\<close> closes the client once.
  \<^item> Tools: the bodies of soak test and benchmark are decoded to the intended records; runs never get stuck, end, and
    count each request; statistics are consistent; the comparison and the license bundle are complete; wrong
    requests are answered as the captured proxy answered them.

  \<^bold>\<open>Not modelled.\<close> The franz-go client beyond the order and content of its callbacks, the schema libraries, OpenTelemetry and
  the Prometheus exporter, \<^verbatim>\<open>net/http\<close> beyond the request and response fields the source uses, log output, the HTML template of
  the benchmark report (\<^verbatim>\<open>writeHTMLReport\<close> takes its rendering as an argument), the bytes written by
  \<^verbatim>\<open>json.MarshalIndent\<close> in the capture report, and a positive infinite rate limit, for which
  \<open>api_config\<close> has no value. In the v3 record stream the result of each call of the JSON decoder is an
  argument. \<^verbatim>\<open>sort.Slice\<close> is modelled as a stable sort; where it is used, elements with equal keys are
  indistinguishable or at most twelve, for which it is an insertion sort.
\<close>

end
